(* ===== verification/Prelude.thy ===== *)
theory Prelude
  imports Main "HOL-Library.Finite_Map" "HOL-Library.State_Monad" "HOL-Library.Monad_Syntax" "HOL-Library.Char_ord"
begin

text \<open>
  Shared ground of the development: Go errors as values, the parts of Go's \<open>strings\<close>,
  \<open>fmt\<close> and \<open>strconv\<close> packages the operator uses, Go maps as finite maps, and the state
  monad in which the handlers are written, with the rules that carry invariants through
  sequences, branches and loops of handler code.

  A Go string or byte slice is a \<^typ>\<open>string\<close> (a list of 8-bit characters, that is, of bytes).
  A Go map with string keys is a finite map; the equality of two finite maps is the one
  \<open>apiequality.Semantic.DeepEqual\<close> computes, which does not distinguish a nil map or slice
  from an empty one.
\<close>

named_theorems inv_intros "rules that carry a state invariant through handler code"
named_theorems str_simps "defining equations of the Go string operations"

section \<open>Errors as values\<close>

text \<open>The status reasons the operator distinguishes; every other reason is opaque to it.\<close>

datatype status_reason = NotFound | OtherReason string

datatype go_error =
    StatusError status_reason string \<comment> \<open>an error answer of the API server\<close>
  | Errorf string \<comment> \<open>\<open>errors.New\<close> and \<open>fmt.Errorf\<close> without a wrapped error\<close>
  | Wrap string go_error \<comment> \<open>\<open>fmt.Errorf("<prefix>%w", err)\<close>\<close>

fun Error :: "go_error \<Rightarrow> string" where
  "Error (StatusError r m) = m"
| "Error (Errorf m) = m"
| "Error (Wrap m e) = m @ Error e"

fun IsNotFound :: "go_error \<Rightarrow> bool" where
  "IsNotFound (StatusError r m) = (r = NotFound)"
| "IsNotFound (Errorf m) = False"
| "IsNotFound (Wrap m e) = IsNotFound e"

type_synonym 'a result = "go_error + 'a"

section \<open>Go strings\<close>

fun HasPrefix :: "string \<Rightarrow> string \<Rightarrow> bool" where
  "HasPrefix s [] = True"
| "HasPrefix [] (p # ps) = False"
| "HasPrefix (c # s) (p # ps) = (c = p \<and> HasPrefix s ps)"

definition HasSuffix :: "string \<Rightarrow> string \<Rightarrow> bool" where
  "HasSuffix s suf = HasPrefix (rev s) (rev suf)"

definition TrimPrefix :: "string \<Rightarrow> string \<Rightarrow> string" where
  "TrimPrefix s p = (if HasPrefix s p then drop (length p) s else s)"

text \<open>\<open>strings.TrimRight(s, "/")\<close> and friends: a cutset of one character.\<close>

definition TrimRightChar :: "string \<Rightarrow> char \<Rightarrow> string" where
  "TrimRightChar s c = rev (dropWhile (\<lambda>x. x = c) (rev s))"

text \<open>
  \<open>unicode.IsSpace\<close> on the characters below U+0080, which are the ones \<open>strings.TrimSpace\<close>
  removes from a string that holds no other white space.
\<close>

definition is_space :: "char \<Rightarrow> bool" where
  "is_space c = (c \<in> {CHR 0x09, CHR 0x0A, CHR 0x0B, CHR 0x0C, CHR 0x0D, CHR '' ''})"

definition TrimSpace :: "string \<Rightarrow> string" where
  "TrimSpace s = rev (dropWhile is_space (rev (dropWhile is_space s)))"

fun Contains :: "string \<Rightarrow> string \<Rightarrow> bool" where
  "Contains [] sub = (sub = [])"
| "Contains (c # s) sub = (HasPrefix (c # s) sub \<or> Contains s sub)"

text \<open>\<open>strings.Split\<close> on a separator of one character: never the empty list.\<close>

fun Split :: "string \<Rightarrow> char \<Rightarrow> string list" where
  "Split [] d = [ [] ]"
| "Split (c # s) d =
     (if c = d then [] # Split s d
      else case Split s d of [] \<Rightarrow> [ [c] ] | w # ws \<Rightarrow> (c # w) # ws)"

fun Join :: "string list \<Rightarrow> string \<Rightarrow> string" where
  "Join [] sep = []"
| "Join [w] sep = w"
| "Join (w # ws) sep = w @ sep @ Join ws sep"

definition hex_digit :: "nat \<Rightarrow> char" where
  "hex_digit n = ''0123456789abcdef'' ! (n mod 16)"

text \<open>
  \<open>strconv.Quote\<close>, the verb \<open>%q\<close>, on ASCII text: the quote and the backslash are escaped,
  the named control characters get their letter, the others two hexadecimal digits. Bytes
  above U+007F (parts of printable UTF-8 text) are copied.
\<close>

definition quote_char :: "char \<Rightarrow> string" where
  "quote_char c =
     (if c = CHR 0x22 then [CHR 0x5C, CHR 0x22]
      else if c = CHR 0x5C then [CHR 0x5C, CHR 0x5C]
      else if c = CHR 0x07 then [CHR 0x5C, CHR ''a'']
      else if c = CHR 0x08 then [CHR 0x5C, CHR ''b'']
      else if c = CHR 0x0C then [CHR 0x5C, CHR ''f'']
      else if c = CHR 0x0A then [CHR 0x5C, CHR ''n'']
      else if c = CHR 0x0D then [CHR 0x5C, CHR ''r'']
      else if c = CHR 0x09 then [CHR 0x5C, CHR ''t'']
      else if c = CHR 0x0B then [CHR 0x5C, CHR ''v'']
      else if (of_char c :: nat) < 32 \<or> (of_char c :: nat) = 127
        then [CHR 0x5C, CHR ''x'', hex_digit (of_char c div 16), hex_digit (of_char c)]
      else [c])"

definition Quote :: "string \<Rightarrow> string" where
  "Quote s = CHR 0x22 # concat (map quote_char s) @ [CHR 0x22]"

text \<open>The verbs \<open>%d\<close> and \<open>%t\<close>, and \<open>%v\<close> on a slice of strings.\<close>

fun show_nat :: "nat \<Rightarrow> string" where
  "show_nat n = (if n < 10 then [char_of (48 + n)] else show_nat (n div 10) @ [char_of (48 + n mod 10)])"

declare show_nat.simps [simp del]

definition show_int :: "int \<Rightarrow> string" where
  "show_int i = (if i < 0 then CHR ''-'' # show_nat (nat (- i)) else show_nat (nat i))"

definition show_bool :: "bool \<Rightarrow> string" where
  "show_bool b = (if b then ''true'' else ''false'')"

definition show_strings :: "string list \<Rightarrow> string" where
  "show_strings ws = ''['' @ Join ws '' '' @ '']''"

text \<open>The conversion \<open>int32(x)\<close>: two's complement truncation of a wider integer.\<close>

definition to_int32 :: "int \<Rightarrow> int" where
  "to_int32 x = (x + 2 ^ 31) mod 2 ^ 32 - 2 ^ 31"

lemma HasPrefix_iff: "HasPrefix s p \<longleftrightarrow> (\<exists>t. s = p @ t)"
  by (induction s p rule: HasPrefix.induct) auto

lemma HasPrefix_append [simp]: "HasPrefix (p @ t) p"
  by (auto simp: HasPrefix_iff)

lemma HasPrefix_take: "HasPrefix s p \<longleftrightarrow> take (length p) s = p"
  by (metis HasPrefix_iff append_eq_conv_conj append_take_drop_id)

lemma TrimPrefix_append [simp]: "TrimPrefix (p @ t) p = t"
  by (simp add: TrimPrefix_def)

lemma HasSuffix_iff: "HasSuffix s p \<longleftrightarrow> (\<exists>t. s = t @ p)"
  by (metis HasPrefix_iff HasSuffix_def rev_append rev_rev_ident)

lemma Contains_iff: "Contains s sub \<longleftrightarrow> (\<exists>a b. s = a @ sub @ b)"
proof (induction s sub rule: Contains.induct)
  case (2 c s sub)
  show ?case
  proof
    assume "Contains (c # s) sub"
    with 2 consider t where "c # s = sub @ t" | a b where "s = a @ sub @ b"
      by (auto simp: HasPrefix_iff)
    then show "\<exists>a b. c # s = a @ sub @ b"
    proof cases
      case 1
      then have "c # s = [] @ sub @ t" by simp
      then show ?thesis by blast
    next
      case 2
      then have "c # s = (c # a) @ sub @ b" by simp
      then show ?thesis by blast
    qed
  next
    assume "\<exists>a b. c # s = a @ sub @ b"
    then obtain a b where ab: "c # s = a @ sub @ b" by blast
    show "Contains (c # s) sub"
    proof (cases a)
      case Nil
      with ab have "HasPrefix (c # s) sub" by (auto simp: HasPrefix_iff)
      then show ?thesis by simp
    next
      case (Cons d a')
      with ab 2 show ?thesis by auto
    qed
  qed
qed simp

lemma Split_not_Nil [simp]: "Split s d \<noteq> []"
  by (induction s d rule: Split.induct) (auto split: list.splits)

lemma Join_Split: "Join (Split s d) [d] = s"
proof (induction s d rule: Split.induct)
  case (2 c s d)
  show ?case
  proof (cases "Split s d")
    case (Cons w ws)
    with 2 show ?thesis by (cases ws) auto
  qed simp
qed simp

lemma Split_append:
  "d \<notin> set w \<Longrightarrow> Split (w @ d # s) d = w # Split s d"
  by (induction w) (auto split: list.splits)

lemma Split_single: "d \<notin> set w \<Longrightarrow> Split w d = [w]"
  by (induction w) auto

lemma Split_no_sep: "w \<in> set (Split s d) \<Longrightarrow> d \<notin> set w"
  by (induction s d arbitrary: w rule: Split.induct) (force split: list.splits if_splits)+

lemma to_int32_id: "- (2 ^ 31) \<le> x \<Longrightarrow> x < 2 ^ 31 \<Longrightarrow> to_int32 x = x"
  by (simp add: to_int32_def)

lemma to_int32_bounds: "- (2 ^ 31) \<le> to_int32 x \<and> to_int32 x < 2 ^ 31"
proof -
  have "0 \<le> (x + 2 ^ 31) mod 2 ^ 32" and "(x + 2 ^ 31) mod 2 ^ 32 < 2 ^ 32"
    by simp_all
  then show ?thesis unfolding to_int32_def by simp
qed

section \<open>Go maps\<close>

type_synonym 'v gomap = "(string, 'v) fmap"

text \<open>Reading a missing key of a \<open>map[string]string\<close> yields the empty string.\<close>

definition goget :: "string gomap \<Rightarrow> string \<Rightarrow> string" where
  "goget m k = (case fmlookup m k of Some v \<Rightarrow> v | None \<Rightarrow> [])"

lemma goget_fmupd [simp]: "goget (fmupd k v m) k' = (if k = k' then v else goget m k')"
  by (simp add: goget_def)

lemma goget_fmempty [simp]: "goget fmempty k = []"
  by (simp add: goget_def)

lemma goget_fmadd:
  "goget (m ++\<^sub>f n) k = (case fmlookup n k of Some v \<Rightarrow> v | None \<Rightarrow> goget m k)"
  by (auto simp: goget_def fmlookup_dom_iff split: option.splits)

section \<open>Handlers as state transformers\<close>

text \<open>
  A handler threads a state and returns a value; one that may fail returns a
  \<^typ>\<open>'a result\<close>. The state is threaded through failures too, since Go code mutates its
  arguments before it returns an error. \<open>andthen\<close> is the statement
  \<open>if err := m(); err != nil { return err }\<close> followed by the rest.
\<close>

definition ok :: "'a \<Rightarrow> ('s, 'a result) state" where
  "ok x = State_Monad.return (Inr x)"

definition fail :: "go_error \<Rightarrow> ('s, 'a result) state" where
  "fail e = State_Monad.return (Inl e)"

definition andthen :: "('s, 'a result) state \<Rightarrow> ('a \<Rightarrow> ('s, 'b result) state) \<Rightarrow> ('s, 'b result) state" where
  "andthen m k = do { r \<leftarrow> m; case r of Inl e \<Rightarrow> fail e | Inr x \<Rightarrow> k x }"

text \<open>A \<open>for\<close> loop over a slice whose body returns on the first error.\<close>

fun for_each :: "('a \<Rightarrow> ('s, unit result) state) \<Rightarrow> 'a list \<Rightarrow> ('s, unit result) state" where
  "for_each f [] = ok ()"
| "for_each f (x # xs) = andthen (f x) (\<lambda>_. for_each f xs)"

lemma run_ok [simp]: "run_state (ok x) s = (Inr x, s)"
  by (simp add: ok_def)

lemma run_fail [simp]: "run_state (fail e) s = (Inl e, s)"
  by (simp add: fail_def)

lemma run_andthen:
  "run_state (andthen m k) s =
     (case run_state m s of (Inl e, s') \<Rightarrow> (Inl e, s') | (Inr x, s') \<Rightarrow> run_state (k x) s')"
  by (auto simp: andthen_def split: prod.splits sum.splits)

section \<open>Carrying invariants through handler code\<close>

text \<open>
  \<open>keeps I m\<close>: from every state that satisfies \<open>I\<close>, the handler \<open>m\<close> ends in one that
  does, whatever value or error it returns.
\<close>

definition keeps :: "('s \<Rightarrow> bool) \<Rightarrow> ('s, 'a) state \<Rightarrow> bool" where
  "keeps I m \<longleftrightarrow> (\<forall>s. I s \<longrightarrow> I (snd (run_state m s)))"

lemma keepsI: "(\<And>s. I s \<Longrightarrow> I (snd (run_state m s))) \<Longrightarrow> keeps I m"
  by (simp add: keeps_def)

lemma keepsD: "keeps I m \<Longrightarrow> I s \<Longrightarrow> run_state m s = (r, s') \<Longrightarrow> I s'"
  by (metis keeps_def snd_conv)

lemma keeps_return [inv_intros]: "keeps I (State_Monad.return x)"
  by (simp add: keeps_def)

lemma keeps_ok [inv_intros]: "keeps I (ok x)"
  by (simp add: keeps_def)

lemma keeps_fail [inv_intros]: "keeps I (fail e)"
  by (simp add: keeps_def)

lemma keeps_bind [inv_intros]:
  "keeps I m \<Longrightarrow> (\<And>x. keeps I (k x)) \<Longrightarrow> keeps I (State_Monad.bind m k)"
  by (auto simp: keeps_def split: prod.splits)

lemma keeps_andthen [inv_intros]:
  "keeps I m \<Longrightarrow> (\<And>x. keeps I (k x)) \<Longrightarrow> keeps I (andthen m k)"
  unfolding andthen_def by (rule keeps_bind) (auto split: sum.splits intro: keeps_fail)

lemma keeps_if [inv_intros]:
  "(c \<Longrightarrow> keeps I m) \<Longrightarrow> (\<not> c \<Longrightarrow> keeps I n) \<Longrightarrow> keeps I (if c then m else n)"
  by simp

lemma keeps_case_sum [inv_intros]:
  "(\<And>e. r = Inl e \<Longrightarrow> keeps I (f e)) \<Longrightarrow> (\<And>x. r = Inr x \<Longrightarrow> keeps I (g x)) \<Longrightarrow>
   keeps I (case r of Inl e \<Rightarrow> f e | Inr x \<Rightarrow> g x)"
  by (simp split: sum.splits)

lemma keeps_case_option [inv_intros]:
  "(r = None \<Longrightarrow> keeps I f) \<Longrightarrow> (\<And>x. r = Some x \<Longrightarrow> keeps I (g x)) \<Longrightarrow>
   keeps I (case r of None \<Rightarrow> f | Some x \<Rightarrow> g x)"
  by (simp split: option.splits)

lemma keeps_case_prod [inv_intros]:
  "(\<And>a b. r = (a, b) \<Longrightarrow> keeps I (f a b)) \<Longrightarrow> keeps I (case r of (a, b) \<Rightarrow> f a b)"
  by (simp split: prod.splits)

lemma keeps_Let [inv_intros]: "keeps I (f x) \<Longrightarrow> keeps I (Let x f)"
  by simp

lemma keeps_for_each: "(\<And>x. x \<in> set xs \<Longrightarrow> keeps I (f x)) \<Longrightarrow> keeps I (for_each f xs)"
  by (induction xs) (auto intro!: inv_intros)

lemma keeps_conj: "keeps I m \<Longrightarrow> keeps J m \<Longrightarrow> keeps (\<lambda>s. I s \<and> J s) m"
  by (simp add: keeps_def)

section \<open>Optional values\<close>

text \<open>Dereferencing an optional boolean with a default, as in \<open>ref.Optional != nil && *ref.Optional\<close>.\<close>

definition is_true :: "bool option \<Rightarrow> bool" where
  "is_true b = (b = Some True)"

section \<open>Lists\<close>

lemma map_of_map_fst_filter: "map_of (filter (P \<circ> fst) xs) k = (if P k then map_of xs k else None)"
  by (induction xs) auto

end
