(* ===== verification/Kube_Types.thy ===== *)
theory Kube_Types
  imports Prelude
begin

text \<open>
  The Kubernetes, CloudNativePG and Barman Cloud objects the operator reads and writes. The
  types come from packages outside the repository; each record keeps the fields the
  operator names, under the field's own name with a prefix for its struct. Where the
  operator updates an object in place and promises to leave the remaining fields alone, a
  field of type \<open>foreign\<close> stands for all of them together, so that "left in place" can be
  stated. An optional pointer is an \<open>option\<close>; a slice is a list; a map is a finite map.
\<close>

type_synonym foreign = string

text \<open>A resource quantity, counted in its smallest unit (10 to the power -9).\<close>

type_synonym quantity = int

text \<open>A namespaced name: the namespace and the name.\<close>

type_synonym key = "string \<times> string"

section \<open>Metadata\<close>

record owner_ref =
  or_apiVersion :: string
  or_kind :: string
  or_name :: string
  or_uid :: string
  or_controller :: "bool option"
  or_blockOwnerDeletion :: "bool option"

record object_meta =
  md_name :: string
  md_namespace :: string
  md_uid :: string
  md_generation :: int
  md_labels :: "string gomap"
  md_annotations :: "string gomap"
  md_owners :: "owner_ref list"

definition emptyMeta :: object_meta where
  "emptyMeta = \<lparr>md_name = '''', md_namespace = '''', md_uid = '''', md_generation = 0,
     md_labels = fmempty, md_annotations = fmempty, md_owners = []\<rparr>"

definition objectKey :: "object_meta \<Rightarrow> key" where
  "objectKey m = (md_namespace m, md_name m)"

text \<open>\<open>metav1.ObjectMeta{Name: n, Namespace: ns, Labels: l}\<close>\<close>

definition namedMeta :: "string \<Rightarrow> string \<Rightarrow> string gomap \<Rightarrow> object_meta" where
  "namedMeta n ns l = emptyMeta\<lparr>md_name := n, md_namespace := ns, md_labels := l\<rparr>"

lemma namedMeta_simps [simp]:
  "md_name (namedMeta n ns l) = n" "md_namespace (namedMeta n ns l) = ns"
  "md_labels (namedMeta n ns l) = l" "md_owners (namedMeta n ns l) = []"
  "objectKey (namedMeta n ns l) = (ns, n)"
  by (simp_all add: namedMeta_def emptyMeta_def objectKey_def)

datatype cond_status = ConditionTrue | ConditionFalse | ConditionUnknown

record condition =
  c_type :: string
  c_status :: cond_status
  c_observedGeneration :: int
  c_lastTransitionTime :: int
  c_reason :: string
  c_message :: string

section \<open>Secrets, ConfigMaps, Services\<close>

record secret =
  sec_meta :: object_meta
  sec_type :: string
  sec_data :: "string gomap"
  sec_stringData :: "string gomap"

record config_map =
  cm_meta :: object_meta
  cm_data :: "string gomap"

record service_port =
  sp_name :: string
  sp_port :: int
  sp_targetPort :: int
  sp_protocol :: string

record service =
  svc_meta :: object_meta
  svc_type :: string
  svc_selector :: "string gomap"
  svc_ports :: "service_port list"
  svc_foreign :: foreign \<comment> \<open>the cluster IP and every other field of the spec\<close>

section \<open>Pods\<close>

record key_selector =
  ks_name :: string
  ks_key :: string
  ks_optional :: "bool option"

record env_source =
  es_secretKeyRef :: "key_selector option"
  es_configMapKeyRef :: "key_selector option"

record env_var =
  ev_name :: string
  ev_value :: string
  ev_valueFrom :: "env_source option"

record container_port =
  cp_name :: string
  cp_containerPort :: int
  cp_protocol :: string

record http_get =
  hg_path :: string
  hg_port :: int
  hg_scheme :: string

record probe =
  pr_httpGet :: "http_get option"
  pr_exec :: "string list option"
  pr_initialDelaySeconds :: int
  pr_timeoutSeconds :: int
  pr_periodSeconds :: int
  pr_successThreshold :: int
  pr_failureThreshold :: int

record resource_req =
  rr_requests :: "quantity gomap"
  rr_limits :: "quantity gomap"

definition emptyResources :: resource_req where
  "emptyResources = \<lparr>rr_requests = fmempty, rr_limits = fmempty\<rparr>"

record volume_mount =
  vm_name :: string
  vm_mountPath :: string
  vm_readOnly :: bool

record container =
  ct_name :: string
  ct_image :: string
  ct_imagePullPolicy :: string
  ct_command :: "string list"
  ct_args :: "string list"
  ct_env :: "env_var list"
  ct_envFrom :: "string list" \<comment> \<open>the names of the secrets imported as a whole\<close>
  ct_ports :: "container_port list"
  ct_livenessProbe :: "probe option"
  ct_readinessProbe :: "probe option"
  ct_startupProbe :: "probe option"
  ct_preStop :: "string list option"
  ct_resources :: resource_req
  ct_volumeMounts :: "volume_mount list"
  ct_terminationMessagePath :: string
  ct_terminationMessagePolicy :: string
  ct_foreign :: foreign

definition emptyContainer :: container where
  "emptyContainer = \<lparr>ct_name = '''', ct_image = '''', ct_imagePullPolicy = '''', ct_command = [],
     ct_args = [], ct_env = [], ct_envFrom = [], ct_ports = [], ct_livenessProbe = None,
     ct_readinessProbe = None, ct_startupProbe = None, ct_preStop = None,
     ct_resources = emptyResources, ct_volumeMounts = [], ct_terminationMessagePath = '''',
     ct_terminationMessagePolicy = '''', ct_foreign = ''''\<rparr>"

text \<open>A volume source that carries a default mode: the object it names and the mode.\<close>

record mode_source =
  ms_name :: string
  ms_defaultMode :: "int option"
  ms_foreign :: foreign

record volume =
  vol_name :: string
  vol_configMap :: "mode_source option"
  vol_secret :: "mode_source option"
  vol_downwardAPI :: "mode_source option"
  vol_projected :: "mode_source option"
  vol_emptyDir :: bool
  vol_foreign :: foreign

record pod_spec =
  ps_restartPolicy :: string
  ps_terminationGracePeriodSeconds :: "int option"
  ps_dnsPolicy :: string
  ps_securityContext :: "foreign option"
  ps_schedulerName :: string
  ps_volumes :: "volume list"
  ps_initContainers :: "container list"
  ps_containers :: "container list"
  ps_imagePullSecrets :: "string list"
  ps_foreign :: foreign

definition emptyPodSpec :: pod_spec where
  "emptyPodSpec = \<lparr>ps_restartPolicy = '''', ps_terminationGracePeriodSeconds = None,
     ps_dnsPolicy = '''', ps_securityContext = None, ps_schedulerName = '''', ps_volumes = [],
     ps_initContainers = [], ps_containers = [], ps_imagePullSecrets = [], ps_foreign = ''''\<rparr>"

record pod_template =
  pt_labels :: "string gomap"
  pt_annotations :: "string gomap"
  pt_spec :: pod_spec

section \<open>Workloads\<close>

record deployment_strategy =
  ds_type :: string
  ds_foreign :: foreign

record deployment_status =
  dst_observedGeneration :: int
  dst_updatedReplicas :: int
  dst_readyReplicas :: int
  dst_availableReplicas :: int
  dst_unavailableReplicas :: int

record deployment =
  dep_meta :: object_meta
  dep_replicas :: "int option"
  dep_selector :: "string gomap"
  dep_strategy :: deployment_strategy
  dep_template :: pod_template
  dep_foreign :: foreign
  dep_status :: deployment_status

definition emptyDeploymentStatus :: deployment_status where
  "emptyDeploymentStatus = \<lparr>dst_observedGeneration = 0, dst_updatedReplicas = 0,
     dst_readyReplicas = 0, dst_availableReplicas = 0, dst_unavailableReplicas = 0\<rparr>"

record job_spec =
  js_backoffLimit :: "int option"
  js_ttlSecondsAfterFinished :: "int option"
  js_template :: pod_template
  js_foreign :: foreign

record job_condition =
  jc_type :: string
  jc_status :: cond_status
  jc_message :: string

record job =
  job_meta :: object_meta
  job_spec :: job_spec
  job_conditions :: "job_condition list"

record cron_job_spec =
  cjs_schedule :: string
  cjs_concurrencyPolicy :: string
  cjs_suspend :: "bool option"
  cjs_successfulJobsHistoryLimit :: "int option"
  cjs_failedJobsHistoryLimit :: "int option"
  cjs_startingDeadlineSeconds :: "int option"
  cjs_jobTemplate :: job_spec
  cjs_foreign :: foreign

record cron_job =
  cj_meta :: object_meta
  cj_spec :: cron_job_spec

section \<open>CloudNativePG\<close>

record storage_configuration =
  sc_size :: string
  sc_storageClass :: "string option"
  sc_resizeInUseVolumes :: "bool option"
  sc_pvcTemplate :: "foreign option"

record role_configuration =
  rc_name :: string
  rc_ensure :: string
  rc_comment :: string
  rc_login :: bool
  rc_inherit :: "bool option"
  rc_createDB :: bool
  rc_createRole :: bool
  rc_bypassRLS :: bool
  rc_replication :: bool
  rc_passwordSecret :: "string option"
  rc_inRoles :: "string list"
  rc_connectionLimit :: int
  rc_foreign :: foreign

record sql_ref =
  sr_name :: string
  sr_key :: string

record bootstrap_initdb =
  ib_database :: string
  ib_owner :: string
  ib_secret :: "string option"
  ib_postInitApplicationSQLRefs :: "sql_ref list option"
  ib_foreign :: foreign

record bootstrap_recovery =
  br_source :: string
  br_database :: string
  br_owner :: string
  br_secret :: "string option"
  br_targetTime :: "string option" \<comment> \<open>the recovery target\<close>
  br_foreign :: foreign

record bootstrap_configuration =
  bc_initDB :: "bootstrap_initdb option"
  bc_recovery :: "bootstrap_recovery option"

record plugin_configuration =
  pc_name :: string
  pc_enabled :: "bool option"
  pc_isWALArchiver :: "bool option"
  pc_parameters :: "string gomap"

record external_cluster =
  ec_name :: string
  ec_pluginConfiguration :: "plugin_configuration option"
  ec_foreign :: foreign

record postgres_configuration =
  pg_parameters :: "string gomap"
  pg_pgHBA :: "string list"
  pg_additionalLibraries :: "string list"
  pg_foreign :: foreign

record affinity_configuration =
  af_enablePodAntiAffinity :: "bool option"
  af_foreign :: foreign

record managed_configuration =
  mc_roles :: "role_configuration list"
  mc_foreign :: foreign

record cluster_spec =
  cs_instances :: int
  cs_imageName :: string
  cs_enableSuperuserAccess :: "bool option"
  cs_bootstrap :: "bootstrap_configuration option"
  cs_postgres :: postgres_configuration
  cs_storage :: storage_configuration
  cs_managed :: "managed_configuration option"
  cs_resources :: resource_req
  cs_affinity :: affinity_configuration
  cs_plugins :: "plugin_configuration list"
  cs_externalClusters :: "external_cluster list"
  cs_foreign :: foreign

record cluster_status =
  cst_readyInstances :: int
  cst_phase :: string
  cst_currentPrimary :: string
  cst_cannotReconcile :: "string list gomap"
  cst_byStatus :: "string list gomap"

record cluster =
  cl_meta :: object_meta
  cl_spec :: cluster_spec
  cl_status :: cluster_status

definition emptyClusterStatus :: cluster_status where
  "emptyClusterStatus = \<lparr>cst_readyInstances = 0, cst_phase = '''', cst_currentPrimary = '''',
     cst_cannotReconcile = fmempty, cst_byStatus = fmempty\<rparr>"

record scheduled_backup_spec =
  sbs_schedule :: string
  sbs_cluster :: string
  sbs_backupOwnerReference :: string
  sbs_method :: string
  sbs_pluginConfiguration :: "plugin_configuration option"
  sbs_foreign :: foreign

record scheduled_backup =
  sb_meta :: object_meta
  sb_spec :: scheduled_backup_spec

record publication_spec =
  pbs_clusterRef :: string
  pbs_name :: string
  pbs_dbName :: string
  pbs_tablesInSchema :: "string list" \<comment> \<open>one target object per schema\<close>
  pbs_reclaimPolicy :: string
  pbs_foreign :: foreign

record publication =
  pub_meta :: object_meta
  pub_spec :: publication_spec
  pub_observedGeneration :: int
  pub_applied :: "bool option"
  pub_message :: string

section \<open>Barman Cloud object stores\<close>

record s3_credentials =
  s3_accessKeyID :: "key_selector option"
  s3_secretAccessKey :: "key_selector option"

record wal_backup =
  wb_compression :: string
  wb_maxParallel :: int

record object_store_configuration =
  osc_destinationPath :: string
  osc_endpointURL :: string
  osc_barmanCredentials :: "s3_credentials option"
  osc_wal :: "wal_backup option"
  osc_data :: "string option" \<comment> \<open>the data backup configuration: its compression\<close>
  osc_foreign :: foreign

record object_store_spec =
  oss_configuration :: object_store_configuration
  oss_retentionPolicy :: string
  oss_foreign :: foreign \<comment> \<open>\<open>instanceSidecarConfiguration\<close>, defaulted by the server\<close>

record object_store =
  os_meta :: object_meta
  os_spec :: object_store_spec

end
