(* ===== verification/Project_Types.thy ===== *)
theory Project_Types
  imports Kube_Types
begin

text \<open>
  The custom resource \<open>SupabaseProject\<close> of \<open>src/api/v1alpha1\<close>: its specification, its
  status, the names of phases and conditions, and \<open>EffectivePublicationSchemas\<close>. Fields keep
  their Go names behind a prefix for the struct. Go's \<open>int32\<close>, \<open>int\<close> and \<open>int64\<close> fields are
  integers; the operator compares and prints them, and the one conversion that can lose
  bits (\<open>int32(...)\<close> in \<open>waitForDatabase\<close>) is written out with \<^const>\<open>to_int32\<close>.
\<close>

section \<open>Phases and condition types\<close>

definition PhasePending :: string where "PhasePending = ''Pending''"
definition PhaseProvisioning :: string where "PhaseProvisioning = ''Provisioning''"
definition PhaseRunning :: string where "PhaseRunning = ''Running''"
definition PhaseFailed :: string where "PhaseFailed = ''Failed''"
definition PhaseDeleting :: string where "PhaseDeleting = ''Deleting''"

definition ConditionTypeReady :: string where "ConditionTypeReady = ''Ready''"
definition ConditionTypeSecretsReady :: string where "ConditionTypeSecretsReady = ''SecretsReady''"
definition ConditionTypeDatabaseReady :: string where "ConditionTypeDatabaseReady = ''DatabaseReady''"
definition ConditionTypeAuthReady :: string where "ConditionTypeAuthReady = ''AuthReady''"
definition ConditionTypeRestReady :: string where "ConditionTypeRestReady = ''RestReady''"
definition ConditionTypeStudioReady :: string where "ConditionTypeStudioReady = ''StudioReady''"
definition ConditionTypeMetaReady :: string where "ConditionTypeMetaReady = ''MetaReady''"
definition ConditionTypeGatewayReady :: string where "ConditionTypeGatewayReady = ''GatewayReady''"
definition ConditionTypeBackupReady :: string where "ConditionTypeBackupReady = ''BackupReady''"
definition ConditionTypeRecoveryReady :: string where "ConditionTypeRecoveryReady = ''RecoveryReady''"
definition ConditionTypeCDCReady :: string where "ConditionTypeCDCReady = ''CDCReady''"
definition ConditionTypePowersyncReady :: string where "ConditionTypePowersyncReady = ''PowersyncReady''"

lemmas condition_type_defs =
  ConditionTypeReady_def ConditionTypeSecretsReady_def ConditionTypeDatabaseReady_def
  ConditionTypeAuthReady_def ConditionTypeRestReady_def ConditionTypeStudioReady_def
  ConditionTypeMetaReady_def ConditionTypeGatewayReady_def ConditionTypeBackupReady_def
  ConditionTypeRecoveryReady_def ConditionTypeCDCReady_def ConditionTypePowersyncReady_def

section \<open>Specification\<close>

record s3_config =
  s3_destinationPath :: string
  s3_endpointURL :: string
  s3_s3CredentialsSecret :: string

record backup_spec =
  bk_enabled :: bool
  bk_schedule :: string
  bk_retentionPolicy :: string
  bk_s3 :: s3_config
  bk_walCompression :: string
  bk_dataCompression :: string

record recovery_spec =
  rv_enabled :: bool
  rv_serverName :: string
  rv_targetTime :: string
  rv_s3 :: s3_config

record database_spec =
  db_instances :: int
  db_storage :: storage_configuration
  db_image :: string
  db_resources :: resource_req
  db_enableSuperuserAccess :: bool
  db_parameters :: "string gomap"
  db_additionalPreloadLibraries :: "string list"
  db_additionalExtensions :: "string list"
  db_backup :: "backup_spec option"
  db_recovery :: "recovery_spec option"
  db_additionalRoles :: "role_configuration list"

record gotrue_env_value_from =
  gvf_secretKeyRef :: "key_selector option"
  gvf_configMapKeyRef :: "key_selector option"

record gotrue_env_var =
  ge_name :: string
  ge_value :: "string option"
  ge_valueFrom :: "gotrue_env_value_from option"

record google_provider_spec =
  gp_enabled :: bool
  gp_skipNonceCheck :: bool

record apple_provider_spec =
  apl_enabled :: bool

record auth_providers_spec =
  ap_google :: "google_provider_spec option"
  ap_apple :: "apple_provider_spec option"
  ap_secretRef :: string

record email_hook_spec =
  eh_enabled :: bool
  eh_uri :: string

record smtp_spec =
  sm_host :: string
  sm_port :: int
  sm_user :: string
  sm_secretRef :: string
  sm_senderName :: string
  sm_adminEmail :: string

record auth_spec =
  au_imageTag :: string
  au_replicas :: int
  au_siteURL :: string
  au_externalURL :: string
  au_accessTokenExpirationSeconds :: int
  au_disableSignup :: bool
  au_enableAnonymousUsers :: bool
  au_autoConfirmEmail :: bool
  au_goTrueEnv :: "gotrue_env_var list"
  au_providers :: "auth_providers_spec option"
  au_emailHook :: "email_hook_spec option"
  au_smtp :: "smtp_spec option"
  au_resources :: resource_req

record rest_spec =
  re_imageTag :: string
  re_replicas :: int
  re_schemas :: "string list"
  re_resources :: resource_req

record studio_spec =
  sd_imageTag :: string
  sd_replicas :: int
  sd_publicURL :: string
  sd_organizationName :: string
  sd_projectName :: string
  sd_resources :: resource_req

record meta_spec =
  me_imageTag :: string
  me_replicas :: int
  me_resources :: resource_req

record gateway_spec =
  gw_imageTag :: string
  gw_replicas :: int
  gw_resources :: resource_req

record image_spec =
  im_registry :: string
  im_repository :: string
  im_tag :: string
  im_pullPolicy :: string

record powersync_api_spec =
  pa_replicas :: int
  pa_resources :: resource_req
  pa_nodeOptions :: string

record powersync_replication_spec =
  prs_resources :: resource_req
  prs_nodeOptions :: string

record sync_rules_spec =
  sy_inline :: string
  sy_configMapRef :: string

record powersync_compact_spec =
  pcs_enabled :: bool
  pcs_schedule :: string
  pcs_resources :: resource_req

record powersync_spec =
  pw_publicationSchemas :: "string list option" \<comment> \<open>\<open>None\<close> is the omitted (nil) list\<close>
  pw_image :: image_spec
  pw_api :: powersync_api_spec
  pw_replication :: powersync_replication_spec
  pw_syncRules :: sync_rules_spec
  pw_compact :: powersync_compact_spec

record project_spec =
  sp_database :: database_spec
  sp_projectCredentialsSecret :: string
  sp_auth :: auth_spec
  sp_rest :: rest_spec
  sp_studio :: studio_spec
  sp_metaService :: meta_spec
  sp_gateway :: gateway_spec
  sp_powersync :: "powersync_spec option"
  sp_imagePullSecrets :: "string list"

section \<open>Status\<close>

record service_status =
  ss_ready :: bool
  ss_availableReplicas :: int

record services_status =
  svs_auth :: service_status
  svs_rest :: service_status
  svs_studio :: service_status
  svs_meta :: service_status
  svs_gateway :: service_status
  svs_powersyncAPI :: service_status
  svs_powersyncReplication :: service_status

record secret_names_status =
  sn_goTrueFallback :: string
  sn_supabaseAdmin :: string
  sn_authenticator :: string
  sn_authAdmin :: string
  sn_emailHook :: string
  sn_powersyncStoragePassword :: string
  sn_powersyncReplicationPassword :: string

record database_status =
  dbs_ready :: bool
  dbs_phase :: string
  dbs_readyInstances :: int
  dbs_primaryHost :: string

record endpoints_status =
  ep_api :: string
  ep_database :: string

record project_status =
  st_phase :: string
  st_conditions :: "condition list"
  st_database :: database_status
  st_services :: services_status
  st_secretNames :: secret_names_status
  st_endpoints :: endpoints_status
  st_observedGeneration :: int

definition noServiceStatus :: service_status where
  "noServiceStatus = \<lparr>ss_ready = False, ss_availableReplicas = 0\<rparr>"

definition noSecretNames :: secret_names_status where
  "noSecretNames = \<lparr>sn_goTrueFallback = '''', sn_supabaseAdmin = '''', sn_authenticator = '''',
     sn_authAdmin = '''', sn_emailHook = '''', sn_powersyncStoragePassword = '''',
     sn_powersyncReplicationPassword = ''''\<rparr>"

definition emptyStatus :: project_status where
  "emptyStatus = \<lparr>st_phase = '''', st_conditions = [],
     st_database = \<lparr>dbs_ready = False, dbs_phase = '''', dbs_readyInstances = 0, dbs_primaryHost = ''''\<rparr>,
     st_services = \<lparr>svs_auth = noServiceStatus, svs_rest = noServiceStatus, svs_studio = noServiceStatus,
       svs_meta = noServiceStatus, svs_gateway = noServiceStatus, svs_powersyncAPI = noServiceStatus,
       svs_powersyncReplication = noServiceStatus\<rparr>,
     st_secretNames = noSecretNames,
     st_endpoints = \<lparr>ep_api = '''', ep_database = ''''\<rparr>,
     st_observedGeneration = 0\<rparr>"

record project =
  p_meta :: object_meta
  p_spec :: project_spec
  p_status :: project_status

abbreviation p_name :: "project \<Rightarrow> string" where
  "p_name p \<equiv> md_name (p_meta p)"

abbreviation p_namespace :: "project \<Rightarrow> string" where
  "p_namespace p \<equiv> md_namespace (p_meta p)"

section \<open>Publication schemas\<close>

definition schema_start :: "char \<Rightarrow> bool" where
  "schema_start c = ((CHR ''a'' \<le> c \<and> c \<le> CHR ''z'') \<or> c = CHR ''_'')"

definition schema_char :: "char \<Rightarrow> bool" where
  "schema_char c = (schema_start c \<or> (CHR ''0'' \<le> c \<and> c \<le> CHR ''9''))"

text \<open>The regular expression \<open>^[a-z_][a-z0-9_]*$\<close>; without the flag \<open>m\<close>, \<open>$\<close> is the end of the text.\<close>

definition publicationSchemaIdentifier :: "string \<Rightarrow> bool" where
  "publicationSchemaIdentifier s =
     (case s of [] \<Rightarrow> False | c # cs \<Rightarrow> schema_start c \<and> list_all schema_char cs)"

text \<open>The loop of \<open>EffectivePublicationSchemas\<close>: the index, the schemas seen, the rest of the list.\<close>

fun check_schemas :: "nat \<Rightarrow> string list \<Rightarrow> string list \<Rightarrow> unit result" where
  "check_schemas i seen [] = Inr ()"
| "check_schemas i seen (schema # rest) =
     (if length schema > 63 \<or> \<not> publicationSchemaIdentifier schema
      then Inl (Errorf (''powersync.publicationSchemas['' @ show_nat i @
             ''] must be a lowercase ASCII identifier of 1'' @
             [CHR 0xE2, CHR 0x80, CHR 0x93] @ ''63 characters''))
      else if List.member seen schema
      then Inl (Errorf (''powersync.publicationSchemas contains duplicate schema '' @ Quote schema))
      else check_schemas (Suc i) (schema # seen) rest)"

definition EffectivePublicationSchemas :: "project \<Rightarrow> string list result" where
  "EffectivePublicationSchemas p =
     (case sp_powersync (p_spec p) of
        None \<Rightarrow> Inr [''public'']
      | Some ps \<Rightarrow>
          (case pw_publicationSchemas ps of
             None \<Rightarrow> Inr [''public'']
           | Some schemas \<Rightarrow>
               if schemas = []
               then Inl (Errorf ''powersync.publicationSchemas must contain at least one schema'')
               else case check_schemas 0 [] schemas of
                      Inl e \<Rightarrow> Inl e
                    | Inr _ \<Rightarrow> Inr schemas))"

text \<open>What an accepted schema name looks like, as the CRD states it.\<close>

definition valid_schema :: "string \<Rightarrow> bool" where
  "valid_schema s \<longleftrightarrow> 1 \<le> length s \<and> length s \<le> 63 \<and> schema_start (hd s) \<and> list_all schema_char s"

lemma schema_start_char [simp]: "schema_start c \<Longrightarrow> schema_char c"
  by (simp add: schema_char_def)

lemma valid_schema_iff: "valid_schema s \<longleftrightarrow> length s \<le> 63 \<and> publicationSchemaIdentifier s"
  by (cases s) (auto simp: valid_schema_def publicationSchemaIdentifier_def)

lemma check_schemas_ok:
  "check_schemas i seen xs = Inr () \<longleftrightarrow>
     distinct xs \<and> set xs \<inter> set seen = {} \<and> (\<forall>s \<in> set xs. valid_schema s)"
  by (induction i seen xs rule: check_schemas.induct) (auto simp: valid_schema_iff)

lemma EffectivePublicationSchemas_ok:
  assumes "EffectivePublicationSchemas p = Inr schemas"
  shows "schemas \<noteq> [] \<and> distinct schemas \<and> (\<forall>s \<in> set schemas. valid_schema s)"
proof -
  have pub: "valid_schema ''public''"
    by (simp add: valid_schema_def schema_char_def schema_start_def)
  show ?thesis
  proof (cases "schemas = [''public'']")
    case True
    with pub show ?thesis by simp
  next
    case False
    with assms obtain ps where "check_schemas 0 [] schemas = Inr ()" "schemas \<noteq> []"
      by (auto simp: EffectivePublicationSchemas_def split: option.splits if_splits sum.splits)
    then show ?thesis by (simp add: check_schemas_ok)
  qed
qed

end
