(* ===== verification/Crypto.thy ===== *)
theory Crypto
  imports Prelude
begin

text \<open>
  The package \<open>src/pkg/crypto\<close>: hexadecimal and Base64 text, the ES256 signing key (a P-256
  JWK), its public projection, and the verification of role tokens.

  Base64 and the P-256 curve equation are modelled as Go's standard library computes them.
  The JSON decoder and encoder, SHA-256, the multiplication of the base point and the ECDSA
  signature check are parameters of the model (the record \<open>crypto_lib\<close>): every theorem
  holds for every choice of them that satisfies the laws it names.
\<close>

section \<open>Hexadecimal text\<close>

definition hexByte :: "char \<Rightarrow> string" where
  "hexByte c = [hex_digit (of_char c div 16), hex_digit (of_char c)]"

definition hexEncode :: "string \<Rightarrow> string" where
  "hexEncode bytes = concat (map hexByte bytes)"

lemma length_hexEncode [simp]: "length (hexEncode bytes) = 2 * length bytes"
  by (induction bytes) (simp_all add: hexEncode_def hexByte_def)

lemma hex_digit_inj: "m < 16 \<Longrightarrow> n < 16 \<Longrightarrow> hex_digit m = hex_digit n \<Longrightarrow> m = n"
proof -
  have d: "distinct ''0123456789abcdef''" by code_simp
  assume "m < 16" "n < 16" "hex_digit m = hex_digit n"
  with d show "m = n" by (simp add: hex_digit_def nth_eq_iff_index_eq)
qed

lemma hexByte_inj: "hexByte c = hexByte d \<Longrightarrow> c = d"
proof -
  assume "hexByte c = hexByte d"
  then have hi: "hex_digit (of_char c div 16) = hex_digit (of_char d div 16)"
    and lo: "hex_digit (of_char c) = hex_digit (of_char d)"
    by (simp_all add: hexByte_def)
  have b: "(of_char c :: nat) < 256" "(of_char d :: nat) < 256"
    by simp_all
  have m: "hex_digit n = hex_digit (n mod 16)" for n
    by (simp add: hex_digit_def)
  have "of_char c div 16 < (16 :: nat)" and "of_char d div 16 < (16 :: nat)"
    using b by linarith+
  with hi have "of_char c div 16 = (of_char d div 16 :: nat)"
    by (intro hex_digit_inj)
  moreover from lo have "of_char c mod 16 = (of_char d mod 16 :: nat)"
    by (intro hex_digit_inj) (simp_all flip: m)
  ultimately have "of_char c = (of_char d :: nat)"
    by (metis div_mult_mod_eq)
  then show "c = d" by (simp add: of_char_eq_iff)
qed

lemma hexEncode_inj: "length bs = length cs \<Longrightarrow> hexEncode bs = hexEncode cs \<Longrightarrow> bs = cs"
proof (induction bs cs rule: list_induct2)
  case (Cons b bs c cs)
  then have "hexByte b = hexByte c" and "hexEncode bs = hexEncode cs"
    by (simp_all add: hexEncode_def hexByte_def)
  with Cons.IH show ?case by (auto dest: hexByte_inj)
qed simp

section \<open>Base64\<close>

text \<open>
  One encoding is an alphabet of 64 characters and a flag for padding: \<open>StdEncoding\<close> and
  \<open>URLEncoding\<close> pad with \<open>=\<close>, \<open>RawURLEncoding\<close> does not. Three bytes make four characters.
\<close>

datatype b64 = B64 (b64_alphabet: string) (b64_padded: bool)

definition StdEncoding :: b64 where
  "StdEncoding = B64 ''ABCDEFGHIJKLMNOPQRSTUVWXYZabcdefghijklmnopqrstuvwxyz0123456789+/'' True"

definition URLEncoding :: b64 where
  "URLEncoding = B64 ''ABCDEFGHIJKLMNOPQRSTUVWXYZabcdefghijklmnopqrstuvwxyz0123456789-_'' True"

definition RawURLEncoding :: b64 where
  "RawURLEncoding = B64 ''ABCDEFGHIJKLMNOPQRSTUVWXYZabcdefghijklmnopqrstuvwxyz0123456789-_'' False"

definition b64_char :: "b64 \<Rightarrow> nat \<Rightarrow> char" where
  "b64_char e n = b64_alphabet e ! (n mod 64)"

fun index_from :: "nat \<Rightarrow> char \<Rightarrow> string \<Rightarrow> nat option" where
  "index_from n c [] = None"
| "index_from n c (x # xs) = (if x = c then Some n else index_from (Suc n) c xs)"

definition b64_value :: "b64 \<Rightarrow> char \<Rightarrow> nat option" where
  "b64_value e c = index_from 0 c (b64_alphabet e)"

definition pad_chars :: "b64 \<Rightarrow> nat \<Rightarrow> string" where
  "pad_chars e n = (if b64_padded e then replicate n (CHR ''='') else [])"

fun EncodeToString :: "b64 \<Rightarrow> string \<Rightarrow> string" where
  "EncodeToString e [] = []"
| "EncodeToString e [a] =
     [b64_char e (of_char a div 4), b64_char e (of_char a * 16)] @ pad_chars e 2"
| "EncodeToString e [a, b] =
     [b64_char e (of_char a div 4), b64_char e (of_char a * 16 + of_char b div 16),
      b64_char e (of_char b * 4)] @ pad_chars e 1"
| "EncodeToString e (a # b # c # rest) =
     [b64_char e (of_char a div 4), b64_char e (of_char a * 16 + of_char b div 16),
      b64_char e (of_char b * 4 + of_char c div 64), b64_char e (of_char c)] @ EncodeToString e rest"

text \<open>
  Decoding, after Go's decoder has skipped carriage returns and line feeds. The bits that
  a final group leaves over are ignored (the encodings are not strict).
\<close>

definition byte1 :: "nat \<Rightarrow> nat \<Rightarrow> char" where "byte1 v w = char_of (v * 4 + w div 16)"
definition byte2 :: "nat \<Rightarrow> nat \<Rightarrow> char" where "byte2 w x = char_of (w mod 16 * 16 + x div 4)"
definition byte3 :: "nat \<Rightarrow> nat \<Rightarrow> char" where "byte3 x y = char_of (x mod 4 * 64 + y)"

fun b64_decode :: "b64 \<Rightarrow> string \<Rightarrow> string option" where
  "b64_decode e [] = Some []"
| "b64_decode e [p] = None"
| "b64_decode e [p, q] =
     (if b64_padded e then None
      else do { v \<leftarrow> b64_value e p; w \<leftarrow> b64_value e q; Some [byte1 v w] })"
| "b64_decode e [p, q, r] =
     (if b64_padded e then None
      else do { v \<leftarrow> b64_value e p; w \<leftarrow> b64_value e q; x \<leftarrow> b64_value e r;
                Some [byte1 v w, byte2 w x] })"
| "b64_decode e (p # q # r # t # rest) =
     (if b64_padded e \<and> r = CHR ''='' \<and> t = CHR ''='' then
        (if rest = [] then do { v \<leftarrow> b64_value e p; w \<leftarrow> b64_value e q; Some [byte1 v w] } else None)
      else if b64_padded e \<and> t = CHR ''='' then
        (if rest = [] then do { v \<leftarrow> b64_value e p; w \<leftarrow> b64_value e q; x \<leftarrow> b64_value e r;
                                Some [byte1 v w, byte2 w x] } else None)
      else do { v \<leftarrow> b64_value e p; w \<leftarrow> b64_value e q; x \<leftarrow> b64_value e r; y \<leftarrow> b64_value e t;
                bytes \<leftarrow> b64_decode e rest;
                Some (byte1 v w # byte2 w x # byte3 x y # bytes) })"

definition DecodeString :: "b64 \<Rightarrow> string \<Rightarrow> string option" where
  "DecodeString e s = b64_decode e (filter (\<lambda>c. c \<noteq> CHR 0x0A \<and> c \<noteq> CHR 0x0D) s)"

text \<open>
  What the encoders need of an alphabet: 64 different characters, none of them the padding
  or a line break.
\<close>

definition good_b64 :: "b64 \<Rightarrow> bool" where
  "good_b64 e \<longleftrightarrow> length (b64_alphabet e) = 64 \<and> distinct (b64_alphabet e) \<and>
     list_all (\<lambda>c. c \<noteq> CHR ''='' \<and> c \<noteq> CHR 0x0A \<and> c \<noteq> CHR 0x0D) (b64_alphabet e)"

lemma good_Std: "good_b64 StdEncoding" by code_simp
lemma good_URL: "good_b64 URLEncoding" by code_simp
lemma good_RawURL: "good_b64 RawURLEncoding" by code_simp

lemma index_from_nth: "distinct xs \<Longrightarrow> i < length xs \<Longrightarrow> index_from n (xs ! i) xs = Some (n + i)"
proof (induction xs arbitrary: n i)
  case (Cons x xs)
  then show ?case by (cases i) (auto simp: nth_mem)
qed simp

lemma b64_value_char: "good_b64 e \<Longrightarrow> b64_value e (b64_char e n) = Some (n mod 64)"
  by (simp add: b64_value_def b64_char_def good_b64_def index_from_nth)

lemma b64_char_clean:
  "good_b64 e \<Longrightarrow> b64_char e n \<noteq> CHR ''='' \<and> b64_char e n \<noteq> CHR 0x0A \<and> b64_char e n \<noteq> CHR 0x0D"
  by (auto simp: b64_char_def good_b64_def list_all_iff)

lemma mod64_shift4:
  fixes a k :: nat
  assumes "k < 16"
  shows "(a * 16 + k) mod 64 = a mod 4 * 16 + k"
proof -
  have "a * 16 + k = (a mod 4 * 16 + k) + 64 * (a div 4)"
    using div_mult_mod_eq [of a 4] by linarith
  moreover have "a mod 4 * 16 + k < 64"
    using assms mod_less_divisor [of 4 a] by linarith
  ultimately show ?thesis by (metis mod_less mod_mult_self2)
qed

lemma mod64_shift2:
  fixes b k :: nat
  assumes "k < 4"
  shows "(b * 4 + k) mod 64 = b mod 16 * 4 + k"
proof -
  have "b * 4 + k = (b mod 16 * 4 + k) + 64 * (b div 16)"
    using div_mult_mod_eq [of b 16] by linarith
  moreover have "b mod 16 * 4 + k < 64"
    using assms mod_less_divisor [of 16 b] by linarith
  ultimately show ?thesis by (metis mod_less mod_mult_self2)
qed

lemma char_div_bounds:
  "(of_char c :: nat) div 4 < 64" "(of_char c :: nat) div 16 < 16" "(of_char c :: nat) div 64 < 4"
proof -
  have "(of_char c :: nat) < 256" by simp
  then show "(of_char c :: nat) div 4 < 64" "(of_char c :: nat) div 16 < 16"
    "(of_char c :: nat) div 64 < 4" by linarith+
qed

lemma char_parts: "n = (of_char c :: nat) \<Longrightarrow> char_of n = c"
  by simp

lemma byte1_enc: "byte1 (of_char a div 4 mod 64) ((of_char a * 16 + of_char b div 16) mod 64) = a"
  unfolding byte1_def mod64_shift4 [OF char_div_bounds(2)]
  by (rule char_parts) (simp add: char_div_bounds)

lemma byte1_enc_last: "byte1 (of_char a div 4 mod 64) (of_char a * 16 mod 64) = a"
  using mod64_shift4 [of 0 "of_char a"] unfolding byte1_def
  by (intro char_parts) (simp add: char_div_bounds)

lemma byte2_enc: "byte2 ((of_char a * 16 + of_char b div 16) mod 64) ((of_char b * 4 + of_char c div 64) mod 64) = b"
proof -
  have "(of_char a mod 4 * 16 + of_char b div 16) mod 16 = (of_char b div 16 :: nat)"
    using char_div_bounds(2) [of b] by simp
  then show ?thesis
    unfolding byte2_def mod64_shift4 [OF char_div_bounds(2)] mod64_shift2 [OF char_div_bounds(3)]
    by (intro char_parts) (simp add: char_div_bounds)
qed

lemma byte2_enc_last: "byte2 ((of_char a * 16 + of_char b div 16) mod 64) (of_char b * 4 mod 64) = b"
proof -
  have "(of_char a mod 4 * 16 + of_char b div 16) mod 16 = (of_char b div 16 :: nat)"
    using char_div_bounds(2) [of b] by simp
  then show ?thesis
    using mod64_shift2 [of 0 "of_char b"]
    unfolding byte2_def mod64_shift4 [OF char_div_bounds(2)]
    by (intro char_parts) (simp add: char_div_bounds)
qed

lemma byte3_enc: "byte3 ((of_char b * 4 + of_char c div 64) mod 64) (of_char c mod 64) = c"
proof -
  have "(of_char b mod 16 * 4 + of_char c div 64) mod 4 = (of_char c div 64 :: nat)"
    using char_div_bounds(3) [of c] by (simp add: mod_add_left_eq [symmetric])
  then show ?thesis
    unfolding byte3_def mod64_shift2 [OF char_div_bounds(3)]
    by (intro char_parts) (simp add: char_div_bounds)
qed

lemmas byte_encs = byte1_enc byte1_enc_last byte2_enc byte2_enc_last byte3_enc

lemma b64_decode_encode: "good_b64 e \<Longrightarrow> b64_decode e (EncodeToString e s) = Some s"
proof (induction e s rule: EncodeToString.induct)
  case (2 e a)
  then show ?case by (simp add: b64_value_char pad_chars_def numeral_2_eq_2 byte_encs)
next
  case (3 e a b)
  then show ?case
    using b64_char_clean [of e "of_char b * 4"]
    by (simp add: b64_value_char pad_chars_def byte_encs)
next
  case (4 e a b c rest)
  then show ?case
    using b64_char_clean [of e "of_char c"]
    by (simp add: b64_value_char byte_encs)
qed simp

lemma EncodeToString_clean:
  "good_b64 e \<Longrightarrow> filter (\<lambda>c. c \<noteq> CHR 0x0A \<and> c \<noteq> CHR 0x0D) (EncodeToString e s) = EncodeToString e s"
  by (induction e s rule: EncodeToString.induct) (simp_all add: b64_char_clean pad_chars_def)

lemma DecodeString_EncodeToString: "good_b64 e \<Longrightarrow> DecodeString e (EncodeToString e s) = Some s"
  by (simp add: DecodeString_def EncodeToString_clean b64_decode_encode)

lemma EncodeToString_chars:
  "b64_padded e = False \<Longrightarrow> length (b64_alphabet e) = 64 \<Longrightarrow> c \<in> set (EncodeToString e s) \<Longrightarrow>
   c \<in> set (b64_alphabet e)"
  by (induction e s rule: EncodeToString.induct) (auto simp: b64_char_def pad_chars_def)

lemma length_EncodeToString_unpadded:
  "b64_padded e = False \<Longrightarrow> length (EncodeToString e s) = (length s * 8 + 5) div 6"
  by (induction e s rule: EncodeToString.induct) (simp_all add: pad_chars_def)

subsection \<open>The codec interface\<close>

text \<open>
  What the users of an encoding rely on: decoding returns what was encoded. Injectivity and
  the absence of collisions follow once and for all.
\<close>

locale text_codec =
  fixes enc :: "string \<Rightarrow> string"
    and dec :: "string \<Rightarrow> string option"
  assumes dec_enc: "dec (enc s) = Some s"
begin

lemma enc_inj: "enc s = enc t \<longleftrightarrow> s = t"
  by (metis dec_enc option.inject)

lemma enc_length_determined: "enc s = enc t \<Longrightarrow> length s = length t"
  by (simp add: enc_inj)

end

interpretation std64: text_codec "EncodeToString StdEncoding" "DecodeString StdEncoding"
  by unfold_locales (rule DecodeString_EncodeToString [OF good_Std])

interpretation url64: text_codec "EncodeToString URLEncoding" "DecodeString URLEncoding"
  by unfold_locales (rule DecodeString_EncodeToString [OF good_URL])

interpretation rawurl64: text_codec "EncodeToString RawURLEncoding" "DecodeString RawURLEncoding"
  by unfold_locales (rule DecodeString_EncodeToString [OF good_RawURL])

section \<open>Keys and tokens\<close>

record jwk =
  k_kty :: string
  k_alg :: string
  k_use :: string
  k_crv :: string
  k_x :: string
  k_y :: string
  k_d :: string
  k_kid :: string
  k_keyOps :: "string list"
  k_ext :: "bool option"

record jwt_header =
  jh_alg :: string
  jh_typ :: string
  jh_kid :: string

text \<open>The claim \<open>aud\<close> has Go type \<open>any\<close>: a string, an array, or another JSON value.\<close>

datatype json_item = JString string | JOther

datatype json_aud = AudString string | AudArray "json_item list" | AudOther

record jwt_claims =
  jcl_role :: string
  jcl_aud :: json_aud
  jcl_iss :: string
  jcl_iat :: int
  jcl_exp :: int

record crypto_lib =
  json_jwks :: "string \<Rightarrow> jwk list result" \<comment> \<open>\<open>json.Unmarshal\<close> into \<open>[]JWK\<close>\<close>
  json_header :: "string \<Rightarrow> jwt_header result"
  json_claims :: "string \<Rightarrow> jwt_claims result"
  json_marshal_keys :: "jwk list \<Rightarrow> string result" \<comment> \<open>\<open>json.Marshal\<close> of an object with the array \<open>keys\<close>\<close>
  sha256 :: "string \<Rightarrow> string"
  scalarBaseMult :: "string \<Rightarrow> int \<times> int"
  ecdsa_verify :: "int \<times> int \<Rightarrow> string \<Rightarrow> int \<Rightarrow> int \<Rightarrow> bool"

definition ES256 :: string where "ES256 = ''ES256''"
definition RequiredRoleAudience :: string where "RequiredRoleAudience = ''authenticated''"

subsection \<open>The curve P-256\<close>

definition P256_p :: int where
  "P256_p = 0xffffffff00000001000000000000000000000000ffffffffffffffffffffffff"

definition P256_b :: int where
  "P256_b = 0x5ac635d8aa3a93e7b3ebbd55769886bc651d06b0cc53b0f63bce3c3e27d2604b"

definition P256_N :: int where
  "P256_N = 0xffffffff00000000ffffffffffffffffbce6faada7179e84f3b9cac2fc632551"

definition IsOnCurve :: "int \<Rightarrow> int \<Rightarrow> bool" where
  "IsOnCurve x y =
     (0 \<le> x \<and> x < P256_p \<and> 0 \<le> y \<and> y < P256_p \<and>
      (y * y - (x * x * x - 3 * x + P256_b)) mod P256_p = 0)"

text \<open>\<open>big.Int.SetBytes\<close> and \<open>big.Int.Bytes\<close>: big-endian, without leading zero bytes.\<close>

definition SetBytes :: "string \<Rightarrow> int" where
  "SetBytes bytes = foldl (\<lambda>acc c. acc * 256 + int (of_char c)) 0 bytes"

function nat_bytes :: "nat \<Rightarrow> string" where
  "nat_bytes n = (if n = 0 then [] else nat_bytes (n div 256) @ [char_of n])"
  by pat_completeness auto
termination
  by (relation "measure id") auto

declare nat_bytes.simps [simp del]

definition Bytes :: "int \<Rightarrow> string" where
  "Bytes i = nat_bytes (nat \<bar>i\<bar>)"

text \<open>
  The copy right-aligns the bytes in a 32-byte buffer. Its arguments are coordinates that
  were decoded from 32 bytes, so the slice bound is never negative.
\<close>

definition paddedCoordinate :: "int \<Rightarrow> string" where
  "paddedCoordinate value =
     (let bytes = Bytes value in replicate (32 - length bytes) (CHR 0x00) @ bytes)"

subsection \<open>Decoding and validating a signing key\<close>

definition decodeBase64URL :: "string \<Rightarrow> string option" where
  "decodeBase64URL value =
     (case DecodeString RawURLEncoding value of
        Some decoded \<Rightarrow> Some decoded
      | None \<Rightarrow> DecodeString URLEncoding value)"

definition decodeCoordinate :: "string \<Rightarrow> int result" where
  "decodeCoordinate value =
     (if value = [] then Inl (Errorf ''empty coordinate'')
      else case decodeBase64URL value of
             None \<Rightarrow> Inl (Errorf ''coordinate must be 32-byte base64url'')
           | Some decoded \<Rightarrow>
               if length decoded \<noteq> 32 then Inl (Errorf ''coordinate must be 32-byte base64url'')
               else Inr (SetBytes decoded))"

record private_key =
  pk_x :: int
  pk_y :: int
  pk_d :: int

definition ecdsaPrivateKey :: "('z) crypto_lib_scheme \<Rightarrow> jwk \<Rightarrow> private_key result" where
  "ecdsaPrivateKey L key =
     (case decodeCoordinate (k_x key) of
        Inl _ \<Rightarrow> Inl (Errorf ''x is not a valid P-256 coordinate'')
      | Inr x \<Rightarrow>
     (case decodeCoordinate (k_y key) of
        Inl _ \<Rightarrow> Inl (Errorf ''y is not a valid P-256 coordinate'')
      | Inr y \<Rightarrow>
     (case decodeCoordinate (k_d key) of
        Inl _ \<Rightarrow> Inl (Errorf ''d is not a valid P-256 private scalar'')
      | Inr d \<Rightarrow>
          if \<not> IsOnCurve x y then Inl (Errorf ''public point is not on P-256'')
          else if d \<le> 0 \<or> d \<ge> P256_N then Inl (Errorf ''private scalar is outside P-256 range'')
          else if scalarBaseMult L (Bytes d) \<noteq> (x, y)
          then Inl (Errorf ''public coordinates do not match private scalar'')
          else Inr \<lparr>pk_x = x, pk_y = y, pk_d = d\<rparr>)))"

definition ecdsaPublicKey :: "jwk \<Rightarrow> (int \<times> int) result" where
  "ecdsaPublicKey key =
     (case decodeCoordinate (k_x key) of
        Inl _ \<Rightarrow> Inl (Errorf ''x is not a valid P-256 coordinate'')
      | Inr x \<Rightarrow>
     (case decodeCoordinate (k_y key) of
        Inl _ \<Rightarrow> Inl (Errorf ''y is not a valid P-256 coordinate'')
      | Inr y \<Rightarrow>
          if \<not> IsOnCurve x y then Inl (Errorf ''public point is not on P-256'')
          else Inr (x, y)))"

definition contains :: "string list \<Rightarrow> string \<Rightarrow> bool" where
  "contains values wanted = list_ex (\<lambda>v. v = wanted) values"

definition ValidateSigningJWK :: "('z) crypto_lib_scheme \<Rightarrow> jwk \<Rightarrow> unit result" where
  "ValidateSigningJWK L key =
     (if k_kty key \<noteq> ''EC'' then Inl (Errorf ''kty must be EC'')
      else if k_crv key \<noteq> ''P-256'' then Inl (Errorf ''crv must be P-256'')
      else if k_alg key \<noteq> ES256 then Inl (Errorf ''alg must be ES256'')
      else if k_use key \<noteq> '''' \<and> k_use key \<noteq> ''sig'' then Inl (Errorf ''use must be sig'')
      else if k_kid key = '''' then Inl (Errorf ''kid must be non-empty'')
      else if 0 < length (k_keyOps key) \<and> \<not> contains (k_keyOps key) ''sign''
      then Inl (Errorf ''key_ops must include sign'')
      else if k_x key = '''' \<or> k_y key = '''' \<or> k_d key = ''''
      then Inl (Errorf ''x, y, and d are required'')
      else case ecdsaPrivateKey L key of Inl e \<Rightarrow> Inl e | Inr _ \<Rightarrow> Inr ())"

definition ParseJWKArray :: "('z) crypto_lib_scheme \<Rightarrow> string \<Rightarrow> jwk list result" where
  "ParseJWKArray L raw =
     (case json_jwks L raw of
        Inl e \<Rightarrow> Inl (Wrap ''must be valid JSON: '' e)
      | Inr keys \<Rightarrow>
          if length keys \<noteq> 1 then Inl (Errorf ''must contain exactly one key'') else Inr keys)"

definition ParseSigningJWK :: "('z) crypto_lib_scheme \<Rightarrow> string \<Rightarrow> jwk result" where
  "ParseSigningJWK L raw =
     (case ParseJWKArray L raw of
        Inl e \<Rightarrow> Inl e
      | Inr keys \<Rightarrow>
          (let key = keys ! 0
           in case ValidateSigningJWK L key of Inl e \<Rightarrow> Inl e | Inr _ \<Rightarrow> Inr key))"

definition PublicJWK :: "('z) crypto_lib_scheme \<Rightarrow> jwk \<Rightarrow> jwk result" where
  "PublicJWK L key =
     (case ValidateSigningJWK L key of
        Inl e \<Rightarrow> Inl e
      | Inr _ \<Rightarrow>
     (case ecdsaPrivateKey L key of
        Inl e \<Rightarrow> Inl e
      | Inr private \<Rightarrow>
          (let public = \<lparr>k_kty = ''EC'', k_alg = ES256, k_use = ''sig'', k_crv = ''P-256'',
                 k_x = EncodeToString RawURLEncoding (Bytes (pk_x private)),
                 k_y = EncodeToString RawURLEncoding (Bytes (pk_y private)),
                 k_d = '''', k_kid = k_kid key, k_keyOps = [''verify''], k_ext = None\<rparr>;
               public = public\<lparr>k_x := EncodeToString RawURLEncoding (paddedCoordinate (pk_x private)),
                 k_y := EncodeToString RawURLEncoding (paddedCoordinate (pk_y private))\<rparr>
           in Inr (if k_ext key \<noteq> None then public\<lparr>k_ext := k_ext key\<rparr> else public))))"

definition PublicJWKS :: "('z) crypto_lib_scheme \<Rightarrow> string \<Rightarrow> string result" where
  "PublicJWKS L raw =
     (case ParseSigningJWK L raw of
        Inl e \<Rightarrow> Inl e
      | Inr key \<Rightarrow>
     (case PublicJWK L key of
        Inl e \<Rightarrow> Inl e
      | Inr public \<Rightarrow>
     (case json_marshal_keys L [public] of
        Inl e \<Rightarrow> Inl (Wrap ''marshalling public JWKS: '' e)
      | Inr encoded \<Rightarrow> Inr encoded)))"

subsection \<open>Verifying a role token\<close>

definition audienceMatches :: "json_aud \<Rightarrow> string \<Rightarrow> bool" where
  "audienceMatches value expected =
     (case value of
        AudString aud \<Rightarrow> aud = expected
      | AudArray items \<Rightarrow> list_ex (\<lambda>item. item = JString expected) items
      | AudOther \<Rightarrow> False)"

definition verifyWithPublicKey ::
  "('z) crypto_lib_scheme \<Rightarrow> int \<Rightarrow> string \<Rightarrow> int \<times> int \<Rightarrow> string \<Rightarrow> string \<Rightarrow> string \<Rightarrow> unit result" where
  "verifyWithPublicKey L now token public expectedKid expectedRole expectedAudience =
     (let parts = Split token (CHR ''.'')
      in if length parts \<noteq> 3 then Inl (Errorf ''JWT must contain three segments'')
      else case decodeBase64URL (parts ! 0) of
        None \<Rightarrow> Inl (Errorf ''JWT header is not valid base64url'')
      | Some headerJSON \<Rightarrow>
     (case json_header L headerJSON of
        Inl _ \<Rightarrow> Inl (Errorf ''JWT header is not valid JSON'')
      | Inr header \<Rightarrow>
          if jh_alg header \<noteq> ES256 then Inl (Errorf ''JWT alg must be ES256'')
          else if jh_kid header \<noteq> expectedKid then Inl (Errorf ''JWT kid does not match signing key'')
          else case decodeBase64URL (parts ! 1) of
        None \<Rightarrow> Inl (Errorf ''JWT claims are not valid base64url'')
      | Some claimsJSON \<Rightarrow>
     (case json_claims L claimsJSON of
        Inl _ \<Rightarrow> Inl (Errorf ''JWT claims are not valid JSON'')
      | Inr claims \<Rightarrow>
          if jcl_role claims \<noteq> expectedRole then Inl (Errorf ''JWT role does not match expected role'')
          else if \<not> audienceMatches (jcl_aud claims) expectedAudience
          then Inl (Errorf ''JWT audience does not match expected audience'')
          else if jcl_exp claims \<le> now then Inl (Errorf ''JWT is expired'')
          else case decodeBase64URL (parts ! 2) of
        None \<Rightarrow> Inl (Errorf ''JWT signature is not a valid ES256 signature'')
      | Some signature \<Rightarrow>
          if length signature \<noteq> 64 then Inl (Errorf ''JWT signature is not a valid ES256 signature'')
          else if \<not> ecdsa_verify L public (sha256 L (parts ! 0 @ ''.'' @ parts ! 1))
                    (SetBytes (take 32 signature)) (SetBytes (drop 32 signature))
          then Inl (Errorf ''JWT signature verification failed'')
          else Inr ())))"

definition VerifyES256JWT ::
  "('z) crypto_lib_scheme \<Rightarrow> int \<Rightarrow> string \<Rightarrow> jwk \<Rightarrow> string \<Rightarrow> string \<Rightarrow> unit result" where
  "VerifyES256JWT L now token key expectedRole expectedAudience =
     (case ValidateSigningJWK L key of
        Inl e \<Rightarrow> Inl e
      | Inr _ \<Rightarrow>
     (case ecdsaPrivateKey L key of
        Inl e \<Rightarrow> Inl e
      | Inr private \<Rightarrow>
          verifyWithPublicKey L now token (pk_x private, pk_y private) (k_kid key)
            expectedRole expectedAudience))"

definition VerifyES256JWTWithPublicKey ::
  "('z) crypto_lib_scheme \<Rightarrow> int \<Rightarrow> string \<Rightarrow> jwk \<Rightarrow> string \<Rightarrow> string \<Rightarrow> unit result" where
  "VerifyES256JWTWithPublicKey L now token key expectedRole expectedAudience =
     (if k_kty key \<noteq> ''EC'' \<or> k_crv key \<noteq> ''P-256'' \<or> k_alg key \<noteq> ES256 \<or> k_kid key = ''''
      then Inl (Errorf ''public JWK must be a P-256 ES256 key with a kid'')
      else case ecdsaPublicKey key of
             Inl e \<Rightarrow> Inl e
           | Inr public \<Rightarrow>
               verifyWithPublicKey L now token public (k_kid key) expectedRole expectedAudience)"

section \<open>Coordinates survive their encoding\<close>

lemma SetBytes_Nil [simp]: "SetBytes [] = 0"
  by (simp add: SetBytes_def)

lemma SetBytes_snoc: "SetBytes (bs @ [c]) = SetBytes bs * 256 + int (of_char c)"
  by (simp add: SetBytes_def)

lemma SetBytes_zeros: "SetBytes (replicate n (CHR 0x00) @ bs) = SetBytes bs"
proof -
  have z: "foldl (\<lambda>acc c. acc * 256 + int (of_char c)) 0 (replicate n (CHR 0x00)) = 0"
    by (induction n) simp_all
  show ?thesis by (simp add: SetBytes_def foldl_append z)
qed

lemma SetBytes_bounds: "0 \<le> SetBytes bs \<and> SetBytes bs < 256 ^ length bs"
proof (induction bs rule: rev_induct)
  case (snoc c bs)
  have "int (of_char c) < 256" by simp
  then have "SetBytes bs * 256 + int (of_char c) < (SetBytes bs + 1) * 256" by (simp add: distrib_right)
  also from snoc have "\<dots> \<le> 256 ^ length bs * 256" by (intro mult_right_mono) simp_all
  finally show ?case using snoc by (simp add: SetBytes_snoc)
qed simp

lemma SetBytes_nat_bytes: "SetBytes (nat_bytes n) = int n"
proof (induction n rule: nat_bytes.induct)
  case (1 n)
  show ?case
  proof (cases "n = 0")
    case True
    then show ?thesis by (simp add: nat_bytes.simps)
  next
    case False
    have "int (of_char (char_of n :: char)) = int (n mod 256)"
      by (simp add: of_char_of zmod_int)
    with 1 False show ?thesis
      by (subst nat_bytes.simps) (simp add: SetBytes_snoc zdiv_int zmod_int)
  qed
qed

lemma length_nat_bytes: "n < 256 ^ k \<Longrightarrow> length (nat_bytes n) \<le> k"
proof (induction n arbitrary: k rule: nat_bytes.induct)
  case (1 n)
  show ?case
  proof (cases "n = 0")
    case True
    then show ?thesis by (simp add: nat_bytes.simps)
  next
    case False
    with "1.prems" obtain j where k: "k = Suc j" by (cases k) auto
    with "1.prems" have "n div 256 < 256 ^ j" by (simp add: less_mult_imp_div_less mult.commute)
    with "1.IH" False have "length (nat_bytes (n div 256)) \<le> j" by blast
    with False k show ?thesis by (subst nat_bytes.simps) simp
  qed
qed

lemma paddedCoordinate_ok:
  assumes "0 \<le> v" "v < 256 ^ 32"
  shows "length (paddedCoordinate v) = 32" and "SetBytes (paddedCoordinate v) = v"
proof -
  from assms have "nat v < 256 ^ 32" by (simp add: nat_less_iff)
  then have "length (nat_bytes (nat v)) \<le> 32" by (rule length_nat_bytes)
  with assms show "length (paddedCoordinate v) = 32"
    by (simp add: paddedCoordinate_def Bytes_def Let_def)
  from assms show "SetBytes (paddedCoordinate v) = v"
    by (simp add: paddedCoordinate_def Bytes_def Let_def SetBytes_zeros SetBytes_nat_bytes)
qed

lemma decodeBase64URL_raw: "decodeBase64URL (EncodeToString RawURLEncoding s) = Some s"
  by (simp add: decodeBase64URL_def rawurl64.dec_enc)

lemma decodeCoordinate_bounds: "decodeCoordinate s = Inr v \<Longrightarrow> 0 \<le> v \<and> v < 256 ^ 32"
proof -
  assume "decodeCoordinate s = Inr v"
  then obtain bs where "length bs = 32" "v = SetBytes bs"
    by (auto simp: decodeCoordinate_def split: if_splits option.splits)
  then show ?thesis using SetBytes_bounds [of bs] by simp
qed

lemma decodeCoordinate_padded:
  assumes "0 \<le> v" "v < 256 ^ 32"
  shows "decodeCoordinate (EncodeToString RawURLEncoding (paddedCoordinate v)) = Inr v"
proof -
  have "length (EncodeToString RawURLEncoding (paddedCoordinate v)) = 43"
    by (simp add: length_EncodeToString_unpadded RawURLEncoding_def paddedCoordinate_ok [OF assms])
  then have "EncodeToString RawURLEncoding (paddedCoordinate v) \<noteq> []" by auto
  then show ?thesis
    by (simp add: decodeCoordinate_def decodeBase64URL_raw paddedCoordinate_ok [OF assms])
qed

lemma ecdsaPrivateKey_ok:
  "ecdsaPrivateKey L key = Inr sk \<longleftrightarrow>
     decodeCoordinate (k_x key) = Inr (pk_x sk) \<and> decodeCoordinate (k_y key) = Inr (pk_y sk) \<and>
     decodeCoordinate (k_d key) = Inr (pk_d sk) \<and> IsOnCurve (pk_x sk) (pk_y sk) \<and>
     0 < pk_d sk \<and> pk_d sk < P256_N \<and>
     scalarBaseMult L (Bytes (pk_d sk)) = (pk_x sk, pk_y sk)"
  by (cases sk) (auto simp: ecdsaPrivateKey_def split: sum.splits)

lemma ValidateSigningJWK_ok:
  "ValidateSigningJWK L key = Inr () \<longleftrightarrow>
     k_kty key = ''EC'' \<and> k_crv key = ''P-256'' \<and> k_alg key = ES256 \<and> k_use key \<in> {'''', ''sig''} \<and>
     k_kid key \<noteq> '''' \<and> (k_keyOps key = [] \<or> ''sign'' \<in> set (k_keyOps key)) \<and>
     k_x key \<noteq> '''' \<and> k_y key \<noteq> '''' \<and> k_d key \<noteq> '''' \<and> (\<exists>sk. ecdsaPrivateKey L key = Inr sk)"
  by (auto simp: ValidateSigningJWK_def contains_def list_ex_iff split: sum.splits)

lemma rawurl_no_dot: "CHR ''.'' \<notin> set (EncodeToString RawURLEncoding s)"
proof
  assume "CHR ''.'' \<in> set (EncodeToString RawURLEncoding s)"
  then have "CHR ''.'' \<in> set (b64_alphabet RawURLEncoding)"
    by (rule EncodeToString_chars [rotated 2]) (simp_all add: RawURLEncoding_def)
  then show False by (simp add: RawURLEncoding_def)
qed

text \<open>What verification demands of the three segments of a token.\<close>

definition segments_ok ::
  "('z) crypto_lib_scheme \<Rightarrow> int \<Rightarrow> int \<times> int \<Rightarrow> string \<Rightarrow> string \<Rightarrow> string \<Rightarrow> string \<Rightarrow> string \<Rightarrow> string \<Rightarrow> bool" where
  "segments_ok L now public kid role aud h c s \<longleftrightarrow>
     (\<exists>headerJSON header claimsJSON claims signature.
        decodeBase64URL h = Some headerJSON \<and> json_header L headerJSON = Inr header \<and>
        jh_alg header = ES256 \<and> jh_kid header = kid \<and>
        decodeBase64URL c = Some claimsJSON \<and> json_claims L claimsJSON = Inr claims \<and>
        jcl_role claims = role \<and> audienceMatches (jcl_aud claims) aud \<and> now < jcl_exp claims \<and>
        decodeBase64URL s = Some signature \<and> length signature = 64 \<and>
        ecdsa_verify L public (sha256 L (h @ ''.'' @ c)) (SetBytes (take 32 signature)) (SetBytes (drop 32 signature)))"

lemma verifyWithPublicKey_parts:
  assumes "Split token (CHR ''.'') = [h, c, s]"
  shows "verifyWithPublicKey L now token public kid role aud = Inr () \<longleftrightarrow> segments_ok L now public kid role aud h c s"
  unfolding verifyWithPublicKey_def assms Let_def segments_ok_def
  by (auto simp: not_le split: if_splits option.splits sum.splits)

lemma verifyWithPublicKey_iff:
  "verifyWithPublicKey L now token public kid role aud = Inr () \<longleftrightarrow>
     (\<exists>h c s. Split token (CHR ''.'') = [h, c, s] \<and> token = h @ ''.'' @ c @ ''.'' @ s \<and>
        segments_ok L now public kid role aud h c s)"
proof
  assume ver: "verifyWithPublicKey L now token public kid role aud = Inr ()"
  then have "length (Split token (CHR ''.'')) = 3"
    by (auto simp: verifyWithPublicKey_def Let_def split: if_splits)
  then obtain h c s where parts: "Split token (CHR ''.'') = [h, c, s]"
    by (auto simp: numeral_3_eq_3 length_Suc_conv)
  then have "token = h @ ''.'' @ c @ ''.'' @ s"
    using Join_Split [of token "CHR ''.''"] by simp
  with parts ver verifyWithPublicKey_parts [OF parts]
  show "\<exists>h c s. Split token (CHR ''.'') = [h, c, s] \<and> token = h @ ''.'' @ c @ ''.'' @ s \<and>
        segments_ok L now public kid role aud h c s" by blast
qed (auto simp: verifyWithPublicKey_parts)

lemma VerifyES256JWT_ok:
  "VerifyES256JWT L now token key role aud = Inr () \<longleftrightarrow>
     ValidateSigningJWK L key = Inr () \<and>
     (\<exists>sk. ecdsaPrivateKey L key = Inr sk \<and>
        verifyWithPublicKey L now token (pk_x sk, pk_y sk) (k_kid key) role aud = Inr ())"
  by (auto simp: VerifyES256JWT_def split: sum.splits)

section \<open>Properties\<close>

text \<open>
  C18. The public projection of a signing key drops the private scalar, keeps the key id, and
  accepts exactly the tokens the private key accepts: \<open>VerifyES256JWTWithPublicKey\<close> on the
  projection and \<open>VerifyES256JWT\<close> on the key give the same answer, the error included, for
  every token, role, audience and clock reading.
\<close>

theorem public_projection_verifies_same_tokens:
  assumes "PublicJWK L key = Inr public"
  shows "k_d public = '''' \<and> k_kid public = k_kid key \<and>
    (\<forall>now token role aud.
       VerifyES256JWTWithPublicKey L now token public role aud = VerifyES256JWT L now token key role aud)"
proof -
  from assms obtain sk where val: "ValidateSigningJWK L key = Inr ()"
    and priv: "ecdsaPrivateKey L key = Inr sk"
    by (auto simp: PublicJWK_def split: sum.splits)
  with assms have pub: "k_kty public = ''EC''" "k_crv public = ''P-256''" "k_alg public = ES256"
      "k_d public = ''''" "k_kid public = k_kid key"
      "k_x public = EncodeToString RawURLEncoding (paddedCoordinate (pk_x sk))"
      "k_y public = EncodeToString RawURLEncoding (paddedCoordinate (pk_y sk))"
    by (auto simp: PublicJWK_def Let_def split: if_splits)
  from priv have "decodeCoordinate (k_x key) = Inr (pk_x sk)"
      "decodeCoordinate (k_y key) = Inr (pk_y sk)" and on: "IsOnCurve (pk_x sk) (pk_y sk)"
    by (simp_all add: ecdsaPrivateKey_ok)
  then have "decodeCoordinate (k_x public) = Inr (pk_x sk)"
      "decodeCoordinate (k_y public) = Inr (pk_y sk)"
    by (auto simp: pub dest!: decodeCoordinate_bounds intro!: decodeCoordinate_padded)
  with on have "ecdsaPublicKey public = Inr (pk_x sk, pk_y sk)"
    by (simp add: ecdsaPublicKey_def)
  moreover from val have "k_kid key \<noteq> ''''" by (simp add: ValidateSigningJWK_ok)
  ultimately show ?thesis
    by (simp add: pub val priv VerifyES256JWTWithPublicKey_def VerifyES256JWT_def)
qed

text \<open>
  C17. A role token is accepted only when it has three segments, is signed for the ES256 key
  named by its header, carries exactly the expected role and audience, has not expired, and
  its 64-byte signature verifies over the first two segments as they stand in the token.
\<close>

theorem VerifyES256JWT_sound:
  assumes "VerifyES256JWT L now token key role aud = Inr ()"
  shows "\<exists>sk h c s headerJSON claimsJSON header claims signature.
    ecdsaPrivateKey L key = Inr sk \<and> token = h @ ''.'' @ c @ ''.'' @ s \<and>
    decodeBase64URL h = Some headerJSON \<and> json_header L headerJSON = Inr header \<and>
    jh_alg header = ES256 \<and> jh_kid header = k_kid key \<and>
    decodeBase64URL c = Some claimsJSON \<and> json_claims L claimsJSON = Inr claims \<and>
    jcl_role claims = role \<and> audienceMatches (jcl_aud claims) aud \<and> now < jcl_exp claims \<and>
    decodeBase64URL s = Some signature \<and> length signature = 64 \<and>
    ecdsa_verify L (pk_x sk, pk_y sk) (sha256 L (h @ ''.'' @ c))
      (SetBytes (take 32 signature)) (SetBytes (drop 32 signature))"
  using assms unfolding VerifyES256JWT_ok verifyWithPublicKey_iff segments_ok_def by blast

end
