(* ===== verification/Client.thy ===== *)
theory Client
  imports Project_Types Crypto
begin

text \<open>
  The environment of the operator and the client through which it acts.

  Everything the operator does to the cluster is a request: it reads an object, creates,
  updates or deletes one, writes the status of its project, lists projects, or reads random
  bytes. The API server, the other controllers and the kernel's entropy source are one
  parameter, \<open>respond\<close>: the answer to a request, given the history of requests and answers so
  far. Every behaviour of a real environment on one run, with failures, conflicts and changes
  made by others between two requests, is such a function, so a theorem without further
  hypotheses holds against every environment.

  A successful write is acknowledged and nothing more: the request carries the resource
  version of the object, so the object the server returns has the fields that were sent.

  The functions of apimachinery, controller-runtime, CloudNativePG and the YAML and URL
  parsers are further parameters, with the type of what they may change. The laws the
  operator relies on are the predicates at the end; a theorem that needs one names it.
\<close>

section \<open>Objects and requests\<close>

datatype obj =
    OSecret secret
  | OConfigMap config_map
  | OService service
  | ODeployment deployment
  | OJob job
  | OCronJob cron_job
  | OPublication publication
  | OCluster cluster
  | OObjectStore object_store
  | OScheduledBackup scheduled_backup
  | OProject project

datatype kind =
    KSecret | KConfigMap | KService | KDeployment | KJob | KCronJob | KPublication
  | KCluster | KObjectStore | KScheduledBackup | KProject

primrec kindOf :: "obj \<Rightarrow> kind" where
  "kindOf (OSecret _) = KSecret"
| "kindOf (OConfigMap _) = KConfigMap"
| "kindOf (OService _) = KService"
| "kindOf (ODeployment _) = KDeployment"
| "kindOf (OJob _) = KJob"
| "kindOf (OCronJob _) = KCronJob"
| "kindOf (OPublication _) = KPublication"
| "kindOf (OCluster _) = KCluster"
| "kindOf (OObjectStore _) = KObjectStore"
| "kindOf (OScheduledBackup _) = KScheduledBackup"
| "kindOf (OProject _) = KProject"

primrec metaOf :: "obj \<Rightarrow> object_meta" where
  "metaOf (OSecret x) = sec_meta x"
| "metaOf (OConfigMap x) = cm_meta x"
| "metaOf (OService x) = svc_meta x"
| "metaOf (ODeployment x) = dep_meta x"
| "metaOf (OJob x) = job_meta x"
| "metaOf (OCronJob x) = cj_meta x"
| "metaOf (OPublication x) = pub_meta x"
| "metaOf (OCluster x) = cl_meta x"
| "metaOf (OObjectStore x) = os_meta x"
| "metaOf (OScheduledBackup x) = sb_meta x"
| "metaOf (OProject x) = p_meta x"

text \<open>\<open>object.SetOwnerReferences\<close>, on an object of any kind.\<close>

primrec setOwners :: "owner_ref list \<Rightarrow> obj \<Rightarrow> obj" where
  "setOwners o' (OSecret x) = OSecret (x\<lparr>sec_meta := (sec_meta x)\<lparr>md_owners := o'\<rparr>\<rparr>)"
| "setOwners o' (OConfigMap x) = OConfigMap (x\<lparr>cm_meta := (cm_meta x)\<lparr>md_owners := o'\<rparr>\<rparr>)"
| "setOwners o' (OService x) = OService (x\<lparr>svc_meta := (svc_meta x)\<lparr>md_owners := o'\<rparr>\<rparr>)"
| "setOwners o' (ODeployment x) = ODeployment (x\<lparr>dep_meta := (dep_meta x)\<lparr>md_owners := o'\<rparr>\<rparr>)"
| "setOwners o' (OJob x) = OJob (x\<lparr>job_meta := (job_meta x)\<lparr>md_owners := o'\<rparr>\<rparr>)"
| "setOwners o' (OCronJob x) = OCronJob (x\<lparr>cj_meta := (cj_meta x)\<lparr>md_owners := o'\<rparr>\<rparr>)"
| "setOwners o' (OPublication x) = OPublication (x\<lparr>pub_meta := (pub_meta x)\<lparr>md_owners := o'\<rparr>\<rparr>)"
| "setOwners o' (OCluster x) = OCluster (x\<lparr>cl_meta := (cl_meta x)\<lparr>md_owners := o'\<rparr>\<rparr>)"
| "setOwners o' (OObjectStore x) = OObjectStore (x\<lparr>os_meta := (os_meta x)\<lparr>md_owners := o'\<rparr>\<rparr>)"
| "setOwners o' (OScheduledBackup x) = OScheduledBackup (x\<lparr>sb_meta := (sb_meta x)\<lparr>md_owners := o'\<rparr>\<rparr>)"
| "setOwners o' (OProject x) = OProject (x\<lparr>p_meta := (p_meta x)\<lparr>md_owners := o'\<rparr>\<rparr>)"

datatype call =
    Get kind key
  | Create obj
  | Update obj
  | Delete obj bool \<comment> \<open>the object, and whether foreground propagation is asked for\<close>
  | StatusUpdate project
  | ListProjects string \<comment> \<open>in one namespace\<close>
  | RandRead nat

datatype resp =
    RErr go_error
  | RObj obj
  | ROk
  | RProjects "project list"
  | RBytes string

type_synonym event = "call \<times> resp"

section \<open>The environment\<close>

record url =
  u_scheme :: string
  u_host :: string
  u_path :: string
  u_rawPath :: string
  u_rawQuery :: string
  u_fragment :: string
  u_foreign :: foreign \<comment> \<open>user information, opaque part and flags\<close>

text \<open>The document \<open>loadAndValidatePowerSyncRules\<close> decodes: the edition, and whether \<open>streams\<close> is present.\<close>

record sync_document =
  sdoc_edition :: int
  sdoc_streams :: bool

record env = crypto_lib +
  respond :: "event list \<Rightarrow> call \<Rightarrow> resp" \<comment> \<open>the history has its newest event first\<close>
  clock :: "event list \<Rightarrow> int"
  rangeKeys :: "string fset \<Rightarrow> string list" \<comment> \<open>the order in which \<open>range\<close> visits the keys of a map\<close>
  setStatusCondition :: "condition list \<Rightarrow> condition \<Rightarrow> condition list"
  removeStatusCondition :: "condition list \<Rightarrow> string \<Rightarrow> condition list"
  findStatusCondition :: "condition list \<Rightarrow> string \<Rightarrow> condition option"
  setControllerReference :: "project \<Rightarrow> object_meta \<Rightarrow> owner_ref list result"
  isControlledBy :: "object_meta \<Rightarrow> project \<Rightarrow> bool"
  parseGroupVersion :: "string \<Rightarrow> (string \<times> string) result"
  parseQuantity :: "string \<Rightarrow> quantity result"
  defaultCluster :: "cluster \<Rightarrow> cluster"
  unmarshalSyncRules :: "string \<Rightarrow> sync_document result"
  url_parse :: "string \<Rightarrow> url result"
  url_string :: "url \<Rightarrow> string"

text \<open>What one reconciliation carries along: the project in memory and the history.\<close>

record rstate =
  rs_project :: project
  rs_events :: "event list"

type_synonym 'a handler = "(rstate, 'a) state"

section \<open>The client\<close>

definition ask :: "env \<Rightarrow> call \<Rightarrow> resp handler" where
  "ask E c = do {
     s \<leftarrow> State_Monad.get;
     let r = respond E (rs_events s) c;
     State_Monad.set (s\<lparr>rs_events := (c, r) # rs_events s\<rparr>);
     State_Monad.return r }"

text \<open>An answer of the wrong shape fails to decode into the typed object the caller passed.\<close>

definition badResponse :: go_error where
  "badResponse = Errorf ''unexpected response''"

definition expect :: "(obj \<Rightarrow> 'a option) \<Rightarrow> resp \<Rightarrow> 'a result" where
  "expect f r =
     (case r of
        RErr e \<Rightarrow> Inl e
      | RObj ob \<Rightarrow> (case f ob of Some x \<Rightarrow> Inr x | None \<Rightarrow> Inl badResponse)
      | _ \<Rightarrow> Inl badResponse)"

definition fetch :: "env \<Rightarrow> kind \<Rightarrow> (obj \<Rightarrow> 'a option) \<Rightarrow> key \<Rightarrow> 'a result handler" where
  "fetch E k f name = do { r \<leftarrow> ask E (Get k name); State_Monad.return (expect f r) }"

definition acknowledged :: "resp \<Rightarrow> unit result" where
  "acknowledged r = (case r of RErr e \<Rightarrow> Inl e | _ \<Rightarrow> Inr ())"

definition send :: "env \<Rightarrow> call \<Rightarrow> unit result handler" where
  "send E c = do { r \<leftarrow> ask E c; State_Monad.return (acknowledged r) }"

definition asSecret :: "obj \<Rightarrow> secret option" where
  "asSecret ob = (case ob of OSecret x \<Rightarrow> Some x | _ \<Rightarrow> None)"
definition asConfigMap :: "obj \<Rightarrow> config_map option" where
  "asConfigMap ob = (case ob of OConfigMap x \<Rightarrow> Some x | _ \<Rightarrow> None)"
definition asService :: "obj \<Rightarrow> service option" where
  "asService ob = (case ob of OService x \<Rightarrow> Some x | _ \<Rightarrow> None)"
definition asDeployment :: "obj \<Rightarrow> deployment option" where
  "asDeployment ob = (case ob of ODeployment x \<Rightarrow> Some x | _ \<Rightarrow> None)"
definition asJob :: "obj \<Rightarrow> job option" where
  "asJob ob = (case ob of OJob x \<Rightarrow> Some x | _ \<Rightarrow> None)"
definition asCronJob :: "obj \<Rightarrow> cron_job option" where
  "asCronJob ob = (case ob of OCronJob x \<Rightarrow> Some x | _ \<Rightarrow> None)"
definition asPublication :: "obj \<Rightarrow> publication option" where
  "asPublication ob = (case ob of OPublication x \<Rightarrow> Some x | _ \<Rightarrow> None)"
definition asCluster :: "obj \<Rightarrow> cluster option" where
  "asCluster ob = (case ob of OCluster x \<Rightarrow> Some x | _ \<Rightarrow> None)"
definition asObjectStore :: "obj \<Rightarrow> object_store option" where
  "asObjectStore ob = (case ob of OObjectStore x \<Rightarrow> Some x | _ \<Rightarrow> None)"
definition asScheduledBackup :: "obj \<Rightarrow> scheduled_backup option" where
  "asScheduledBackup ob = (case ob of OScheduledBackup x \<Rightarrow> Some x | _ \<Rightarrow> None)"
definition asProject :: "obj \<Rightarrow> project option" where
  "asProject ob = (case ob of OProject x \<Rightarrow> Some x | _ \<Rightarrow> None)"

text \<open>An object of a kind chosen at run time, as a \<open>client.Object\<close>.\<close>

definition asKind :: "kind \<Rightarrow> obj \<Rightarrow> obj option" where
  "asKind k ob = (if kindOf ob = k then Some ob else None)"

lemma as_iff [simp]:
  "asSecret ob = Some a \<longleftrightarrow> ob = OSecret a"
  "asConfigMap ob = Some b \<longleftrightarrow> ob = OConfigMap b"
  "asService ob = Some c \<longleftrightarrow> ob = OService c"
  "asDeployment ob = Some d \<longleftrightarrow> ob = ODeployment d"
  "asJob ob = Some e \<longleftrightarrow> ob = OJob e"
  "asCronJob ob = Some f \<longleftrightarrow> ob = OCronJob f"
  "asPublication ob = Some g \<longleftrightarrow> ob = OPublication g"
  "asCluster ob = Some h \<longleftrightarrow> ob = OCluster h"
  "asObjectStore ob = Some i \<longleftrightarrow> ob = OObjectStore i"
  "asScheduledBackup ob = Some j \<longleftrightarrow> ob = OScheduledBackup j"
  "asProject ob = Some p \<longleftrightarrow> ob = OProject p"
  "asKind k ob = Some ob' \<longleftrightarrow> kindOf ob = k \<and> ob' = ob"
  by (auto simp: asSecret_def asConfigMap_def asService_def asDeployment_def asJob_def asCronJob_def
      asPublication_def asCluster_def asObjectStore_def asScheduledBackup_def asProject_def asKind_def
      split: obj.splits)

lemma expect_ok [simp]: "expect f r = Inr x \<longleftrightarrow> (\<exists>ob. r = RObj ob \<and> f ob = Some x)"
  by (auto simp: expect_def split: resp.splits option.splits)

lemma acknowledged_ok: "acknowledged r = Inr () \<longleftrightarrow> \<not> (\<exists>e. r = RErr e)"
  by (auto simp: acknowledged_def split: resp.splits)

lemma run_ask [simp]:
  "run_state (ask E c) s =
     (respond E (rs_events s) c, s\<lparr>rs_events := (c, respond E (rs_events s) c) # rs_events s\<rparr>)"
  by (simp add: ask_def Let_def)

lemma run_fetch [simp]:
  "run_state (fetch E k f name) s =
     (let r = respond E (rs_events s) (Get k name)
      in (expect f r, s\<lparr>rs_events := (Get k name, r) # rs_events s\<rparr>))"
  by (simp add: fetch_def Let_def)

lemma run_send [simp]:
  "run_state (send E c) s =
     (let r = respond E (rs_events s) c
      in (acknowledged r, s\<lparr>rs_events := (c, r) # rs_events s\<rparr>))"
  by (simp add: send_def Let_def)

section \<open>The project in memory\<close>

definition getProject :: "project handler" where
  "getProject = do { s \<leftarrow> State_Monad.get; State_Monad.return (rs_project s) }"

definition modifyStatus :: "(project_status \<Rightarrow> project_status) \<Rightarrow> unit handler" where
  "modifyStatus f = do {
     s \<leftarrow> State_Monad.get;
     State_Monad.set (s\<lparr>rs_project := (rs_project s)\<lparr>p_status := f (p_status (rs_project s))\<rparr>\<rparr>) }"

definition setCondition :: "env \<Rightarrow> string \<Rightarrow> cond_status \<Rightarrow> string \<Rightarrow> string \<Rightarrow> unit handler" where
  "setCondition E conditionType status reason message = do {
     s \<leftarrow> State_Monad.get;
     let condition = \<lparr>c_type = conditionType, c_status = status,
           c_observedGeneration = md_generation (p_meta (rs_project s)),
           c_lastTransitionTime = clock E (rs_events s), c_reason = reason, c_message = message\<rparr>;
     modifyStatus (\<lambda>st. st\<lparr>st_conditions := setStatusCondition E (st_conditions st) condition\<rparr>) }"

definition updateProjectStatus :: "env \<Rightarrow> unit result handler" where
  "updateProjectStatus E = do {
     p \<leftarrow> getProject;
     andthen (fetch E KProject asProject (objectKey (p_meta p))) (\<lambda>current.
       if p_status current = p_status p then ok ()
       else send E (StatusUpdate p)) }"

text \<open>
  The idiom of the error paths: set a condition to false, persist the status, and return the
  status error if that fails, the original error otherwise.
\<close>

definition failCondition :: "env \<Rightarrow> string \<Rightarrow> string \<Rightarrow> go_error \<Rightarrow> 'a result handler" where
  "failCondition E conditionType reason err = do {
     setCondition E conditionType ConditionFalse reason (Error err);
     andthen (updateProjectStatus E) (\<lambda>_. fail err) }"

lemma run_getProject [simp]: "run_state getProject s = (rs_project s, s)"
  by (simp add: getProject_def)

lemma run_modifyStatus [simp]:
  "run_state (modifyStatus f) s =
     ((), s\<lparr>rs_project := (rs_project s)\<lparr>p_status := f (p_status (rs_project s))\<rparr>\<rparr>)"
  by (simp add: modifyStatus_def)

section \<open>Laws of the environment\<close>

text \<open>
  A read returns an object under the requested name.
\<close>

definition keyed :: "env \<Rightarrow> bool" where
  "keyed E \<longleftrightarrow> (\<forall>h k name ob. respond E h (Get k name) = RObj ob \<longrightarrow>
     kindOf ob = k \<longrightarrow> objectKey (metaOf ob) = name)"

text \<open>
  The documented behaviour of \<open>meta.SetStatusCondition\<close>, \<open>meta.RemoveStatusCondition\<close> and
  \<open>meta.FindStatusCondition\<close>: a condition that was set is found with its status, reason and
  message; a removed one is not found; the others are as before.
\<close>

definition lawful_conditions :: "env \<Rightarrow> bool" where
  "lawful_conditions E \<longleftrightarrow>
     (\<forall>cs c. \<exists>t. findStatusCondition E (setStatusCondition E cs c) (c_type c) = Some (c\<lparr>c_lastTransitionTime := t\<rparr>)) \<and>
     (\<forall>cs c ty. ty \<noteq> c_type c \<longrightarrow>
        findStatusCondition E (setStatusCondition E cs c) ty = findStatusCondition E cs ty) \<and>
     (\<forall>cs ty. findStatusCondition E (removeStatusCondition E cs ty) ty = None) \<and>
     (\<forall>cs ty ty'. ty' \<noteq> ty \<longrightarrow>
        findStatusCondition E (removeStatusCondition E cs ty) ty' = findStatusCondition E cs ty')"

text \<open>
  The documented behaviour of \<open>controllerutil.SetControllerReference\<close>: on success the project
  controls the object, references to other owners stay, and a second call changes nothing.
  Both functions look at the namespace and the owners of the object only.
\<close>

definition lawful_ownership :: "env \<Rightarrow> bool" where
  "lawful_ownership E \<longleftrightarrow>
     (\<forall>p m os. setControllerReference E p m = Inr os \<longrightarrow>
        (\<forall>r \<in> set (md_owners m). or_kind r \<noteq> ''SupabaseProject'' \<or> or_name r \<noteq> p_name p \<longrightarrow> r \<in> set os) \<and>
        (\<forall>m'. md_owners m' = os \<longrightarrow> md_namespace m' = md_namespace m \<longrightarrow>
           isControlledBy E m' p \<and> setControllerReference E p m' = Inr os))"

text \<open>Defaulting a cluster fills in its specification and leaves its metadata alone.\<close>

definition lawful_defaulting :: "env \<Rightarrow> bool" where
  "lawful_defaulting E \<longleftrightarrow> (\<forall>cl. cl_meta (defaultCluster E cl) = cl_meta cl)"

text \<open>A \<open>range\<close> loop over a map visits every key, in an arbitrary order.\<close>

definition lawful_range :: "env \<Rightarrow> bool" where
  "lawful_range E \<longleftrightarrow> (\<forall>ks. fset_of_list (rangeKeys E ks) = ks)"

text \<open>The status as the operator reads it back.\<close>

definition conditionIs :: "env \<Rightarrow> project \<Rightarrow> string \<Rightarrow> cond_status \<Rightarrow> bool" where
  "conditionIs E p ty status =
     (case findStatusCondition E (st_conditions (p_status p)) ty of
        Some c \<Rightarrow> c_status c = status | None \<Rightarrow> False)"

end
