(* ===== verification/Common.thy ===== *)
theory Common
  imports Client
begin

text \<open>
  The packages \<open>src/internal/resources/common\<close> and \<open>.../defaults\<close>: labels, resource names,
  derived URLs and default images.
\<close>

section \<open>Labels\<close>

definition LabelManagedBy :: string where "LabelManagedBy = ''app.kubernetes.io/managed-by''"
definition LabelInstance :: string where "LabelInstance = ''app.kubernetes.io/instance''"
definition LabelComponent :: string where "LabelComponent = ''app.kubernetes.io/component''"
definition LabelPartOf :: string where "LabelPartOf = ''app.kubernetes.io/part-of''"
definition LabelName :: string where "LabelName = ''app.kubernetes.io/name''"
definition ManagerName :: string where "ManagerName = ''cloudnative-supabase''"
definition DatabaseName :: string where "DatabaseName = ''supabase''"
definition ReloaderAnnotation :: string where "ReloaderAnnotation = ''reloader.stakater.com/auto''"

lemmas label_defs = LabelManagedBy_def LabelInstance_def LabelComponent_def LabelPartOf_def LabelName_def

definition ReloaderAnnotations :: "string gomap" where
  "ReloaderAnnotations = fmap_of_list [(ReloaderAnnotation, ''true'')]"

definition CommonLabels :: "project \<Rightarrow> string gomap" where
  "CommonLabels p = fmap_of_list
     [(LabelManagedBy, ManagerName), (LabelInstance, p_name p), (LabelPartOf, ''supabase'')]"

definition ComponentLabels :: "project \<Rightarrow> string \<Rightarrow> string gomap" where
  "ComponentLabels p component =
     fmupd LabelName component (fmupd LabelComponent component (CommonLabels p))"

definition SelectorLabels :: "project \<Rightarrow> string \<Rightarrow> string gomap" where
  "SelectorLabels p component = fmap_of_list [(LabelInstance, p_name p), (LabelComponent, component)]"

definition MergeLabels :: "string gomap list \<Rightarrow> string gomap" where
  "MergeLabels maps = foldl (\<lambda>acc m. acc ++\<^sub>f m) fmempty maps"

lemma goget_ComponentLabels [simp]: "goget (ComponentLabels p component) LabelInstance = p_name p"
  by (simp add: ComponentLabels_def CommonLabels_def goget_def label_defs fmlookup_of_list)

lemma lookup_ComponentLabels [simp]: "fmlookup (ComponentLabels p component) LabelInstance = Some (p_name p)"
  by (simp add: ComponentLabels_def CommonLabels_def label_defs fmlookup_of_list)

lemma goget_SelectorLabels: "goget (SelectorLabels p component) LabelInstance = p_name p"
  by (simp add: SelectorLabels_def goget_def label_defs fmlookup_of_list)

text \<open>
  Every pod carries the labels its Service and Deployment select on, since the selector is a
  part of the component labels.
\<close>

lemma SelectorLabels_sub:
  "fmlookup (SelectorLabels p component) k = Some v \<Longrightarrow> fmlookup (ComponentLabels p component) k = Some v"
  by (auto simp: SelectorLabels_def ComponentLabels_def CommonLabels_def label_defs fmlookup_of_list
      split: if_splits)

section \<open>Names\<close>

definition EnvoyConfigMapName :: "project \<Rightarrow> string" where
  "EnvoyConfigMapName p = p_name p @ ''-envoy-config''"

definition JWKSConfigMapName :: "project \<Rightarrow> string" where
  "JWKSConfigMapName p = p_name p @ ''-auth-jwks''"

definition GatewayName :: "project \<Rightarrow> string" where
  "GatewayName p = p_name p @ ''-api-gw''"

section \<open>Tokens and URLs\<close>

definition DefaultAccessTokenExpiration :: int where
  "DefaultAccessTokenExpiration = 3600"

definition GetAccessTokenExpiration :: "project \<Rightarrow> int" where
  "GetAccessTokenExpiration p =
     (if au_accessTokenExpirationSeconds (sp_auth (p_spec p)) > 0
      then au_accessTokenExpirationSeconds (sp_auth (p_spec p))
      else DefaultAccessTokenExpiration)"

definition NormalizeExternalURL :: "env \<Rightarrow> string \<Rightarrow> string" where
  "NormalizeExternalURL E raw =
     (case url_parse E (TrimSpace raw) of
        Inl _ \<Rightarrow> TrimRightChar (TrimSpace raw) (CHR ''/'')
      | Inr u \<Rightarrow>
          if u_scheme u = '''' \<or> u_host u = '''' then TrimRightChar (TrimSpace raw) (CHR ''/'')
          else TrimRightChar
                 (url_string E (u\<lparr>u_path := TrimRightChar (u_path u) (CHR ''/''), u_rawPath := '''',
                    u_rawQuery := '''', u_fragment := ''''\<rparr>)) (CHR ''/''))"

definition AuthIssuerURL :: "env \<Rightarrow> string \<Rightarrow> string" where
  "AuthIssuerURL E externalURL =
     (let base = NormalizeExternalURL E externalURL
      in if HasSuffix base ''/auth/v1'' then base else base @ ''/auth/v1'')"

definition AuthJWKSURL :: "env \<Rightarrow> string \<Rightarrow> string" where
  "AuthJWKSURL E externalURL = AuthIssuerURL E externalURL @ ''/.well-known/jwks.json''"

lemma TrimRightChar_no_suffix: "TrimRightChar s c = t \<Longrightarrow> t = [] \<or> last t \<noteq> c"
  by (cases "dropWhile (\<lambda>x. x = c) (rev s)")
    (auto simp: TrimRightChar_def last_rev hd_append dest: dropWhile_eq_Cons_conv [THEN iffD1])

lemma NormalizeExternalURL_no_slash:
  "NormalizeExternalURL E raw = [] \<or> last (NormalizeExternalURL E raw) \<noteq> CHR ''/''"
  unfolding NormalizeExternalURL_def
  by (auto simp: TrimRightChar_no_suffix split: sum.splits)

lemma AuthIssuerURL_suffix: "HasSuffix (AuthIssuerURL E externalURL) ''/auth/v1''"
  by (auto simp: AuthIssuerURL_def Let_def HasSuffix_iff)

section \<open>Default images\<close>

definition PostgresImage :: string where "PostgresImage = ''ghcr.io/cloudnative-pg/postgresql''"
definition PostgresTag :: string where "PostgresTag = ''17''"
definition StudioImage :: string where "StudioImage = ''supabase/studio''"
definition StudioTag :: string where "StudioTag = ''2025.12.17-sha-43f4f7f''"
definition AuthImage :: string where "AuthImage = ''supabase/gotrue''"
definition AuthTag :: string where "AuthTag = ''v2.189.0''"
definition RestImage :: string where "RestImage = ''postgrest/postgrest''"
definition RestTag :: string where "RestTag = ''v14.12''"
definition MetaImage :: string where "MetaImage = ''supabase/postgres-meta''"
definition MetaTag :: string where "MetaTag = ''v0.95.1''"
definition EnvoyImage :: string where "EnvoyImage = ''envoyproxy/envoy''"
definition EnvoyTag :: string where "EnvoyTag = ''v1.39.0''"
definition PowersyncImage :: string where "PowersyncImage = ''journeyapps/powersync-service''"
definition PowersyncTag :: string where "PowersyncTag = ''1.21.0''"

end
