(* ===== verification/Secrets.thy ===== *)
theory Secrets
  imports Common
begin

text \<open>
  \<open>src/pkg/crypto/password.go\<close> and \<open>src/internal/resources/secrets/secrets.go\<close>: the random
  values the operator generates, the validation of the external credential bundle, and the
  create-once Secrets with their contracts. A generator reads the entropy source, so it is a
  handler; validation is a pure function. \<open>time.Now()\<close>, which the two token checks read, is
  passed in as two readings.
\<close>

section \<open>Random values\<close>

text \<open>
  \<open>rand.Read(bytes)\<close> followed by the check of the number of bytes: the common first part of
  \<open>GenerateHex\<close> and \<open>GenerateBase64\<close>.
\<close>

definition readRandom :: "env \<Rightarrow> nat \<Rightarrow> string result handler" where
  "readRandom E n = do {
     r \<leftarrow> ask E (RandRead n);
     case r of
       RErr e \<Rightarrow> fail e
     | RBytes bytes \<Rightarrow>
         if length bytes \<noteq> n
         then fail (Errorf (''insufficient random bytes: got '' @ show_nat (length bytes) @
                '', want '' @ show_nat n))
         else ok bytes
     | _ \<Rightarrow> fail badResponse }"

definition GenerateHex :: "env \<Rightarrow> nat \<Rightarrow> string result handler" where
  "GenerateHex E n = andthen (readRandom E n) (\<lambda>bytes. ok (hexEncode bytes))"

definition GenerateBase64 :: "env \<Rightarrow> nat \<Rightarrow> string result handler" where
  "GenerateBase64 E n = andthen (readRandom E n) (\<lambda>bytes. ok (EncodeToString StdEncoding bytes))"

definition GeneratePassword :: "env \<Rightarrow> string result handler" where
  "GeneratePassword E = GenerateHex E 32"

definition GenerateWebhookSecret :: "env \<Rightarrow> string result handler" where
  "GenerateWebhookSecret E = andthen (GenerateBase64 E 32) (\<lambda>secret. ok (''v1,whsec_'' @ secret))"

section \<open>The credential bundle\<close>

definition EmailHookSecretKey :: string where "EmailHookSecretKey = ''secret''"
definition ProjectCredentialsSigningKeysKey :: string where "ProjectCredentialsSigningKeysKey = ''signingKeys''"
definition ProjectCredentialsPublishableKey :: string where "ProjectCredentialsPublishableKey = ''publishableKey''"
definition ProjectCredentialsSecretKey :: string where "ProjectCredentialsSecretKey = ''secretKey''"
definition ProjectCredentialsAnonRoleJWTKey :: string where "ProjectCredentialsAnonRoleJWTKey = ''anonRoleJwt''"
definition ProjectCredentialsServiceRoleJWTKey :: string where "ProjectCredentialsServiceRoleJWTKey = ''serviceRoleJwt''"
definition GoTrueFallbackSecretKey :: string where "GoTrueFallbackSecretKey = ''secret''"
definition GoTrueFallbackSecretNameSuffix :: string where "GoTrueFallbackSecretNameSuffix = ''-gotrue-jwt-secret''"
definition PowersyncAPITokenSecretKey :: string where "PowersyncAPITokenSecretKey = ''token''"
definition PowersyncAPITokenSecretNameSuffix :: string where "PowersyncAPITokenSecretNameSuffix = ''-powersync-api-token''"
definition emailHookSecretBytes :: nat where "emailHookSecretBytes = 32"
definition powersyncAPITokenBytes :: nat where "powersyncAPITokenBytes = 32"
definition opaqueKeyChecksumContext :: string where "opaqueKeyChecksumContext = ''supabase-self-hosted''"
definition opaqueKeyRandomLength :: nat where "opaqueKeyRandomLength = 22"
definition opaqueKeyChecksumLength :: nat where "opaqueKeyChecksumLength = 8"

lemmas credential_key_defs =
  ProjectCredentialsSigningKeysKey_def ProjectCredentialsPublishableKey_def
  ProjectCredentialsSecretKey_def ProjectCredentialsAnonRoleJWTKey_def
  ProjectCredentialsServiceRoleJWTKey_def

record project_credentials =
  pcr_SigningKeys :: string
  pcr_PublishableKey :: string
  pcr_SecretKey :: string
  pcr_AnonRoleJWT :: string
  pcr_ServiceRoleJWT :: string
  pcr_PublicJWKS :: string
  pcr_SigningKeyID :: string
  pcr_PodTemplateHash :: string

definition RequiredProjectCredentialKeys :: "string list" where
  "RequiredProjectCredentialKeys =
     [ProjectCredentialsSigningKeysKey, ProjectCredentialsPublishableKey, ProjectCredentialsSecretKey,
      ProjectCredentialsAnonRoleJWTKey, ProjectCredentialsServiceRoleJWTKey]"

definition GoTrueFallbackSecretName :: "project \<Rightarrow> string" where
  "GoTrueFallbackSecretName p = p_name p @ GoTrueFallbackSecretNameSuffix"

definition secretValue :: "secret \<Rightarrow> string \<Rightarrow> string option" where
  "secretValue secret key =
     (case fmlookup (sec_data secret) key of
        Some value \<Rightarrow> Some value
      | None \<Rightarrow> fmlookup (sec_stringData secret) key)"

definition fieldError :: "string \<Rightarrow> string \<Rightarrow> go_error" where
  "fieldError field reason = Errorf (''project credential field '' @ Quote field @ '': '' @ reason)"

definition isBase64URLCharacter :: "char \<Rightarrow> bool" where
  "isBase64URLCharacter r =
     ((CHR ''A'' \<le> r \<and> r \<le> CHR ''Z'') \<or> (CHR ''a'' \<le> r \<and> r \<le> CHR ''z'') \<or>
      (CHR ''0'' \<le> r \<and> r \<le> CHR ''9'') \<or> r = CHR ''-'' \<or> r = CHR ''_'')"

text \<open>
  \<open>validateOpaqueKey\<close>. The loops of the source range over runes; a byte outside ASCII belongs
  to a rune outside the accepted range (or to the replacement character), so the check by
  bytes fails on the same values.
\<close>

definition validateOpaqueKey :: "env \<Rightarrow> string \<Rightarrow> string \<Rightarrow> unit result" where
  "validateOpaqueKey E value prefix =
     (if \<not> HasPrefix value prefix then Inl (Errorf ''must start with the canonical prefix'')
      else let expectedLength = length prefix + opaqueKeyRandomLength + 1 + opaqueKeyChecksumLength
      in if length value \<noteq> expectedLength
         then Inl (Errorf (''must be exactly '' @ show_nat expectedLength @ '' characters''))
      else let randomStart = length prefix; randomEnd = randomStart + opaqueKeyRandomLength
      in if value ! randomEnd \<noteq> CHR ''_''
         then Inl (Errorf ''must contain a separator after the 22-character random segment'')
      else if \<not> list_all isBase64URLCharacter (drop randomStart (take randomEnd value))
         then Inl (Errorf ''random segment contains an invalid Base64URL character'')
      else let checksum = drop (randomEnd + 1) value
      in if \<not> list_all isBase64URLCharacter checksum
         then Inl (Errorf ''checksum contains an invalid Base64URL character'')
      else let digest = sha256 E (opaqueKeyChecksumContext @ ''|'' @ take randomEnd value);
               expectedChecksum = take opaqueKeyChecksumLength (EncodeToString RawURLEncoding digest)
      in if checksum \<noteq> expectedChecksum
         then Inl (Errorf ''checksum does not match the canonical key'')
      else Inr ())"

text \<open>The three loops over the keys of the bundle, each returning at the first offending key.\<close>

fun checkDataKeys :: "string list \<Rightarrow> unit result" where
  "checkDataKeys [] = Inr ()"
| "checkDataKeys (key # rest) =
     (if \<not> List.member RequiredProjectCredentialKeys key then Inl (fieldError key ''unexpected field'')
      else checkDataKeys rest)"

fun checkStringDataKeys :: "secret \<Rightarrow> string list \<Rightarrow> unit result" where
  "checkStringDataKeys secret [] = Inr ()"
| "checkStringDataKeys secret (key # rest) =
     (if \<not> List.member RequiredProjectCredentialKeys key then Inl (fieldError key ''unexpected field'')
      else if fmlookup (sec_data secret) key \<noteq> None
      then Inl (fieldError key ''value is provided more than once'')
      else checkStringDataKeys secret rest)"

fun requiredValues :: "secret \<Rightarrow> string list \<Rightarrow> (string \<times> string) list result" where
  "requiredValues secret [] = Inr []"
| "requiredValues secret (key # rest) =
     (case secretValue secret key of
        None \<Rightarrow> Inl (fieldError key ''value is required'')
      | Some value \<Rightarrow>
          if value = '''' then Inl (fieldError key ''value is required'')
          else case requiredValues secret rest of
                 Inl e \<Rightarrow> Inl e
               | Inr values \<Rightarrow> Inr ((key, value) # values))"

text \<open>What is written to the hash: every value behind its key and its length.\<close>

definition credentialPreimage :: "string gomap \<Rightarrow> string" where
  "credentialPreimage values =
     concat (map (\<lambda>key. key @ '':'' @ show_nat (length (goget values key)) @ '':'' @ goget values key)
       RequiredProjectCredentialKeys)"

definition ValidateProjectCredentials ::
  "env \<Rightarrow> int \<Rightarrow> int \<Rightarrow> secret option \<Rightarrow> project_credentials result" where
  "ValidateProjectCredentials E now now' secretPtr =
     (case secretPtr of None \<Rightarrow> Inl (fieldError ''secret'' ''object is nil'') | Some secret \<Rightarrow>
     (case checkDataKeys (rangeKeys E (fmdom (sec_data secret))) of Inl e \<Rightarrow> Inl e | Inr _ \<Rightarrow>
     (case checkStringDataKeys secret (rangeKeys E (fmdom (sec_stringData secret))) of Inl e \<Rightarrow> Inl e | Inr _ \<Rightarrow>
     (case requiredValues secret RequiredProjectCredentialKeys of Inl e \<Rightarrow> Inl e | Inr pairs \<Rightarrow>
     (let values = fmap_of_list pairs in
      case ParseSigningJWK E (goget values ProjectCredentialsSigningKeysKey) of
        Inl err \<Rightarrow> Inl (fieldError ProjectCredentialsSigningKeysKey (Error err)) | Inr signingKey \<Rightarrow>
     (case PublicJWKS E (goget values ProjectCredentialsSigningKeysKey) of
        Inl err \<Rightarrow> Inl (fieldError ProjectCredentialsSigningKeysKey ''public projection failed'') | Inr publicJWKS \<Rightarrow>
     (case validateOpaqueKey E (goget values ProjectCredentialsPublishableKey) ''sb_publishable_'' of
        Inl err \<Rightarrow> Inl (fieldError ProjectCredentialsPublishableKey (Error err)) | Inr _ \<Rightarrow>
     (case validateOpaqueKey E (goget values ProjectCredentialsSecretKey) ''sb_secret_'' of
        Inl err \<Rightarrow> Inl (fieldError ProjectCredentialsSecretKey (Error err)) | Inr _ \<Rightarrow>
      if goget values ProjectCredentialsPublishableKey = goget values ProjectCredentialsSecretKey
      then Inl (fieldError ProjectCredentialsSecretKey ''must be distinct from publishableKey'')
      else
     (case VerifyES256JWT E now (goget values ProjectCredentialsAnonRoleJWTKey) signingKey ''anon'' RequiredRoleAudience of
        Inl err \<Rightarrow> Inl (fieldError ProjectCredentialsAnonRoleJWTKey (Error err)) | Inr _ \<Rightarrow>
     (case VerifyES256JWT E now' (goget values ProjectCredentialsServiceRoleJWTKey) signingKey ''service_role'' RequiredRoleAudience of
        Inl err \<Rightarrow> Inl (fieldError ProjectCredentialsServiceRoleJWTKey (Error err)) | Inr _ \<Rightarrow>
      Inr \<lparr>pcr_SigningKeys = goget values ProjectCredentialsSigningKeysKey,
           pcr_PublishableKey = goget values ProjectCredentialsPublishableKey,
           pcr_SecretKey = goget values ProjectCredentialsSecretKey,
           pcr_AnonRoleJWT = goget values ProjectCredentialsAnonRoleJWTKey,
           pcr_ServiceRoleJWT = goget values ProjectCredentialsServiceRoleJWTKey,
           pcr_PublicJWKS = publicJWKS,
           pcr_SigningKeyID = k_kid signingKey,
           pcr_PodTemplateHash = hexEncode (sha256 E (credentialPreimage values))\<rparr>))))))))))"

section \<open>Generated Secrets and their contracts\<close>

definition SecretTypeOpaque :: string where "SecretTypeOpaque = ''Opaque''"

text \<open>\<open>fmt.Errorf("<prefix>%w", err)\<close> around a failing call.\<close>

definition wrapErr :: "string \<Rightarrow> ('s, 'a result) state \<Rightarrow> ('s, 'a result) state" where
  "wrapErr prefix m = do {
     r \<leftarrow> m;
     case r of Inl err \<Rightarrow> fail (Wrap prefix err) | Inr x \<Rightarrow> ok x }"

definition GenerateGoTrueFallbackSecret :: "env \<Rightarrow> project \<Rightarrow> (secret \<times> string) result handler" where
  "GenerateGoTrueFallbackSecret E p =
     andthen (wrapErr ''generating GoTrue fallback secret: '' (GenerateHex E 32)) (\<lambda>value.
       ok (\<lparr>sec_meta = namedMeta (GoTrueFallbackSecretName p) (p_namespace p) (ComponentLabels p ''gotrue-secret''),
            sec_type = SecretTypeOpaque, sec_data = fmempty,
            sec_stringData = fmap_of_list [(GoTrueFallbackSecretKey, value)]\<rparr>,
           GoTrueFallbackSecretName p))"

definition generateRoleSecret :: "env \<Rightarrow> project \<Rightarrow> string \<Rightarrow> string \<Rightarrow> (secret \<times> string) result handler" where
  "generateRoleSecret E p suffix username =
     (let name = p_name p @ ''-'' @ suffix @ ''-password''
      in andthen (wrapErr (''generating '' @ username @ '' password: '') (GeneratePassword E)) (\<lambda>password.
           ok (\<lparr>sec_meta = namedMeta name (p_namespace p) (ComponentLabels p suffix),
                sec_type = SecretTypeOpaque, sec_data = fmempty,
                sec_stringData = fmap_of_list [(''username'', username), (''password'', password)]\<rparr>, name)))"

text \<open>\<open>GenerateSecrets\<close>: the loop over the three roles is unrolled; each iteration sets one name.\<close>

definition GenerateSecrets :: "env \<Rightarrow> project \<Rightarrow> (secret list \<times> secret_names_status) result handler" where
  "GenerateSecrets E p =
     andthen (GenerateGoTrueFallbackSecret E p) (\<lambda>(fallback, fallbackName).
     andthen (generateRoleSecret E p ''supabase-admin'' ''supabase_admin'') (\<lambda>(admin, adminName).
     andthen (generateRoleSecret E p ''authenticator'' ''authenticator'') (\<lambda>(authenticator, authenticatorName).
     andthen (generateRoleSecret E p ''auth-admin'' ''supabase_auth_admin'') (\<lambda>(authAdmin, authAdminName).
       ok ([fallback, admin, authenticator, authAdmin],
           noSecretNames\<lparr>sn_goTrueFallback := fallbackName, sn_supabaseAdmin := adminName,
             sn_authenticator := authenticatorName, sn_authAdmin := authAdminName\<rparr>)))))"

definition EmailHookSecretName :: "project \<Rightarrow> string" where
  "EmailHookSecretName p = p_name p @ ''-email-hook''"

definition GenerateEmailHookSecret :: "env \<Rightarrow> project \<Rightarrow> (secret \<times> string) result handler" where
  "GenerateEmailHookSecret E p =
     andthen (wrapErr ''generating webhook secret: '' (GenerateWebhookSecret E)) (\<lambda>value.
       ok (\<lparr>sec_meta = namedMeta (EmailHookSecretName p) (p_namespace p) (ComponentLabels p ''email-hook''),
            sec_type = SecretTypeOpaque, sec_data = fmap_of_list [(EmailHookSecretKey, value)],
            sec_stringData = fmempty\<rparr>, EmailHookSecretName p))"

definition ValidateEmailHookSecret :: "secret option \<Rightarrow> unit result" where
  "ValidateEmailHookSecret secretPtr =
     (case secretPtr of None \<Rightarrow> Inl (Errorf ''email hook Secret is nil'') | Some secret \<Rightarrow>
     (case secretValue secret EmailHookSecretKey of
        None \<Rightarrow> Inl (Errorf ''email hook Secret must contain a Standard Webhooks value'')
      | Some value \<Rightarrow>
          if \<not> HasPrefix value ''v1,whsec_''
          then Inl (Errorf ''email hook Secret must contain a Standard Webhooks value'')
          else case DecodeString StdEncoding (TrimPrefix value ''v1,whsec_'') of
                 None \<Rightarrow> Inl (Errorf ''email hook Secret contains an invalid Standard Webhooks value'')
               | Some payload \<Rightarrow>
                   if length payload \<noteq> emailHookSecretBytes
                   then Inl (Errorf ''email hook Secret contains an invalid Standard Webhooks value'')
                   else Inr ()))"

definition ValidateRoleSecret :: "secret option \<Rightarrow> string \<Rightarrow> unit result" where
  "ValidateRoleSecret secretPtr secretName =
     (case secretPtr of None \<Rightarrow> Inl (Errorf (''role Secret '' @ secretName @ '' is nil'')) | Some secret \<Rightarrow>
        if secretValue secret ''username'' = None
        then Inl (Errorf (''role Secret '' @ secretName @ '' is missing required key '' @ Quote ''username''))
        else if secretValue secret ''password'' = None
        then Inl (Errorf (''role Secret '' @ secretName @ '' is missing required key '' @ Quote ''password''))
        else Inr ())"

definition GeneratePowersyncSecrets :: "env \<Rightarrow> project \<Rightarrow> secret list result handler" where
  "GeneratePowersyncSecrets E p =
     andthen (generateRoleSecret E p ''powersync-storage'' ''powersync_storage'') (\<lambda>(storage, _).
     andthen (generateRoleSecret E p ''powersync-replication'' ''powersync_replication'') (\<lambda>(replication, _).
       ok [storage, replication]))"

definition PowersyncSecretNames :: "project \<Rightarrow> string \<times> string" where
  "PowersyncSecretNames p =
     (p_name p @ ''-powersync-storage-password'', p_name p @ ''-powersync-replication-password'')"

definition PowersyncAPITokenSecretName :: "project \<Rightarrow> string" where
  "PowersyncAPITokenSecretName p = p_name p @ PowersyncAPITokenSecretNameSuffix"

definition GeneratePowersyncAPITokenSecret :: "env \<Rightarrow> project \<Rightarrow> secret result handler" where
  "GeneratePowersyncAPITokenSecret E p =
     andthen (wrapErr ''generating PowerSync API token: '' (GenerateHex E powersyncAPITokenBytes)) (\<lambda>token.
       ok \<lparr>sec_meta = namedMeta (PowersyncAPITokenSecretName p) (p_namespace p)
             (ComponentLabels p ''powersync-api-token''),
           sec_type = SecretTypeOpaque, sec_data = fmempty,
           sec_stringData = fmap_of_list [(PowersyncAPITokenSecretKey, token)]\<rparr>)"

definition ValidatePowersyncAPITokenSecret :: "secret option \<Rightarrow> unit result" where
  "ValidatePowersyncAPITokenSecret secretPtr =
     (case secretPtr of None \<Rightarrow> Inl (Errorf ''PowerSync API token Secret is nil'') | Some secret \<Rightarrow>
     (case secretValue secret PowersyncAPITokenSecretKey of
        None \<Rightarrow> Inl (Errorf (''PowerSync API token Secret is missing required non-empty key '' @ Quote PowersyncAPITokenSecretKey))
      | Some value \<Rightarrow>
          if TrimSpace value = ''''
          then Inl (Errorf (''PowerSync API token Secret is missing required non-empty key '' @ Quote PowersyncAPITokenSecretKey))
          else Inr ()))"

section \<open>Lemmas\<close>

lemma run_readRandom:
  "run_state (readRandom E n) s = (Inr bytes, s') \<Longrightarrow>
     length bytes = n \<and> respond E (rs_events s) (RandRead n) = RBytes bytes"
  by (auto simp: readRandom_def split: resp.splits if_splits)

lemma run_wrapErr_ok [simp]: "run_state (wrapErr prefix m) s = (Inr x, s') \<longleftrightarrow> run_state m s = (Inr x, s')"
  by (auto simp: wrapErr_def split: prod.splits sum.splits)

lemma run_GenerateHex:
  "run_state (GenerateHex E n) s = (Inr v, s') \<Longrightarrow> \<exists>bytes. v = hexEncode bytes \<and> length bytes = n"
  by (auto simp: GenerateHex_def run_andthen dest!: run_readRandom split: prod.splits sum.splits)

lemma run_GenerateWebhookSecret:
  "run_state (GenerateWebhookSecret E) s = (Inr v, s') \<Longrightarrow>
     \<exists>bytes. v = ''v1,whsec_'' @ EncodeToString StdEncoding bytes \<and> length bytes = 32"
  by (auto simp: GenerateWebhookSecret_def GenerateBase64_def run_andthen dest!: run_readRandom
      split: prod.splits sum.splits)

text \<open>Decimal numerals: digits only, and a numeral determines its number.\<close>

fun read_nat :: "nat \<Rightarrow> string \<Rightarrow> nat" where
  "read_nat acc [] = acc"
| "read_nat acc (c # cs) = read_nat (acc * 10 + (of_char c - 48)) cs"

lemma read_nat_append: "read_nat acc (s @ t) = read_nat (read_nat acc s) t"
  by (induction acc s rule: read_nat.induct) simp_all

lemma of_char_digit [simp]: "d < 10 \<Longrightarrow> (of_char (char_of (48 + d) :: char) :: nat) = 48 + d"
  by (simp add: of_char_of)

lemma read_show_nat: "read_nat 0 (show_nat n) = n"
proof (induction n rule: less_induct)
  case (less n)
  show ?case
  proof (cases "n < 10")
    case True
    then show ?thesis by (simp add: show_nat.simps [of n])
  next
    case False
    with less [of "n div 10"] show ?thesis
      by (simp add: show_nat.simps [of n] read_nat_append)
  qed
qed

lemma show_nat_digits: "c \<in> set (show_nat n) \<Longrightarrow> 48 \<le> (of_char c :: nat) \<and> (of_char c :: nat) < 58"
proof (induction n arbitrary: c rule: less_induct)
  case (less n)
  show ?case
  proof (cases "n < 10")
    case True
    with less.prems show ?thesis by (simp add: show_nat.simps [of n])
  next
    case False
    with less.prems consider "c \<in> set (show_nat (n div 10))" | "c = char_of (48 + n mod 10)"
      by (auto simp: show_nat.simps [of n])
    then show ?thesis
      using less.IH [of "n div 10" c] False by cases simp_all
  qed
qed

lemma show_nat_no_colon: "CHR '':'' \<notin> set (show_nat n)"
  using show_nat_digits [of "CHR '':''" n] by auto

lemma append_sep_inj:
  "c \<notin> set a \<Longrightarrow> c \<notin> set b \<Longrightarrow> a @ c # x = b @ c # y \<Longrightarrow> a = b \<and> x = y"
proof (induction a arbitrary: b)
  case Nil
  then show ?case by (cases b) auto
next
  case (Cons d a)
  then show ?case by (cases b) auto
qed

text \<open>A length-prefixed chunk can be split off in one way only.\<close>

lemma length_prefixed_inj:
  assumes "show_nat (length v) @ '':'' @ v @ r = show_nat (length w) @ '':'' @ w @ q"
  shows "v = w \<and> r = q"
proof -
  from assms have *: "show_nat (length v) = show_nat (length w) \<and> v @ r = w @ q"
    using append_sep_inj [OF show_nat_no_colon show_nat_no_colon] by simp
  then have "length v = length w" by (metis read_show_nat)
  with * show ?thesis by simp
qed

lemma preimage_inj:
  "concat (map (\<lambda>k. k @ '':'' @ show_nat (length (f k)) @ '':'' @ f k) ks) =
   concat (map (\<lambda>k. k @ '':'' @ show_nat (length (g k)) @ '':'' @ g k) ks) \<Longrightarrow> k \<in> set ks \<Longrightarrow> f k = g k"
proof (induction ks)
  case (Cons a ks)
  have "f a = g a \<and> concat (map (\<lambda>k. k @ '':'' @ show_nat (length (f k)) @ '':'' @ f k) ks) =
      concat (map (\<lambda>k. k @ '':'' @ show_nat (length (g k)) @ '':'' @ g k) ks)"
    by (rule length_prefixed_inj) (use Cons.prems in simp)
  with Cons show ?case by auto
qed simp

lemma RawURL_alphabet: "\<forall>c \<in> set (b64_alphabet RawURLEncoding). isBase64URLCharacter c"
  by code_simp

lemma checksum_chars: "list_all isBase64URLCharacter (take n (EncodeToString RawURLEncoding s))"
proof -
  have "b64_padded RawURLEncoding = False" "length (b64_alphabet RawURLEncoding) = 64"
    by (simp_all add: RawURLEncoding_def URLEncoding_def)
  then show ?thesis
    using RawURL_alphabet EncodeToString_chars [of RawURLEncoding _ s]
    by (auto simp: list_all_iff dest: in_set_takeD)
qed

lemma length_checksum: "length s = 32 \<Longrightarrow> length (take 8 (EncodeToString RawURLEncoding s)) = 8"
  using length_EncodeToString_unpadded [of RawURLEncoding s] by (simp add: RawURLEncoding_def)

lemma checkDataKeys_ok: "checkDataKeys ks = Inr () \<longleftrightarrow> set ks \<subseteq> set RequiredProjectCredentialKeys"
  by (induction ks) auto

lemma checkStringDataKeys_ok:
  "checkStringDataKeys secret ks = Inr () \<longleftrightarrow>
     set ks \<subseteq> set RequiredProjectCredentialKeys \<and> (\<forall>k \<in> set ks. fmlookup (sec_data secret) k = None)"
  by (induction ks) auto

lemma requiredValues_ok:
  "requiredValues secret ks = Inr pairs \<Longrightarrow>
     map fst pairs = ks \<and> (\<forall>(k, v) \<in> set pairs. secretValue secret k = Some v \<and> v \<noteq> '''')"
  by (induction ks arbitrary: pairs) (auto split: option.splits sum.splits if_splits)

lemma secretValue_None: "secretValue secret k = None \<longleftrightarrow> k |\<notin>| fmdom (sec_data secret) \<and> k |\<notin>| fmdom (sec_stringData secret)"
  by (auto simp: secretValue_def fmlookup_dom_iff split: option.splits)

lemma requiredValues_goget:
  assumes "requiredValues secret ks = Inr pairs" and "k \<in> set ks"
  shows "secretValue secret k = Some (goget (fmap_of_list pairs) k)"
proof -
  note ok = requiredValues_ok [OF assms(1)]
  with assms(2) have "k \<in> fst ` set pairs" by (metis set_map)
  then obtain v where v: "map_of pairs k = Some v" by (metis map_of_eq_None_iff not_None_eq)
  with ok have "secretValue secret k = Some v" by (fastforce dest: map_of_SomeD)
  with v show ?thesis by (simp add: goget_def fmlookup_of_list)
qed

lemma hex_digit_not_space: "\<not> is_space (hex_digit n)"
proof -
  have "\<forall>c \<in> set ''0123456789abcdef''. \<not> is_space c" by (simp add: is_space_def)
  moreover have "hex_digit n \<in> set ''0123456789abcdef''"
    unfolding hex_digit_def by (rule nth_mem) simp
  ultimately show ?thesis by blast
qed

lemma TrimSpace_hexEncode: "TrimSpace (hexEncode bytes) = '''' \<longleftrightarrow> bytes = []"
  by (cases bytes) (auto simp: TrimSpace_def hexEncode_def hexByte_def hex_digit_not_space dropWhile_append)

lemma validateOpaqueKey_shape:
  assumes l: "validateOpaqueKey E value prefix = Inr ()"
  shows "\<exists>random. length random = 22 \<and> list_all isBase64URLCharacter random \<and>
       value = prefix @ random @ ''_'' @
         take 8 (EncodeToString RawURLEncoding (sha256 E (''supabase-self-hosted|'' @ prefix @ random)))"
proof -
  from l obtain rest where v: "value = prefix @ rest"
    by (auto simp: validateOpaqueKey_def HasPrefix_iff split: if_splits)
  with l have len: "length rest = 31" and sep: "rest ! 22 = CHR ''_''"
    and rand: "list_all isBase64URLCharacter (take 22 rest)"
    and sum: "drop 23 rest =
      take 8 (EncodeToString RawURLEncoding (sha256 E (''supabase-self-hosted|'' @ prefix @ take 22 rest)))"
    by (auto simp: validateOpaqueKey_def Let_def opaqueKeyRandomLength_def opaqueKeyChecksumLength_def
        opaqueKeyChecksumContext_def nth_append split: if_splits)
  have "rest = take 22 rest @ rest ! 22 # drop 23 rest"
    using len id_take_nth_drop [of 22 rest] by simp
  with v sep sum have "value = prefix @ take 22 rest @ ''_'' @
      take 8 (EncodeToString RawURLEncoding (sha256 E (''supabase-self-hosted|'' @ prefix @ take 22 rest)))"
    by simp
  with len rand show ?thesis by (intro exI [of _ "take 22 rest"]) simp
qed

lemma validateOpaqueKey_canonical:
  assumes "\<And>x. length (sha256 E x) = 32"
    and r: "length random = 22" "list_all isBase64URLCharacter random"
    and v: "value = prefix @ random @ ''_'' @
         take 8 (EncodeToString RawURLEncoding (sha256 E (''supabase-self-hosted|'' @ prefix @ random)))"
  shows "validateOpaqueKey E value prefix = Inr ()"
  using r length_checksum [OF assms(1), of "''supabase-self-hosted|'' @ prefix @ random"]
  by (simp add: v validateOpaqueKey_def Let_def opaqueKeyRandomLength_def opaqueKeyChecksumLength_def
        opaqueKeyChecksumContext_def nth_append checksum_chars)

section \<open>Properties\<close>

text \<open>
  C19. A project key is accepted exactly when it is canonical: the prefix, 22 Base64URL
  characters, an underscore, and the first eight characters of the Base64URL SHA-256 digest
  of the context and everything before the underscore. The digest is 32 bytes long.
\<close>

theorem validateOpaqueKey_iff:
  assumes "\<And>x. length (sha256 E x) = 32"
  shows "validateOpaqueKey E value prefix = Inr () \<longleftrightarrow>
    (\<exists>random. length random = 22 \<and> list_all isBase64URLCharacter random \<and>
       value = prefix @ random @ ''_'' @
         take 8 (EncodeToString RawURLEncoding (sha256 E (''supabase-self-hosted|'' @ prefix @ random))))"
  using validateOpaqueKey_shape validateOpaqueKey_canonical [OF assms] by metis

text \<open>
  C20. The bytes hashed into the pod-template annotation determine every credential: two
  bundles with the same preimage agree on all five values, whatever characters they hold.
\<close>

theorem credentialPreimage_determines_values:
  assumes "credentialPreimage values = credentialPreimage values'"
    and "key \<in> set RequiredProjectCredentialKeys"
  shows "goget values key = goget values' key"
  using preimage_inj [of "goget values" RequiredProjectCredentialKeys "goget values'" key] assms
  by (simp add: credentialPreimage_def)

text \<open>
  C16. A bundle that passes validation has exactly the five fields of the contract, none of
  them twice; both project keys are valid and distinct; both role tokens verify under the
  signing key with their role and the required audience; and the projection carries the
  bundle's own values, the public key set of that signing key and its key id. The order in
  which the map is visited is arbitrary; every key is visited.
\<close>

theorem ValidateProjectCredentials_sound:
  assumes "ValidateProjectCredentials E now now' (Some secret) = Inr cred"
    and "lawful_range E"
  shows "fmdom (sec_data secret) |\<union>| fmdom (sec_stringData secret) = fset_of_list RequiredProjectCredentialKeys \<and>
    fmdom (sec_data secret) |\<inter>| fmdom (sec_stringData secret) = {||} \<and>
    secretValue secret ''signingKeys'' = Some (pcr_SigningKeys cred) \<and>
    secretValue secret ''publishableKey'' = Some (pcr_PublishableKey cred) \<and>
    secretValue secret ''secretKey'' = Some (pcr_SecretKey cred) \<and>
    secretValue secret ''anonRoleJwt'' = Some (pcr_AnonRoleJWT cred) \<and>
    secretValue secret ''serviceRoleJwt'' = Some (pcr_ServiceRoleJWT cred) \<and>
    validateOpaqueKey E (pcr_PublishableKey cred) ''sb_publishable_'' = Inr () \<and>
    validateOpaqueKey E (pcr_SecretKey cred) ''sb_secret_'' = Inr () \<and>
    pcr_PublishableKey cred \<noteq> pcr_SecretKey cred \<and>
    (\<exists>key. ParseSigningJWK E (pcr_SigningKeys cred) = Inr key \<and> pcr_SigningKeyID cred = k_kid key \<and>
      VerifyES256JWT E now (pcr_AnonRoleJWT cred) key ''anon'' RequiredRoleAudience = Inr () \<and>
      VerifyES256JWT E now' (pcr_ServiceRoleJWT cred) key ''service_role'' RequiredRoleAudience = Inr () \<and>
      PublicJWKS E (pcr_SigningKeys cred) = Inr (pcr_PublicJWKS cred))"
proof -
  from assms(1) obtain pairs where data: "checkDataKeys (rangeKeys E (fmdom (sec_data secret))) = Inr ()"
    and str: "checkStringDataKeys secret (rangeKeys E (fmdom (sec_stringData secret))) = Inr ()"
    and req: "requiredValues secret RequiredProjectCredentialKeys = Inr pairs"
    by (auto simp: ValidateProjectCredentials_def split: sum.splits)
  have dom: "set (rangeKeys E ks) = fset ks" for ks
    using assms(2) by (metis lawful_range_def fset_of_list.rep_eq)
  have sub: "fset (fmdom (sec_data secret)) \<subseteq> set RequiredProjectCredentialKeys"
      "fset (fmdom (sec_stringData secret)) \<subseteq> set RequiredProjectCredentialKeys"
      "fset (fmdom (sec_data secret)) \<inter> fset (fmdom (sec_stringData secret)) = {}"
    using data str by (auto simp: checkDataKeys_ok checkStringDataKeys_ok dom fmlookup_dom_iff)
  have vals: "secretValue secret k = Some (goget (fmap_of_list pairs) k)"
    if "k \<in> set RequiredProjectCredentialKeys" for k
    by (rule requiredValues_goget [OF req that])
  then have "set RequiredProjectCredentialKeys \<subseteq>
      fset (fmdom (sec_data secret)) \<union> fset (fmdom (sec_stringData secret))"
    using secretValue_None [of secret] by (metis UnI1 UnI2 option.distinct(1) subsetI)
  with sub have "fset (fmdom (sec_data secret)) \<union> fset (fmdom (sec_stringData secret)) =
      set RequiredProjectCredentialKeys" by blast
  with sub(3) have keys: "fmdom (sec_data secret) |\<union>| fmdom (sec_stringData secret) = fset_of_list RequiredProjectCredentialKeys"
      "fmdom (sec_data secret) |\<inter>| fmdom (sec_stringData secret) = {||}"
    by (simp_all add: fset_inject [symmetric] fset_of_list.rep_eq)
  define vs where "vs = fmap_of_list pairs"
  have named: "secretValue secret ''signingKeys'' = Some (goget vs ''signingKeys'')"
      "secretValue secret ''publishableKey'' = Some (goget vs ''publishableKey'')"
      "secretValue secret ''secretKey'' = Some (goget vs ''secretKey'')"
      "secretValue secret ''anonRoleJwt'' = Some (goget vs ''anonRoleJwt'')"
      "secretValue secret ''serviceRoleJwt'' = Some (goget vs ''serviceRoleJwt'')"
    unfolding vs_def
    by (rule vals, simp add: RequiredProjectCredentialKeys_def credential_key_defs)+
  note validated = assms(1) [unfolded ValidateProjectCredentials_def option.case data str req sum.case Let_def
      vs_def [symmetric] credential_key_defs]
  show ?thesis
    using validated keys named by (simp split: sum.splits if_splits) (drule sym, simp)
qed


end
