(* ===== verification/Cnpg.thy ===== *)
theory Cnpg
  imports Secrets
begin

text \<open>
  \<open>src/internal/resources/cnpg\<close>: the desired CloudNativePG cluster with its bootstrap
  configuration, parameters and managed roles, the object stores for backup and recovery,
  the scheduled backup, and the publication for PowerSync. The builders are pure functions of
  the project (and of the names of the role Secrets).
\<close>

definition OwnerRole :: string where "OwnerRole = ''supabase_admin''"
definition BarmanCloudPluginName :: string where "BarmanCloudPluginName = ''barman-cloud.cloudnative-pg.io''"
definition DefaultAccessKeyIDKey :: string where "DefaultAccessKeyIDKey = ''ACCESS_KEY_ID''"
definition DefaultSecretAccessKeyKey :: string where "DefaultSecretAccessKeyKey = ''SECRET_ACCESS_KEY''"

definition ClusterName :: "project \<Rightarrow> string" where
  "ClusterName p = p_name p @ ''-pg''"

definition ClusterRWServiceName :: "project \<Rightarrow> string" where
  "ClusterRWServiceName p = ClusterName p @ ''-rw''"

definition RecoverySourceName :: "project \<Rightarrow> string" where
  "RecoverySourceName p = p_name p @ ''-recovery-source''"

definition ObjectStoreName :: "project \<Rightarrow> string" where
  "ObjectStoreName p = p_name p @ ''-backup''"

definition RecoveryObjectStoreName :: "project \<Rightarrow> string" where
  "RecoveryObjectStoreName p = p_name p @ ''-recovery''"

definition ScheduledBackupName :: "project \<Rightarrow> string" where
  "ScheduledBackupName p = p_name p @ ''-backup''"

definition InitSQLConfigMapName :: "project \<Rightarrow> string" where
  "InitSQLConfigMapName p = p_name p @ ''-init-sql''"

text \<open>The conditions \<open>spec.Backup != nil && spec.Backup.Enabled\<close> and its like for recovery.\<close>

definition backupEnabled :: "project \<Rightarrow> bool" where
  "backupEnabled p = (case db_backup (sp_database (p_spec p)) of None \<Rightarrow> False | Some b \<Rightarrow> bk_enabled b)"

definition recoveryEnabled :: "project \<Rightarrow> bool" where
  "recoveryEnabled p = (case db_recovery (sp_database (p_spec p)) of None \<Rightarrow> False | Some r \<Rightarrow> rv_enabled r)"

section \<open>Managed roles\<close>

definition EnsurePresent :: string where "EnsurePresent = ''present''"

text \<open>A role literal with only its name, \<open>ensure\<close> and comment set.\<close>

definition roleNamed :: "string \<Rightarrow> string \<Rightarrow> role_configuration" where
  "roleNamed name comment =
     \<lparr>rc_name = name, rc_ensure = EnsurePresent, rc_comment = comment, rc_login = False, rc_inherit = None,
      rc_createDB = False, rc_createRole = False, rc_bypassRLS = False, rc_replication = False,
      rc_passwordSecret = None, rc_inRoles = [], rc_connectionLimit = 0, rc_foreign = ''''\<rparr>"

definition applyGeneratedRoleDefaults :: "role_configuration list \<Rightarrow> role_configuration list" where
  "applyGeneratedRoleDefaults roles =
     map (\<lambda>r. r\<lparr>rc_connectionLimit := -1,
                 rc_inherit := (case rc_inherit r of None \<Rightarrow> Some True | Some b \<Rightarrow> Some b)\<rparr>) roles"

definition BuildPowersyncRoles :: "secret_names_status \<Rightarrow> role_configuration list" where
  "BuildPowersyncRoles secretNames = applyGeneratedRoleDefaults
     [(roleNamed ''powersync_storage'' ''Powersync internal storage role'')
        \<lparr>rc_login := True, rc_passwordSecret := Some (sn_powersyncStoragePassword secretNames)\<rparr>,
      (roleNamed ''powersync_replication'' ''Powersync CDC replication role'')
        \<lparr>rc_login := True, rc_replication := True, rc_bypassRLS := True,
         rc_passwordSecret := Some (sn_powersyncReplicationPassword secretNames)\<rparr>]"

definition buildRoles :: "database_spec \<Rightarrow> secret_names_status \<Rightarrow> role_configuration list" where
  "buildRoles spec secretNames = applyGeneratedRoleDefaults
     [roleNamed ''api_access_role'' ''Group role for API access permissions'',
      (roleNamed ''anon'' ''Anonymous role for unauthenticated API access'')
        \<lparr>rc_inherit := Some True, rc_inRoles := [''api_access_role'']\<rparr>,
      (roleNamed ''authenticated'' ''Role for authenticated API users'')
        \<lparr>rc_inherit := Some True, rc_inRoles := [''api_access_role'']\<rparr>,
      (roleNamed ''service_role'' ''Service role with RLS bypass for backend operations'')
        \<lparr>rc_inherit := Some True, rc_bypassRLS := True, rc_inRoles := [''api_access_role'']\<rparr>,
      (roleNamed ''supabase_admin'' ''Database owner and admin role'')
        \<lparr>rc_login := True, rc_createDB := True, rc_createRole := True, rc_bypassRLS := True,
         rc_replication := True, rc_passwordSecret := Some (sn_supabaseAdmin secretNames),
         rc_inRoles := [''pg_read_all_data'', ''pg_write_all_data'']\<rparr>,
      (roleNamed ''authenticator'' ''PostgREST role switcher'')
        \<lparr>rc_login := True, rc_inherit := Some False,
         rc_passwordSecret := Some (sn_authenticator secretNames),
         rc_inRoles := [''anon'', ''authenticated'', ''service_role'']\<rparr>,
      (roleNamed ''supabase_auth_admin'' ''GoTrue auth service admin role'')
        \<lparr>rc_login := True, rc_inherit := Some False, rc_createRole := True,
         rc_passwordSecret := Some (sn_authAdmin secretNames)\<rparr>]
     @ db_additionalRoles spec"

definition buildAllRoles :: "project \<Rightarrow> secret_names_status \<Rightarrow> role_configuration list" where
  "buildAllRoles p secretNames =
     (let roles = buildRoles (sp_database (p_spec p)) secretNames
      in if sp_powersync (p_spec p) \<noteq> None \<and> sn_powersyncStoragePassword secretNames \<noteq> '''' \<and>
            sn_powersyncReplicationPassword secretNames \<noteq> ''''
         then roles @ BuildPowersyncRoles secretNames
         else roles)"

section \<open>The cluster\<close>

definition defaultParameters :: "string gomap" where
  "defaultParameters = fmap_of_list
     [(''wal_level'', ''logical''), (''max_replication_slots'', ''10''), (''max_wal_senders'', ''10''),
      (''wal_sender_timeout'', ''60s''), (''wal_receiver_timeout'', ''60s''),
      (''shared_buffers'', ''256MB''), (''log_min_messages'', ''fatal''),
      (''pgaudit.log'', ''function, ddl, role''), (''pgaudit.log_catalog'', ''on''),
      (''pgaudit.log_client'', ''off''), (''pgaudit.log_level'', ''log''),
      (''pgaudit.log_parameter'', ''off''), (''pgaudit.log_relation'', ''off''),
      (''pgaudit.log_rows'', ''off''), (''pgaudit.log_statement'', ''on''),
      (''pgaudit.log_statement_once'', ''off''),
      (''auto_explain.log_min_duration'', ''1s''), (''auto_explain.log_analyze'', ''on''),
      (''auto_explain.log_buffers'', ''on''), (''auto_explain.log_timing'', ''on''),
      (''auto_explain.log_nested_statements'', ''on'')]"

text \<open>Both loops of \<open>mergeParameters\<close> assign distinct keys, so their order is irrelevant.\<close>

definition mergeParameters :: "string gomap \<Rightarrow> string gomap \<Rightarrow> string gomap" where
  "mergeParameters base custom = base ++\<^sub>f custom"

definition buildBootstrapConfiguration :: "project \<Rightarrow> secret_names_status \<Rightarrow> bootstrap_configuration" where
  "buildBootstrapConfiguration p secretNames =
     (case db_recovery (sp_database (p_spec p)) of
        Some recoverySpec \<Rightarrow>
          if rv_enabled recoverySpec then
            \<lparr>bc_initDB = None,
             bc_recovery = Some \<lparr>br_source = RecoverySourceName p, br_database = DatabaseName, br_owner = OwnerRole,
               br_secret = Some (sn_supabaseAdmin secretNames),
               br_targetTime = (if rv_targetTime recoverySpec \<noteq> '''' then Some (rv_targetTime recoverySpec) else None),
               br_foreign = ''''\<rparr>\<rparr>
          else
            \<lparr>bc_initDB = Some \<lparr>ib_database = DatabaseName, ib_owner = OwnerRole,
               ib_secret = Some (sn_supabaseAdmin secretNames),
               ib_postInitApplicationSQLRefs = Some [\<lparr>sr_name = InitSQLConfigMapName p, sr_key = ''init.sql''\<rparr>],
               ib_foreign = ''''\<rparr>,
             bc_recovery = None\<rparr>
      | None \<Rightarrow>
            \<lparr>bc_initDB = Some \<lparr>ib_database = DatabaseName, ib_owner = OwnerRole,
               ib_secret = Some (sn_supabaseAdmin secretNames),
               ib_postInitApplicationSQLRefs = Some [\<lparr>sr_name = InitSQLConfigMapName p, sr_key = ''init.sql''\<rparr>],
               ib_foreign = ''''\<rparr>,
             bc_recovery = None\<rparr>)"

definition BuildCluster :: "project \<Rightarrow> secret_names_status \<Rightarrow> cluster" where
  "BuildCluster p secretNames =
     (let spec = sp_database (p_spec p);
          instances = (if db_instances spec \<le> 0 then 1 else db_instances spec);
          image = (if db_image spec \<noteq> '''' then db_image spec else PostgresImage @ '':'' @ PostgresTag);
          preloadLibraries = [''pg_stat_statements'', ''pgaudit'', ''auto_explain''] @ db_additionalPreloadLibraries spec
      in \<lparr>cl_meta = namedMeta (ClusterName p) (p_namespace p) (ComponentLabels p ''postgresql''),
          cl_spec = \<lparr>
            cs_instances = instances,
            cs_imageName = image,
            cs_enableSuperuserAccess = Some (db_enableSuperuserAccess spec),
            cs_bootstrap = Some (buildBootstrapConfiguration p secretNames),
            cs_postgres = \<lparr>
              pg_parameters = mergeParameters defaultParameters (db_parameters spec),
              pg_pgHBA = [''local all all trust'',
                 ''host all all 10.42.0.0/16 scram-sha-256'', ''host all all 10.43.0.0/16 scram-sha-256'',
                 ''host all all 10.0.0.0/8 scram-sha-256'', ''host all all 172.16.0.0/12 scram-sha-256'',
                 ''host all all 192.168.0.0/16 scram-sha-256''],
              pg_additionalLibraries = preloadLibraries, pg_foreign = ''''\<rparr>,
            cs_storage = db_storage spec,
            cs_managed = Some \<lparr>mc_roles = buildAllRoles p secretNames, mc_foreign = ''''\<rparr>,
            cs_resources = db_resources spec,
            cs_affinity = \<lparr>af_enablePodAntiAffinity = (if instances > 1 then Some True else None), af_foreign = ''''\<rparr>,
            cs_plugins =
              (if backupEnabled p
               then [\<lparr>pc_name = BarmanCloudPluginName, pc_enabled = Some True, pc_isWALArchiver = Some True,
                      pc_parameters = fmap_of_list [(''barmanObjectName'', ObjectStoreName p)]\<rparr>]
               else []),
            cs_externalClusters =
              (case db_recovery spec of
                 Some recovery \<Rightarrow>
                   if rv_enabled recovery
                   then [\<lparr>ec_name = RecoverySourceName p,
                          ec_pluginConfiguration = Some \<lparr>pc_name = BarmanCloudPluginName, pc_enabled = None,
                            pc_isWALArchiver = None,
                            pc_parameters = fmap_of_list [(''barmanObjectName'', RecoveryObjectStoreName p),
                              (''serverName'', rv_serverName recovery)]\<rparr>,
                          ec_foreign = ''''\<rparr>]
                   else []
               | None \<Rightarrow> []),
            cs_foreign = ''''\<rparr>,
          cl_status = emptyClusterStatus\<rparr>)"

section \<open>Object stores and backups\<close>

definition CompressionTypeGzip :: string where "CompressionTypeGzip = ''gzip''"

text \<open>The AWS credentials block both object stores carry.\<close>

definition s3CredentialsFrom :: "string \<Rightarrow> s3_credentials" where
  "s3CredentialsFrom secretName =
     \<lparr>s3_accessKeyID = Some \<lparr>ks_name = secretName, ks_key = DefaultAccessKeyIDKey, ks_optional = None\<rparr>,
      s3_secretAccessKey = Some \<lparr>ks_name = secretName, ks_key = DefaultSecretAccessKeyKey, ks_optional = None\<rparr>\<rparr>"

definition BuildObjectStore :: "project \<Rightarrow> object_store option" where
  "BuildObjectStore p =
     (case db_backup (sp_database (p_spec p)) of
        None \<Rightarrow> None
      | Some backup \<Rightarrow>
          if \<not> bk_enabled backup then None
          else Some
            \<lparr>os_meta = namedMeta (ObjectStoreName p) (p_namespace p) (ComponentLabels p ''backup''),
             os_spec = \<lparr>oss_configuration =
               \<lparr>osc_destinationPath = s3_destinationPath (bk_s3 backup),
                osc_endpointURL = s3_endpointURL (bk_s3 backup),
                osc_barmanCredentials = Some (s3CredentialsFrom (s3_s3CredentialsSecret (bk_s3 backup))),
                osc_wal = Some \<lparr>wb_compression = (if bk_walCompression backup \<noteq> '''' then bk_walCompression backup
                    else CompressionTypeGzip), wb_maxParallel = 2\<rparr>,
                osc_data = Some (if bk_dataCompression backup \<noteq> '''' then bk_dataCompression backup
                    else CompressionTypeGzip),
                osc_foreign = ''''\<rparr>,
               oss_retentionPolicy = bk_retentionPolicy backup, oss_foreign = ''''\<rparr>\<rparr>)"

definition BuildRecoveryObjectStore :: "project \<Rightarrow> object_store option" where
  "BuildRecoveryObjectStore p =
     (case db_recovery (sp_database (p_spec p)) of
        None \<Rightarrow> None
      | Some recovery \<Rightarrow>
          if \<not> rv_enabled recovery then None
          else Some
            \<lparr>os_meta = namedMeta (RecoveryObjectStoreName p) (p_namespace p) (ComponentLabels p ''recovery''),
             os_spec = \<lparr>oss_configuration =
               \<lparr>osc_destinationPath = s3_destinationPath (rv_s3 recovery),
                osc_endpointURL = s3_endpointURL (rv_s3 recovery),
                osc_barmanCredentials = Some (s3CredentialsFrom (s3_s3CredentialsSecret (rv_s3 recovery))),
                osc_wal = None, osc_data = None, osc_foreign = ''''\<rparr>,
               oss_retentionPolicy = '''', oss_foreign = ''''\<rparr>\<rparr>)"

definition BackupMethodPlugin :: string where "BackupMethodPlugin = ''plugin''"

definition BuildScheduledBackup :: "project \<Rightarrow> scheduled_backup option" where
  "BuildScheduledBackup p =
     (case db_backup (sp_database (p_spec p)) of
        None \<Rightarrow> None
      | Some backup \<Rightarrow>
          if \<not> bk_enabled backup then None
          else Some
            \<lparr>sb_meta = namedMeta (ScheduledBackupName p) (p_namespace p) (ComponentLabels p ''backup''),
             sb_spec = \<lparr>sbs_schedule = (if bk_schedule backup = '''' then ''0 0 2 * * *'' else bk_schedule backup),
               sbs_cluster = ClusterName p, sbs_backupOwnerReference = ''self'', sbs_method = BackupMethodPlugin,
               sbs_pluginConfiguration = Some \<lparr>pc_name = BarmanCloudPluginName, pc_enabled = None,
                 pc_isWALArchiver = None, pc_parameters = fmempty\<rparr>,
               sbs_foreign = ''''\<rparr>\<rparr>)"

definition PublicationReclaimDelete :: string where "PublicationReclaimDelete = ''delete''"

definition BuildPowerSyncPublication :: "project \<Rightarrow> publication result" where
  "BuildPowerSyncPublication p =
     (case EffectivePublicationSchemas p of
        Inl e \<Rightarrow> Inl e
      | Inr schemas \<Rightarrow> Inr
          \<lparr>pub_meta = namedMeta (p_name p @ ''-powersync'') (p_namespace p) (ComponentLabels p ''powersync-publication''),
           pub_spec = \<lparr>pbs_clusterRef = ClusterName p, pbs_name = ''powersync'', pbs_dbName = DatabaseName,
             pbs_tablesInSchema = schemas, pbs_reclaimPolicy = PublicationReclaimDelete, pbs_foreign = ''''\<rparr>,
           pub_observedGeneration = 0, pub_applied = None, pub_message = ''''\<rparr>)"

section \<open>Lemmas\<close>

lemma BuildCluster_meta [simp]:
  "cl_meta (BuildCluster p sn) = namedMeta (ClusterName p) (p_namespace p) (ComponentLabels p ''postgresql'')"
  by (simp add: BuildCluster_def Let_def)

lemma applyGeneratedRoleDefaults_idem:
  "applyGeneratedRoleDefaults (applyGeneratedRoleDefaults rs) = applyGeneratedRoleDefaults rs"
  by (simp add: applyGeneratedRoleDefaults_def split: option.splits)

lemma lookup_mergeParameters:
  "fmlookup (mergeParameters base custom) k =
     (case fmlookup custom k of Some v \<Rightarrow> Some v | None \<Rightarrow> fmlookup base k)"
  by (auto simp: mergeParameters_def fmlookup_dom_iff split: option.splits)

lemma BuildRecoveryObjectStore_Some: "BuildRecoveryObjectStore p \<noteq> None \<longleftrightarrow> recoveryEnabled p"
  by (simp add: BuildRecoveryObjectStore_def recoveryEnabled_def split: option.splits)

lemma BuildObjectStore_Some: "BuildObjectStore p \<noteq> None \<longleftrightarrow> backupEnabled p"
  by (simp add: BuildObjectStore_def backupEnabled_def split: option.splits)

lemma BuildScheduledBackup_Some: "BuildScheduledBackup p \<noteq> None \<longleftrightarrow> backupEnabled p"
  by (simp add: BuildScheduledBackup_def backupEnabled_def split: option.splits)

end
