(* ===== verification/Merge.thy ===== *)
theory Merge
  imports Cnpg
begin

text \<open>
  The pure helpers of \<open>src/internal/controller/supabaseproject_controller.go\<close> that decide what
  an update may change: owner references, labels, the immutable recovery intent, the mutable
  fields of a CNPG cluster, and the readiness predicates. A Go helper that mutates its
  argument and reports whether it did returns the new value and the report here.
\<close>

section \<open>Owner references and labels\<close>

definition GroupVersionGroup :: string where "GroupVersionGroup = ''supabase.guion.dev''"
definition supabaseProjectKind :: string where "supabaseProjectKind = ''SupabaseProject''"

text \<open>The condition of the loop: the reference is to this API group's project of the given name.\<close>

definition isProjectOwner :: "env \<Rightarrow> string \<Rightarrow> owner_ref \<Rightarrow> bool" where
  "isProjectOwner E projectName owner =
     (case parseGroupVersion E (or_apiVersion owner) of
        Inl _ \<Rightarrow> False
      | Inr (g, _) \<Rightarrow>
          g = GroupVersionGroup \<and> or_kind owner = supabaseProjectKind \<and> or_name owner = projectName)"

fun filterOwners :: "env \<Rightarrow> string \<Rightarrow> owner_ref list \<Rightarrow> owner_ref list \<times> bool" where
  "filterOwners E projectName [] = ([], False)"
| "filterOwners E projectName (owner # owners) =
     (let (filtered, changed) = filterOwners E projectName owners
      in if isProjectOwner E projectName owner then (filtered, True) else (owner # filtered, changed))"

definition removeSupabaseProjectOwnerReference :: "env \<Rightarrow> object_meta \<Rightarrow> string \<Rightarrow> object_meta \<times> bool" where
  "removeSupabaseProjectOwnerReference E meta projectName =
     (if projectName = '''' then (meta, False)
      else let owners = md_owners meta
      in if length owners = 0 then (meta, False)
      else let (filtered, changed) = filterOwners E projectName owners
      in if changed then (meta\<lparr>md_owners := filtered\<rparr>, True) else (meta, False))"

text \<open>
  \<open>mergeLabels\<close>: the loop visits the desired labels in an arbitrary order. A label whose
  desired value is empty is not added when it is missing, since reading it gives the empty
  string.
\<close>

fun mergeLabelLoop :: "string gomap \<Rightarrow> string list \<Rightarrow> string gomap \<Rightarrow> bool \<Rightarrow> string gomap \<times> bool" where
  "mergeLabelLoop desired [] labels changed = (labels, changed)"
| "mergeLabelLoop desired (key # keys) labels changed =
     (if goget labels key \<noteq> goget desired key
      then mergeLabelLoop desired keys (fmupd key (goget desired key) labels) True
      else mergeLabelLoop desired keys labels changed)"

definition mergeLabels :: "env \<Rightarrow> object_meta \<Rightarrow> string gomap \<Rightarrow> object_meta \<times> bool" where
  "mergeLabels E meta desired =
     (if desired = fmempty then (meta, False)
      else let (labels, changed) = mergeLabelLoop desired (rangeKeys E (fmdom desired)) (md_labels meta) False
           in (meta\<lparr>md_labels := labels\<rparr>, changed))"

section \<open>Immutable recovery intent\<close>

definition recoveryBootstrap :: "bootstrap_configuration option \<Rightarrow> bootstrap_recovery option" where
  "recoveryBootstrap bootstrap = (case bootstrap of None \<Rightarrow> None | Some b \<Rightarrow> bc_recovery b)"

definition recoverySourceName :: "bootstrap_recovery option \<Rightarrow> string" where
  "recoverySourceName recovery = (case recovery of None \<Rightarrow> '''' | Some r \<Rightarrow> br_source r)"

definition recoveryExternalCluster :: "external_cluster list \<Rightarrow> string \<Rightarrow> external_cluster option" where
  "recoveryExternalCluster clusters sourceName =
     (if sourceName = '''' then None else List.find (\<lambda>c. ec_name c = sourceName) clusters)"

record recovery_identity =
  rid_Name :: string
  rid_PluginName :: string
  rid_BarmanObjectName :: string
  rid_ServerName :: string

definition recoveryExternalClusterIdentity :: "external_cluster option \<Rightarrow> recovery_identity" where
  "recoveryExternalClusterIdentity source =
     (case source of
        None \<Rightarrow> \<lparr>rid_Name = '''', rid_PluginName = '''', rid_BarmanObjectName = '''', rid_ServerName = ''''\<rparr>
      | Some s \<Rightarrow>
          (case ec_pluginConfiguration s of
             None \<Rightarrow> \<lparr>rid_Name = ec_name s, rid_PluginName = '''', rid_BarmanObjectName = '''', rid_ServerName = ''''\<rparr>
           | Some plugin \<Rightarrow> \<lparr>rid_Name = ec_name s, rid_PluginName = pc_name plugin,
               rid_BarmanObjectName = goget (pc_parameters plugin) ''barmanObjectName'',
               rid_ServerName = goget (pc_parameters plugin) ''serverName''\<rparr>))"

text \<open>The comparison of the two \<open>initdb\<close> sections, made when both clusters have one.\<close>

definition initDBChanged :: "bootstrap_configuration option \<Rightarrow> bootstrap_configuration option \<Rightarrow> bool" where
  "initDBChanged existing desired =
     (case (existing, desired) of
        (Some e, Some d) \<Rightarrow>
          (case (bc_initDB e, bc_initDB d) of
             (Some ei, Some di) \<Rightarrow>
               ib_database ei \<noteq> ib_database di \<or> ib_owner ei \<noteq> ib_owner di \<or> ib_secret ei \<noteq> ib_secret di \<or>
               ib_postInitApplicationSQLRefs ei \<noteq> ib_postInitApplicationSQLRefs di
           | _ \<Rightarrow> False)
      | _ \<Rightarrow> False)"

definition recoveryBootstrapIntentChanged :: "cluster \<Rightarrow> cluster \<Rightarrow> bool" where
  "recoveryBootstrapIntentChanged existing desired =
     (let existingRecovery = recoveryBootstrap (cs_bootstrap (cl_spec existing));
          desiredRecovery = recoveryBootstrap (cs_bootstrap (cl_spec desired))
      in if (existingRecovery \<noteq> None) \<noteq> (desiredRecovery \<noteq> None) then True
      else if initDBChanged (cs_bootstrap (cl_spec existing)) (cs_bootstrap (cl_spec desired)) then True
      else if existingRecovery \<noteq> None \<and> existingRecovery \<noteq> desiredRecovery then True
      else let existingSource = recoveryExternalCluster (cs_externalClusters (cl_spec existing)) (recoverySourceName existingRecovery);
               desiredSource = recoveryExternalCluster (cs_externalClusters (cl_spec desired)) (recoverySourceName desiredRecovery)
      in if (existingSource = None) \<noteq> (desiredSource = None) then True
      else if existingSource \<noteq> None \<and>
              recoveryExternalClusterIdentity existingSource \<noteq> recoveryExternalClusterIdentity desiredSource then True
      else False)"

definition recoveryObjectStoreIdentityChanged :: "object_store \<Rightarrow> object_store \<Rightarrow> bool" where
  "recoveryObjectStoreIdentityChanged existing desired =
     (let existingConfig = oss_configuration (os_spec existing); desiredConfig = oss_configuration (os_spec desired)
      in osc_endpointURL existingConfig \<noteq> osc_endpointURL desiredConfig \<or>
         osc_destinationPath existingConfig \<noteq> osc_destinationPath desiredConfig)"

section \<open>Mutable cluster fields\<close>

definition reconcileErrReason :: "go_error \<Rightarrow> string" where
  "reconcileErrReason err =
     (if Contains (Error err) ''storage shrink'' then ''StorageShrink'' else ''InvalidDatabaseConfiguration'')"

definition reconcileStorageSize :: "env \<Rightarrow> storage_configuration \<Rightarrow> storage_configuration \<Rightarrow> (storage_configuration \<times> bool) result" where
  "reconcileStorageSize E existing desired =
     (if sc_size desired = '''' then Inr (existing, False)
      else case parseQuantity E (sc_size desired) of
        Inl err \<Rightarrow> Inl (Wrap (''storage size '' @ Quote (sc_size desired) @ '' is invalid: '') err)
      | Inr desiredQuantity \<Rightarrow>
          let apply' = (if sc_size existing \<noteq> sc_size desired
                        then (existing\<lparr>sc_size := sc_size desired\<rparr>, True) else (existing, False))
          in if sc_size existing = '''' then Inr apply'
          else case parseQuantity E (sc_size existing) of
            Inl err \<Rightarrow> Inl (Wrap ''existing storage size is invalid: '' err)
          | Inr existingQuantity \<Rightarrow>
              if desiredQuantity < existingQuantity
              then Inl (Errorf (''storage shrink from '' @ sc_size existing @ '' to '' @ sc_size desired @ '' is not supported''))
              else Inr apply')"

definition reconcileStorage :: "env \<Rightarrow> storage_configuration \<Rightarrow> storage_configuration \<Rightarrow> (storage_configuration \<times> bool) result" where
  "reconcileStorage E existing desired =
     (case reconcileStorageSize E existing desired of
        Inl e \<Rightarrow> Inl e
      | Inr (s0, changed0) \<Rightarrow>
          let (s1, changed1) =
                (if sc_storageClass desired \<noteq> None \<and> sc_storageClass s0 \<noteq> sc_storageClass desired
                 then (s0\<lparr>sc_storageClass := sc_storageClass desired\<rparr>, True) else (s0, changed0));
              (s2, changed2) =
                (if sc_resizeInUseVolumes desired \<noteq> None \<and> sc_resizeInUseVolumes s1 \<noteq> sc_resizeInUseVolumes desired
                 then (s1\<lparr>sc_resizeInUseVolumes := sc_resizeInUseVolumes desired\<rparr>, True) else (s1, changed1));
              (s3, changed3) =
                (if sc_pvcTemplate desired \<noteq> None \<and> sc_pvcTemplate s2 \<noteq> sc_pvcTemplate desired
                 then (s2\<lparr>sc_pvcTemplate := sc_pvcTemplate desired\<rparr>, True) else (s2, changed2))
          in Inr (s3, changed3))"

fun barmanLoop :: "plugin_configuration option \<Rightarrow> plugin_configuration list \<Rightarrow> plugin_configuration list \<times> bool \<times> bool" where
  "barmanLoop desiredPlugin [] = ([], False, False)"
| "barmanLoop desiredPlugin (plugin # rest) =
     (let (result, found, changed) = barmanLoop desiredPlugin rest
      in if pc_name plugin \<noteq> BarmanCloudPluginName then (plugin # result, found, changed)
      else case desiredPlugin of
        None \<Rightarrow> (result, found, True)
      | Some d \<Rightarrow> (d # result, True, changed \<or> plugin \<noteq> d))"

definition reconcileBarmanPlugin :: "plugin_configuration list \<Rightarrow> plugin_configuration list \<Rightarrow> plugin_configuration list \<times> bool" where
  "reconcileBarmanPlugin existing desired =
     (let desiredPlugin = List.find (\<lambda>p. pc_name p = BarmanCloudPluginName) desired;
          (result, found, changed) = barmanLoop desiredPlugin existing
      in case desiredPlugin of
           Some d \<Rightarrow> if \<not> found then (result @ [d], True) else (result, changed)
         | None \<Rightarrow> (result, changed))"

text \<open>
  One assignment of the shape \<open>if existing.F != desired.F \{ existing.F = desired.F; changed = true \}\<close>.
\<close>

definition assignField :: "('s \<Rightarrow> 'a) \<Rightarrow> ('a \<Rightarrow> 's \<Rightarrow> 's) \<Rightarrow> 'a \<Rightarrow> 's \<times> bool \<Rightarrow> 's \<times> bool" where
  "assignField get put v sc =
     (let (s, changed) = sc in if get s \<noteq> v then (put v s, True) else (s, changed))"

definition reconcileManaged :: "managed_configuration option \<Rightarrow> cluster_spec \<times> bool \<Rightarrow> cluster_spec \<times> bool" where
  "reconcileManaged desired sc =
     (case desired of
        None \<Rightarrow> sc
      | Some d \<Rightarrow>
          (let (s, changed) = sc;
               m = (case cs_managed s of None \<Rightarrow> \<lparr>mc_roles = [], mc_foreign = ''''\<rparr> | Some m \<Rightarrow> m)
           in if mc_roles m \<noteq> mc_roles d
              then (s\<lparr>cs_managed := Some (m\<lparr>mc_roles := mc_roles d\<rparr>)\<rparr>, True)
              else (s\<lparr>cs_managed := Some m\<rparr>, changed)))"

definition reconcilePlugins :: "plugin_configuration list \<Rightarrow> cluster_spec \<times> bool \<Rightarrow> cluster_spec \<times> bool" where
  "reconcilePlugins desired sc =
     (let (plugins, pluginsChanged) = reconcileBarmanPlugin (cs_plugins (fst sc)) desired
      in if pluginsChanged then ((fst sc)\<lparr>cs_plugins := plugins\<rparr>, True) else sc)"

definition onlyIf :: "bool \<Rightarrow> ('a \<Rightarrow> 'a) \<Rightarrow> 'a \<Rightarrow> 'a" where
  "onlyIf c f x = (if c then f x else x)"

text \<open>Every statement of \<open>reconcileClusterMutableFields\<close> after the storage has been accepted.\<close>

definition assignMutableFields :: "cluster_spec \<Rightarrow> cluster_spec \<times> bool \<Rightarrow> cluster_spec \<times> bool" where
  "assignMutableFields d sc =
     (let sc = assignField cs_instances (\<lambda>v s. s\<lparr>cs_instances := v\<rparr>) (cs_instances d) sc;
          sc = onlyIf (cs_imageName d \<noteq> '''')
                 (assignField cs_imageName (\<lambda>v s. s\<lparr>cs_imageName := v\<rparr>) (cs_imageName d)) sc;
          sc = assignField cs_resources (\<lambda>v s. s\<lparr>cs_resources := v\<rparr>) (cs_resources d) sc;
          sc = onlyIf (cs_enableSuperuserAccess d \<noteq> None)
                 (assignField cs_enableSuperuserAccess (\<lambda>v s. s\<lparr>cs_enableSuperuserAccess := v\<rparr>)
                    (cs_enableSuperuserAccess d)) sc;
          sc = assignField (\<lambda>s. pg_parameters (cs_postgres s))
                 (\<lambda>v s. s\<lparr>cs_postgres := (cs_postgres s)\<lparr>pg_parameters := v\<rparr>\<rparr>) (pg_parameters (cs_postgres d)) sc;
          sc = assignField (\<lambda>s. pg_pgHBA (cs_postgres s))
                 (\<lambda>v s. s\<lparr>cs_postgres := (cs_postgres s)\<lparr>pg_pgHBA := v\<rparr>\<rparr>) (pg_pgHBA (cs_postgres d)) sc;
          sc = assignField (\<lambda>s. pg_additionalLibraries (cs_postgres s))
                 (\<lambda>v s. s\<lparr>cs_postgres := (cs_postgres s)\<lparr>pg_additionalLibraries := v\<rparr>\<rparr>)
                 (pg_additionalLibraries (cs_postgres d)) sc;
          sc = assignField (\<lambda>s. af_enablePodAntiAffinity (cs_affinity s))
                 (\<lambda>v s. s\<lparr>cs_affinity := (cs_affinity s)\<lparr>af_enablePodAntiAffinity := v\<rparr>\<rparr>)
                 (af_enablePodAntiAffinity (cs_affinity d)) sc;
          sc = reconcileManaged (cs_managed d) sc
      in reconcilePlugins (cs_plugins d) sc)"

definition reconcileClusterMutableFields :: "env \<Rightarrow> cluster \<Rightarrow> cluster \<Rightarrow> (cluster \<times> bool) result" where
  "reconcileClusterMutableFields E existing desired =
     (case reconcileStorage E (cs_storage (cl_spec existing)) (cs_storage (cl_spec desired)) of
        Inl err \<Rightarrow> Inl err
      | Inr (storage, storageChanged) \<Rightarrow>
          (let (spec, changed) = assignMutableFields (cl_spec desired)
                 ((cl_spec existing)\<lparr>cs_storage := storage\<rparr>, storageChanged)
           in Inr (existing\<lparr>cl_spec := spec\<rparr>, changed)))"

section \<open>Readiness\<close>

definition RoleStatusReconciled :: string where "RoleStatusReconciled = ''reconciled''"

definition rolesOf :: "string list gomap \<Rightarrow> string \<Rightarrow> string list" where
  "rolesOf m k = (case fmlookup m k of None \<Rightarrow> [] | Some rs \<Rightarrow> rs)"

definition powerSyncManagedRolesReady :: "cluster \<Rightarrow> bool result" where
  "powerSyncManagedRolesReady cluster =
     (let cannot = cst_cannotReconcile (cl_status cluster);
          storageReasons = rolesOf cannot ''powersync_storage'';
          replicationReasons = rolesOf cannot ''powersync_replication'';
          reconciled = rolesOf (cst_byStatus (cl_status cluster)) RoleStatusReconciled
      in if length storageReasons > 0
         then Inl (Errorf (''CloudNativePG cannot reconcile role powersync_storage: '' @ show_strings storageReasons))
         else if length replicationReasons > 0
         then Inl (Errorf (''CloudNativePG cannot reconcile role powersync_replication: '' @ show_strings replicationReasons))
         else Inr (List.member reconciled ''powersync_storage'' \<and> List.member reconciled ''powersync_replication''))"

definition deploymentIsReady :: "deployment \<Rightarrow> bool" where
  "deploymentIsReady d =
     (let expected = (case dep_replicas d of None \<Rightarrow> 1 | Some r \<Rightarrow> r); st = dep_status d
      in dst_observedGeneration st = md_generation (dep_meta d) \<and> dst_updatedReplicas st = expected \<and>
         dst_readyReplicas st = expected \<and> dst_availableReplicas st = expected \<and> dst_unavailableReplicas st = 0)"

definition coreServicesReady :: "project \<Rightarrow> bool" where
  "coreServicesReady p =
     (let sv = st_services (p_status p)
      in ss_ready (svs_auth sv) \<and> ss_ready (svs_rest sv) \<and> ss_ready (svs_studio sv) \<and>
         ss_ready (svs_meta sv) \<and> ss_ready (svs_gateway sv))"

definition publicationIsApplied :: "publication \<Rightarrow> bool" where
  "publicationIsApplied pub =
     (pub_observedGeneration pub = md_generation (pub_meta pub) \<and> is_true (pub_applied pub))"

definition powerSyncStatusNeedsCleanup :: "env \<Rightarrow> project \<Rightarrow> bool" where
  "powerSyncStatusNeedsCleanup E p =
     (let sv = st_services (p_status p); cs = st_conditions (p_status p)
      in if svs_powersyncAPI sv \<noteq> noServiceStatus \<or> svs_powersyncReplication sv \<noteq> noServiceStatus then True
         else findStatusCondition E cs ConditionTypeCDCReady \<noteq> None \<or>
              findStatusCondition E cs ConditionTypePowersyncReady \<noteq> None)"

section \<open>Rollout hashes\<close>

definition emailHookSecretHashAnnotation :: string where
  "emailHookSecretHashAnnotation = ''supabase.guion.dev/email-hook-secret-hash''"
definition projectCredentialsHashAnnotation :: string where
  "projectCredentialsHashAnnotation = ''supabase.guion.dev/project-credentials-hash''"
definition powerSyncConfigHashAnnotation :: string where
  "powerSyncConfigHashAnnotation = ''supabase.guion.dev/powersync-config-hash''"
definition cdcScriptHashAnnotation :: string where
  "cdcScriptHashAnnotation = ''supabase.guion.dev/cdc-script-hash''"

definition annotateTemplate :: "string \<Rightarrow> string \<Rightarrow> deployment \<Rightarrow> deployment" where
  "annotateTemplate k v d =
     d\<lparr>dep_template := (dep_template d)\<lparr>pt_annotations := fmupd k v (pt_annotations (dep_template d))\<rparr>\<rparr>"

definition applyProjectCredentialsHash :: "deployment \<Rightarrow> string \<Rightarrow> deployment" where
  "applyProjectCredentialsHash d hash =
     (if hash = '''' then d else annotateTemplate projectCredentialsHashAnnotation hash d)"

definition applyPowerSyncConfigHash :: "env \<Rightarrow> deployment \<Rightarrow> string \<Rightarrow> string \<Rightarrow> deployment" where
  "applyPowerSyncConfigHash E d config syncRules =
     annotateTemplate powerSyncConfigHashAnnotation (hexEncode (sha256 E (config @ [CHR 0x00] @ syncRules))) d"

definition cdcScriptHash :: "env \<Rightarrow> config_map \<Rightarrow> string" where
  "cdcScriptHash E cm = hexEncode (sha256 E (goget (cm_data cm) ''setup.sh''))"

section \<open>Lemmas on ownership and labels\<close>

lemma filterOwners_eq:
  "filterOwners E n os = (filter (\<lambda>r. \<not> isProjectOwner E n r) os, \<exists>r \<in> set os. isProjectOwner E n r)"
  by (induction os) auto

lemma removeOwner_eq:
  "n \<noteq> '''' \<Longrightarrow> removeSupabaseProjectOwnerReference E m n =
     (m\<lparr>md_owners := filter (\<lambda>r. \<not> isProjectOwner E n r) (md_owners m)\<rparr>,
      \<exists>r \<in> set (md_owners m). isProjectOwner E n r)"
  by (auto simp: removeSupabaseProjectOwnerReference_def filterOwners_eq Let_def filter_id_conv
      intro!: object_meta.equality split: prod.splits)

lemma removeOwner_labels [simp]:
  "md_labels (fst (removeSupabaseProjectOwnerReference E m n)) = md_labels m"
  "objectKey (fst (removeSupabaseProjectOwnerReference E m n)) = objectKey m"
  by (simp_all add: removeSupabaseProjectOwnerReference_def Let_def objectKey_def split: prod.splits)

text \<open>The names the operator may not leave behind on a durable object.\<close>

definition unowned :: "env \<Rightarrow> string \<Rightarrow> object_meta \<Rightarrow> bool" where
  "unowned E n m = list_all (\<lambda>r. \<not> isProjectOwner E n r) (md_owners m)"

lemma removeOwner_unowned: "n \<noteq> '''' \<Longrightarrow> unowned E n (fst (removeSupabaseProjectOwnerReference E m n))"
  by (simp add: removeOwner_eq unowned_def list_all_iff)

lemma removeOwner_unchanged: "snd (removeSupabaseProjectOwnerReference E m n) = False \<Longrightarrow>
    fst (removeSupabaseProjectOwnerReference E m n) = m"
  by (auto simp: removeSupabaseProjectOwnerReference_def Let_def split: prod.splits if_splits)

lemma namedMeta_unowned [simp]: "unowned E n (namedMeta a b l)"
  by (simp add: unowned_def)

lemma mergeLabelLoop_lookup:
  "mergeLabelLoop d ks ls c = (ls', c') \<Longrightarrow>
     fmlookup ls' k = (if k \<in> set ks \<and> goget ls k \<noteq> goget d k then Some (goget d k) else fmlookup ls k) \<and>
     (c' \<longleftrightarrow> c \<or> (\<exists>k \<in> set ks. goget ls k \<noteq> goget d k))"
proof (induction ks arbitrary: ls c)
  case (Cons a ks)
  show ?case
  proof (cases "goget ls a = goget d a")
    case True
    with Cons.prems have "mergeLabelLoop d ks ls c = (ls', c')" by simp
    from Cons.IH [OF this] True show ?thesis by auto
  next
    case False
    with Cons.prems have "mergeLabelLoop d ks (fmupd a (goget d a) ls) True = (ls', c')" by simp
    from Cons.IH [OF this] False show ?thesis by auto
  qed
qed simp

text \<open>The order in which the labels are visited does not matter.\<close>

lemma mergeLabels_eq:
  assumes "lawful_range E"
  shows "mergeLabels E m d = (m', c) \<Longrightarrow>
    (\<forall>k. fmlookup (md_labels m') k =
       (if k |\<in>| fmdom d \<and> goget (md_labels m) k \<noteq> goget d k then Some (goget d k) else fmlookup (md_labels m) k)) \<and>
    m' = m\<lparr>md_labels := md_labels m'\<rparr> \<and>
    (c \<longleftrightarrow> (\<exists>k. k |\<in>| fmdom d \<and> goget (md_labels m) k \<noteq> goget d k))"
proof -
  have ks: "k \<in> set (rangeKeys E (fmdom d)) \<longleftrightarrow> k |\<in>| fmdom d" for k
    using assms by (metis lawful_range_def fset_of_list_elem)
  assume "mergeLabels E m d = (m', c)"
  then show ?thesis
    using mergeLabelLoop_lookup [of d "rangeKeys E (fmdom d)" "md_labels m" False "md_labels m'" c]
    by (auto simp: mergeLabels_def ks Bex_def split: if_splits prod.splits)
qed

lemma mergeLabels_keeps [simp]:
  "md_owners (fst (mergeLabels E m d)) = md_owners m"
  "objectKey (fst (mergeLabels E m d)) = objectKey m"
  by (simp_all add: mergeLabels_def objectKey_def split: prod.splits)

lemma mergeLabels_unowned [simp]: "unowned E' n (fst (mergeLabels E m d)) = unowned E' n m"
  by (simp add: unowned_def)

lemma mergeLabels_instance:
  "goget d k = goget (md_labels m) k \<Longrightarrow> goget (md_labels (fst (mergeLabels E m d))) k = goget (md_labels m) k"
  using mergeLabelLoop_lookup [of d "rangeKeys E (fmdom d)" "md_labels m" False _ _ k]
  by (auto simp: mergeLabels_def goget_def split: prod.splits)

section \<open>Field assignment as a contract\<close>

text \<open>
  The helper for mutable fields is a sequence of conditional assignments. What it needs of a
  field is that reading returns what was written and that writing back what is there changes
  nothing; then a conditional assignment always ends with the desired value, and reports a
  change exactly when there is one.
\<close>

locale field =
  fixes get :: "'s \<Rightarrow> 'a" and put :: "'a \<Rightarrow> 's \<Rightarrow> 's"
  assumes get_put: "get (put v s) = v"
    and put_get: "put (get s) s = s"
begin

lemma fst_assign: "fst (assignField get put v sc) = put v (fst sc)"
  using put_get by (auto simp: assignField_def split: prod.splits)

lemma snd_assign: "snd (assignField get put v sc) \<longleftrightarrow> snd sc \<or> get (fst sc) \<noteq> v"
  by (auto simp: assignField_def split: prod.splits)

lemma assign_again: "assignField get put v (put v s, c) = (put v s, c)"
  by (simp add: assignField_def get_put)

end

interpretation instances: field cs_instances "\<lambda>v s. s\<lparr>cs_instances := v\<rparr>"
  by unfold_locales simp_all

interpretation imageName: field cs_imageName "\<lambda>v s. s\<lparr>cs_imageName := v\<rparr>"
  by unfold_locales simp_all

interpretation resources: field cs_resources "\<lambda>v s. s\<lparr>cs_resources := v\<rparr>"
  by unfold_locales simp_all

interpretation superuser: field cs_enableSuperuserAccess "\<lambda>v s. s\<lparr>cs_enableSuperuserAccess := v\<rparr>"
  by unfold_locales simp_all

interpretation parameters: field "\<lambda>s. pg_parameters (cs_postgres s)"
    "\<lambda>v s. s\<lparr>cs_postgres := (cs_postgres s)\<lparr>pg_parameters := v\<rparr>\<rparr>"
  by unfold_locales simp_all

interpretation pgHBA: field "\<lambda>s. pg_pgHBA (cs_postgres s)"
    "\<lambda>v s. s\<lparr>cs_postgres := (cs_postgres s)\<lparr>pg_pgHBA := v\<rparr>\<rparr>"
  by unfold_locales simp_all

interpretation libraries: field "\<lambda>s. pg_additionalLibraries (cs_postgres s)"
    "\<lambda>v s. s\<lparr>cs_postgres := (cs_postgres s)\<lparr>pg_additionalLibraries := v\<rparr>\<rparr>"
  by unfold_locales simp_all

interpretation antiAffinity: field "\<lambda>s. af_enablePodAntiAffinity (cs_affinity s)"
    "\<lambda>v s. s\<lparr>cs_affinity := (cs_affinity s)\<lparr>af_enablePodAntiAffinity := v\<rparr>\<rparr>"
  by unfold_locales simp_all

lemmas fst_assigns = instances.fst_assign imageName.fst_assign resources.fst_assign superuser.fst_assign
  parameters.fst_assign pgHBA.fst_assign libraries.fst_assign antiAffinity.fst_assign
lemmas snd_assigns = instances.snd_assign imageName.snd_assign resources.snd_assign superuser.snd_assign
  parameters.snd_assign pgHBA.snd_assign libraries.snd_assign antiAffinity.snd_assign

section \<open>Lemmas on cluster fields\<close>

lemma reconcileStorageSize_ok:
  assumes "reconcileStorageSize E e d = Inr (s, c)"
  shows "s = e\<lparr>sc_size := (if sc_size d = '''' then sc_size e else sc_size d)\<rparr>"
    and "c \<longleftrightarrow> sc_size s \<noteq> sc_size e"
    and "sc_size d \<noteq> '''' \<Longrightarrow> \<exists>q. parseQuantity E (sc_size d) = Inr q"
    and "sc_size e \<noteq> '''' \<Longrightarrow> sc_size d \<noteq> '''' \<Longrightarrow>
      \<exists>q r. parseQuantity E (sc_size e) = Inr q \<and> parseQuantity E (sc_size s) = Inr r \<and> q \<le> r"
  using assms
  by (auto simp: reconcileStorageSize_def Let_def split: if_splits sum.splits)

lemma reconcileStorage_ok:
  assumes "reconcileStorage E e d = Inr (s, c)"
  shows "s = \<lparr>sc_size = (if sc_size d = '''' then sc_size e else sc_size d),
      sc_storageClass = (if sc_storageClass d = None then sc_storageClass e else sc_storageClass d),
      sc_resizeInUseVolumes = (if sc_resizeInUseVolumes d = None then sc_resizeInUseVolumes e else sc_resizeInUseVolumes d),
      sc_pvcTemplate = (if sc_pvcTemplate d = None then sc_pvcTemplate e else sc_pvcTemplate d)\<rparr>"
    and "c \<longleftrightarrow> s \<noteq> e"
    and "\<exists>c0. reconcileStorageSize E e d = Inr (e\<lparr>sc_size := sc_size s\<rparr>, c0)"
proof -
  from assms obtain s0 c0 where s0: "reconcileStorageSize E e d = Inr (s0, c0)"
    by (auto simp: reconcileStorage_def split: sum.splits prod.splits)
  note size = reconcileStorageSize_ok(1,2) [OF s0]
  show "s = \<lparr>sc_size = (if sc_size d = '''' then sc_size e else sc_size d),
      sc_storageClass = (if sc_storageClass d = None then sc_storageClass e else sc_storageClass d),
      sc_resizeInUseVolumes = (if sc_resizeInUseVolumes d = None then sc_resizeInUseVolumes e else sc_resizeInUseVolumes d),
      sc_pvcTemplate = (if sc_pvcTemplate d = None then sc_pvcTemplate e else sc_pvcTemplate d)\<rparr>"
    using assms s0 size(1)
    by (cases e) (auto simp: reconcileStorage_def Let_def split: if_splits)
  then show "c \<longleftrightarrow> s \<noteq> e"
    using assms s0 size
    by (cases e) (auto simp: reconcileStorage_def Let_def split: if_splits)
  show "\<exists>c0. reconcileStorageSize E e d = Inr (e\<lparr>sc_size := sc_size s\<rparr>, c0)"
    using s0 size(1) \<open>s = _\<close> by auto
qed

lemma reconcileStorage_again:
  assumes "reconcileStorage E e d = Inr (s, c)"
  shows "reconcileStorage E s d = Inr (s, False)"
proof -
  from reconcileStorage_ok(3) [OF assms] obtain c0
    where s0: "reconcileStorageSize E e d = Inr (e\<lparr>sc_size := sc_size s\<rparr>, c0)" ..
  note s = reconcileStorage_ok(1) [OF assms]
  have "reconcileStorageSize E s d = Inr (s, False)"
    using reconcileStorageSize_ok(3) [OF s0]
    by (cases "sc_size d = ''''") (auto simp: reconcileStorageSize_def Let_def s)
  moreover have "sc_storageClass d = None \<or> sc_storageClass s = sc_storageClass d"
      "sc_resizeInUseVolumes d = None \<or> sc_resizeInUseVolumes s = sc_resizeInUseVolumes d"
      "sc_pvcTemplate d = None \<or> sc_pvcTemplate s = sc_pvcTemplate d"
    by (simp_all add: s)
  ultimately show ?thesis
    by (auto simp: reconcileStorage_def Let_def)
qed

text \<open>\<open>reconcileBarmanPlugin\<close>: the Barman entries become the desired one, the others stay.\<close>

definition isBarman :: "plugin_configuration \<Rightarrow> bool" where
  "isBarman p \<longleftrightarrow> pc_name p = BarmanCloudPluginName"

lemma barmanLoop_None:
  "barmanLoop None ps = (filter (\<lambda>p. \<not> isBarman p) ps, False, \<exists>p \<in> set ps. isBarman p)"
  by (induction ps) (auto simp: isBarman_def)

lemma barmanLoop_Some:
  "barmanLoop (Some d) ps =
     (map (\<lambda>p. if isBarman p then d else p) ps, \<exists>p \<in> set ps. isBarman p, \<exists>p \<in> set ps. isBarman p \<and> p \<noteq> d)"
  by (induction ps) (auto simp: isBarman_def)

lemma find_barman: "List.find (\<lambda>p. pc_name p = BarmanCloudPluginName) ds = Some d \<Longrightarrow> isBarman d"
  by (auto simp: find_Some_iff isBarman_def)

lemma reconcileBarmanPlugin_unchanged:
  "reconcileBarmanPlugin es ds = (ps, False) \<Longrightarrow> ps = es"
  by (auto simp: reconcileBarmanPlugin_def barmanLoop_None barmanLoop_Some Let_def filter_id_conv map_idI
      split: option.splits if_splits prod.splits)

lemma reconcileBarmanPlugin_again:
  "reconcileBarmanPlugin (fst (reconcileBarmanPlugin es ds)) ds = (fst (reconcileBarmanPlugin es ds), False)"
proof (cases "List.find (\<lambda>p. pc_name p = BarmanCloudPluginName) ds")
  case None
  then show ?thesis by (simp add: reconcileBarmanPlugin_def barmanLoop_None)
next
  case (Some d)
  let ?ps = "fst (reconcileBarmanPlugin es ds)"
  have ps: "?ps = map (\<lambda>p. if isBarman p then d else p) es @ (if \<exists>p \<in> set es. isBarman p then [] else [d])"
    by (simp add: reconcileBarmanPlugin_def barmanLoop_Some Some Let_def)
  have "(\<exists>p \<in> set ?ps. isBarman p)" and settled: "\<And>p. p \<in> set ?ps \<Longrightarrow> isBarman p \<Longrightarrow> p = d"
    using find_barman [OF Some] unfolding ps by (auto split: if_splits)
  moreover from settled have "map (\<lambda>p. if isBarman p then d else p) ?ps = ?ps"
    by (intro map_idI) auto
  ultimately show ?thesis
    by (auto simp: reconcileBarmanPlugin_def [of ?ps] barmanLoop_Some Some Let_def)
qed

lemma reconcileBarmanPlugin_foreign:
  "filter (\<lambda>p. \<not> isBarman p) (fst (reconcileBarmanPlugin es ds)) = filter (\<lambda>p. \<not> isBarman p) es"
proof (cases "List.find (\<lambda>p. pc_name p = BarmanCloudPluginName) ds")
  case None
  then show ?thesis by (simp add: reconcileBarmanPlugin_def barmanLoop_None)
next
  case (Some d)
  have "filter (\<lambda>p. \<not> isBarman p) (map (\<lambda>p. if isBarman p then d else p) es) = filter (\<lambda>p. \<not> isBarman p) es"
    using find_barman [OF Some] by (induction es) auto
  then show ?thesis
    using find_barman [OF Some] by (auto simp: reconcileBarmanPlugin_def barmanLoop_Some Some Let_def)
qed

text \<open>The cluster specification after a successful update.\<close>

definition managedAfter :: "managed_configuration option \<Rightarrow> managed_configuration option \<Rightarrow> managed_configuration option" where
  "managedAfter e d =
     (case d of None \<Rightarrow> e
      | Some d' \<Rightarrow> Some ((case e of None \<Rightarrow> \<lparr>mc_roles = [], mc_foreign = ''''\<rparr> | Some m \<Rightarrow> m)\<lparr>mc_roles := mc_roles d'\<rparr>))"

lemma fst_reconcileManaged: "fst (reconcileManaged d sc) = (fst sc)\<lparr>cs_managed := managedAfter (cs_managed (fst sc)) d\<rparr>"
  by (auto simp: reconcileManaged_def managedAfter_def Let_def split: option.splits prod.splits)

lemma snd_reconcileManaged:
  "snd (reconcileManaged d sc) \<longleftrightarrow> snd sc \<or> (case d of None \<Rightarrow> False | Some d' \<Rightarrow>
     mc_roles (case cs_managed (fst sc) of None \<Rightarrow> \<lparr>mc_roles = [], mc_foreign = ''''\<rparr> | Some m \<Rightarrow> m) \<noteq> mc_roles d')"
  by (auto simp: reconcileManaged_def Let_def split: option.splits prod.splits)

definition specAfter :: "cluster_spec \<Rightarrow> cluster_spec \<Rightarrow> cluster_spec" where
  "specAfter d s = s\<lparr>
     cs_instances := cs_instances d,
     cs_imageName := (if cs_imageName d = '''' then cs_imageName s else cs_imageName d),
     cs_resources := cs_resources d,
     cs_enableSuperuserAccess := (if cs_enableSuperuserAccess d = None then cs_enableSuperuserAccess s else cs_enableSuperuserAccess d),
     cs_postgres := (cs_postgres s)\<lparr>pg_parameters := pg_parameters (cs_postgres d), pg_pgHBA := pg_pgHBA (cs_postgres d),
       pg_additionalLibraries := pg_additionalLibraries (cs_postgres d)\<rparr>,
     cs_affinity := (cs_affinity s)\<lparr>af_enablePodAntiAffinity := af_enablePodAntiAffinity (cs_affinity d)\<rparr>,
     cs_managed := managedAfter (cs_managed s) (cs_managed d),
     cs_plugins := fst (reconcileBarmanPlugin (cs_plugins s) (cs_plugins d))\<rparr>"

lemma fst_reconcilePlugins:
  "fst (reconcilePlugins ds sc) = (fst sc)\<lparr>cs_plugins := fst (reconcileBarmanPlugin (cs_plugins (fst sc)) ds)\<rparr>"
  using reconcileBarmanPlugin_unchanged [of "cs_plugins (fst sc)" ds]
  by (auto simp: reconcilePlugins_def split: prod.splits)

lemma snd_reconcilePlugins:
  "snd (reconcilePlugins ds sc) \<longleftrightarrow> snd sc \<or> snd (reconcileBarmanPlugin (cs_plugins (fst sc)) ds)"
  by (auto simp: reconcilePlugins_def split: prod.splits)

lemma onlyIf_proj:
  "fst (onlyIf c f sc) = (if c then fst (f sc) else fst sc)"
  "snd (onlyIf c f sc) = (if c then snd (f sc) else snd sc)"
  by (simp_all add: onlyIf_def)

lemmas fst_steps = fst_assigns fst_reconcileManaged fst_reconcilePlugins onlyIf_proj(1)
lemmas snd_steps = snd_assigns snd_reconcileManaged snd_reconcilePlugins onlyIf_proj(2)

lemma fst_assignMutableFields: "fst (assignMutableFields d sc) = specAfter d (fst sc)"
  by (simp add: assignMutableFields_def specAfter_def Let_def fst_steps)

lemma assignMutableFields_again:
  "assignMutableFields d (specAfter d s, False) = (specAfter d s, False)"
proof -
  have again: "specAfter d (specAfter d s) = specAfter d s"
    by (simp add: specAfter_def reconcileBarmanPlugin_again managedAfter_def split: option.splits)
  have "\<not> snd (assignMutableFields d (specAfter d s, False))"
    by (simp add: assignMutableFields_def specAfter_def Let_def fst_steps snd_steps reconcileBarmanPlugin_again
        managedAfter_def split: option.splits)
  with again fst_assignMutableFields [of d "(specAfter d s, False)"] show ?thesis
    by (metis (full_types) fst_conv prod.collapse)
qed

section \<open>Properties\<close>






end
