(* ===== verification/Normalize.thy ===== *)
theory Normalize
  imports Merge
begin

text \<open>
  The defaults the API server applies to pod templates and cron jobs, reproduced by the
  operator so that comparing a desired object with a stored one does not see them as a
  difference (\<open>normalizePodTemplateDefaults\<close> and its helpers, \<open>normalizeCronJobDefaults\<close>).
\<close>

definition RestartPolicyAlways :: string where "RestartPolicyAlways = ''Always''"
definition DNSClusterFirst :: string where "DNSClusterFirst = ''ClusterFirst''"
definition DefaultSchedulerName :: string where "DefaultSchedulerName = ''default-scheduler''"
definition TerminationMessagePathDefault :: string where "TerminationMessagePathDefault = ''/dev/termination-log''"
definition TerminationMessageReadFile :: string where "TerminationMessageReadFile = ''File''"
definition ProtocolTCP :: string where "ProtocolTCP = ''TCP''"
definition URISchemeHTTP :: string where "URISchemeHTTP = ''HTTP''"

definition orDefault :: "string \<Rightarrow> string \<Rightarrow> string" where
  "orDefault v d = (if v = '''' then d else v)"

definition orSome :: "'a option \<Rightarrow> 'a \<Rightarrow> 'a option" where
  "orSome v d = (case v of None \<Rightarrow> Some d | Some x \<Rightarrow> Some x)"

definition orNonzero :: "int \<Rightarrow> int \<Rightarrow> int" where
  "orNonzero v d = (if v = 0 then d else v)"

definition defaultModeSource :: "mode_source \<Rightarrow> mode_source" where
  "defaultModeSource m = m\<lparr>ms_defaultMode := orSome (ms_defaultMode m) 420\<rparr>"

definition normalizeVolumeDefaults :: "volume \<Rightarrow> volume" where
  "normalizeVolumeDefaults v = v\<lparr>
     vol_configMap := map_option defaultModeSource (vol_configMap v),
     vol_secret := map_option defaultModeSource (vol_secret v),
     vol_downwardAPI := map_option defaultModeSource (vol_downwardAPI v),
     vol_projected := map_option defaultModeSource (vol_projected v)\<rparr>"

definition normalizeProbeDefaults :: "probe option \<Rightarrow> probe option" where
  "normalizeProbeDefaults = map_option (\<lambda>pr. pr\<lparr>
     pr_timeoutSeconds := orNonzero (pr_timeoutSeconds pr) 1,
     pr_periodSeconds := orNonzero (pr_periodSeconds pr) 10,
     pr_successThreshold := orNonzero (pr_successThreshold pr) 1,
     pr_failureThreshold := orNonzero (pr_failureThreshold pr) 3,
     pr_httpGet := map_option (\<lambda>g. g\<lparr>hg_scheme := orDefault (hg_scheme g) URISchemeHTTP\<rparr>) (pr_httpGet pr)\<rparr>)"

definition normalizeContainerDefaults :: "container \<Rightarrow> container" where
  "normalizeContainerDefaults c = c\<lparr>
     ct_terminationMessagePath := orDefault (ct_terminationMessagePath c) TerminationMessagePathDefault,
     ct_terminationMessagePolicy := orDefault (ct_terminationMessagePolicy c) TerminationMessageReadFile,
     ct_ports := map (\<lambda>pt. pt\<lparr>cp_protocol := orDefault (cp_protocol pt) ProtocolTCP\<rparr>) (ct_ports c),
     ct_livenessProbe := normalizeProbeDefaults (ct_livenessProbe c),
     ct_readinessProbe := normalizeProbeDefaults (ct_readinessProbe c),
     ct_startupProbe := normalizeProbeDefaults (ct_startupProbe c)\<rparr>"

text \<open>The empty security context is the foreign value that stands for the zero struct.\<close>

definition normalizePodTemplateDefaults :: "pod_template \<Rightarrow> pod_template" where
  "normalizePodTemplateDefaults t = (let s = pt_spec t in t\<lparr>pt_spec := s\<lparr>
     ps_restartPolicy := orDefault (ps_restartPolicy s) RestartPolicyAlways,
     ps_terminationGracePeriodSeconds := orSome (ps_terminationGracePeriodSeconds s) 30,
     ps_dnsPolicy := orDefault (ps_dnsPolicy s) DNSClusterFirst,
     ps_securityContext := orSome (ps_securityContext s) '''',
     ps_schedulerName := orDefault (ps_schedulerName s) DefaultSchedulerName,
     ps_volumes := map normalizeVolumeDefaults (ps_volumes s),
     ps_initContainers := map normalizeContainerDefaults (ps_initContainers s),
     ps_containers := map normalizeContainerDefaults (ps_containers s)\<rparr>\<rparr>)"

definition normalizeCronJobDefaults :: "cron_job_spec \<Rightarrow> cron_job_spec" where
  "normalizeCronJobDefaults s = s\<lparr>
     cjs_suspend := orSome (cjs_suspend s) False,
     cjs_jobTemplate := (cjs_jobTemplate s)\<lparr>js_template := normalizePodTemplateDefaults (js_template (cjs_jobTemplate s))\<rparr>\<rparr>"

section \<open>Normalisers as a contract\<close>

text \<open>
  A normaliser chooses a representative: applying it twice is applying it once. That is what
  makes "compare the normal forms, then store the desired normal form" settle: once stored,
  the object compares equal.
\<close>

locale normalizer =
  fixes n :: "'a \<Rightarrow> 'a"
  assumes idem: "n (n x) = n x"
begin

lemma stored_normal_form_settles: "n y = n x \<longleftrightarrow> n y = n (n x)"
  by (simp add: idem)

lemma idem_comp: "n \<circ> n = n"
  by (simp add: comp_def idem)

lemma idem_option: "map_option n (map_option n v) = map_option n v"
  by (simp add: option.map_comp comp_def idem)

end

lemma orDefault_idem [simp]: "orDefault (orDefault v d) d = orDefault v d"
  by (simp add: orDefault_def)

lemma orSome_idem [simp]: "orSome (orSome v d) d = orSome v d"
  by (simp add: orSome_def split: option.splits)

lemma orNonzero_idem [simp]: "orNonzero (orNonzero v d) d = orNonzero v d"
  by (simp add: orNonzero_def)

interpretation modeSource: normalizer defaultModeSource
  by unfold_locales (simp add: defaultModeSource_def)

interpretation volumeN: normalizer normalizeVolumeDefaults
  by unfold_locales (simp add: normalizeVolumeDefaults_def modeSource.idem_option)

interpretation probeN: normalizer normalizeProbeDefaults
  by unfold_locales (simp add: normalizeProbeDefaults_def option.map_comp comp_def)

interpretation containerN: normalizer normalizeContainerDefaults
  by unfold_locales (simp add: normalizeContainerDefaults_def probeN.idem)

interpretation podTemplateN: normalizer normalizePodTemplateDefaults
  by unfold_locales
    (simp add: normalizePodTemplateDefaults_def Let_def volumeN.idem_comp containerN.idem_comp)

interpretation cronJobN: normalizer normalizeCronJobDefaults
  by unfold_locales (simp add: normalizeCronJobDefaults_def podTemplateN.idem)

section \<open>What normalisation leaves alone\<close>

lemma normalizeContainer_keeps [simp]:
  "ct_name (normalizeContainerDefaults c) = ct_name c"
  "ct_image (normalizeContainerDefaults c) = ct_image c"
  "ct_env (normalizeContainerDefaults c) = ct_env c"
  "ct_command (normalizeContainerDefaults c) = ct_command c"
  by (simp_all add: normalizeContainerDefaults_def)

lemma normalizePodTemplate_keeps [simp]:
  "pt_labels (normalizePodTemplateDefaults t) = pt_labels t"
  "pt_annotations (normalizePodTemplateDefaults t) = pt_annotations t"
  by (simp_all add: normalizePodTemplateDefaults_def Let_def)

end
