(* ===== verification/Apply.thy ===== *)
theory Apply
  imports Normalize
begin

text \<open>
  The \<open>createOrUpdate...\<close> methods of the reconciler, \<open>createOrCheckJob\<close>,
  \<open>deletePowerSyncOwnedResource\<close> and \<open>deploymentStatus\<close>. Each \<open>createOrUpdate\<close> method reads
  the object, creates it when it is missing, and otherwise merges the desired state into the
  stored object and writes it back if something changed. The merge is the pure function
  \<open>merge...\<close>, in the order of the source's statements; \<open>upsert\<close> is the request pattern all
  methods share.
\<close>

section \<open>The request pattern\<close>

definition upsert ::
  "env \<Rightarrow> kind \<Rightarrow> (obj \<Rightarrow> 'a option) \<Rightarrow> ('a \<Rightarrow> obj) \<Rightarrow> (string \<Rightarrow> go_error \<Rightarrow> go_error) \<Rightarrow>
   key \<Rightarrow> 'a \<Rightarrow> ('a \<Rightarrow> ('a \<times> bool) result) \<Rightarrow> unit result handler" where
  "upsert E k as wrap blame name desired merge = do {
     r \<leftarrow> fetch E k as name;
     case r of
       Inl err \<Rightarrow>
         if IsNotFound err then do {
           c \<leftarrow> send E (Create (wrap desired));
           case c of Inl e \<Rightarrow> fail (blame ''create'' e) | Inr _ \<Rightarrow> ok () }
         else fail (blame ''get'' err)
     | Inr existing \<Rightarrow>
         (case merge existing of
            Inl e \<Rightarrow> fail e
          | Inr (updated, changed) \<Rightarrow>
              if \<not> changed then ok ()
              else do {
                u \<leftarrow> send E (Update (wrap updated));
                case u of Inl e \<Rightarrow> fail (blame ''update'' e) | Inr _ \<Rightarrow> ok () }) }"

text \<open>Returning the client's error as it is, or behind \<open>failed to <verb> <kind>: \<close>.\<close>

definition plainError :: "string \<Rightarrow> go_error \<Rightarrow> go_error" where
  "plainError verb e = e"

definition failedTo :: "string \<Rightarrow> string \<Rightarrow> go_error \<Rightarrow> go_error" where
  "failedTo kind verb e = Wrap (''failed to '' @ verb @ '' '' @ kind @ '': '') e"

text \<open>\<open>controllerutil.SetControllerReference\<close> on a stored object, with the comparison of the owners.\<close>

definition adopt :: "env \<Rightarrow> project \<Rightarrow> object_meta \<Rightarrow> (object_meta \<times> bool) result" where
  "adopt E p m =
     (case setControllerReference E p m of
        Inl e \<Rightarrow> Inl e
      | Inr owners \<Rightarrow> Inr (m\<lparr>md_owners := owners\<rparr>, owners \<noteq> md_owners m))"

section \<open>Secrets\<close>

definition mergeSecret :: "env \<Rightarrow> project \<Rightarrow> secret \<Rightarrow> secret \<Rightarrow> (secret \<times> bool) result" where
  "mergeSecret E p desired existing =
     (case adopt E p (sec_meta existing) of
        Inl e \<Rightarrow> Inl e
      | Inr (m, ownerChanged) \<Rightarrow> Inr (existing\<lparr>sec_meta := m\<rparr>, ownerChanged))"

definition createOrUpdateSecret :: "env \<Rightarrow> secret \<Rightarrow> unit result handler" where
  "createOrUpdateSecret E secret = do {
     p \<leftarrow> getProject;
     case adopt E p (sec_meta secret) of
       Inl e \<Rightarrow> fail e
     | Inr (m, _) \<Rightarrow>
         upsert E KSecret asSecret OSecret plainError (objectKey m) (secret\<lparr>sec_meta := m\<rparr>) (mergeSecret E p secret) }"

section \<open>ConfigMaps\<close>

definition mergeConfigMap :: "env \<Rightarrow> project \<Rightarrow> config_map \<Rightarrow> config_map \<Rightarrow> (config_map \<times> bool) result" where
  "mergeConfigMap E p desired existing =
     (if goget (md_labels (cm_meta existing)) LabelInstance \<noteq> p_name p
      then Inl (Errorf (''refusing to adopt ConfigMap '' @ md_name (cm_meta existing) @ '' without the project instance label''))
      else case adopt E p (cm_meta existing) of
        Inl e \<Rightarrow> Inl e
      | Inr (m, ownerChanged) \<Rightarrow>
          (let (m', labelsChanged) = mergeLabels E m (md_labels (cm_meta desired))
           in if cm_data existing = cm_data desired \<and> \<not> ownerChanged \<and> \<not> labelsChanged
              then Inr (existing\<lparr>cm_meta := m'\<rparr>, False)
              else Inr (existing\<lparr>cm_meta := m', cm_data := cm_data desired\<rparr>, True)))"

definition createOrUpdateConfigMap :: "env \<Rightarrow> config_map \<Rightarrow> unit result handler" where
  "createOrUpdateConfigMap E configMap = do {
     p \<leftarrow> getProject;
     case adopt E p (cm_meta configMap) of
       Inl e \<Rightarrow> fail e
     | Inr (m, _) \<Rightarrow>
         upsert E KConfigMap asConfigMap OConfigMap plainError (objectKey m) (configMap\<lparr>cm_meta := m\<rparr>)
           (mergeConfigMap E p configMap) }"

section \<open>Deployments\<close>

definition mergeDeployment :: "env \<Rightarrow> project \<Rightarrow> deployment \<Rightarrow> deployment \<Rightarrow> (deployment \<times> bool) result" where
  "mergeDeployment E p desired existing =
     (case adopt E p (dep_meta existing) of
        Inl e \<Rightarrow> Inl e
      | Inr (m, ownerChanged) \<Rightarrow>
          (let template = normalizePodTemplateDefaults (dep_template desired);
               actual = normalizePodTemplateDefaults (dep_template existing);
               strategyChanged = (ds_type (dep_strategy desired) \<noteq> '''' \<and> dep_strategy existing \<noteq> dep_strategy desired)
           in if dep_replicas existing = dep_replicas desired \<and> actual = template \<and> \<not> ownerChanged \<and> \<not> strategyChanged
              then Inr (existing\<lparr>dep_meta := m\<rparr>, False)
              else Inr (existing\<lparr>dep_meta := m, dep_replicas := dep_replicas desired, dep_template := template,
                     dep_strategy := (if strategyChanged then dep_strategy desired else dep_strategy existing)\<rparr>, True)))"

text \<open>The deployment may be nil: a disabled service.\<close>

definition createOrUpdateDeployment :: "env \<Rightarrow> deployment option \<Rightarrow> unit result handler" where
  "createOrUpdateDeployment E deploymentPtr =
     (case deploymentPtr of None \<Rightarrow> ok () | Some deployment \<Rightarrow> do {
        p \<leftarrow> getProject;
        case adopt E p (dep_meta deployment) of
          Inl e \<Rightarrow> fail e
        | Inr (m, _) \<Rightarrow>
            upsert E KDeployment asDeployment ODeployment plainError (objectKey m) (deployment\<lparr>dep_meta := m\<rparr>)
              (mergeDeployment E p deployment) })"

definition deploymentStatus :: "env \<Rightarrow> deployment option \<Rightarrow> (bool \<times> int) result handler" where
  "deploymentStatus E desiredPtr =
     (case desiredPtr of None \<Rightarrow> ok (False, 0) | Some desired \<Rightarrow> do {
        r \<leftarrow> fetch E KDeployment asDeployment (objectKey (dep_meta desired));
        case r of
          Inl err \<Rightarrow> if IsNotFound err then ok (False, 0) else fail err
        | Inr existing \<Rightarrow> ok (deploymentIsReady existing, dst_availableReplicas (dep_status existing)) })"

section \<open>Services\<close>

definition mergeService :: "env \<Rightarrow> project \<Rightarrow> service \<Rightarrow> service \<Rightarrow> (service \<times> bool) result" where
  "mergeService E p desired existing =
     (case adopt E p (svc_meta existing) of
        Inl e \<Rightarrow> Inl e
      | Inr (m, ownerChanged) \<Rightarrow>
          if svc_ports existing = svc_ports desired \<and> svc_selector existing = svc_selector desired \<and> \<not> ownerChanged
          then Inr (existing\<lparr>svc_meta := m\<rparr>, False)
          else Inr (existing\<lparr>svc_meta := m, svc_ports := svc_ports desired, svc_selector := svc_selector desired\<rparr>, True))"

definition createOrUpdateService :: "env \<Rightarrow> service option \<Rightarrow> unit result handler" where
  "createOrUpdateService E servicePtr =
     (case servicePtr of None \<Rightarrow> ok () | Some service \<Rightarrow> do {
        p \<leftarrow> getProject;
        case adopt E p (svc_meta service) of
          Inl e \<Rightarrow> fail e
        | Inr (m, _) \<Rightarrow>
            upsert E KService asService OService plainError (objectKey m) (service\<lparr>svc_meta := m\<rparr>)
              (mergeService E p service) })"

section \<open>Cron jobs\<close>

definition mergeCronJob :: "env \<Rightarrow> project \<Rightarrow> cron_job \<Rightarrow> cron_job \<Rightarrow> (cron_job \<times> bool) result" where
  "mergeCronJob E p desired existing =
     (case adopt E p (cj_meta existing) of
        Inl e \<Rightarrow> Inl e
      | Inr (m, ownerChanged) \<Rightarrow>
          (let spec = normalizeCronJobDefaults (cj_spec desired);
               actual = normalizeCronJobDefaults (cj_spec existing);
               (m', labelsChanged) = mergeLabels E m (md_labels (cj_meta desired))
           in if actual = spec \<and> \<not> ownerChanged \<and> \<not> labelsChanged
              then Inr (existing\<lparr>cj_meta := m'\<rparr>, False)
              else Inr (existing\<lparr>cj_meta := m', cj_spec := spec\<rparr>, True)))"

definition createOrUpdateCronJob :: "env \<Rightarrow> cron_job \<Rightarrow> unit result handler" where
  "createOrUpdateCronJob E cronJob = do {
     p \<leftarrow> getProject;
     case adopt E p (cj_meta cronJob) of
       Inl e \<Rightarrow> fail e
     | Inr (m, _) \<Rightarrow>
         upsert E KCronJob asCronJob OCronJob plainError (objectKey m) (cronJob\<lparr>cj_meta := m\<rparr>)
           (mergeCronJob E p cronJob) }"

section \<open>Durable objects: no owner\<close>

definition mergeObjectStore :: "env \<Rightarrow> object_store \<Rightarrow> object_store \<Rightarrow> (object_store \<times> bool) result" where
  "mergeObjectStore E desired existing =
     (let projectName = goget (md_labels (os_meta desired)) LabelInstance;
          instance' = goget (md_labels (os_meta existing)) LabelInstance
      in if projectName = ''''
         then Inl (Errorf (''ObjectStore '' @ md_name (os_meta existing) @ '' has no project instance label''))
         else if instance' \<noteq> projectName
         then Inl (Errorf (''ObjectStore '' @ md_name (os_meta existing) @ '' has instance label '' @ Quote instance' @
                '', expected '' @ Quote projectName))
         else let (m, ownerChanged) = removeSupabaseProjectOwnerReference E (os_meta existing) projectName;
                  (m', labelsChanged) = mergeLabels E m (md_labels (os_meta desired));
                  want = oss_configuration (os_spec desired);
                  current = oss_configuration (os_spec existing);
                  configurationChanged =
                    (osc_barmanCredentials current \<noteq> osc_barmanCredentials want \<or>
                     osc_endpointURL current \<noteq> osc_endpointURL want \<or>
                     osc_destinationPath current \<noteq> osc_destinationPath want \<or>
                     (osc_wal want \<noteq> None \<and> osc_wal current \<noteq> osc_wal want) \<or>
                     (osc_data want \<noteq> None \<and> osc_data current \<noteq> osc_data want));
                  changed = (ownerChanged \<or> labelsChanged \<or> configurationChanged \<or>
                     oss_retentionPolicy (os_spec existing) \<noteq> oss_retentionPolicy (os_spec desired));
                  config = current\<lparr>osc_barmanCredentials := osc_barmanCredentials want,
                     osc_endpointURL := osc_endpointURL want, osc_destinationPath := osc_destinationPath want,
                     osc_wal := (if osc_wal want \<noteq> None then osc_wal want else osc_wal current),
                     osc_data := (if osc_data want \<noteq> None then osc_data want else osc_data current)\<rparr>
              in Inr (existing\<lparr>os_meta := m', os_spec := (os_spec existing)\<lparr>oss_configuration := config,
                   oss_retentionPolicy := oss_retentionPolicy (os_spec desired)\<rparr>\<rparr>, changed))"

definition createOrUpdateObjectStore :: "env \<Rightarrow> object_store option \<Rightarrow> unit result handler" where
  "createOrUpdateObjectStore E objectStorePtr =
     (case objectStorePtr of None \<Rightarrow> ok () | Some objectStore \<Rightarrow>
        upsert E KObjectStore asObjectStore OObjectStore (failedTo ''ObjectStore'') (objectKey (os_meta objectStore))
          objectStore (mergeObjectStore E objectStore))"

definition mergeScheduledBackup :: "env \<Rightarrow> scheduled_backup \<Rightarrow> scheduled_backup \<Rightarrow> (scheduled_backup \<times> bool) result" where
  "mergeScheduledBackup E desired existing =
     (let projectName = goget (md_labels (sb_meta desired)) LabelInstance;
          instance' = goget (md_labels (sb_meta existing)) LabelInstance
      in if projectName = ''''
         then Inl (Errorf (''ScheduledBackup '' @ md_name (sb_meta existing) @ '' has no project instance label''))
         else if instance' \<noteq> projectName
         then Inl (Errorf (''ScheduledBackup '' @ md_name (sb_meta existing) @ '' has instance label '' @ Quote instance' @
                '', expected '' @ Quote projectName))
         else let (m, ownerChanged) = removeSupabaseProjectOwnerReference E (sb_meta existing) projectName;
                  (m', labelsChanged) = mergeLabels E m (md_labels (sb_meta desired));
                  current = sb_spec existing; want = sb_spec desired;
                  ownedSpecChanged =
                    (sbs_schedule current \<noteq> sbs_schedule want \<or> sbs_cluster current \<noteq> sbs_cluster want \<or>
                     sbs_backupOwnerReference current \<noteq> sbs_backupOwnerReference want \<or>
                     sbs_method current \<noteq> sbs_method want \<or>
                     sbs_pluginConfiguration current \<noteq> sbs_pluginConfiguration want);
                  spec = current\<lparr>sbs_schedule := sbs_schedule want, sbs_cluster := sbs_cluster want,
                     sbs_backupOwnerReference := sbs_backupOwnerReference want, sbs_method := sbs_method want,
                     sbs_pluginConfiguration := sbs_pluginConfiguration want\<rparr>
              in Inr (existing\<lparr>sb_meta := m', sb_spec := spec\<rparr>, ownerChanged \<or> labelsChanged \<or> ownedSpecChanged))"

definition createOrUpdateScheduledBackup :: "env \<Rightarrow> scheduled_backup option \<Rightarrow> unit result handler" where
  "createOrUpdateScheduledBackup E scheduledBackupPtr =
     (case scheduledBackupPtr of None \<Rightarrow> ok () | Some scheduledBackup \<Rightarrow>
        upsert E KScheduledBackup asScheduledBackup OScheduledBackup (failedTo ''ScheduledBackup'')
          (objectKey (sb_meta scheduledBackup)) scheduledBackup (mergeScheduledBackup E scheduledBackup))"

section \<open>Jobs\<close>

definition JobComplete :: string where "JobComplete = ''Complete''"
definition JobFailed :: string where "JobFailed = ''Failed''"

text \<open>The loop over the conditions of the Job: the first true terminal condition decides.\<close>

fun jobOutcome :: "string \<Rightarrow> job_condition list \<Rightarrow> bool result" where
  "jobOutcome name [] = Inr False"
| "jobOutcome name (c # cs) =
     (if jc_status c \<noteq> ConditionTrue then jobOutcome name cs
      else if jc_type c = JobComplete then Inr True
      else if jc_type c = JobFailed then Inl (Errorf (''job '' @ name @ '' has failed: '' @ jc_message c))
      else jobOutcome name cs)"

definition createOrCheckJob :: "env \<Rightarrow> job \<Rightarrow> string \<Rightarrow> bool result handler" where
  "createOrCheckJob E job0 scriptHash = do {
     p \<leftarrow> getProject;
     case adopt E p (job_meta job0) of
       Inl e \<Rightarrow> fail e
     | Inr (m0, _) \<Rightarrow>
       (let job = job0\<lparr>job_meta := m0\<lparr>md_annotations := fmupd cdcScriptHashAnnotation scriptHash (md_annotations m0)\<rparr>\<rparr>
        in do {
          r \<leftarrow> fetch E KJob asJob (objectKey (job_meta job));
          case r of
            Inl err \<Rightarrow>
              if IsNotFound err then andthen (send E (Create (OJob job))) (\<lambda>_. ok False) else fail err
          | Inr existing \<Rightarrow>
              if goget (md_labels (job_meta existing)) LabelInstance \<noteq> p_name p
              then fail (Errorf (''refusing to adopt Job '' @ md_name (job_meta existing) @ '' without the project instance label''))
              else case adopt E p (job_meta existing) of
                Inl e \<Rightarrow> fail e
              | Inr (m, ownerChanged) \<Rightarrow>
                 (let (m', labelsChanged) = mergeLabels E m (md_labels (job_meta job));
                      existing' = existing\<lparr>job_meta := m'\<rparr>
                  in if goget (md_annotations m') cdcScriptHashAnnotation \<noteq> scriptHash
                     then do {
                       d \<leftarrow> send E (Delete (OJob existing') True);
                       case d of
                         Inl err \<Rightarrow> if IsNotFound err then ok False
                                    else fail (Wrap (''failed to delete outdated Job '' @ md_name (job_meta job) @ '': '') err)
                       | Inr _ \<Rightarrow> ok False }
                     else andthen
                       (if ownerChanged \<or> labelsChanged
                        then wrapErr ''updating CDC permissions Job metadata: '' (send E (Update (OJob existing')))
                        else ok ())
                       (\<lambda>_. State_Monad.return (jobOutcome (md_name (job_meta job)) (job_conditions existing')))) }) }"

section \<open>Deletion of PowerSync objects\<close>

definition IgnoreNotFound :: "unit result \<Rightarrow> unit result" where
  "IgnoreNotFound r = (case r of Inl e \<Rightarrow> if IsNotFound e then Inr () else Inl e | Inr x \<Rightarrow> Inr x)"

definition deletePowerSyncOwnedResource :: "env \<Rightarrow> kind \<Rightarrow> key \<Rightarrow> unit result handler" where
  "deletePowerSyncOwnedResource E k name = do {
     r \<leftarrow> fetch E k (asKind k) name;
     case r of
       Inl err \<Rightarrow> if IsNotFound err then ok () else fail err
     | Inr object \<Rightarrow> do {
         p \<leftarrow> getProject;
         if \<not> isControlledBy E (metaOf object) p then ok ()
         else do {
           d \<leftarrow> send E (Delete object False);
           State_Monad.return (IgnoreNotFound d) } } }"

end
