(* ===== verification/Config_Maps.thy ===== *)
theory Config_Maps
  imports Apply Config_Texts
begin

text \<open>
  \<open>src/internal/resources/configmaps\<close>, \<open>.../services\<close> and \<open>.../jobs\<close>: the ConfigMaps, the
  Services, and the Job that grants PowerSync its permissions, with the shell script it runs.
\<close>

section \<open>ConfigMaps\<close>

definition EnvoyConfigComponentName :: string where "EnvoyConfigComponentName = ''gateway-config''"
definition JWKSDataKey :: string where "JWKSDataKey = ''jwks.json''"
definition PowersyncConfigComponentName :: string where "PowersyncConfigComponentName = ''powersync-config''"
definition PowersyncSyncRulesComponentName :: string where "PowersyncSyncRulesComponentName = ''powersync-sync-rules''"
definition PowersyncConfigKey :: string where "PowersyncConfigKey = ''config.yaml''"

text \<open>\<open>fmt.Sprintf\<close> with the verb \<open>%s\<close> and string arguments only.\<close>

fun SprintfS :: "string \<Rightarrow> string list \<Rightarrow> string" where
  "SprintfS (c # d # t) (a # as) =
     (if c = CHR ''%'' \<and> d = CHR ''s'' then a @ SprintfS t as else c # SprintfS (d # t) (a # as))"
| "SprintfS t as = t"

definition BuildInitSQLConfigMap :: "project \<Rightarrow> config_map" where
  "BuildInitSQLConfigMap p =
     \<lparr>cm_meta = namedMeta (InitSQLConfigMapName p) (p_namespace p) (ComponentLabels p ''init-sql''),
      cm_data = fmap_of_list [(''init.sql'', InitSQLTemplate)]\<rparr>"

definition BuildEnvoyConfigMap :: "project \<Rightarrow> config_map" where
  "BuildEnvoyConfigMap p =
     (let auth = p_name p @ ''-auth''; rest = p_name p @ ''-rest''; meta = p_name p @ ''-meta'';
          studio = p_name p @ ''-studio''
      in \<lparr>cm_meta = namedMeta (EnvoyConfigMapName p) (p_namespace p) (ComponentLabels p EnvoyConfigComponentName),
          cm_data = fmap_of_list
            [(''envoy.yaml'', envoyBootstrap),
             (''cds.yaml'', SprintfS envoyCDS [auth, rest, meta, studio]),
             (''lds.template.yaml'', envoyLDS),
             (''docker-entrypoint.sh'', envoyEntrypoint)]\<rparr>)"

definition BuildJWKSConfigMap :: "project \<Rightarrow> string \<Rightarrow> config_map" where
  "BuildJWKSConfigMap p jwks =
     \<lparr>cm_meta = namedMeta (JWKSConfigMapName p) (p_namespace p) (ComponentLabels p ''auth-jwks''),
      cm_data = fmap_of_list [(JWKSDataKey, jwks)]\<rparr>"

definition PowersyncConfigMapName :: "project \<Rightarrow> string" where
  "PowersyncConfigMapName p = p_name p @ ''-powersync-config''"

definition PowersyncSyncRulesConfigMapName :: "project \<Rightarrow> string" where
  "PowersyncSyncRulesConfigMapName p = p_name p @ ''-powersync-sync-rules''"

definition powersyncConfigYAML :: "env \<Rightarrow> project \<Rightarrow> string" where
  \<open>powersyncConfigYAML E p = lines
     [''storage:'',
      ''  type: postgresql'',
      ''  uri: !env PS_POWERSYNC_STORAGE_URI'',
      ''  sslmode: disable'',
      ''replication:'',
      ''  connections:'',
      ''    - type: postgresql'',
      ''      uri: !env PS_POWERSYNC_REPLICATION_URI'',
      ''      sslmode: disable'',
      ''      tag: default'',
      ''dev:'',
      ''  demo_auth: false'',
      ''client_auth:'',
      ''  supabase: false'',
      ''  jwks_uri: '' @ Quote (AuthJWKSURL E (au_externalURL (sp_auth (p_spec p)))),
      ''  audience:'',
      ''    - authenticated'',
      ''api:'',
      ''  tokens:'',
      ''    - !env PS_POWERSYNC_API_TOKEN'',
      ''migrations:'',
      ''  disable_auto_migration: false'',
      ''port: 8080'',
      ''sync_rules:'',
      ''  path: /powersync/sync_rules/sync_rules.yaml'',
      ''  exit_on_error: true'',
      ''telemetry:'',
      ''  prometheus_port: 9464'',
      ''  disable_telemetry_sharing: false'']\<close>

definition BuildPowersyncConfigMap :: "env \<Rightarrow> project \<Rightarrow> config_map" where
  "BuildPowersyncConfigMap E p =
     \<lparr>cm_meta = namedMeta (PowersyncConfigMapName p) (p_namespace p) (ComponentLabels p PowersyncConfigComponentName),
      cm_data = fmap_of_list [(PowersyncConfigKey, powersyncConfigYAML E p)]\<rparr>"

text \<open>
  The builders for PowerSync dereference \<open>project.Spec.Powersync\<close>; they are called with it set,
  so it is an argument here.
\<close>

definition BuildPowersyncSyncRulesConfigMap :: "project \<Rightarrow> powersync_spec \<Rightarrow> config_map option" where
  "BuildPowersyncSyncRulesConfigMap p spec =
     (if sy_configMapRef (pw_syncRules spec) \<noteq> '''' then None
      else if sy_inline (pw_syncRules spec) = '''' then None
      else Some
        \<lparr>cm_meta = namedMeta (PowersyncSyncRulesConfigMapName p) (p_namespace p)
           (ComponentLabels p PowersyncSyncRulesComponentName),
         cm_data = fmap_of_list [(''sync_rules.yaml'', sy_inline (pw_syncRules spec))]\<rparr>)"

definition SyncRulesConfigMapName :: "project \<Rightarrow> powersync_spec \<Rightarrow> string" where
  "SyncRulesConfigMapName p spec =
     (if sy_configMapRef (pw_syncRules spec) \<noteq> '''' then sy_configMapRef (pw_syncRules spec)
      else PowersyncSyncRulesConfigMapName p)"

section \<open>Services\<close>

definition ServiceTypeClusterIP :: string where "ServiceTypeClusterIP = ''ClusterIP''"

definition tcpPort :: "string \<Rightarrow> int \<Rightarrow> service_port" where
  "tcpPort name port = \<lparr>sp_name = name, sp_port = port, sp_targetPort = port, sp_protocol = ProtocolTCP\<rparr>"

definition BuildService :: "project \<Rightarrow> string \<Rightarrow> string \<Rightarrow> int \<Rightarrow> service" where
  "BuildService p name component port =
     \<lparr>svc_meta = namedMeta name (p_namespace p) (ComponentLabels p component),
      svc_type = ServiceTypeClusterIP, svc_selector = SelectorLabels p component,
      svc_ports = [tcpPort ''http'' port], svc_foreign = ''''\<rparr>"

definition BuildAuthService :: "project \<Rightarrow> service" where
  "BuildAuthService p = BuildService p (p_name p @ ''-auth'') ''auth'' 9999"

definition BuildRestService :: "project \<Rightarrow> service" where
  "BuildRestService p = BuildService p (p_name p @ ''-rest'') ''rest'' 3000"

definition BuildStudioService :: "project \<Rightarrow> service" where
  "BuildStudioService p = BuildService p (p_name p @ ''-studio'') ''studio'' 3000"

definition BuildMetaService :: "project \<Rightarrow> service" where
  "BuildMetaService p = BuildService p (p_name p @ ''-meta'') ''meta'' 8080"

definition BuildPowersyncAPIService :: "project \<Rightarrow> service" where
  "BuildPowersyncAPIService p =
     \<lparr>svc_meta = namedMeta (p_name p @ ''-powersync-api'') (p_namespace p) (ComponentLabels p ''powersync-api''),
      svc_type = ServiceTypeClusterIP, svc_selector = SelectorLabels p ''powersync-api'',
      svc_ports = [tcpPort ''http'' 8080, tcpPort ''metrics'' 9464], svc_foreign = ''''\<rparr>"

definition BuildGatewayService :: "project \<Rightarrow> service" where
  "BuildGatewayService p =
     \<lparr>svc_meta = namedMeta (GatewayName p) (p_namespace p) (ComponentLabels p ''gateway''),
      svc_type = ServiceTypeClusterIP, svc_selector = SelectorLabels p ''gateway'',
      svc_ports = [tcpPort ''http'' 8000], svc_foreign = ''''\<rparr>"

section \<open>The permissions Job\<close>

definition CDCComponentName :: string where "CDCComponentName = ''cdc-permissions''"

definition CDCConfigMapName :: "project \<Rightarrow> string" where
  "CDCConfigMapName p = p_name p @ ''-cdc-migrations''"

definition CDCJobName :: "project \<Rightarrow> string" where
  "CDCJobName p = p_name p @ ''-cdc-permissions''"

definition dq :: string where "dq = [CHR 0x22]"

text \<open>One iteration of the loop over the schemas: three statements, the identifier quoted.\<close>

definition schemaGrants :: "string \<Rightarrow> string" where
  \<open>schemaGrants schema = lines
     [''GRANT USAGE ON SCHEMA '' @ dq @ schema @ dq @ '' TO powersync_replication;'',
      ''GRANT SELECT ON ALL TABLES IN SCHEMA '' @ dq @ schema @ dq @ '' TO powersync_replication;'',
      ''ALTER DEFAULT PRIVILEGES FOR ROLE supabase_admin IN SCHEMA '' @ dq @ schema @ dq @
        '' GRANT SELECT ON TABLES TO powersync_replication;'']\<close>

definition buildCDCSetupScript :: "project \<Rightarrow> string result" where
  \<open>buildCDCSetupScript p =
     (case EffectivePublicationSchemas p of
        Inl e \<Rightarrow> Inl e
      | Inr schemas \<Rightarrow> Inr
          (lines [''#!/bin/sh'', ''set -e'', '''', ''echo '' @ dq @ ''=== CDC Permissions Setup ==='' @ dq] @
           (if sp_powersync (p_spec p) \<noteq> None then
              lines ['''', ''# Apply Powersync grants'',
                 ''echo '' @ dq @ ''Applying Powersync grants...'' @ dq,
                 ''psql -v ON_ERROR_STOP=1 --single-transaction '' @ dq @ ''$PGCONNSTR'' @ dq @ '' <<'' @ [CHR 0x27] @ ''EOSQL'' @ [CHR 0x27],
                 ''-- Grant powersync_storage role access to create its schema (internal sync state)'',
                 ''GRANT CREATE ON DATABASE supabase TO powersync_storage;'', ''''] @
              concat (map schemaGrants schemas) @
              lines [''EOSQL'']
            else '''') @
           lines ['''', ''echo '' @ dq @ ''=== CDC Permissions Setup Complete ==='' @ dq]))\<close>

definition BuildCDCMigrationsConfigMap :: "project \<Rightarrow> config_map result" where
  "BuildCDCMigrationsConfigMap p =
     (case buildCDCSetupScript p of
        Inl e \<Rightarrow> Inl e
      | Inr setupScript \<Rightarrow> Inr
          \<lparr>cm_meta = namedMeta (CDCConfigMapName p) (p_namespace p) (ComponentLabels p CDCComponentName),
           cm_data = fmap_of_list [(''setup.sh'', setupScript)]\<rparr>)"

text \<open>An environment variable with a literal value, and one read from a key of a Secret.\<close>

definition envValue :: "string \<Rightarrow> string \<Rightarrow> env_var" where
  "envValue name v = \<lparr>ev_name = name, ev_value = v, ev_valueFrom = None\<rparr>"

definition secretEnv :: "string \<Rightarrow> string \<Rightarrow> string \<Rightarrow> env_var" where
  "secretEnv name secretName key = \<lparr>ev_name = name, ev_value = '''',
     ev_valueFrom = Some \<lparr>es_secretKeyRef = Some \<lparr>ks_name = secretName, ks_key = key, ks_optional = None\<rparr>,
       es_configMapKeyRef = None\<rparr>\<rparr>"

definition buildCDCEnv :: "string \<Rightarrow> secret_names_status \<Rightarrow> env_var list" where
  "buildCDCEnv dbHost secretNames =
     [secretEnv ''PGUSER'' (sn_supabaseAdmin secretNames) ''username'',
      secretEnv ''PGPASSWORD'' (sn_supabaseAdmin secretNames) ''password'',
      envValue ''PGCONNSTR'' (''postgres://$(PGUSER):$(PGPASSWORD)@'' @ dbHost @ '':5432/supabase?sslmode=disable'')]"

definition RestartPolicyOnFailure :: string where "RestartPolicyOnFailure = ''OnFailure''"

definition emptyVolume :: volume where
  "emptyVolume = \<lparr>vol_name = '''', vol_configMap = None, vol_secret = None, vol_downwardAPI = None,
     vol_projected = None, vol_emptyDir = False, vol_foreign = ''''\<rparr>"

definition configMapVolume :: "string \<Rightarrow> string \<Rightarrow> int option \<Rightarrow> volume" where
  "configMapVolume name source mode = emptyVolume\<lparr>vol_name := name,
     vol_configMap := Some \<lparr>ms_name = source, ms_defaultMode = mode, ms_foreign = ''''\<rparr>\<rparr>"

definition BuildCDCPermissionsJob :: "project \<Rightarrow> secret_names_status \<Rightarrow> job" where
  \<open>BuildCDCPermissionsJob p secretNames =
     (let dbHost = ClusterRWServiceName p; pgImage = PostgresImage @ '':'' @ PostgresTag;
          waitScript =
            lines [''echo '' @ dq @ ''Waiting for database to be ready...'' @ dq,
              ''until pg_isready -h '' @ dbHost @ '' -p 5432 -U '' @ dq @ ''$PGUSER'' @ dq @ ''; do'',
              ''  echo '' @ dq @ ''Database not ready yet, retrying in 5s...'' @ dq,
              ''  sleep 5'', ''done''] @ ''echo '' @ dq @ ''Database is ready'' @ dq
      in \<lparr>job_meta = namedMeta (CDCJobName p) (p_namespace p) (ComponentLabels p CDCComponentName),
          job_spec = \<lparr>js_backoffLimit = Some 3, js_ttlSecondsAfterFinished = None,
            js_template = \<lparr>pt_labels = ComponentLabels p CDCComponentName, pt_annotations = fmempty,
              pt_spec = emptyPodSpec\<lparr>ps_restartPolicy := RestartPolicyOnFailure,
                ps_initContainers := [emptyContainer\<lparr>ct_name := ''wait-for-db'', ct_image := pgImage,
                   ct_command := [''sh'', ''-c''], ct_args := [waitScript], ct_env := buildCDCEnv dbHost secretNames\<rparr>],
                ps_containers := [emptyContainer\<lparr>ct_name := ''cdc-setup'', ct_image := pgImage,
                   ct_command := [''sh'', ''/scripts/setup.sh''], ct_env := buildCDCEnv dbHost secretNames,
                   ct_volumeMounts := [\<lparr>vm_name = ''scripts'', vm_mountPath = ''/scripts'', vm_readOnly = True\<rparr>]\<rparr>],
                ps_volumes := [configMapVolume ''scripts'' (CDCConfigMapName p) (Some 493)]\<rparr>\<rparr>,
            js_foreign = ''''\<rparr>,
          job_conditions = []\<rparr>)\<close>

end
