(* ===== verification/Workloads.thy ===== *)
theory Workloads
  imports Config_Maps
begin

text \<open>
  \<open>src/internal/resources/deployments\<close>: the Deployments of the core services and of PowerSync,
  the compaction cron job, and the environment variables of each container.
\<close>

section \<open>helpers.go\<close>

definition PullIfNotPresent :: string where "PullIfNotPresent = ''IfNotPresent''"

definition ResolveImage :: "image_spec \<Rightarrow> string \<Rightarrow> string \<Rightarrow> string" where
  "ResolveImage spec defaultImage defaultTag =
     (let repository = (if im_repository spec \<noteq> '''' then im_repository spec else defaultImage);
          tag = (if im_tag spec \<noteq> '''' then im_tag spec else defaultTag);
          image = repository @ '':'' @ tag
      in if im_registry spec \<noteq> '''' then im_registry spec @ ''/'' @ image else image)"

definition ResolvePullPolicy :: "image_spec \<Rightarrow> string" where
  "ResolvePullPolicy spec = (if im_pullPolicy spec \<noteq> '''' then im_pullPolicy spec else PullIfNotPresent)"

record probe_config =
  pcf_Path :: string
  pcf_Port :: int
  pcf_InitialDelaySeconds :: int
  pcf_PeriodSeconds :: int
  pcf_TimeoutSeconds :: int

definition DefaultLivenessConfig :: "string \<Rightarrow> int \<Rightarrow> probe_config" where
  "DefaultLivenessConfig path port = \<lparr>pcf_Path = path, pcf_Port = port, pcf_InitialDelaySeconds = 10,
     pcf_PeriodSeconds = 10, pcf_TimeoutSeconds = 5\<rparr>"

definition DefaultReadinessConfig :: "string \<Rightarrow> int \<Rightarrow> probe_config" where
  "DefaultReadinessConfig path port = \<lparr>pcf_Path = path, pcf_Port = port, pcf_InitialDelaySeconds = 5,
     pcf_PeriodSeconds = 5, pcf_TimeoutSeconds = 3\<rparr>"

definition BuildHTTPProbe :: "probe_config \<Rightarrow> probe" where
  "BuildHTTPProbe config =
     \<lparr>pr_httpGet = Some \<lparr>hg_path = pcf_Path config, hg_port = pcf_Port config, hg_scheme = ''''\<rparr>, pr_exec = None,
      pr_initialDelaySeconds = pcf_InitialDelaySeconds config, pr_timeoutSeconds = pcf_TimeoutSeconds config,
      pr_periodSeconds = pcf_PeriodSeconds config, pr_successThreshold = 0, pr_failureThreshold = 3\<rparr>"

definition BuildLivenessProbe :: "string \<Rightarrow> int \<Rightarrow> probe" where
  "BuildLivenessProbe path port = BuildHTTPProbe (DefaultLivenessConfig path port)"

definition BuildReadinessProbe :: "string \<Rightarrow> int \<Rightarrow> probe" where
  "BuildReadinessProbe path port = BuildHTTPProbe (DefaultReadinessConfig path port)"

definition NormalizeReplicas :: "int \<Rightarrow> int" where
  "NormalizeReplicas replicas = (if replicas = 0 then 1 else replicas)"

definition AddImagePullSecrets :: "pod_spec \<Rightarrow> project \<Rightarrow> pod_spec" where
  "AddImagePullSecrets podSpec p =
     (if length (sp_imagePullSecrets (p_spec p)) > 0
      then podSpec\<lparr>ps_imagePullSecrets := sp_imagePullSecrets (p_spec p)\<rparr> else podSpec)"

definition BuildDatabaseEnv :: "string \<Rightarrow> env_var list" where
  "BuildDatabaseEnv dbHost =
     [envValue ''DB_HOST'' dbHost, envValue ''DB_PORT'' ''5432'', envValue ''DB_DRIVER'' ''postgres'',
      envValue ''DB_SSL'' ''disable'', envValue ''DB_NAME'' DatabaseName]"

text \<open>
  The skeleton every deployment of the package is built on: metadata, selector and pod
  template with the component's labels and the reloader annotation.
\<close>

definition componentDeployment :: "project \<Rightarrow> string \<Rightarrow> string \<Rightarrow> int \<Rightarrow> pod_spec \<Rightarrow> deployment" where
  "componentDeployment p name component replicas podSpec =
     \<lparr>dep_meta = (namedMeta name (p_namespace p) (ComponentLabels p component))\<lparr>md_annotations := ReloaderAnnotations\<rparr>,
      dep_replicas = Some replicas, dep_selector = SelectorLabels p component,
      dep_strategy = \<lparr>ds_type = '''', ds_foreign = ''''\<rparr>,
      dep_template = \<lparr>pt_labels = ComponentLabels p component, pt_annotations = ReloaderAnnotations,
        pt_spec = AddImagePullSecrets podSpec p\<rparr>,
      dep_foreign = '''', dep_status = emptyDeploymentStatus\<rparr>"

definition tcpContainerPort :: "string \<Rightarrow> int \<Rightarrow> container_port" where
  "tcpContainerPort name port = \<lparr>cp_name = name, cp_containerPort = port, cp_protocol = ProtocolTCP\<rparr>"

section \<open>auth.go\<close>

definition AuthComponentName :: string where "AuthComponentName = ''auth''"
definition AuthPort :: int where "AuthPort = 9999"

definition AuthDeploymentName :: "project \<Rightarrow> string" where
  "AuthDeploymentName p = p_name p @ ''-auth''"

definition operatorOwnedGoTrueEnvNames :: "string list" where
  "operatorOwnedGoTrueEnvNames =
     [''GOTRUE_JWT_KEYS'', ''GOTRUE_JWT_SECRET'', ''GOTRUE_JWT_ALG'', ''GOTRUE_JWT_KEY_ID'',
      ''GOTRUE_JWT_ISSUER'', ''GOTRUE_JWT_AUD'', ''GOTRUE_JWT_EXP'', ''GOTRUE_JWT_VALID_METHODS'',
      ''GOTRUE_JWT_ALLOWED_ALGS'', ''GOTRUE_JWT_ADMIN_ROLES'', ''GOTRUE_JWT_ADMIN_GROUP_NAME'',
      ''GOTRUE_JWT_DEFAULT_GROUP_NAME'', ''GOTRUE_JWT_ROLE_CLAIM'']"

definition IsOperatorOwnedGoTrueEnv :: "string \<Rightarrow> bool" where
  "IsOperatorOwnedGoTrueEnv name = List.member operatorOwnedGoTrueEnvNames name"

text \<open>
  \<open>goTrueEnvSecretKeyRef\<close> and \<open>goTrueEnvConfigMapKeyRef\<close> copy the three fields of the selector;
  both selector types are one record here.
\<close>

definition goTrueEnvKeyRef :: "key_selector option \<Rightarrow> key_selector option" where
  "goTrueEnvKeyRef ref =
     (case ref of None \<Rightarrow> None
      | Some r \<Rightarrow> Some \<lparr>ks_name = ks_name r, ks_key = ks_key r, ks_optional = ks_optional r\<rparr>)"

definition goTrueVariable :: "gotrue_env_var \<Rightarrow> env_var" where
  "goTrueVariable c =
     (case ge_value c of
        Some v \<Rightarrow> \<lparr>ev_name = ge_name c, ev_value = v, ev_valueFrom = None\<rparr>
      | None \<Rightarrow>
          (case ge_valueFrom c of
             Some valueFrom \<Rightarrow> \<lparr>ev_name = ge_name c, ev_value = '''',
               ev_valueFrom = Some \<lparr>es_secretKeyRef = goTrueEnvKeyRef (gvf_secretKeyRef valueFrom),
                 es_configMapKeyRef = goTrueEnvKeyRef (gvf_configMapKeyRef valueFrom)\<rparr>\<rparr>
           | None \<Rightarrow> \<lparr>ev_name = ge_name c, ev_value = '''', ev_valueFrom = None\<rparr>))"

text \<open>
  The index map of \<open>applyGoTrueEnv\<close>: the names of the environment with the position of their
  last occurrence, then the loop over the configured variables.
\<close>

fun envIndexes :: "nat \<Rightarrow> env_var list \<Rightarrow> nat gomap \<Rightarrow> nat gomap" where
  "envIndexes i [] m = m"
| "envIndexes i (v # vs) m = envIndexes (Suc i) vs (fmupd (ev_name v) i m)"

fun applyLoop :: "gotrue_env_var list \<Rightarrow> nat gomap \<Rightarrow> env_var list \<Rightarrow> env_var list" where
  "applyLoop [] indexes env = env"
| "applyLoop (c # cs) indexes env =
     (if IsOperatorOwnedGoTrueEnv (ge_name c) then applyLoop cs indexes env
      else case fmlookup indexes (ge_name c) of
        Some i \<Rightarrow> applyLoop cs indexes (env[i := goTrueVariable c])
      | None \<Rightarrow> applyLoop cs (fmupd (ge_name c) (length env) indexes) (env @ [goTrueVariable c]))"

definition applyGoTrueEnv :: "env_var list \<Rightarrow> gotrue_env_var list \<Rightarrow> env_var list" where
  "applyGoTrueEnv env configured = applyLoop configured (envIndexes 0 env fmempty) env"

definition baseAuthEnv :: "env \<Rightarrow> project \<Rightarrow> secret_names_status \<Rightarrow> string \<Rightarrow> env_var list" where
  "baseAuthEnv E p secretNames dbHost =
     (let spec = sp_auth (p_spec p);
          fallbackSecretName = (if sn_goTrueFallback secretNames = '''' then GoTrueFallbackSecretName p
                                else sn_goTrueFallback secretNames)
      in BuildDatabaseEnv dbHost @
         [envValue ''GOTRUE_API_HOST'' ''0.0.0.0'',
          envValue ''GOTRUE_API_PORT'' (show_int AuthPort),
          envValue ''API_EXTERNAL_URL'' (au_externalURL spec),
          envValue ''GOTRUE_SITE_URL'' (au_siteURL spec),
          envValue ''GOTRUE_URI_ALLOW_LIST'' ''*'',
          envValue ''GOTRUE_JWT_DEFAULT_GROUP_NAME'' ''authenticated'',
          envValue ''GOTRUE_JWT_ADMIN_ROLES'' ''service_role'',
          envValue ''GOTRUE_JWT_AUD'' ''authenticated'',
          envValue ''GOTRUE_JWT_EXP'' (show_int (GetAccessTokenExpiration p)),
          envValue ''GOTRUE_JWT_ISSUER'' (AuthIssuerURL E (au_externalURL spec)),
          envValue ''GOTRUE_JWT_VALID_METHODS'' ''ES256'',
          secretEnv ''GOTRUE_JWT_KEYS'' (sp_projectCredentialsSecret (p_spec p)) ProjectCredentialsSigningKeysKey,
          envValue ''GOTRUE_DISABLE_SIGNUP'' (show_bool (au_disableSignup spec)),
          envValue ''GOTRUE_EXTERNAL_ANONYMOUS_USERS_ENABLED'' (show_bool (au_enableAnonymousUsers spec)),
          envValue ''GOTRUE_EXTERNAL_EMAIL_ENABLED'' ''true'',
          envValue ''GOTRUE_MAILER_AUTOCONFIRM'' (show_bool (au_autoConfirmEmail spec)),
          envValue ''GOTRUE_MAILER_OTP_EXP'' ''3600'',
          secretEnv ''DB_USER'' (sn_authAdmin secretNames) ''username'',
          secretEnv ''DB_PASSWORD'' (sn_authAdmin secretNames) ''password'',
          secretEnv ''DB_PASSWORD_ENC'' (sn_authAdmin secretNames) ''password'',
          secretEnv ''GOTRUE_JWT_SECRET'' fallbackSecretName GoTrueFallbackSecretKey,
          envValue ''GOTRUE_DB_DATABASE_URL''
            ''$(DB_DRIVER)://$(DB_USER):$(DB_PASSWORD_ENC)@$(DB_HOST):$(DB_PORT)/$(DB_NAME)?search_path=auth&sslmode=$(DB_SSL)'',
          envValue ''GOTRUE_DB_DRIVER'' ''$(DB_DRIVER)''] @
         (case au_providers spec of None \<Rightarrow> [] | Some providers \<Rightarrow>
           (case ap_google providers of None \<Rightarrow> [] | Some google \<Rightarrow>
              if gp_enabled google then
                envValue ''GOTRUE_EXTERNAL_GOOGLE_ENABLED'' ''true'' #
                (if gp_skipNonceCheck google then [envValue ''GOTRUE_EXTERNAL_GOOGLE_SKIP_NONCE_CHECK'' ''true''] else [])
              else []) @
           (case ap_apple providers of None \<Rightarrow> [] | Some apple \<Rightarrow>
              if apl_enabled apple then [envValue ''GOTRUE_EXTERNAL_APPLE_ENABLED'' ''true''] else [])) @
         (case au_emailHook spec of None \<Rightarrow> [] | Some hook \<Rightarrow>
           if eh_enabled hook then
             [envValue ''GOTRUE_HOOK_SEND_EMAIL_ENABLED'' ''true'',
              envValue ''GOTRUE_HOOK_SEND_EMAIL_URI'' (eh_uri hook),
              secretEnv ''GOTRUE_HOOK_SEND_EMAIL_SECRETS''
                (if sn_emailHook secretNames = '''' then EmailHookSecretName p else sn_emailHook secretNames) ''secret'']
           else []))"

definition buildAuthEnv :: "env \<Rightarrow> project \<Rightarrow> secret_names_status \<Rightarrow> string \<Rightarrow> env_var list" where
  "buildAuthEnv E p secretNames dbHost =
     applyGoTrueEnv (baseAuthEnv E p secretNames dbHost) (au_goTrueEnv (sp_auth (p_spec p)))"

definition BuildAuthDeployment :: "env \<Rightarrow> project \<Rightarrow> secret_names_status \<Rightarrow> deployment" where
  "BuildAuthDeployment E p secretNames =
     (let spec = sp_auth (p_spec p);
          imageTag = (if au_imageTag spec \<noteq> '''' then au_imageTag spec else AuthTag);
          envFrom = (case au_providers spec of None \<Rightarrow> []
                     | Some providers \<Rightarrow> if ap_secretRef providers \<noteq> '''' then [ap_secretRef providers] else [])
      in componentDeployment p (AuthDeploymentName p) AuthComponentName (NormalizeReplicas (au_replicas spec))
           (emptyPodSpec\<lparr>ps_containers := [emptyContainer\<lparr>
              ct_name := AuthComponentName, ct_image := AuthImage @ '':'' @ imageTag, ct_imagePullPolicy := PullIfNotPresent,
              ct_env := buildAuthEnv E p secretNames (ClusterRWServiceName p), ct_envFrom := envFrom,
              ct_ports := [tcpContainerPort ''http'' AuthPort],
              ct_livenessProbe := Some (BuildLivenessProbe ''/health'' AuthPort),
              ct_readinessProbe := Some (BuildReadinessProbe ''/health'' AuthPort),
              ct_resources := au_resources spec\<rparr>]\<rparr>))"

section \<open>rest.go\<close>

definition RestComponentName :: string where "RestComponentName = ''rest''"
definition RestPort :: int where "RestPort = 3000"

definition RestDeploymentName :: "project \<Rightarrow> string" where
  "RestDeploymentName p = p_name p @ ''-rest''"

definition buildRestDBInitContainer :: "secret_names_status \<Rightarrow> string \<Rightarrow> container" where
  \<open>buildRestDBInitContainer secretNames dbHost = emptyContainer\<lparr>
     ct_name := ''init-db'', ct_image := ''postgres:15-alpine'', ct_imagePullPolicy := PullIfNotPresent,
     ct_env := [envValue ''DB_HOST'' dbHost, envValue ''DB_PORT'' ''5432'',
        secretEnv ''DB_USER'' (sn_authenticator secretNames) ''username''],
     ct_command := [''/bin/sh'', ''-c''],
     ct_args := [lines [''until pg_isready -h $(DB_HOST) -p $(DB_PORT) -U $(DB_USER); do'',
        ''echo '' @ dq @ ''Waiting for database to start...'' @ dq, ''sleep 2'', ''done''] @
        ''echo '' @ dq @ ''Database is ready'' @ dq]\<rparr>\<close>

definition BuildRestDeployment :: "project \<Rightarrow> secret_names_status \<Rightarrow> deployment" where
  "BuildRestDeployment p secretNames =
     (let spec = sp_rest (p_spec p); dbHost = ClusterRWServiceName p;
          imageTag = (if re_imageTag spec \<noteq> '''' then re_imageTag spec else RestTag);
          schemas = (if length (re_schemas spec) > 0 then re_schemas spec else [''public'']);
          env = BuildDatabaseEnv dbHost @
            [envValue ''PGRST_DB_SCHEMAS'' (Join schemas '',''),
             envValue ''PGRST_DB_ANON_ROLE'' ''anon'',
             envValue ''PGRST_DB_USE_LEGACY_GUCS'' ''false'',
             envValue ''PGRST_APP_SETTINGS_JWT_EXP'' (show_int (GetAccessTokenExpiration p)),
             secretEnv ''DB_USER'' (sn_authenticator secretNames) ''username'',
             secretEnv ''DB_PASSWORD'' (sn_authenticator secretNames) ''password'',
             \<lparr>ev_name = ''PGRST_JWT_SECRET'', ev_value = '''',
              ev_valueFrom = Some \<lparr>es_secretKeyRef = None,
                es_configMapKeyRef = Some \<lparr>ks_name = JWKSConfigMapName p, ks_key = JWKSDataKey, ks_optional = None\<rparr>\<rparr>\<rparr>,
             envValue ''PGRST_JWT_ALG'' ''ES256'',
             envValue ''PGRST_DB_URI''
               ''$(DB_DRIVER)://$(DB_USER):$(DB_PASSWORD)@$(DB_HOST):$(DB_PORT)/$(DB_NAME)?sslmode=$(DB_SSL)'']
      in componentDeployment p (RestDeploymentName p) RestComponentName (NormalizeReplicas (re_replicas spec))
           (emptyPodSpec\<lparr>ps_initContainers := [buildRestDBInitContainer secretNames dbHost],
              ps_containers := [emptyContainer\<lparr>
                ct_name := RestComponentName, ct_image := RestImage @ '':'' @ imageTag, ct_imagePullPolicy := PullIfNotPresent,
                ct_env := env, ct_ports := [tcpContainerPort ''http'' RestPort],
                ct_livenessProbe := Some (BuildLivenessProbe ''/'' RestPort),
                ct_readinessProbe := Some (BuildReadinessProbe ''/'' RestPort),
                ct_resources := re_resources spec\<rparr>]\<rparr>))"

section \<open>studio.go\<close>

definition StudioComponentName :: string where "StudioComponentName = ''studio''"
definition StudioPort :: int where "StudioPort = 3000"

definition StudioDeploymentName :: "project \<Rightarrow> string" where
  "StudioDeploymentName p = p_name p @ ''-studio''"

definition BuildStudioDeployment :: "project \<Rightarrow> secret_names_status \<Rightarrow> deployment" where
  "BuildStudioDeployment p secretNames =
     (let spec = sp_studio (p_spec p);
          imageTag = (if sd_imageTag spec \<noteq> '''' then sd_imageTag spec else StudioTag);
          orgName = (if sd_organizationName spec \<noteq> '''' then sd_organizationName spec else ''Default Organization'');
          projName = (if sd_projectName spec \<noteq> '''' then sd_projectName spec else ''Default Project'');
          credentials = sp_projectCredentialsSecret (p_spec p);
          env =
            [envValue ''HOSTNAME'' ''::'', envValue ''STUDIO_PORT'' (show_int StudioPort),
             envValue ''POSTGRES_HOST'' (ClusterRWServiceName p), envValue ''POSTGRES_PORT'' ''5432'',
             envValue ''POSTGRES_DB'' DatabaseName,
             envValue ''STUDIO_DEFAULT_ORGANIZATION'' orgName, envValue ''STUDIO_DEFAULT_PROJECT'' projName,
             envValue ''SUPABASE_URL'' (''http://'' @ GatewayName p @ '':8000''),
             envValue ''STUDIO_PG_META_URL'' (''http://'' @ p_name p @ ''-meta'' @ '':8080''),
             envValue ''SUPABASE_PUBLIC_URL'' (sd_publicURL spec),
             secretEnv ''POSTGRES_USER'' (sn_supabaseAdmin secretNames) ''username'',
             secretEnv ''POSTGRES_PASSWORD'' (sn_supabaseAdmin secretNames) ''password'',
             secretEnv ''SUPABASE_ANON_KEY'' credentials ProjectCredentialsPublishableKey,
             secretEnv ''SUPABASE_SERVICE_KEY'' credentials ProjectCredentialsSecretKey,
             secretEnv ''SUPABASE_ANON_KEY_ASYMMETRIC'' credentials ProjectCredentialsAnonRoleJWTKey,
             secretEnv ''SUPABASE_SERVICE_KEY_ASYMMETRIC'' credentials ProjectCredentialsServiceRoleJWTKey]
      in componentDeployment p (StudioDeploymentName p) StudioComponentName (NormalizeReplicas (sd_replicas spec))
           (emptyPodSpec\<lparr>ps_containers := [emptyContainer\<lparr>
              ct_name := StudioComponentName, ct_image := StudioImage @ '':'' @ imageTag, ct_imagePullPolicy := PullIfNotPresent,
              ct_env := env, ct_ports := [tcpContainerPort ''http'' StudioPort],
              ct_livenessProbe := Some (BuildHTTPProbe \<lparr>pcf_Path = ''/api/platform/profile'', pcf_Port = StudioPort,
                pcf_InitialDelaySeconds = 15, pcf_PeriodSeconds = 10, pcf_TimeoutSeconds = 10\<rparr>),
              ct_readinessProbe := Some (BuildHTTPProbe \<lparr>pcf_Path = ''/api/platform/profile'', pcf_Port = StudioPort,
                pcf_InitialDelaySeconds = 10, pcf_PeriodSeconds = 5, pcf_TimeoutSeconds = 10\<rparr>),
              ct_resources := sd_resources spec\<rparr>]\<rparr>))"

section \<open>meta.go\<close>

definition MetaComponentName :: string where "MetaComponentName = ''meta''"
definition MetaPort :: int where "MetaPort = 8080"

definition MetaDeploymentName :: "project \<Rightarrow> string" where
  "MetaDeploymentName p = p_name p @ ''-meta''"

definition BuildMetaDeployment :: "project \<Rightarrow> secret_names_status \<Rightarrow> deployment" where
  "BuildMetaDeployment p secretNames =
     (let spec = sp_metaService (p_spec p);
          imageTag = (if me_imageTag spec \<noteq> '''' then me_imageTag spec else MetaTag);
          env =
            [envValue ''PG_META_DB_HOST'' (ClusterRWServiceName p), envValue ''PG_META_DB_PORT'' ''5432'',
             envValue ''PG_META_DB_NAME'' DatabaseName, envValue ''PG_META_DB_SSL_MODE'' ''disable'',
             envValue ''PG_META_PORT'' (show_int MetaPort),
             secretEnv ''PG_META_DB_USER'' (sn_supabaseAdmin secretNames) ''username'',
             secretEnv ''PG_META_DB_PASSWORD'' (sn_supabaseAdmin secretNames) ''password'']
      in componentDeployment p (MetaDeploymentName p) MetaComponentName (NormalizeReplicas (me_replicas spec))
           (emptyPodSpec\<lparr>ps_containers := [emptyContainer\<lparr>
              ct_name := MetaComponentName, ct_image := MetaImage @ '':'' @ imageTag, ct_imagePullPolicy := PullIfNotPresent,
              ct_env := env, ct_ports := [tcpContainerPort ''http'' MetaPort],
              ct_livenessProbe := Some (BuildLivenessProbe ''/health'' MetaPort),
              ct_readinessProbe := Some (BuildReadinessProbe ''/health'' MetaPort),
              ct_resources := me_resources spec\<rparr>]\<rparr>))"

section \<open>gateway.go\<close>

definition GatewayComponentName :: string where "GatewayComponentName = ''gateway''"
definition GatewayPort :: int where "GatewayPort = 8000"
definition GatewayHealthPath :: string where "GatewayHealthPath = ''/_internal/health''"

text \<open>Quantities: \<open>Mi\<close> mebibytes and thousandths, in units of 10 to the power -9.\<close>

definition Mi :: "int \<Rightarrow> quantity" where "Mi n = n * 1048576 * 1000000000"
definition milli :: "int \<Rightarrow> quantity" where "milli n = n * 1000000"

definition memoryAndCPU :: "quantity \<Rightarrow> quantity \<Rightarrow> quantity \<Rightarrow> quantity \<Rightarrow> resource_req" where
  "memoryAndCPU reqMem reqCPU limMem limCPU =
     \<lparr>rr_requests = fmap_of_list [(''memory'', reqMem), (''cpu'', reqCPU)],
      rr_limits = fmap_of_list [(''memory'', limMem), (''cpu'', limCPU)]\<rparr>"

definition DefaultGatewayResources :: resource_req where
  "DefaultGatewayResources = memoryAndCPU (Mi 128) (milli 100) (Mi 256) (milli 500)"

definition NormalizeGatewayResources :: "resource_req \<Rightarrow> resource_req" where
  "NormalizeGatewayResources resources =
     (if rr_requests resources = fmempty \<and> rr_limits resources = fmempty then DefaultGatewayResources else resources)"

definition BuildGatewayDeployment :: "project \<Rightarrow> deployment" where
  "BuildGatewayDeployment p =
     (let spec = sp_gateway (p_spec p); credentials = sp_projectCredentialsSecret (p_spec p);
          imageTag = (if gw_imageTag spec \<noteq> '''' then gw_imageTag spec else EnvoyTag)
      in componentDeployment p (GatewayName p) GatewayComponentName (NormalizeReplicas (gw_replicas spec))
           (emptyPodSpec\<lparr>
              ps_containers := [emptyContainer\<lparr>
                ct_name := GatewayComponentName, ct_image := EnvoyImage @ '':'' @ imageTag, ct_imagePullPolicy := PullIfNotPresent,
                ct_command := [''/bin/sh'', ''-ec''],
                ct_args := [''cp /config/envoy.yaml /config/cds.yaml /config/lds.template.yaml /config/docker-entrypoint.sh /etc/envoy/ && exec /bin/sh /config/docker-entrypoint.sh''],
                ct_env := [secretEnv ''SUPABASE_PUBLISHABLE_KEY'' credentials ProjectCredentialsPublishableKey,
                   secretEnv ''SUPABASE_SECRET_KEY'' credentials ProjectCredentialsSecretKey,
                   secretEnv ''SUPABASE_ANON_ROLE_JWT'' credentials ProjectCredentialsAnonRoleJWTKey,
                   secretEnv ''SUPABASE_SERVICE_ROLE_JWT'' credentials ProjectCredentialsServiceRoleJWTKey],
                ct_ports := [tcpContainerPort ''http'' GatewayPort],
                ct_livenessProbe := Some (BuildHTTPProbe \<lparr>pcf_Path = GatewayHealthPath, pcf_Port = GatewayPort,
                   pcf_InitialDelaySeconds = 10, pcf_PeriodSeconds = 10, pcf_TimeoutSeconds = 3\<rparr>),
                ct_readinessProbe := Some (BuildHTTPProbe \<lparr>pcf_Path = GatewayHealthPath, pcf_Port = GatewayPort,
                   pcf_InitialDelaySeconds = 5, pcf_PeriodSeconds = 5, pcf_TimeoutSeconds = 3\<rparr>),
                ct_resources := NormalizeGatewayResources (gw_resources spec),
                ct_volumeMounts := [\<lparr>vm_name = ''envoy-assets'', vm_mountPath = ''/config'', vm_readOnly = True\<rparr>,
                   \<lparr>vm_name = ''envoy-runtime'', vm_mountPath = ''/etc/envoy'', vm_readOnly = False\<rparr>]\<rparr>],
              ps_volumes := [configMapVolume ''envoy-assets'' (EnvoyConfigMapName p) None,
                 emptyVolume\<lparr>vol_name := ''envoy-runtime'', vol_emptyDir := True\<rparr>]\<rparr>))"

section \<open>powersync.go\<close>

definition PowersyncAPIComponentName :: string where "PowersyncAPIComponentName = ''powersync-api''"
definition PowersyncReplicationComponentName :: string where "PowersyncReplicationComponentName = ''powersync-replication''"
definition PowersyncCompactComponentName :: string where "PowersyncCompactComponentName = ''powersync-compact''"
definition PowersyncHTTPPort :: int where "PowersyncHTTPPort = 8080"
definition PowersyncMetricsPort :: int where "PowersyncMetricsPort = 9464"

definition PowersyncAPIDeploymentName :: "project \<Rightarrow> string" where
  "PowersyncAPIDeploymentName p = p_name p @ ''-powersync-api''"

definition PowersyncReplicationDeploymentName :: "project \<Rightarrow> string" where
  "PowersyncReplicationDeploymentName p = p_name p @ ''-powersync-replication''"

definition PowersyncCompactCronJobName :: "project \<Rightarrow> string" where
  "PowersyncCompactCronJobName p = p_name p @ ''-powersync-compact''"

definition DefaultPowersyncAPIResources :: resource_req where
  "DefaultPowersyncAPIResources = memoryAndCPU (Mi 180) (milli 100) (Mi 360) (milli 1000)"

definition DefaultPowersyncReplicationResources :: resource_req where
  "DefaultPowersyncReplicationResources = memoryAndCPU (Mi 256) (milli 100) (Mi 512) (milli 1000)"

definition DefaultPowersyncCompactResources :: resource_req where
  "DefaultPowersyncCompactResources = memoryAndCPU (Mi 256) (milli 100) (Mi 1024) (milli 1000)"

definition normalizePowersyncResources :: "resource_req \<Rightarrow> resource_req \<Rightarrow> resource_req" where
  "normalizePowersyncResources resources fallback =
     (if rr_requests resources = fmempty \<and> rr_limits resources = fmempty then fallback else resources)"

definition powersyncFileProbe :: "string \<Rightarrow> int \<Rightarrow> int \<Rightarrow> int \<Rightarrow> probe" where
  "powersyncFileProbe path failureThreshold periodSeconds timeoutSeconds =
     \<lparr>pr_httpGet = None, pr_exec = Some [''cat'', path], pr_initialDelaySeconds = 5,
      pr_timeoutSeconds = timeoutSeconds, pr_periodSeconds = periodSeconds, pr_successThreshold = 0,
      pr_failureThreshold = failureThreshold\<rparr>"

definition powersyncLivenessProbe :: probe where
  \<open>powersyncLivenessProbe =
     \<lparr>pr_httpGet = None,
      pr_exec = Some [''sh'', ''-ec'',
        ''age=$(( $(date +%s) - $(stat -c %Y /app/.probes/poll) )); [ '' @ dq @ ''$age'' @ dq @ '' -lt 10 ]''],
      pr_initialDelaySeconds = 5, pr_timeoutSeconds = 30, pr_periodSeconds = 10, pr_successThreshold = 0,
      pr_failureThreshold = 5\<rparr>\<close>

definition powersyncLifecycle :: "string list" where
  "powersyncLifecycle = [''sh'', ''-c'', ''sleep 5'']"

definition buildPowersyncEnv :: "project \<Rightarrow> secret_names_status \<Rightarrow> string \<Rightarrow> env_var list" where
  "buildPowersyncEnv p secretNames nodeOptions =
     (let dbHost = ClusterRWServiceName p in
      [envValue ''POWERSYNC_CONFIG_PATH'' ''/powersync/config/config.yaml'',
       envValue ''NODE_OPTIONS'' nodeOptions, envValue ''LOG_FORMAT'' ''json'',
       envValue ''MICRO_ENVIRONMENT_NAME'' ''production'', envValue ''MICRO_PROBE_TYPE'' ''fs'',
       envValue ''MICRO_SERVICE_NAME'' ''powersync'',
       secretEnv ''PS_POWERSYNC_API_TOKEN'' (PowersyncAPITokenSecretName p) PowersyncAPITokenSecretKey,
       secretEnv ''PS_STORAGE_PASSWORD'' (sn_powersyncStoragePassword secretNames) ''password'',
       secretEnv ''PS_REPLICATION_PASSWORD'' (sn_powersyncReplicationPassword secretNames) ''password'',
       envValue ''PS_POWERSYNC_STORAGE_URI''
         (''postgresql://powersync_storage:$(PS_STORAGE_PASSWORD)@'' @ dbHost @ '':5432/supabase''),
       envValue ''PS_POWERSYNC_REPLICATION_URI''
         (''postgresql://powersync_replication:$(PS_REPLICATION_PASSWORD)@'' @ dbHost @ '':5432/supabase'')])"

definition powersyncVolumeMounts :: "volume_mount list" where
  "powersyncVolumeMounts =
     [\<lparr>vm_name = ''config'', vm_mountPath = ''/powersync/config'', vm_readOnly = True\<rparr>,
      \<lparr>vm_name = ''sync-rules'', vm_mountPath = ''/powersync/sync_rules'', vm_readOnly = True\<rparr>]"

definition powersyncVolumes :: "project \<Rightarrow> powersync_spec \<Rightarrow> volume list" where
  "powersyncVolumes p spec =
     [configMapVolume ''config'' (PowersyncConfigMapName p) None,
      configMapVolume ''sync-rules'' (SyncRulesConfigMapName p spec) None]"

text \<open>The container fields the two PowerSync deployments share.\<close>

definition powersyncContainer :: "powersync_spec \<Rightarrow> string \<Rightarrow> string list \<Rightarrow> env_var list \<Rightarrow> resource_req \<Rightarrow> container" where
  "powersyncContainer spec name args env resources = emptyContainer\<lparr>
     ct_name := name, ct_image := ResolveImage (pw_image spec) PowersyncImage PowersyncTag,
     ct_imagePullPolicy := ResolvePullPolicy (pw_image spec), ct_args := args, ct_env := env,
     ct_livenessProbe := Some powersyncLivenessProbe,
     ct_readinessProbe := Some (powersyncFileProbe ''/app/.probes/ready'' 5 10 30),
     ct_startupProbe := Some (powersyncFileProbe ''/app/.probes/startup'' 200 1 1),
     ct_preStop := Some powersyncLifecycle, ct_resources := resources, ct_volumeMounts := powersyncVolumeMounts\<rparr>"

definition BuildPowersyncAPIDeployment :: "project \<Rightarrow> powersync_spec \<Rightarrow> secret_names_status \<Rightarrow> deployment" where
  "BuildPowersyncAPIDeployment p spec secretNames =
     (let resources = normalizePowersyncResources (pa_resources (pw_api spec)) DefaultPowersyncAPIResources;
          nodeOptions = (if pa_nodeOptions (pw_api spec) = '''' then ''--max-old-space-size=150'' else pa_nodeOptions (pw_api spec))
      in componentDeployment p (PowersyncAPIDeploymentName p) PowersyncAPIComponentName
           (NormalizeReplicas (pa_replicas (pw_api spec)))
           (emptyPodSpec\<lparr>
              ps_containers := [(powersyncContainer spec ''powersync-api'' [''start'', ''-r'', ''api'']
                   (buildPowersyncEnv p secretNames nodeOptions) resources)
                \<lparr>ct_ports := [tcpContainerPort ''http'' PowersyncHTTPPort, tcpContainerPort ''metrics'' PowersyncMetricsPort]\<rparr>],
              ps_volumes := powersyncVolumes p spec\<rparr>))"

definition RecreateDeploymentStrategyType :: string where "RecreateDeploymentStrategyType = ''Recreate''"

definition BuildPowersyncReplicationDeployment :: "project \<Rightarrow> powersync_spec \<Rightarrow> secret_names_status \<Rightarrow> deployment" where
  "BuildPowersyncReplicationDeployment p spec secretNames =
     (let resources = normalizePowersyncResources (prs_resources (pw_replication spec)) DefaultPowersyncReplicationResources;
          nodeOptions = (if prs_nodeOptions (pw_replication spec) = '''' then ''--max-old-space-size=230''
                         else prs_nodeOptions (pw_replication spec))
      in (componentDeployment p (PowersyncReplicationDeploymentName p) PowersyncReplicationComponentName 1
           (emptyPodSpec\<lparr>
              ps_containers := [(powersyncContainer spec ''powersync-replication'' [''start'', ''-r'', ''sync'']
                   (buildPowersyncEnv p secretNames nodeOptions) resources)
                \<lparr>ct_ports := [tcpContainerPort ''metrics'' PowersyncMetricsPort]\<rparr>],
              ps_volumes := powersyncVolumes p spec\<rparr>))
         \<lparr>dep_strategy := \<lparr>ds_type = RecreateDeploymentStrategyType, ds_foreign = ''''\<rparr>\<rparr>)"

definition ForbidConcurrent :: string where "ForbidConcurrent = ''Forbid''"
definition RestartPolicyNever :: string where "RestartPolicyNever = ''Never''"

definition BuildPowersyncCompactCronJob :: "project \<Rightarrow> powersync_spec \<Rightarrow> secret_names_status \<Rightarrow> cron_job option" where
  "BuildPowersyncCompactCronJob p spec secretNames =
     (if \<not> pcs_enabled (pw_compact spec) then None
      else let schedule = (if pcs_schedule (pw_compact spec) = '''' then ''0 3 * * *'' else pcs_schedule (pw_compact spec));
               resources = normalizePowersyncResources (pcs_resources (pw_compact spec)) DefaultPowersyncCompactResources
      in Some \<lparr>cj_meta = namedMeta (PowersyncCompactCronJobName p) (p_namespace p) (ComponentLabels p PowersyncCompactComponentName),
          cj_spec = \<lparr>cjs_schedule = schedule, cjs_concurrencyPolicy = ForbidConcurrent, cjs_suspend = None,
            cjs_successfulJobsHistoryLimit = Some 3, cjs_failedJobsHistoryLimit = Some 1,
            cjs_startingDeadlineSeconds = Some 300,
            cjs_jobTemplate = \<lparr>js_backoffLimit = Some 2, js_ttlSecondsAfterFinished = Some 3600,
              js_template = \<lparr>pt_labels = ComponentLabels p PowersyncCompactComponentName, pt_annotations = fmempty,
                pt_spec = AddImagePullSecrets (emptyPodSpec\<lparr>ps_restartPolicy := RestartPolicyNever,
                  ps_containers := [emptyContainer\<lparr>ct_name := ''powersync-compact'',
                     ct_image := ResolveImage (pw_image spec) PowersyncImage PowersyncTag,
                     ct_imagePullPolicy := ResolvePullPolicy (pw_image spec), ct_args := [''compact''],
                     ct_env := buildPowersyncEnv p secretNames ''--max-old-space-size=512'',
                     ct_resources := resources, ct_volumeMounts := powersyncVolumeMounts\<rparr>],
                  ps_volumes := powersyncVolumes p spec\<rparr>) p\<rparr>,
              js_foreign = ''''\<rparr>,
            cjs_foreign = ''''\<rparr>\<rparr>)"

section \<open>Lemmas\<close>

lemma componentDeployment_meta [simp]:
  "dep_meta (componentDeployment p name component replicas podSpec) =
     (namedMeta name (p_namespace p) (ComponentLabels p component))\<lparr>md_annotations := ReloaderAnnotations\<rparr>"
  by (simp add: componentDeployment_def)

text \<open>The names an environment defines for the operator, and their values, in order.\<close>

definition ownedEnv :: "env_var list \<Rightarrow> env_var list" where
  "ownedEnv env = filter (\<lambda>v. IsOperatorOwnedGoTrueEnv (ev_name v)) env"

lemma goTrueVariable_name [simp]: "ev_name (goTrueVariable c) = ge_name c"
  by (simp add: goTrueVariable_def split: option.splits)

text \<open>The index map is right: it names a position that holds a variable of that name.\<close>

definition indexed :: "nat gomap \<Rightarrow> env_var list \<Rightarrow> bool" where
  "indexed m env \<longleftrightarrow>
     (\<forall>n i. fmlookup m n = Some i \<longrightarrow> i < length env \<and> ev_name (env ! i) = n) \<and>
     (\<forall>v \<in> set env. fmlookup m (ev_name v) \<noteq> None)"

lemma indexed_snoc: "indexed m env \<Longrightarrow> indexed (fmupd (ev_name v) (length env) m) (env @ [v])"
  by (auto simp: indexed_def nth_append less_Suc_eq split: if_splits)

lemma indexed_update:
  "indexed m env \<Longrightarrow> fmlookup m (ev_name v) = Some i \<Longrightarrow> indexed m (env[i := v])"
  unfolding indexed_def
  by (auto simp: nth_list_update dest!: set_update_subset_insert [THEN subsetD]) metis

lemma envIndexes_indexed: "indexed m env \<Longrightarrow> indexed (envIndexes (length env) vs m) (env @ vs)"
proof (induction vs arbitrary: env m)
  case (Cons v vs)
  from Cons.IH [OF indexed_snoc [OF Cons.prems, of v]] show ?case by simp
qed simp

lemma indexed_start: "indexed (envIndexes 0 env fmempty) env"
  using envIndexes_indexed [of fmempty "[]" env] by (simp add: indexed_def)

lemma filter_update_outside:
  "i < length xs \<Longrightarrow> \<not> P (xs ! i) \<Longrightarrow> \<not> P y \<Longrightarrow> filter P (xs[i := y]) = filter P xs"
proof (induction xs arbitrary: i)
  case (Cons x xs)
  then show ?case by (cases i) auto
qed simp

text \<open>What one configured variable does to the rest of the environment.\<close>

lemma applyLoop_filter:
  assumes "indexed m env" and "\<And>c. c \<in> set cs \<Longrightarrow> P (ge_name c) \<Longrightarrow> IsOperatorOwnedGoTrueEnv (ge_name c)"
  shows "filter (\<lambda>v. P (ev_name v)) (applyLoop cs m env) = filter (\<lambda>v. P (ev_name v)) env"
  using assms
proof (induction cs m env rule: applyLoop.induct)
  case (2 c cs indexes env)
  show ?case
  proof (cases "IsOperatorOwnedGoTrueEnv (ge_name c)")
    case True
    with 2 show ?thesis by simp
  next
    case False
    with "2.prems"(2) have notP: "\<not> P (ge_name c)" by auto
    show ?thesis
    proof (cases "fmlookup indexes (ge_name c)")
      case None
      with 2 False notP indexed_snoc [OF "2.prems"(1), of "goTrueVariable c"] show ?thesis by simp
    next
      case (Some i)
      with "2.prems"(1) have "i < length env" "ev_name (env ! i) = ge_name c" by (auto simp: indexed_def)
      with 2 False Some notP indexed_update [OF "2.prems"(1), of "goTrueVariable c" i] show ?thesis
        by (simp add: filter_update_outside)
    qed
  qed
qed simp

lemma applyLoop_configured:
  assumes "indexed m env" and "c \<in> set cs" "\<not> IsOperatorOwnedGoTrueEnv (ge_name c)"
    and "distinct (map ge_name cs)"
  shows "goTrueVariable c \<in> set (applyLoop cs m env)"
  using assms
proof (induction cs m env rule: applyLoop.induct)
  case (2 d cs indexes env)
  show ?case
  proof (cases "d = c")
    case False
    with 2 show ?thesis
      by (auto split: option.splits
          intro: indexed_snoc [of _ _ "goTrueVariable d", simplified] indexed_update [of _ _ "goTrueVariable d", simplified])
  next
    case True
    let ?P = "\<lambda>n. n = ge_name c"
    have others: "\<And>e. e \<in> set cs \<Longrightarrow> ?P (ge_name e) \<Longrightarrow> IsOperatorOwnedGoTrueEnv (ge_name e)"
      using "2.prems"(4) True by (auto simp: image_iff)
    define env' where "env' = (case fmlookup indexes (ge_name c) of Some i \<Rightarrow> env[i := goTrueVariable c]
        | None \<Rightarrow> env @ [goTrueVariable c])"
    define m' where "m' = (case fmlookup indexes (ge_name c) of Some i \<Rightarrow> indexes
        | None \<Rightarrow> fmupd (ge_name c) (length env) indexes)"
    have ix: "indexed m' env'"
      using indexed_snoc [OF "2.prems"(1), of "goTrueVariable c"] indexed_update [OF "2.prems"(1), of "goTrueVariable c"]
      by (auto simp: m'_def env'_def split: option.splits)
    have "goTrueVariable c \<in> set env'"
      using "2.prems"(1) by (auto simp: env'_def indexed_def set_update_memI split: option.splits)
    then have "goTrueVariable c \<in> set (filter (\<lambda>v. ?P (ev_name v)) (applyLoop cs m' env'))"
      using applyLoop_filter [of m' env' cs ?P, OF ix others] by simp
    with "2.prems"(3) True show ?thesis by (auto simp: m'_def env'_def split: option.splits)
  qed
qed simp

text \<open>The containers of a deployment and the key of a Secret an environment variable reads.\<close>

definition containersOf :: "deployment \<Rightarrow> container list" where
  "containersOf d = ps_initContainers (pt_spec (dep_template d)) @ ps_containers (pt_spec (dep_template d))"

definition secretKey :: "env_var \<Rightarrow> string option" where
  "secretKey v = (case ev_valueFrom v of None \<Rightarrow> None | Some src \<Rightarrow> map_option ks_key (es_secretKeyRef src))"

lemma containersOf_component [simp]:
  "containersOf (componentDeployment p name component replicas podSpec) = ps_initContainers podSpec @ ps_containers podSpec"
  by (simp add: containersOf_def componentDeployment_def AddImagePullSecrets_def)

lemma secretKey_simps [simp]:
  "secretKey (envValue n v) = None" "secretKey (secretEnv n s k) = Some k"
  by (simp_all add: secretKey_def envValue_def secretEnv_def)

text \<open>A container that reads no field \<open>key\<close> of a Secret and imports no Secret as a whole.\<close>

definition avoidsKey :: "string \<Rightarrow> container \<Rightarrow> bool" where
  "avoidsKey key c \<longleftrightarrow> ct_envFrom c = [] \<and> Some key \<notin> secretKey ` set (ct_env c)"

lemma powersyncContainer_avoids:
  "avoidsKey ProjectCredentialsSigningKeysKey
     ((powersyncContainer spec name args (buildPowersyncEnv p sn nodeOptions) resources)\<lparr>ct_ports := ports\<rparr>)"
  by (simp add: avoidsKey_def powersyncContainer_def buildPowersyncEnv_def emptyContainer_def Let_def
      ProjectCredentialsSigningKeysKey_def PowersyncAPITokenSecretKey_def)

lemma core_containers_avoid:
  "list_all (avoidsKey ProjectCredentialsSigningKeysKey) (containersOf (BuildRestDeployment p sn))"
  "list_all (avoidsKey ProjectCredentialsSigningKeysKey) (containersOf (BuildStudioDeployment p sn))"
  "list_all (avoidsKey ProjectCredentialsSigningKeysKey) (containersOf (BuildMetaDeployment p sn))"
  "list_all (avoidsKey ProjectCredentialsSigningKeysKey) (containersOf (BuildGatewayDeployment p))"
proof -
  have configMapRef: "secretKey \<lparr>ev_name = n, ev_value = v,
      ev_valueFrom = Some \<lparr>es_secretKeyRef = None, es_configMapKeyRef = r\<rparr>\<rparr> = None" for n v r
    by (simp add: secretKey_def)
  show "list_all (avoidsKey ProjectCredentialsSigningKeysKey) (containersOf (BuildRestDeployment p sn))"
    by (simp add: BuildRestDeployment_def Let_def avoidsKey_def buildRestDBInitContainer_def emptyPodSpec_def
        emptyContainer_def BuildDatabaseEnv_def configMapRef credential_key_defs)
  show "list_all (avoidsKey ProjectCredentialsSigningKeysKey) (containersOf (BuildStudioDeployment p sn))"
    by (simp add: BuildStudioDeployment_def Let_def avoidsKey_def emptyPodSpec_def emptyContainer_def credential_key_defs)
  show "list_all (avoidsKey ProjectCredentialsSigningKeysKey) (containersOf (BuildMetaDeployment p sn))"
    by (simp add: BuildMetaDeployment_def Let_def avoidsKey_def emptyPodSpec_def emptyContainer_def credential_key_defs)
  show "list_all (avoidsKey ProjectCredentialsSigningKeysKey) (containersOf (BuildGatewayDeployment p))"
    by (simp add: BuildGatewayDeployment_def Let_def avoidsKey_def emptyPodSpec_def emptyContainer_def credential_key_defs)
qed

lemma powersync_containers_avoid:
  "list_all (avoidsKey ProjectCredentialsSigningKeysKey) (containersOf (BuildPowersyncAPIDeployment p spec sn))"
  "list_all (avoidsKey ProjectCredentialsSigningKeysKey) (containersOf (BuildPowersyncReplicationDeployment p spec sn))"
proof -
  have strategy: "containersOf (d\<lparr>dep_strategy := st\<rparr>) = containersOf d" for d st
    by (simp add: containersOf_def)
  show "list_all (avoidsKey ProjectCredentialsSigningKeysKey) (containersOf (BuildPowersyncAPIDeployment p spec sn))"
    "list_all (avoidsKey ProjectCredentialsSigningKeysKey) (containersOf (BuildPowersyncReplicationDeployment p spec sn))"
    by (simp_all add: BuildPowersyncAPIDeployment_def BuildPowersyncReplicationDeployment_def Let_def
        powersyncContainer_avoids emptyPodSpec_def strategy)
qed

text \<open>Script text as lines: a line feed in no element means the elements are the lines.\<close>

lemma Split_lines:
  "(\<And>w. w \<in> set ws \<Longrightarrow> CHR 0x0A \<notin> set w) \<Longrightarrow> Split (lines ws) (CHR 0x0A) = ws @ ['''']"
  by (induction ws) (simp_all add: lines_Cons Split_append)

lemma Split_lines_append:
  "(\<And>w. w \<in> set ws \<Longrightarrow> CHR 0x0A \<notin> set w) \<Longrightarrow> Split (lines ws @ s) (CHR 0x0A) = ws @ Split s (CHR 0x0A)"
  by (induction ws) (simp_all add: lines_Cons Split_append)

definition grantLines :: "string \<Rightarrow> string list" where
  "grantLines schema =
     [''GRANT USAGE ON SCHEMA '' @ dq @ schema @ dq @ '' TO powersync_replication;'',
      ''GRANT SELECT ON ALL TABLES IN SCHEMA '' @ dq @ schema @ dq @ '' TO powersync_replication;'',
      ''ALTER DEFAULT PRIVILEGES FOR ROLE supabase_admin IN SCHEMA '' @ dq @ schema @ dq @
        '' GRANT SELECT ON TABLES TO powersync_replication;'']"

lemma schemaGrants_lines: "concat (map schemaGrants schemas) = lines (concat (map grantLines schemas))"
proof (induction schemas)
  case (Cons s schemas)
  moreover have "schemaGrants s = lines (grantLines s)" by (simp only: schemaGrants_def grantLines_def)
  ultimately show ?case by simp
qed simp

lemma schema_char_plain: "schema_char c \<Longrightarrow> c \<noteq> CHR 0x0A \<and> c \<noteq> CHR 0x22"
  by (auto simp: schema_char_def schema_start_def less_eq_char_def)

lemma valid_schema_plain: "valid_schema s \<Longrightarrow> CHR 0x0A \<notin> set s \<and> CHR 0x22 \<notin> set s"
  using schema_char_plain by (auto simp: valid_schema_def list_all_iff)

lemma grantLines_plain: "valid_schema s \<Longrightarrow> w \<in> set (grantLines s) \<Longrightarrow> CHR 0x0A \<notin> set w \<and> w \<noteq> ''EOSQL''"
  using valid_schema_plain [of s] by (auto simp: grantLines_def dq_def)

section \<open>Properties\<close>




lemma smtp_names:
  fixes p smtp
  defines "q \<equiv> p\<lparr>p_spec := (p_spec p)\<lparr>sp_auth := (sp_auth (p_spec p))\<lparr>au_smtp := smtp\<rparr>\<rparr>\<rparr>"
  shows "componentDeployment q = componentDeployment p" "baseAuthEnv E q = baseAuthEnv E p"
    "AuthDeploymentName q = AuthDeploymentName p" "ClusterRWServiceName q = ClusterRWServiceName p"
  by (simp_all add: fun_eq_iff q_def componentDeployment_def baseAuthEnv_def AuthDeploymentName_def ClusterRWServiceName_def
      ClusterName_def ComponentLabels_def CommonLabels_def SelectorLabels_def AddImagePullSecrets_def
      GoTrueFallbackSecretName_def EmailHookSecretName_def GetAccessTokenExpiration_def Let_def cong: if_cong option.case_cong)

text \<open>
  The SMTP settings that the API accepts have no effect: the Auth deployment, the one place
  that could configure GoTrue with them, is the same whatever \<open>spec.auth.smtp\<close> holds.
\<close>

theorem smtp_settings_ignored:
  "BuildAuthDeployment E (p\<lparr>p_spec := (p_spec p)\<lparr>sp_auth := (sp_auth (p_spec p))\<lparr>au_smtp := smtp\<rparr>\<rparr>\<rparr>) secretNames =
   BuildAuthDeployment E p secretNames"
  by (simp add: BuildAuthDeployment_def buildAuthEnv_def smtp_names Let_def)

end
