(* ===== verification/Converge.thy ===== *)
theory Converge
  imports Apply
begin

text \<open>
  Convergence of the \<open>createOrUpdate...\<close> methods: once an object has been written, the next
  reconciliation reads it and writes nothing. The interface is the locale \<open>convergent\<close>; each
  merge of the previous theory is an instance.
\<close>

lemma adopt_ok:
  "adopt E p m = Inr (m', c) \<Longrightarrow>
     m' = m\<lparr>md_owners := md_owners m'\<rparr> \<and> setControllerReference E p m = Inr (md_owners m') \<and>
     md_namespace m' = md_namespace m \<and> md_labels m' = md_labels m \<and> objectKey m' = objectKey m \<and>
     md_annotations m' = md_annotations m \<and> (c \<longleftrightarrow> md_owners m' \<noteq> md_owners m)"
  by (auto simp: adopt_def objectKey_def split: sum.splits)

lemma adopt_again:
  assumes "lawful_ownership E" "adopt E p m = Inr (m', c)"
    and "md_owners m'' = md_owners m'" "md_namespace m'' = md_namespace m"
  shows "adopt E p m'' = Inr (m'', False)"
proof -
  from assms(2) have "setControllerReference E p m = Inr (md_owners m')"
    by (auto simp: adopt_def split: sum.splits)
  with assms have "setControllerReference E p m'' = Inr (md_owners m'')"
    unfolding lawful_ownership_def by metis
  then show ?thesis by (simp add: adopt_def)
qed

lemma mergeLabels_again:
  assumes "lawful_range E" "mergeLabels E m d = (m', c)"
  shows "mergeLabels E m' d = (m', False)"
proof -
  obtain m'' c'' where again: "mergeLabels E m' d = (m'', c'')" by fastforce
  note first = mergeLabels_eq [OF assms] and second = mergeLabels_eq [OF assms(1) again]
  have same: "goget (md_labels m') k = goget d k" if "k |\<in>| fmdom d" for k
    using first that by (auto simp: goget_def split: option.splits if_splits)
  have "md_labels m'' = md_labels m'"
    by (rule fmap_ext) (use second same in auto)
  with second have "m'' = m'" by simp
  with second same again show ?thesis by simp
qed

lemma mergeLabels_namespace [simp]: "md_namespace (fst (mergeLabels E m d)) = md_namespace m"
  by (simp add: mergeLabels_def split: prod.splits)

lemma mergeLabels_unchanged:
  assumes "lawful_range E" "mergeLabels E m d = (m', False)"
  shows "m' = m"
proof -
  note eq = mergeLabels_eq [OF assms]
  then have "md_labels m' = md_labels m" by (intro fmap_ext) auto
  with eq show ?thesis by simp
qed

lemma mergeLabels_rest:
  "mergeLabels E m d = (m', c) \<Longrightarrow> md_owners m' = md_owners m \<and> md_namespace m' = md_namespace m \<and>
     (goget d k = goget (md_labels m) k \<longrightarrow> goget (md_labels m') k = goget (md_labels m) k)"
  by (metis fst_conv mergeLabels_instance mergeLabels_keeps(1) mergeLabels_namespace)

section \<open>The interface\<close>

text \<open>
  \<open>good\<close> is what the merge needs of the desired object: that it carries the project's own
  instance label, where the method checks that label on the stored object.
\<close>

locale convergent =
  fixes merge :: "env \<Rightarrow> project \<Rightarrow> 'a \<Rightarrow> 'a \<Rightarrow> ('a \<times> bool) result"
    and good :: "project \<Rightarrow> 'a \<Rightarrow> bool"
    and k :: kind and as :: "obj \<Rightarrow> 'a option" and wrap :: "'a \<Rightarrow> obj"
  assumes as_wrap: "as (wrap x) = Some x"
    and settles: "lawful_ownership E \<Longrightarrow> lawful_range E \<Longrightarrow> good p desired \<Longrightarrow>
      merge E p desired existing = Inr (stored, changed) \<Longrightarrow> merge E p desired stored = Inr (stored, False)"
begin

lemma quiet_after_write:
  assumes "lawful_ownership E" "lawful_range E" "good p desired"
    and "merge E p desired existing = Inr (stored, changed)"
    and "respond E (rs_events s) (Get k name) = RObj (wrap stored)"
  shows "run_state (upsert E k as wrap blame name d (merge E p desired)) s =
    (Inr (), s\<lparr>rs_events := (Get k name, RObj (wrap stored)) # rs_events s\<rparr>)"
  using assms(5) settles [OF assms(1-4)]
  by (simp add: upsert_def as_wrap expect_def Let_def)

end

definition labelledFor :: "project \<Rightarrow> object_meta \<Rightarrow> bool" where
  "labelledFor p m \<longleftrightarrow> goget (md_labels m) LabelInstance = p_name p"

section \<open>Instances\<close>

interpretation secretC: convergent mergeSecret "\<lambda>p d. True" KSecret asSecret OSecret
proof
  fix E p and desired existing stored :: secret and changed
  assume law: "lawful_ownership E" and ok: "mergeSecret E p desired existing = Inr (stored, changed)"
  from ok have ad: "adopt E p (sec_meta existing) = Inr (sec_meta stored, changed)"
    by (auto simp: mergeSecret_def split: sum.splits prod.splits)
  show "mergeSecret E p desired stored = Inr (stored, False)"
    using adopt_again [OF law ad, of "sec_meta stored"] adopt_ok [OF ad] by (simp add: mergeSecret_def)
qed simp

interpretation configMapC: convergent mergeConfigMap "\<lambda>p d. labelledFor p (cm_meta d)" KConfigMap asConfigMap OConfigMap
proof
  fix E p and desired existing stored :: config_map and changed
  assume laws: "lawful_ownership E" "lawful_range E" and good: "labelledFor p (cm_meta desired)"
    and ok: "mergeConfigMap E p desired existing = Inr (stored, changed)"
  from ok obtain m c m' c' where lab: "goget (md_labels (cm_meta existing)) LabelInstance = p_name p"
    and ad: "adopt E p (cm_meta existing) = Inr (m, c)"
    and ml: "mergeLabels E m (md_labels (cm_meta desired)) = (m', c')"
    and st: "cm_meta stored = m'" "cm_data stored = cm_data desired"
    by (auto simp: mergeConfigMap_def split: if_splits sum.splits prod.splits)
  note rest = adopt_ok [OF ad] mergeLabels_rest [OF ml, of LabelInstance]
  have "goget (md_labels m') LabelInstance = p_name p"
    using rest lab good by (simp add: labelledFor_def)
  moreover have "adopt E p m' = Inr (m', False)"
    using adopt_again [OF laws(1) ad, of m'] rest by simp
  ultimately show "mergeConfigMap E p desired stored = Inr (stored, False)"
    using mergeLabels_again [OF laws(2) ml] st by (simp add: mergeConfigMap_def)
qed simp

interpretation deploymentC: convergent mergeDeployment "\<lambda>p d. True" KDeployment asDeployment ODeployment
proof
  fix E p and desired existing stored :: deployment and changed
  assume law: "lawful_ownership E" and ok: "mergeDeployment E p desired existing = Inr (stored, changed)"
  from ok obtain m c where ad: "adopt E p (dep_meta existing) = Inr (m, c)"
    and st: "dep_meta stored = m" "dep_replicas stored = dep_replicas desired"
      "normalizePodTemplateDefaults (dep_template stored) = normalizePodTemplateDefaults (dep_template desired)"
      "ds_type (dep_strategy desired) = '''' \<or> dep_strategy stored = dep_strategy desired"
    by (auto simp: mergeDeployment_def Let_def podTemplateN.idem split: if_splits sum.splits prod.splits)
  have "adopt E p m = Inr (m, False)"
    using adopt_again [OF law ad, of m] adopt_ok [OF ad] by simp
  with st show "mergeDeployment E p desired stored = Inr (stored, False)"
    by (auto simp: mergeDeployment_def Let_def)
qed simp

interpretation serviceC: convergent mergeService "\<lambda>p d. True" KService asService OService
proof
  fix E p and desired existing stored :: service and changed
  assume law: "lawful_ownership E" and ok: "mergeService E p desired existing = Inr (stored, changed)"
  from ok obtain m c where ad: "adopt E p (svc_meta existing) = Inr (m, c)"
    and st: "svc_meta stored = m" "svc_ports stored = svc_ports desired" "svc_selector stored = svc_selector desired"
    by (auto simp: mergeService_def split: if_splits sum.splits prod.splits)
  have "adopt E p m = Inr (m, False)"
    using adopt_again [OF law ad, of m] adopt_ok [OF ad] by simp
  with st show "mergeService E p desired stored = Inr (stored, False)"
    by (simp add: mergeService_def)
qed simp

interpretation cronJobC: convergent mergeCronJob "\<lambda>p d. True" KCronJob asCronJob OCronJob
proof
  fix E p and desired existing stored :: cron_job and changed
  assume laws: "lawful_ownership E" "lawful_range E"
    and ok: "mergeCronJob E p desired existing = Inr (stored, changed)"
  from ok obtain m c m' c' where ad: "adopt E p (cj_meta existing) = Inr (m, c)"
    and ml: "mergeLabels E m (md_labels (cj_meta desired)) = (m', c')"
    and st: "cj_meta stored = m'" "normalizeCronJobDefaults (cj_spec stored) = normalizeCronJobDefaults (cj_spec desired)"
    by (auto simp: mergeCronJob_def Let_def cronJobN.idem split: if_splits sum.splits prod.splits)
  note rest = adopt_ok [OF ad] mergeLabels_rest [OF ml]
  have "adopt E p m' = Inr (m', False)"
    using adopt_again [OF laws(1) ad, of m'] rest by simp
  then show "mergeCronJob E p desired stored = Inr (stored, False)"
    using mergeLabels_again [OF laws(2) ml] st by (simp add: mergeCronJob_def Let_def)
qed simp

lemma removeOwner_then_labels:
  assumes "lawful_range E" "n \<noteq> ''''" "removeSupabaseProjectOwnerReference E m0 n = (m, c)" "mergeLabels E m d = (m', c')"
  shows "removeSupabaseProjectOwnerReference E m' n = (m', False)" "mergeLabels E m' d = (m', False)"
    "unowned E n m'"
proof -
  have "md_owners m' = filter (\<lambda>r. \<not> isProjectOwner E n r) (md_owners m0)"
    using assms(2,3) mergeLabels_rest [OF assms(4)] by (auto simp: removeOwner_eq)
  then show "removeSupabaseProjectOwnerReference E m' n = (m', False)" "unowned E n m'"
    using assms(2) by (auto simp: removeOwner_eq filter_id_conv unowned_def list_all_iff)
  show "mergeLabels E m' d = (m', False)" by (rule mergeLabels_again [OF assms(1,4)])
qed

interpretation objectStoreC: convergent "\<lambda>E p. mergeObjectStore E" "\<lambda>p d. True" KObjectStore asObjectStore OObjectStore
proof
  fix E and desired existing stored :: object_store and changed
  assume law: "lawful_range E" and ok: "mergeObjectStore E desired existing = Inr (stored, changed)"
  define n where "n = goget (md_labels (os_meta desired)) LabelInstance"
  obtain m c where rm: "removeSupabaseProjectOwnerReference E (os_meta existing) n = (m, c)" by fastforce
  obtain m' c' where ml: "mergeLabels E m (md_labels (os_meta desired)) = (m', c')" by fastforce
  note ok' = ok [unfolded mergeObjectStore_def Let_def n_def [symmetric] rm prod.case ml]
  from ok' have n: "n \<noteq> ''''" and lab: "goget (md_labels (os_meta existing)) LabelInstance = n"
    and st: "os_meta stored = m'"
    by (auto split: if_splits)
  note quiet = removeOwner_then_labels [OF law n rm ml]
  have "md_labels m = md_labels (os_meta existing)" using rm n by (auto simp: removeOwner_eq)
  then have "goget (md_labels m') LabelInstance = n"
    using mergeLabels_rest [OF ml, of LabelInstance] lab n_def by simp
  with ok' n show "mergeObjectStore E desired stored = Inr (stored, False)"
    by (auto simp: mergeObjectStore_def Let_def n_def [symmetric] st quiet split: if_splits)
qed simp

interpretation scheduledBackupC:
  convergent "\<lambda>E p. mergeScheduledBackup E" "\<lambda>p d. True" KScheduledBackup asScheduledBackup OScheduledBackup
proof
  fix E and desired existing stored :: scheduled_backup and changed
  assume law: "lawful_range E" and ok: "mergeScheduledBackup E desired existing = Inr (stored, changed)"
  define n where "n = goget (md_labels (sb_meta desired)) LabelInstance"
  obtain m c where rm: "removeSupabaseProjectOwnerReference E (sb_meta existing) n = (m, c)" by fastforce
  obtain m' c' where ml: "mergeLabels E m (md_labels (sb_meta desired)) = (m', c')" by fastforce
  note ok' = ok [unfolded mergeScheduledBackup_def Let_def n_def [symmetric] rm prod.case ml]
  from ok' have n: "n \<noteq> ''''" and lab: "goget (md_labels (sb_meta existing)) LabelInstance = n"
    and st: "sb_meta stored = m'"
    by (auto split: if_splits)
  note quiet = removeOwner_then_labels [OF law n rm ml]
  have "md_labels m = md_labels (sb_meta existing)" using rm n by (auto simp: removeOwner_eq)
  then have "goget (md_labels m') LabelInstance = n"
    using mergeLabels_rest [OF ml, of LabelInstance] lab n_def by simp
  with ok' n show "mergeScheduledBackup E desired stored = Inr (stored, False)"
    by (auto simp: mergeScheduledBackup_def Let_def n_def [symmetric] st quiet split: if_splits)
qed simp

section \<open>Jobs\<close>

definition terminal :: "job_condition \<Rightarrow> bool" where
  "terminal c \<longleftrightarrow> jc_status c = ConditionTrue \<and> jc_type c \<in> {JobComplete, JobFailed}"

lemma jobOutcome_find:
  "jobOutcome name cs =
     (case List.find terminal cs of
        None \<Rightarrow> Inr False
      | Some c \<Rightarrow> if jc_type c = JobComplete then Inr True
                 else Inl (Errorf (''job '' @ name @ '' has failed: '' @ jc_message c)))"
  by (induction cs) (auto simp: terminal_def)

section \<open>Properties\<close>

text \<open>
  C26. Applying a deployment converges: when the API server answers with the object the
  operator last wrote (whatever was stored before), the next call reads it once, reports
  success and writes nothing. Server-side defaults of the pod template do not count as a
  difference.
\<close>

theorem createOrUpdateDeployment_converges:
  assumes "lawful_ownership E" "lawful_range E"
    and "adopt E (rs_project s) (dep_meta desired) = Inr (m, c)"
    and "mergeDeployment E (rs_project s) desired existing = Inr (stored, changed)"
    and "respond E (rs_events s) (Get KDeployment (objectKey (dep_meta desired))) = RObj (ODeployment stored)"
  shows "run_state (createOrUpdateDeployment E (Some desired)) s =
    (Inr (), s\<lparr>rs_events := (Get KDeployment (objectKey (dep_meta desired)), RObj (ODeployment stored)) # rs_events s\<rparr>)"
  using deploymentC.quiet_after_write [OF assms(1,2) TrueI assms(4,5)] adopt_ok [OF assms(3)] assms(3)
  by (simp add: createOrUpdateDeployment_def)

text \<open>
  C27. The object store that is written back carries no owner reference to the project, so
  deleting the project cannot garbage-collect the backups; it keeps the fields other
  controllers own; and the next call writes nothing.
\<close>

theorem createOrUpdateObjectStore_durable:
  assumes "lawful_ownership E" "lawful_range E"
    and "mergeObjectStore E desired existing = Inr (stored, changed)"
  shows "unowned E (goget (md_labels (os_meta desired)) LabelInstance) (os_meta stored) \<and>
    goget (md_labels (os_meta existing)) LabelInstance = goget (md_labels (os_meta desired)) LabelInstance \<and>
    oss_foreign (os_spec stored) = oss_foreign (os_spec existing) \<and>
    osc_foreign (oss_configuration (os_spec stored)) = osc_foreign (oss_configuration (os_spec existing)) \<and>
    (\<forall>s. respond E (rs_events s) (Get KObjectStore (objectKey (os_meta desired))) = RObj (OObjectStore stored) \<longrightarrow>
       run_state (createOrUpdateObjectStore E (Some desired)) s =
         (Inr (), s\<lparr>rs_events := (Get KObjectStore (objectKey (os_meta desired)), RObj (OObjectStore stored)) # rs_events s\<rparr>))"
proof -
  define n where "n = goget (md_labels (os_meta desired)) LabelInstance"
  obtain m c where rm: "removeSupabaseProjectOwnerReference E (os_meta existing) n = (m, c)" by fastforce
  obtain m' c' where ml: "mergeLabels E m (md_labels (os_meta desired)) = (m', c')" by fastforce
  note ok = assms(3) [unfolded mergeObjectStore_def Let_def n_def [symmetric] rm prod.case ml]
  from ok have n: "n \<noteq> ''''" and rest: "goget (md_labels (os_meta existing)) LabelInstance = n"
      "os_meta stored = m'" "oss_foreign (os_spec stored) = oss_foreign (os_spec existing)"
      "osc_foreign (oss_configuration (os_spec stored)) = osc_foreign (oss_configuration (os_spec existing))"
    by (auto split: if_splits)
  show ?thesis
    using removeOwner_then_labels(3) [OF assms(2) n rm ml] rest
      objectStoreC.quiet_after_write [OF assms(1,2) TrueI assms(3)]
    by (simp add: n_def createOrUpdateObjectStore_def)
qed

text \<open>
  C28. The permissions Job is reported as completed only when the stored Job carries the
  project's label, was created for the current script (its annotation is the hash of the
  script), and its first true terminal condition is \<open>Complete\<close>; in particular a Job of an
  earlier script, or one that failed first, never lets PowerSync start.
\<close>

theorem createOrCheckJob_completed:
  assumes "run_state (createOrCheckJob E job hash) s = (Inr True, s')"
  shows "\<exists>existing c. respond E (rs_events s) (Get KJob (objectKey (job_meta job))) = RObj (OJob existing) \<and>
    labelledFor (rs_project s) (job_meta existing) \<and>
    goget (md_annotations (job_meta existing)) cdcScriptHashAnnotation = hash \<and>
    List.find terminal (job_conditions existing) = Some c \<and> jc_type c = JobComplete"
proof -
  from assms obtain m0 c0 where ad: "adopt E (rs_project s) (job_meta job) = Inr (m0, c0)"
    by (auto simp: createOrCheckJob_def split: sum.splits)
  have key: "objectKey (m0\<lparr>md_annotations := a\<rparr>) = objectKey (job_meta job)" for a
    using adopt_ok [OF ad] by (simp add: objectKey_def)
  from assms ad obtain existing m c m' c' where
      get: "respond E (rs_events s) (Get KJob (objectKey (job_meta job))) = RObj (OJob existing)"
    and lab: "goget (md_labels (job_meta existing)) LabelInstance = p_name (rs_project s)"
    and ad': "adopt E (rs_project s) (job_meta existing) = Inr (m, c)"
    and ml: "mergeLabels E m (md_labels m0) = (m', c')"
    and hash: "goget (md_annotations m') cdcScriptHashAnnotation = hash"
    and out: "jobOutcome (md_name m0) (job_conditions existing) = Inr True"
    by (auto simp: createOrCheckJob_def run_andthen Let_def key wrapErr_def split: sum.splits if_splits prod.splits)
  have "md_annotations m' = md_annotations (job_meta existing)"
    using adopt_ok [OF ad'] ml by (auto simp: mergeLabels_def split: if_splits prod.splits)
  with get lab hash out show ?thesis
    by (auto simp: labelledFor_def jobOutcome_find split: option.splits if_splits)
qed

end
