(* ===== verification/Reconcile.thy ===== *)
theory Reconcile
  imports Workloads Converge
begin

text \<open>
  \<open>SupabaseProjectReconciler.Reconcile\<close> and every phase it calls
  (\<open>src/internal/controller/supabaseproject_controller.go\<close>), each as one handler over the state
  of a reconciliation: the project in memory and the history of requests. The result
  \<open>ctrl.Result\<close> is the requeue delay in seconds; zero means none. Logging is left out.
\<close>

type_synonym ctrl_result = int

definition RequeueDelay :: ctrl_result where "RequeueDelay = 10"

definition doneResult :: ctrl_result where "doneResult = 0"

text \<open>\<open>if result, err := m(); err != nil || result.RequeueAfter > 0 \{ return result, err \}\<close>\<close>

definition unlessRequeue :: "ctrl_result result handler \<Rightarrow> ctrl_result result handler \<Rightarrow> ctrl_result result handler" where
  "unlessRequeue m k = andthen m (\<lambda>result. if result > 0 then ok result else k)"

text \<open>Set a condition, persist the status, and ask to be called again.\<close>

definition waitCondition :: "env \<Rightarrow> string \<Rightarrow> string \<Rightarrow> string \<Rightarrow> ctrl_result result handler" where
  "waitCondition E conditionType reason message = do {
     setCondition E conditionType ConditionFalse reason message;
     andthen (updateProjectStatus E) (\<lambda>_. ok RequeueDelay) }"

text \<open>Run a handler and hand its error to another one, in general a failed condition.\<close>

definition onError :: "'a result handler \<Rightarrow> (go_error \<Rightarrow> 'a result handler) \<Rightarrow> 'a result handler" where
  "onError m h = do {
     r \<leftarrow> m;
     case r of Inl err \<Rightarrow> h err | Inr x \<Rightarrow> ok x }"

definition orFailCondition :: "env \<Rightarrow> string \<Rightarrow> string \<Rightarrow> 'a result handler \<Rightarrow> 'a result handler" where
  "orFailCondition E conditionType reason m = onError m (failCondition E conditionType reason)"

definition namespaced :: "project \<Rightarrow> string \<Rightarrow> key" where
  "namespaced p name = (p_namespace p, name)"

section \<open>Phase 0: durable metadata\<close>

definition durables :: "project \<Rightarrow> (kind \<times> string) list" where
  "durables p = [(KCluster, ClusterName p), (KObjectStore, ObjectStoreName p),
     (KObjectStore, RecoveryObjectStoreName p), (KScheduledBackup, ScheduledBackupName p)]"

definition protectDurable :: "env \<Rightarrow> kind \<times> string \<Rightarrow> unit result handler" where
  "protectDurable E d = do {
     p \<leftarrow> getProject;
     let key = namespaced p (snd d);
     r \<leftarrow> fetch E (fst d) (asKind (fst d)) key;
     case r of
       Inl err \<Rightarrow>
         if IsNotFound err then ok ()
         else fail (Wrap (''getting durable resource '' @ fst key @ ''/'' @ snd key @ '': '') err)
     | Inr object \<Rightarrow>
         if goget (md_labels (metaOf object)) LabelInstance \<noteq> p_name p then ok ()
         else (let (m, changed) = removeSupabaseProjectOwnerReference E (metaOf object) (p_name p)
               in if \<not> changed then ok ()
                  else wrapErr (''removing SupabaseProject owner from durable resource '' @ fst key @ ''/'' @ snd key @ '': '')
                         (send E (Update (setOwners (md_owners m) object)))) }"

definition reconcileDurableMetadataProtection :: "env \<Rightarrow> unit result handler" where
  "reconcileDurableMetadataProtection E = do {
     p \<leftarrow> getProject;
     for_each (protectDurable E) (durables p) }"

section \<open>Phase 1: credentials and implementation secrets\<close>

definition failReconcileSecrets :: "env \<Rightarrow> string \<Rightarrow> string \<Rightarrow> go_error \<Rightarrow> 'a result handler" where
  "failReconcileSecrets E reason message reconcileErr = do {
     setCondition E ConditionTypeSecretsReady ConditionFalse reason message;
     setCondition E ConditionTypeReady ConditionFalse ''SecretsNotReady''
       ''Project credentials and implementation secrets are not ready'';
     andthen (updateProjectStatus E) (\<lambda>_. fail reconcileErr) }"

definition failEmailHookSecret :: "env \<Rightarrow> string \<Rightarrow> go_error \<Rightarrow> 'a result handler" where
  "failEmailHookSecret E reason reconcileErr = do {
     setCondition E ConditionTypeSecretsReady ConditionFalse reason (Error reconcileErr);
     andthen (updateProjectStatus E) (\<lambda>_. fail reconcileErr) }"

definition setEmailHookName :: "string \<Rightarrow> unit handler" where
  "setEmailHookName name =
     modifyStatus (\<lambda>st. st\<lparr>st_secretNames := (st_secretNames st)\<lparr>sn_emailHook := name\<rparr>\<rparr>)"

definition emailHookEnabled :: "project \<Rightarrow> bool" where
  "emailHookEnabled p = (case au_emailHook (sp_auth (p_spec p)) of None \<Rightarrow> False | Some hook \<Rightarrow> eh_enabled hook)"

definition ensureEmailHookSecret :: "env \<Rightarrow> unit result handler" where
  "ensureEmailHookSecret E = do {
     p \<leftarrow> getProject;
     r \<leftarrow> fetch E KSecret asSecret (namespaced p (EmailHookSecretName p));
     case r of
       Inl err \<Rightarrow>
         if \<not> IsNotFound err then failEmailHookSecret E ''EmailHookSecretUnavailable'' err
         else do {
           g \<leftarrow> GenerateEmailHookSecret E p;
           case g of
             Inl err' \<Rightarrow> failEmailHookSecret E ''EmailHookSecretGenerationFailed'' err'
           | Inr (generated, _) \<Rightarrow> do {
               c \<leftarrow> createOrUpdateSecret E generated;
               case c of Inl err' \<Rightarrow> failEmailHookSecret E ''EmailHookSecretCreateFailed'' err' | Inr _ \<Rightarrow> ok () } }
     | Inr existing \<Rightarrow>
         (case ValidateEmailHookSecret (Some existing) of
            Inl err \<Rightarrow> failEmailHookSecret E ''InvalidEmailHookSecret'' err
          | Inr _ \<Rightarrow> ok ()) }"

definition reconcileEmailHookSecret :: "env \<Rightarrow> unit result handler" where
  "reconcileEmailHookSecret E = do {
     p \<leftarrow> getProject;
     if \<not> emailHookEnabled p then
       (if sn_emailHook (st_secretNames (p_status p)) = '''' then ok ()
        else do { setEmailHookName ''''; updateProjectStatus E })
     else andthen (ensureEmailHookSecret E) (\<lambda>_. do {
       setEmailHookName (EmailHookSecretName p);
       setCondition E ConditionTypeSecretsReady ConditionTrue ''SecretsReady''
         ''All secrets, including the email hook secret, are ready'';
       updateProjectStatus E }) }"

definition reconcilePowersyncAPITokenSecret :: "env \<Rightarrow> unit result handler" where
  "reconcilePowersyncAPITokenSecret E = do {
     p \<leftarrow> getProject;
     let name = PowersyncAPITokenSecretName p;
     r \<leftarrow> fetch E KSecret asSecret (namespaced p name);
     case r of
       Inl err \<Rightarrow>
         if \<not> IsNotFound err then fail (Wrap (''getting PowerSync API token Secret '' @ Quote name @ '': '') err)
         else andthen (GeneratePowersyncAPITokenSecret E p) (\<lambda>generated.
           wrapErr (''creating PowerSync API token Secret '' @ Quote name @ '': '') (createOrUpdateSecret E generated))
     | Inr existing \<Rightarrow>
         (case ValidatePowersyncAPITokenSecret (Some existing) of
            Inl err \<Rightarrow> fail (Wrap (''validating PowerSync API token Secret '' @ Quote name @ '': '') err)
          | Inr _ \<Rightarrow>
              (let placeholder = \<lparr>sec_meta = namedMeta name (p_namespace p) fmempty, sec_type = '''',
                     sec_data = fmempty, sec_stringData = fmempty\<rparr>
               in wrapErr (''adopting PowerSync API token Secret '' @ Quote name @ '': '') (createOrUpdateSecret E placeholder))) }"

text \<open>The loop that looks for the two role Secrets: \<open>False\<close> at the first missing one.\<close>

fun allSecretsExist :: "env \<Rightarrow> key list \<Rightarrow> bool result handler" where
  "allSecretsExist E [] = ok True"
| "allSecretsExist E (name # names) = do {
     r \<leftarrow> fetch E KSecret asSecret name;
     case r of
       Inl err \<Rightarrow> if IsNotFound err then ok False else fail err
     | Inr _ \<Rightarrow> allSecretsExist E names }"

definition reconcilePowersyncSecrets :: "env \<Rightarrow> secret_names_status \<Rightarrow> secret_names_status result handler" where
  "reconcilePowersyncSecrets E secretNames = do {
     p \<leftarrow> getProject;
     let (storagePwdName, replPwdName) = PowersyncSecretNames p;
     andthen (allSecretsExist E [namespaced p storagePwdName, namespaced p replPwdName]) (\<lambda>allExist.
       andthen
         (if allExist then ok ()
          else andthen (orFailCondition E ConditionTypeSecretsReady ''PowersyncSecretsFailed'' (GeneratePowersyncSecrets E p)) (\<lambda>psSecrets.
            for_each (\<lambda>secret. orFailCondition E ConditionTypeSecretsReady ''CreateFailed'' (createOrUpdateSecret E secret)) psSecrets))
         (\<lambda>_. andthen (reconcilePowersyncAPITokenSecret E) (\<lambda>_.
            ok (secretNames\<lparr>sn_powersyncStoragePassword := storagePwdName,
                  sn_powersyncReplicationPassword := replPwdName\<rparr>)))) }"

definition reconcileImplementationSecrets :: "env \<Rightarrow> unit result handler" where
  "reconcileImplementationSecrets E = do {
     p \<leftarrow> getProject;
     andthen (GenerateSecrets E p) (\<lambda>(generated, names).
     andthen (for_each (createOrUpdateSecret E) generated) (\<lambda>_.
     andthen (if sp_powersync (p_spec p) \<noteq> None then reconcilePowersyncSecrets E names else ok names) (\<lambda>names.
     andthen (reconcileEmailHookSecret E) (\<lambda>_. do {
       modifyStatus (\<lambda>st. st\<lparr>st_secretNames := names\<lparr>sn_emailHook := sn_emailHook (st_secretNames st)\<rparr>\<rparr>);
       ok () })))) }"

definition reconcileSecrets :: "env \<Rightarrow> project_credentials result handler" where
  "reconcileSecrets E = do {
     modifyStatus (\<lambda>st. if st_phase st = PhasePending then st\<lparr>st_phase := PhaseProvisioning\<rparr> else st);
     p \<leftarrow> getProject;
     let ref = sp_projectCredentialsSecret (p_spec p);
     if ref = '''' then
       (let err = Errorf (''project credential field '' @ Quote ''projectCredentialsSecret'' @ '': Secret reference is required'')
        in failReconcileSecrets E ''CredentialsReferenceMissing'' (Error err) err)
     else do {
       r \<leftarrow> fetch E KSecret asSecret (namespaced p ref);
       case r of
         Inl err \<Rightarrow>
           failReconcileSecrets E ''CredentialsSecretUnavailable''
             (if \<not> IsNotFound err then ''project credential Secret '' @ Quote ref @ '' could not be read''
              else ''project credential Secret '' @ Quote ref @ '' is unavailable'')
             (Errorf (''project credential Secret '' @ Quote ref @ '' unavailable''))
       | Inr external \<Rightarrow> do {
           s \<leftarrow> State_Monad.get;
           case ValidateProjectCredentials E (clock E (rs_events s)) (clock E (rs_events s)) (Some external) of
             Inl err \<Rightarrow> failReconcileSecrets E ''InvalidProjectCredentials'' (Error err) err
           | Inr credentials \<Rightarrow> do {
               i \<leftarrow> reconcileImplementationSecrets E;
               case i of
                 Inl err \<Rightarrow> failReconcileSecrets E ''ImplementationSecretFailed'' (Error err) err
               | Inr _ \<Rightarrow> do {
                   setCondition E ConditionTypeSecretsReady ConditionTrue ''CredentialsValidated''
                     ''Project credentials and implementation secrets are ready'';
                   andthen (updateProjectStatus E) (\<lambda>_. ok credentials) } } } } }"

definition validateRecoveryBootstrapIntent :: "env \<Rightarrow> unit result handler" where
  "validateRecoveryBootstrapIntent E = do {
     p \<leftarrow> getProject;
     let desired = BuildCluster p (st_secretNames (p_status p));
     r \<leftarrow> fetch E KCluster asCluster (objectKey (cl_meta desired));
     case r of
       Inl err \<Rightarrow>
         if IsNotFound err then ok () else fail (Wrap ''getting CNPG cluster for recovery validation: '' err)
     | Inr existing \<Rightarrow>
         if recoveryBootstrapIntentChanged existing desired
         then fail (Errorf ''CNPG recovery bootstrap configuration is immutable after cluster creation'')
         else (case BuildRecoveryObjectStore p of
             None \<Rightarrow> ok ()
           | Some desiredStore \<Rightarrow> do {
               c \<leftarrow> fetch E KObjectStore asObjectStore (objectKey (os_meta desiredStore));
               case c of
                 Inl err \<Rightarrow>
                   if \<not> IsNotFound err then fail (Wrap ''getting recovery source ObjectStore for validation: '' err) else ok ()
               | Inr currentStore \<Rightarrow>
                   if recoveryObjectStoreIdentityChanged currentStore desiredStore
                   then fail (Errorf ''CNPG recovery source ObjectStore configuration is immutable after cluster creation'')
                   else ok () }) }"

section \<open>Phase 2: configuration and backup\<close>

definition reconcileInitSQL :: "env \<Rightarrow> unit result handler" where
  "reconcileInitSQL E = do { p \<leftarrow> getProject; createOrUpdateConfigMap E (BuildInitSQLConfigMap p) }"

definition reconcileJWKSConfigMap :: "env \<Rightarrow> string \<Rightarrow> unit result handler" where
  "reconcileJWKSConfigMap E jwks = do {
     p \<leftarrow> getProject;
     orFailCondition E ConditionTypeSecretsReady ''JWKSConfigMapFailed''
       (createOrUpdateConfigMap E (BuildJWKSConfigMap p jwks)) }"

definition validateS3Secret :: "env \<Rightarrow> string \<Rightarrow> string \<Rightarrow> unit result handler" where
  "validateS3Secret E namespace secretName = do {
     r \<leftarrow> fetch E KSecret asSecret (namespace, secretName);
     case r of
       Inl err \<Rightarrow>
         if IsNotFound err then fail (Errorf (''S3 credentials secret '' @ secretName @ '' not found''))
         else fail (Wrap (''failed to get S3 credentials secret '' @ secretName @ '': '') err)
     | Inr secret \<Rightarrow>
         for_each (\<lambda>key. if fmlookup (sec_data secret) key = None
             then fail (Errorf (''S3 credentials secret '' @ secretName @ '' missing required key: '' @ key)) else ok ())
           [DefaultAccessKeyIDKey, DefaultSecretAccessKeyKey] }"

definition failBackup :: "env \<Rightarrow> string \<Rightarrow> go_error \<Rightarrow> 'a result handler" where
  "failBackup E reason err = failCondition E ConditionTypeBackupReady reason err"

definition failRecovery :: "env \<Rightarrow> string \<Rightarrow> go_error \<Rightarrow> 'a result handler" where
  "failRecovery E reason err = failCondition E ConditionTypeRecoveryReady reason err"

text \<open>
  The three deletions of the cleanup methods share their shape: read, refuse a foreign
  object, delete, and ignore a missing one.
\<close>

definition deleteLabelled :: "env \<Rightarrow> kind \<Rightarrow> string \<Rightarrow> string \<Rightarrow> unit result handler" where
  "deleteLabelled E k what name = do {
     p \<leftarrow> getProject;
     r \<leftarrow> fetch E k (asKind k) (namespaced p name);
     case r of
       Inr object \<Rightarrow>
         (let instance' = goget (md_labels (metaOf object)) LabelInstance
          in if instance' \<noteq> p_name p
             then fail (Errorf (''refusing to delete '' @ what @ '' '' @ name @ '' with instance label '' @ Quote instance'))
             else do {
               d \<leftarrow> send E (Delete object False);
               case d of
                 Inl err \<Rightarrow> if IsNotFound err then ok () else fail (Wrap (''failed to delete '' @ what @ '': '') err)
               | Inr _ \<Rightarrow> ok () })
     | Inl err \<Rightarrow> if IsNotFound err then ok () else fail (Wrap (''failed to get '' @ what @ '': '') err) }"

definition removeCondition :: "env \<Rightarrow> string \<Rightarrow> unit handler" where
  "removeCondition E conditionType =
     modifyStatus (\<lambda>st. st\<lparr>st_conditions := removeStatusCondition E (st_conditions st) conditionType\<rparr>)"

definition cleanupBackupResources :: "env \<Rightarrow> unit result handler" where
  "cleanupBackupResources E = do {
     p \<leftarrow> getProject;
     if findStatusCondition E (st_conditions (p_status p)) ConditionTypeBackupReady = None then ok ()
     else
       andthen (deleteLabelled E KScheduledBackup ''ScheduledBackup'' (ScheduledBackupName p)) (\<lambda>_.
       andthen (deleteLabelled E KObjectStore ''ObjectStore'' (ObjectStoreName p)) (\<lambda>_. do {
         removeCondition E ConditionTypeBackupReady;
         updateProjectStatus E })) }"

definition reconcileBackup :: "env \<Rightarrow> unit result handler" where
  "reconcileBackup E = do {
     p \<leftarrow> getProject;
     case db_backup (sp_database (p_spec p)) of
       None \<Rightarrow> cleanupBackupResources E
     | Some backup \<Rightarrow>
         if \<not> bk_enabled backup then cleanupBackupResources E
         else
           andthen (onError (validateS3Secret E (p_namespace p) (s3_s3CredentialsSecret (bk_s3 backup))) (failBackup E ''SecretError'')) (\<lambda>_.
           andthen (onError (createOrUpdateObjectStore E (BuildObjectStore p)) (failBackup E ''ObjectStoreFailed'')) (\<lambda>_.
           andthen (onError (createOrUpdateScheduledBackup E (BuildScheduledBackup p)) (failBackup E ''ScheduledBackupFailed'')) (\<lambda>_. do {
             setCondition E ConditionTypeBackupReady ConditionTrue ''BackupConfigured'' ''Backup infrastructure is ready'';
             updateProjectStatus E }))) }"

definition cleanupRecoveryResources :: "env \<Rightarrow> unit result handler" where
  "cleanupRecoveryResources E = do {
     p \<leftarrow> getProject;
     if findStatusCondition E (st_conditions (p_status p)) ConditionTypeRecoveryReady = None then ok ()
     else
       andthen (deleteLabelled E KObjectStore ''recovery ObjectStore'' (RecoveryObjectStoreName p)) (\<lambda>_. do {
         removeCondition E ConditionTypeRecoveryReady;
         updateProjectStatus E }) }"

definition reconcileRecovery :: "env \<Rightarrow> unit result handler" where
  "reconcileRecovery E = do {
     p \<leftarrow> getProject;
     case db_recovery (sp_database (p_spec p)) of
       None \<Rightarrow> cleanupRecoveryResources E
     | Some recovery \<Rightarrow>
         if \<not> rv_enabled recovery then cleanupRecoveryResources E
         else
           andthen (onError (validateS3Secret E (p_namespace p) (s3_s3CredentialsSecret (rv_s3 recovery))) (failRecovery E ''SecretError'')) (\<lambda>_.
           andthen (onError (createOrUpdateObjectStore E (BuildRecoveryObjectStore p)) (failRecovery E ''ObjectStoreFailed'')) (\<lambda>_. do {
             setCondition E ConditionTypeRecoveryReady ConditionTrue ''RecoveryConfigured'' ''Recovery infrastructure is ready'';
             updateProjectStatus E })) }"

definition reconcileBackupInfrastructure :: "env \<Rightarrow> unit result handler" where
  "reconcileBackupInfrastructure E = andthen (reconcileBackup E) (\<lambda>_. reconcileRecovery E)"

section \<open>Phases 3 and 4: the cluster\<close>

definition reconcileCNPGCluster :: "env \<Rightarrow> ctrl_result result handler" where
  "reconcileCNPGCluster E = do {
     p \<leftarrow> getProject;
     let desired = defaultCluster E (BuildCluster p (st_secretNames (p_status p)));
     r \<leftarrow> fetch E KCluster asCluster (objectKey (cl_meta desired));
     case r of
       Inl err \<Rightarrow>
         if IsNotFound err then
           andthen (orFailCondition E ConditionTypeDatabaseReady ''CreateFailed'' (send E (Create (OCluster desired)))) (\<lambda>_.
             waitCondition E ConditionTypeDatabaseReady ''Creating'' ''CNPG Cluster is being created'')
         else fail err
     | Inr existing0 \<Rightarrow>
         (let instance' = goget (md_labels (cl_meta existing0)) LabelInstance
          in if instance' \<noteq> p_name p
             then fail (Errorf (''CNPG Cluster '' @ md_name (cl_meta existing0) @ '' has instance label '' @ Quote instance' @
                    '', expected '' @ Quote (p_name p)))
             else
          (let (m, ownerChanged) = removeSupabaseProjectOwnerReference E (cl_meta existing0) (p_name p);
               (m', labelsChanged) = mergeLabels E m (md_labels (cl_meta desired));
               existing = existing0\<lparr>cl_meta := m'\<rparr>;
               changed = (ownerChanged \<or> labelsChanged);
               repairMetadata = (if changed then wrapErr ''updating CNPG cluster metadata: '' (send E (Update (OCluster existing))) else ok ())
           in if recoveryBootstrapIntentChanged existing desired then
                andthen repairMetadata (\<lambda>_.
                  failCondition E ConditionTypeDatabaseReady ''BootstrapImmutable''
                    (Errorf ''CNPG bootstrap configuration is immutable after cluster creation''))
              else (case reconcileClusterMutableFields E existing desired of
                  Inl reconcileErr \<Rightarrow>
                    andthen repairMetadata (\<lambda>_.
                      failCondition E ConditionTypeDatabaseReady (reconcileErrReason reconcileErr) reconcileErr)
                | Inr (updated, mutableChanged) \<Rightarrow>
                    if changed \<or> mutableChanged then
                      andthen (wrapErr ''updating CNPG cluster: '' (send E (Update (OCluster updated)))) (\<lambda>_. ok RequeueDelay)
                    else ok doneResult))) }"

definition waitForDatabase :: "env \<Rightarrow> ctrl_result result handler" where
  "waitForDatabase E = do {
     p \<leftarrow> getProject;
     andthen (fetch E KCluster asCluster (namespaced p (ClusterName p))) (\<lambda>cluster.
       if cst_readyInstances (cl_status cluster) < cs_instances (cl_spec cluster) then
         waitCondition E ConditionTypeDatabaseReady ''WaitingForInstances''
           (''Waiting for database instances: '' @ show_int (cst_readyInstances (cl_status cluster)) @ ''/'' @
            show_int (cs_instances (cl_spec cluster)) @ '' ready'')
       else do {
         modifyStatus (\<lambda>st. st\<lparr>
           st_database := \<lparr>dbs_ready = True, dbs_phase = cst_phase (cl_status cluster),
             dbs_readyInstances = to_int32 (cst_readyInstances (cl_status cluster)),
             dbs_primaryHost = cst_currentPrimary (cl_status cluster)\<rparr>,
           st_endpoints := \<lparr>ep_api = '''', ep_database = ClusterRWServiceName p @ '':5432''\<rparr>\<rparr>);
         setCondition E ConditionTypeDatabaseReady ConditionTrue ''Ready'' ''Database is ready'';
         andthen (updateProjectStatus E) (\<lambda>_. ok doneResult) }) }"

section \<open>Phase 5: core services\<close>

record service_reconcile_config =
  src_name :: string
  src_conditionType :: string
  src_deployment :: "project \<Rightarrow> deployment"
  src_service :: "project \<Rightarrow> service"
  src_setStatus :: "service_status \<Rightarrow> services_status \<Rightarrow> services_status"
  src_credentialHash :: string

definition setServiceStatus :: "service_reconcile_config \<Rightarrow> service_status \<Rightarrow> unit handler" where
  "setServiceStatus config status =
     modifyStatus (\<lambda>st. st\<lparr>st_services := src_setStatus config status (st_services st)\<rparr>)"

definition failComponent :: "env \<Rightarrow> service_reconcile_config \<Rightarrow> string \<Rightarrow> go_error \<Rightarrow> 'a result handler" where
  "failComponent E config reason err = do {
     setServiceStatus config noServiceStatus;
     failCondition E (src_conditionType config) reason err }"

definition reconcileServiceComponent :: "env \<Rightarrow> service_reconcile_config \<Rightarrow> unit result handler" where
  "reconcileServiceComponent E config = do {
     p \<leftarrow> getProject;
     let deployment0 = src_deployment config p;
     let deployment = (if src_credentialHash config \<noteq> ''''
                       then applyProjectCredentialsHash deployment0 (src_credentialHash config) else deployment0);
     andthen (onError (createOrUpdateDeployment E (Some deployment)) (failComponent E config ''DeploymentFailed'')) (\<lambda>_.
     andthen (onError (createOrUpdateService E (Some (src_service config p))) (failComponent E config ''ServiceFailed'')) (\<lambda>_.
     andthen (onError (deploymentStatus E (Some deployment)) (failComponent E config ''DeploymentStatusFailed'')) (\<lambda>(ready, availableReplicas). do {
       setServiceStatus config \<lparr>ss_ready = ready, ss_availableReplicas = availableReplicas\<rparr>;
       (if \<not> ready
        then setCondition E (src_conditionType config) ConditionFalse ''DeploymentPending''
               (''Waiting for '' @ src_name config @ '' deployment to become ready'')
        else setCondition E (src_conditionType config) ConditionTrue ''Ready'' (src_name config @ '' service is running''));
       ok () }))) }"

definition validateGoTrueEnvSecretKey :: "env \<Rightarrow> string \<Rightarrow> key_selector \<Rightarrow> unit result handler" where
  "validateGoTrueEnvSecretKey E namespace ref =
     (if ks_name ref = '''' \<or> ks_key ref = '''' then fail (Errorf ''secret reference must include a name and key'')
      else do {
        r \<leftarrow> fetch E KSecret asSecret (namespace, ks_name ref);
        case r of
          Inl err \<Rightarrow>
            if is_true (ks_optional ref) \<and> IsNotFound err then ok ()
            else fail (Wrap (''getting secret '' @ Quote (ks_name ref) @ '': '') err)
        | Inr secret \<Rightarrow>
            (let exists = (fmlookup (sec_data secret) (ks_key ref) \<noteq> None \<or> fmlookup (sec_stringData secret) (ks_key ref) \<noteq> None)
             in if \<not> exists \<and> \<not> is_true (ks_optional ref)
                then fail (Errorf (''secret '' @ Quote (ks_name ref) @ '' is missing key '' @ Quote (ks_key ref)))
                else ok ()) })"

definition validateGoTrueEnvConfigMapKey :: "env \<Rightarrow> string \<Rightarrow> key_selector \<Rightarrow> unit result handler" where
  "validateGoTrueEnvConfigMapKey E namespace ref =
     (if ks_name ref = '''' \<or> ks_key ref = '''' then fail (Errorf ''config map reference must include a name and key'')
      else do {
        r \<leftarrow> fetch E KConfigMap asConfigMap (namespace, ks_name ref);
        case r of
          Inl err \<Rightarrow>
            if is_true (ks_optional ref) \<and> IsNotFound err then ok ()
            else fail (Wrap (''getting config map '' @ Quote (ks_name ref) @ '': '') err)
        | Inr configMap \<Rightarrow>
            if fmlookup (cm_data configMap) (ks_key ref) = None \<and> \<not> is_true (ks_optional ref)
            then fail (Errorf (''config map '' @ Quote (ks_name ref) @ '' is missing key '' @ Quote (ks_key ref)))
            else ok () })"

definition validateGoTrueEnvSource :: "env \<Rightarrow> string \<Rightarrow> gotrue_env_var \<Rightarrow> unit result handler" where
  "validateGoTrueEnvSource E namespace configured =
     (let exactlyOne = Errorf (''GoTrue environment variable '' @ Quote (ge_name configured) @
            '' must select exactly one Secret or ConfigMap key'');
          prefix = ''GoTrue environment variable '' @ Quote (ge_name configured) @ '': ''
      in if IsOperatorOwnedGoTrueEnv (ge_name configured)
         then fail (Errorf (''GoTrue environment variable '' @ Quote (ge_name configured) @ '' is operator-owned''))
         else if ge_value configured \<noteq> None then ok ()
         else case ge_valueFrom configured of
           None \<Rightarrow> fail exactlyOne
         | Some valueFrom \<Rightarrow>
             (case (gvf_secretKeyRef valueFrom, gvf_configMapKeyRef valueFrom) of
                (None, None) \<Rightarrow> fail exactlyOne
              | (Some _, Some _) \<Rightarrow> fail exactlyOne
              | (Some ref, None) \<Rightarrow> wrapErr prefix (validateGoTrueEnvSecretKey E namespace ref)
              | (None, Some ref) \<Rightarrow> wrapErr prefix (validateGoTrueEnvConfigMapKey E namespace ref)))"

definition validateGoTrueEnvSources :: "env \<Rightarrow> unit result handler" where
  "validateGoTrueEnvSources E = do {
     p \<leftarrow> getProject;
     for_each (validateGoTrueEnvSource E (p_namespace p)) (au_goTrueEnv (sp_auth (p_spec p))) }"

definition setAuthStatus :: "service_status \<Rightarrow> services_status \<Rightarrow> services_status" where
  "setAuthStatus v sv = sv\<lparr>svs_auth := v\<rparr>"
definition setRestStatus :: "service_status \<Rightarrow> services_status \<Rightarrow> services_status" where
  "setRestStatus v sv = sv\<lparr>svs_rest := v\<rparr>"
definition setStudioStatus :: "service_status \<Rightarrow> services_status \<Rightarrow> services_status" where
  "setStudioStatus v sv = sv\<lparr>svs_studio := v\<rparr>"
definition setMetaStatus :: "service_status \<Rightarrow> services_status \<Rightarrow> services_status" where
  "setMetaStatus v sv = sv\<lparr>svs_meta := v\<rparr>"
definition setGatewayStatus :: "service_status \<Rightarrow> services_status \<Rightarrow> services_status" where
  "setGatewayStatus v sv = sv\<lparr>svs_gateway := v\<rparr>"

definition failAuthGoTrueEnv :: "env \<Rightarrow> go_error \<Rightarrow> 'a result handler" where
  "failAuthGoTrueEnv E reconcileErr = do {
     modifyStatus (\<lambda>st. st\<lparr>st_services := setAuthStatus noServiceStatus (st_services st)\<rparr>);
     failCondition E ConditionTypeAuthReady ''GoTrueEnvSourceInvalid'' reconcileErr }"

definition buildAuthDeployment :: "env \<Rightarrow> secret_names_status \<Rightarrow> deployment result handler" where
  "buildAuthDeployment E secretNames = do {
     p \<leftarrow> getProject;
     let deployment = BuildAuthDeployment E p secretNames;
     if \<not> emailHookEnabled p then ok deployment
     else do {
       let secretName = (if sn_emailHook secretNames = '''' then EmailHookSecretName p else sn_emailHook secretNames);
       r \<leftarrow> fetch E KSecret asSecret (namespaced p secretName);
       case r of
         Inl err \<Rightarrow> fail (Wrap (''getting email hook secret '' @ secretName @ '': '') err)
       | Inr hookSecret \<Rightarrow>
           (case ValidateEmailHookSecret (Some hookSecret) of
              Inl err \<Rightarrow> fail err
            | Inr _ \<Rightarrow> ok (annotateTemplate emailHookSecretHashAnnotation
                 (hexEncode (sha256 E (goget (sec_data hookSecret) EmailHookSecretKey))) deployment)) } }"

definition reconcileAuth :: "env \<Rightarrow> secret_names_status \<Rightarrow> string \<Rightarrow> unit result handler" where
  "reconcileAuth E secretNames credentialHash =
     andthen (onError (validateGoTrueEnvSources E) (failAuthGoTrueEnv E)) (\<lambda>_.
     andthen (buildAuthDeployment E secretNames) (\<lambda>deployment.
       reconcileServiceComponent E \<lparr>src_name = ''Auth'', src_conditionType = ConditionTypeAuthReady,
         src_deployment = (\<lambda>_. deployment), src_service = BuildAuthService, src_setStatus = setAuthStatus,
         src_credentialHash = credentialHash\<rparr>))"

definition reconcileRest :: "env \<Rightarrow> secret_names_status \<Rightarrow> string \<Rightarrow> unit result handler" where
  "reconcileRest E secretNames credentialHash =
     reconcileServiceComponent E \<lparr>src_name = ''REST'', src_conditionType = ConditionTypeRestReady,
       src_deployment = (\<lambda>p. BuildRestDeployment p secretNames), src_service = BuildRestService,
       src_setStatus = setRestStatus, src_credentialHash = credentialHash\<rparr>"

definition reconcileStudio :: "env \<Rightarrow> secret_names_status \<Rightarrow> string \<Rightarrow> unit result handler" where
  "reconcileStudio E secretNames credentialHash =
     reconcileServiceComponent E \<lparr>src_name = ''Studio'', src_conditionType = ConditionTypeStudioReady,
       src_deployment = (\<lambda>p. BuildStudioDeployment p secretNames), src_service = BuildStudioService,
       src_setStatus = setStudioStatus, src_credentialHash = credentialHash\<rparr>"

definition reconcileMeta :: "env \<Rightarrow> secret_names_status \<Rightarrow> unit result handler" where
  "reconcileMeta E secretNames =
     reconcileServiceComponent E \<lparr>src_name = ''Meta'', src_conditionType = ConditionTypeMetaReady,
       src_deployment = (\<lambda>p. BuildMetaDeployment p secretNames), src_service = BuildMetaService,
       src_setStatus = setMetaStatus, src_credentialHash = ''''\<rparr>"

definition gatewayConfig :: "string \<Rightarrow> service_reconcile_config" where
  "gatewayConfig credentialHash = \<lparr>src_name = ''Gateway'', src_conditionType = ConditionTypeGatewayReady,
     src_deployment = BuildGatewayDeployment, src_service = BuildGatewayService,
     src_setStatus = setGatewayStatus, src_credentialHash = credentialHash\<rparr>"

definition reconcileGateway :: "env \<Rightarrow> string \<Rightarrow> unit result handler" where
  "reconcileGateway E credentialHash = do {
     p \<leftarrow> getProject;
     andthen (onError (createOrUpdateConfigMap E (BuildEnvoyConfigMap p))
       (failComponent E (gatewayConfig credentialHash) ''ConfigMapFailed'')) (\<lambda>_.
     andthen (reconcileServiceComponent E (gatewayConfig credentialHash)) (\<lambda>_. do {
       modifyStatus (\<lambda>st. st\<lparr>st_endpoints := (st_endpoints st)\<lparr>ep_api := GatewayName p @ '':8000''\<rparr>\<rparr>);
       ok () })) }"

definition failCoreServices :: "env \<Rightarrow> go_error \<Rightarrow> 'a result handler" where
  "failCoreServices E reconcileErr = do {
     modifyStatus (\<lambda>st. st\<lparr>st_phase := PhaseProvisioning\<rparr>);
     setCondition E ConditionTypeReady ConditionFalse ''CoreServicesFailed''
       (''Core service reconciliation failed: '' @ Error reconcileErr);
     _ \<leftarrow> updateProjectStatus E;
     fail reconcileErr }"

definition reconcileServices :: "env \<Rightarrow> project_credentials \<Rightarrow> unit result handler" where
  "reconcileServices E credentials = do {
     p0 \<leftarrow> getProject;
     let secretNames = st_secretNames (p_status p0);
     let credentialHash = pcr_PodTemplateHash credentials;
     andthen (onError (reconcileAuth E secretNames credentialHash) (failCoreServices E)) (\<lambda>_.
     andthen (onError (reconcileRest E secretNames credentialHash) (failCoreServices E)) (\<lambda>_.
     andthen (onError (reconcileStudio E secretNames credentialHash) (failCoreServices E)) (\<lambda>_.
     andthen (onError (reconcileMeta E secretNames) (failCoreServices E)) (\<lambda>_.
     andthen (onError (reconcileGateway E credentialHash) (failCoreServices E)) (\<lambda>_. do {
       p \<leftarrow> getProject;
       if \<not> coreServicesReady p then do {
         modifyStatus (\<lambda>st. st\<lparr>st_phase := PhaseProvisioning\<rparr>);
         setCondition E ConditionTypeReady ConditionFalse ''CoreServicesPending''
           ''Waiting for all core service deployments to become ready'';
         updateProjectStatus E }
       else ok () }))))) }"

section \<open>Phase 6: PowerSync\<close>

definition loadAndValidatePowerSyncRules :: "env \<Rightarrow> powersync_spec \<Rightarrow> string result handler" where
  "loadAndValidatePowerSyncRules E spec = do {
     p \<leftarrow> getProject;
     let ref = sy_configMapRef (pw_syncRules spec);
     andthen
       (if ref = '''' then ok (sy_inline (pw_syncRules spec))
        else andthen (wrapErr (''getting PowerSync sync rules ConfigMap '' @ ref @ '': '')
            (fetch E KConfigMap asConfigMap (namespaced p ref))) (\<lambda>configMap.
          let content = goget (cm_data configMap) ''sync_rules.yaml''
          in if content = ''''
             then fail (Errorf (''PowerSync sync rules ConfigMap '' @ ref @ '' must contain non-empty sync_rules.yaml''))
             else ok content))
       (\<lambda>rules.
          case unmarshalSyncRules E rules of
            Inl err \<Rightarrow> fail (Wrap ''parsing PowerSync sync_rules.yaml: '' err)
          | Inr document \<Rightarrow>
              if sdoc_edition document \<noteq> 3 then fail (Errorf ''PowerSync sync_rules.yaml requires config.edition: 3'')
              else if \<not> sdoc_streams document then fail (Errorf ''PowerSync sync_rules.yaml requires streams'')
              else ok rules) }"

definition reconcilePowerSyncRulesValidation :: "env \<Rightarrow> powersync_spec \<Rightarrow> string result handler" where
  "reconcilePowerSyncRulesValidation E spec =
     orFailCondition E ConditionTypePowersyncReady ''InvalidSyncRules'' (loadAndValidatePowerSyncRules E spec)"

definition waitForPowerSyncManagedRoles :: "env \<Rightarrow> ctrl_result result handler" where
  "waitForPowerSyncManagedRoles E = do {
     p \<leftarrow> getProject;
     andthen (fetch E KCluster asCluster (namespaced p (ClusterName p))) (\<lambda>cluster.
       case powerSyncManagedRolesReady cluster of
         Inl err \<Rightarrow> failCondition E ConditionTypeCDCReady ''ManagedRolesFailed'' err
       | Inr ready \<Rightarrow>
           if \<not> ready
           then waitCondition E ConditionTypeCDCReady ''ManagedRolesPending''
                  ''Waiting for CloudNativePG to reconcile PowerSync roles''
           else ok doneResult) }"

text \<open>The stored publication with the specification, labels and owner it should have.\<close>

definition mergePublication :: "env \<Rightarrow> project \<Rightarrow> publication \<Rightarrow> publication \<Rightarrow> (publication \<times> bool) result" where
  "mergePublication E p desired existing =
     (let specChanged = (pub_spec desired \<noteq> pub_spec existing);
          (m, labelsChanged) = mergeLabels E (pub_meta existing) (md_labels (pub_meta desired))
      in case adopt E p m of
           Inl e \<Rightarrow> Inl e
         | Inr (m', ownerChanged) \<Rightarrow>
             Inr (existing\<lparr>pub_spec := pub_spec desired, pub_meta := m'\<rparr>, specChanged \<or> labelsChanged \<or> ownerChanged))"

definition reconcilePowerSyncPublication :: "env \<Rightarrow> ctrl_result result handler" where
  "reconcilePowerSyncPublication E = do {
     p \<leftarrow> getProject;
     case BuildPowerSyncPublication p of
       Inl e \<Rightarrow> fail e
     | Inr desired \<Rightarrow> do {
         r \<leftarrow> fetch E KPublication asPublication (objectKey (pub_meta desired));
         case r of
           Inl err \<Rightarrow>
             if \<not> IsNotFound err then fail err
             else (case adopt E p (pub_meta desired) of
                 Inl e \<Rightarrow> fail e
               | Inr (m, _) \<Rightarrow>
                   andthen (send E (Create (OPublication (desired\<lparr>pub_meta := m\<rparr>)))) (\<lambda>_.
                     waitCondition E ConditionTypeCDCReady ''PublicationPending'' ''Waiting for the PowerSync publication''))
         | Inr existing0 \<Rightarrow>
             if goget (md_labels (pub_meta existing0)) LabelInstance \<noteq> p_name p
             then fail (Errorf (''refusing to adopt publication '' @ md_name (pub_meta existing0) @ '' without the project instance label''))
             else (case mergePublication E p desired existing0 of
                 Inl e \<Rightarrow> fail e
               | Inr (existing, needsUpdate) \<Rightarrow>
                   if needsUpdate then
                     andthen (wrapErr ''updating PowerSync publication: '' (send E (Update (OPublication existing)))) (\<lambda>_. ok RequeueDelay)
                   else if \<not> publicationIsApplied existing then
                     waitCondition E ConditionTypeCDCReady ''PublicationPending''
                       (if pub_message existing \<noteq> '''' then pub_message existing else ''Waiting for the PowerSync publication'')
                   else ok doneResult) } }"

definition reconcileCDCPermissions :: "env \<Rightarrow> ctrl_result result handler" where
  "reconcileCDCPermissions E = do {
     p \<leftarrow> getProject;
     case BuildCDCMigrationsConfigMap p of
       Inl e \<Rightarrow> fail e
     | Inr configMap \<Rightarrow>
         andthen (orFailCondition E ConditionTypeCDCReady ''ConfigMapFailed'' (createOrUpdateConfigMap E configMap)) (\<lambda>_.
         andthen (orFailCondition E ConditionTypeCDCReady ''JobFailed''
             (createOrCheckJob E (BuildCDCPermissionsJob p (st_secretNames (p_status p))) (cdcScriptHash E configMap))) (\<lambda>completed.
           if \<not> completed
           then waitCondition E ConditionTypeCDCReady ''JobRunning'' ''CDC permissions Job is still running''
           else do {
             setCondition E ConditionTypeCDCReady ConditionTrue ''CDCPermissionsApplied'' ''CDC permissions applied successfully'';
             ok doneResult })) }"

definition cleanupPowerSyncCompact :: "env \<Rightarrow> unit result handler" where
  "cleanupPowerSyncCompact E = do {
     p \<leftarrow> getProject;
     deletePowerSyncOwnedResource E KCronJob (namespaced p (PowersyncCompactCronJobName p)) }"

definition applyPowersyncWorkloads :: "env \<Rightarrow> powersync_spec \<Rightarrow> string \<Rightarrow> (deployment \<times> deployment) result handler" where
  "applyPowersyncWorkloads E spec syncRulesContent = do {
     p \<leftarrow> getProject;
     let secretNames = st_secretNames (p_status p);
     let psConfig = BuildPowersyncConfigMap E p;
     let config = goget (cm_data psConfig) PowersyncConfigKey;
     let apiDeployment = applyPowerSyncConfigHash E (BuildPowersyncAPIDeployment p spec secretNames) config syncRulesContent;
     let replDeployment = applyPowerSyncConfigHash E (BuildPowersyncReplicationDeployment p spec secretNames) config syncRulesContent;
     let guard = (\<lambda>reason m. orFailCondition E ConditionTypePowersyncReady reason m);
     andthen (guard ''ConfigMapFailed'' (createOrUpdateConfigMap E psConfig)) (\<lambda>_.
     andthen (case BuildPowersyncSyncRulesConfigMap p spec of
         None \<Rightarrow> ok ()
       | Some cm \<Rightarrow> guard ''SyncRulesConfigMapFailed'' (createOrUpdateConfigMap E cm)) (\<lambda>_.
     andthen (guard ''APIDeploymentFailed'' (createOrUpdateDeployment E (Some apiDeployment))) (\<lambda>_.
     andthen (guard ''APIServiceFailed'' (createOrUpdateService E (Some (BuildPowersyncAPIService p)))) (\<lambda>_.
     andthen (guard ''ReplicationDeploymentFailed'' (createOrUpdateDeployment E (Some replDeployment))) (\<lambda>_.
     andthen (case BuildPowersyncCompactCronJob p spec secretNames of
         None \<Rightarrow> cleanupPowerSyncCompact E
       | Some cronJob \<Rightarrow> guard ''CronJobFailed'' (createOrUpdateCronJob E cronJob)) (\<lambda>_.
       ok (apiDeployment, replDeployment))))))) }"

definition reconcilePowersync :: "env \<Rightarrow> powersync_spec \<Rightarrow> string \<Rightarrow> ctrl_result result handler" where
  "reconcilePowersync E spec syncRulesContent =
     andthen (applyPowersyncWorkloads E spec syncRulesContent) (\<lambda>(apiDeployment, replDeployment).
     andthen (deploymentStatus E (Some apiDeployment)) (\<lambda>(apiReady, apiAvailable).
     andthen (deploymentStatus E (Some replDeployment)) (\<lambda>(replicationReady, replicationAvailable). do {
       modifyStatus (\<lambda>st. st\<lparr>st_services := (st_services st)\<lparr>
         svs_powersyncAPI := \<lparr>ss_ready = apiReady, ss_availableReplicas = apiAvailable\<rparr>,
         svs_powersyncReplication := \<lparr>ss_ready = replicationReady, ss_availableReplicas = replicationAvailable\<rparr>\<rparr>\<rparr>);
       if \<not> apiReady \<or> \<not> replicationReady
       then waitCondition E ConditionTypePowersyncReady ''DeploymentsPending'' ''Waiting for PowerSync deployments to become ready''
       else do {
         setCondition E ConditionTypePowersyncReady ConditionTrue ''Ready'' ''Powersync service is running'';
         ok doneResult } })))"

definition powersyncResources :: "project \<Rightarrow> (kind \<times> key) list" where
  "powersyncResources p =
     [(KDeployment, namespaced p (PowersyncAPIDeploymentName p)),
      (KDeployment, namespaced p (PowersyncReplicationDeploymentName p)),
      (KService, namespaced p (p_name p @ ''-powersync-api'')),
      (KConfigMap, namespaced p (PowersyncConfigMapName p)),
      (KConfigMap, namespaced p (PowersyncSyncRulesConfigMapName p)),
      (KConfigMap, namespaced p (CDCConfigMapName p)),
      (KJob, namespaced p (CDCJobName p)),
      (KCronJob, namespaced p (PowersyncCompactCronJobName p)),
      (KPublication, namespaced p (p_name p @ ''-powersync''))]"

definition cleanupPowerSync :: "env \<Rightarrow> unit result handler" where
  "cleanupPowerSync E = do {
     p0 \<leftarrow> getProject;
     andthen (for_each (\<lambda>(k, name). deletePowerSyncOwnedResource E k name) (powersyncResources p0)) (\<lambda>_. do {
       p \<leftarrow> getProject;
       if \<not> powerSyncStatusNeedsCleanup E p then ok ()
       else do {
         modifyStatus (\<lambda>st. st\<lparr>st_services := (st_services st)\<lparr>svs_powersyncAPI := noServiceStatus,
           svs_powersyncReplication := noServiceStatus\<rparr>\<rparr>);
         removeCondition E ConditionTypeCDCReady;
         removeCondition E ConditionTypePowersyncReady;
         updateProjectStatus E } }) }"

definition powerSyncPhase :: "env \<Rightarrow> ctrl_result result handler" where
  "powerSyncPhase E = do {
     p \<leftarrow> getProject;
     case sp_powersync (p_spec p) of
       Some spec \<Rightarrow>
         andthen (reconcilePowerSyncRulesValidation E spec) (\<lambda>syncRules.
           unlessRequeue (waitForPowerSyncManagedRoles E)
             (unlessRequeue (reconcilePowerSyncPublication E)
               (unlessRequeue (reconcileCDCPermissions E)
                 (reconcilePowersync E spec syncRules))))
     | None \<Rightarrow> andthen (cleanupPowerSync E) (\<lambda>_. ok doneResult) }"

section \<open>Reconcile\<close>

definition finishReconcile :: "env \<Rightarrow> ctrl_result result handler" where
  "finishReconcile E = do {
     p \<leftarrow> getProject;
     modifyStatus (\<lambda>st. st\<lparr>st_phase := PhaseRunning, st_observedGeneration := md_generation (p_meta p)\<rparr>);
     setCondition E ConditionTypeReady ConditionTrue ''AllComponentsReady'' ''All Supabase components are running'';
     andthen (updateProjectStatus E) (\<lambda>_. ok doneResult) }"

text \<open>The phases after the credentials have been validated.\<close>

definition reconcilePhases :: "env \<Rightarrow> project_credentials \<Rightarrow> ctrl_result result handler" where
  "reconcilePhases E credentials =
     andthen (orFailCondition E ConditionTypeDatabaseReady ''BootstrapImmutable'' (validateRecoveryBootstrapIntent E)) (\<lambda>_.
     andthen (reconcileInitSQL E) (\<lambda>_.
     andthen (reconcileJWKSConfigMap E (pcr_PublicJWKS credentials)) (\<lambda>_.
     andthen (reconcileBackupInfrastructure E) (\<lambda>_.
     unlessRequeue (reconcileCNPGCluster E)
       (unlessRequeue (waitForDatabase E)
         (andthen (reconcileServices E credentials) (\<lambda>_. do {
            p \<leftarrow> getProject;
            if \<not> coreServicesReady p then ok RequeueDelay
            else unlessRequeue (powerSyncPhase E) (finishReconcile E) })))))))"

definition reconcileProject :: "env \<Rightarrow> ctrl_result result handler" where
  "reconcileProject E = do {
     modifyStatus (\<lambda>st. if st_phase st = '''' then st\<lparr>st_phase := PhasePending\<rparr> else st);
     andthen (reconcileDurableMetadataProtection E) (\<lambda>_.
     andthen (reconcileSecrets E) (\<lambda>credentials.
       reconcilePhases E credentials)) }"

text \<open>
  The entry point: the name of a project and the history before the call. It returns the
  result, the history after it, and the project as it is in memory, if there was one.
\<close>

definition Reconcile :: "env \<Rightarrow> key \<Rightarrow> event list \<Rightarrow> ctrl_result result \<times> event list \<times> project option" where
  "Reconcile E name h =
     (let r = respond E h (Get KProject name); h' = (Get KProject name, r) # h
      in case expect asProject r of
           Inl err \<Rightarrow> if IsNotFound err then (Inr doneResult, h', None) else (Inl err, h', None)
         | Inr p \<Rightarrow>
             (let (result, s) = run_state (reconcileProject E) \<lparr>rs_project = p, rs_events = h'\<rparr>
              in (result, rs_events s, Some (rs_project s))))"

end
