(* ===== verification/Policy.thy ===== *)
theory Policy
  imports Reconcile
begin

text \<open>
  The access policy of the operator: which requests a reconciliation may send, given the
  history so far. \<open>permitted\<close> states it; the locale \<open>request_policy\<close> carries it through every
  handler, once, for any policy that follows from it; the properties at the end and in the
  root theory are instances.
\<close>

section \<open>The specification\<close>

definition labelled :: "object_meta \<Rightarrow> object_meta \<Rightarrow> bool" where
  "labelled M m \<longleftrightarrow> goget (md_labels m) LabelInstance = md_name M"

definition durableKind :: "kind \<Rightarrow> bool" where
  "durableKind k \<longleftrightarrow> k \<in> {KCluster, KObjectStore, KScheduledBackup}"

text \<open>The object was read earlier in this history, from the project's own namespace.\<close>

definition seen :: "object_meta \<Rightarrow> obj \<Rightarrow> event list \<Rightarrow> bool" where
  "seen M ob h \<longleftrightarrow> (\<exists>name. (Get (kindOf ob) (md_namespace M, name), RObj ob) \<in> set h)"

text \<open>The owners of the object are what setting the project as its controller gives.\<close>

definition controlled :: "env \<Rightarrow> object_meta \<Rightarrow> object_meta \<Rightarrow> bool" where
  "controlled E M m \<longleftrightarrow> (\<exists>q m0. p_meta q = M \<and> md_namespace m0 = md_namespace m \<and>
     setControllerReference E q m0 = Inr (md_owners m))"

text \<open>No owner reference to the project: garbage collection leaves the object alone.\<close>

definition detached :: "env \<Rightarrow> object_meta \<Rightarrow> object_meta \<Rightarrow> bool" where
  "detached E M m \<longleftrightarrow> (md_name M \<noteq> '''' \<longrightarrow> unowned E (md_name M) m)"

definition notShrunk :: "env \<Rightarrow> cluster \<Rightarrow> cluster \<Rightarrow> bool" where
  "notShrunk E c0 c \<longleftrightarrow>
     (\<forall>q0. sc_size (cs_storage (cl_spec c0)) \<noteq> '''' \<longrightarrow> parseQuantity E (sc_size (cs_storage (cl_spec c0))) = Inr q0 \<longrightarrow>
        (\<exists>q. parseQuantity E (sc_size (cs_storage (cl_spec c))) = Inr q \<and> q0 \<le> q))"

text \<open>What an update may change of the object that was read.\<close>

primrec updateOk :: "env \<Rightarrow> object_meta \<Rightarrow> obj \<Rightarrow> obj \<Rightarrow> bool" where
  "updateOk E M (OSecret a) ob = (\<exists>b. ob = OSecret b \<and> controlled E M (sec_meta b) \<and>
     b = a\<lparr>sec_meta := (sec_meta a)\<lparr>md_owners := md_owners (sec_meta b)\<rparr>\<rparr>)"
| "updateOk E M (OConfigMap a) ob = (\<exists>b. ob = OConfigMap b \<and> controlled E M (cm_meta b) \<and> labelled M (cm_meta a))"
| "updateOk E M (OService a) ob = (\<exists>b. ob = OService b \<and> controlled E M (svc_meta b) \<and>
     svc_type b = svc_type a \<and> svc_foreign b = svc_foreign a)"
| "updateOk E M (ODeployment a) ob = (\<exists>b. ob = ODeployment b \<and> controlled E M (dep_meta b) \<and>
     dep_selector b = dep_selector a \<and> dep_foreign b = dep_foreign a)"
| "updateOk E M (OJob a) ob = (\<exists>b. ob = OJob b \<and> controlled E M (job_meta b) \<and>
     job_spec b = job_spec a \<and> labelled M (job_meta a))"
| "updateOk E M (OCronJob a) ob = (\<exists>b. ob = OCronJob b \<and> controlled E M (cj_meta b))"
| "updateOk E M (OPublication a) ob = (\<exists>b. ob = OPublication b \<and> controlled E M (pub_meta b) \<and> labelled M (pub_meta a))"
| "updateOk E M (OCluster a) ob = (\<exists>b. ob = OCluster b \<and> detached E M (cl_meta b) \<and> labelled M (cl_meta a) \<and>
     cs_bootstrap (cl_spec b) = cs_bootstrap (cl_spec a) \<and>
     cs_externalClusters (cl_spec b) = cs_externalClusters (cl_spec a) \<and>
     cs_foreign (cl_spec b) = cs_foreign (cl_spec a) \<and> notShrunk E a b)"
| "updateOk E M (OObjectStore a) ob = (\<exists>b. ob = OObjectStore b \<and> detached E M (os_meta b) \<and> labelled M (os_meta a) \<and>
     oss_foreign (os_spec b) = oss_foreign (os_spec a))"
| "updateOk E M (OScheduledBackup a) ob = (\<exists>b. ob = OScheduledBackup b \<and> detached E M (sb_meta b) \<and> labelled M (sb_meta a) \<and>
     sbs_foreign (sb_spec b) = sbs_foreign (sb_spec a))"
| "updateOk E M (OProject a) ob = False"

text \<open>The names under which the objects that outlive a project are kept.\<close>

definition durableName :: "object_meta \<Rightarrow> kind \<Rightarrow> string \<Rightarrow> bool" where
  "durableName M k n \<longleftrightarrow>
     (k = KCluster \<longrightarrow> n = md_name M @ ''-pg'') \<and>
     (k = KObjectStore \<longrightarrow> n = md_name M @ ''-backup'' \<or> n = md_name M @ ''-recovery'') \<and>
     (k = KScheduledBackup \<longrightarrow> n = md_name M @ ''-backup'')"

definition createOk :: "env \<Rightarrow> object_meta \<Rightarrow> obj \<Rightarrow> bool" where
  "createOk E M ob \<longleftrightarrow>
     kindOf ob \<noteq> KProject \<and> md_namespace (metaOf ob) = md_namespace M \<and>
     (kindOf ob \<noteq> KSecret \<longrightarrow> labelled M (metaOf ob)) \<and>
     (if durableKind (kindOf ob) then detached E M (metaOf ob) \<and> durableName M (kindOf ob) (md_name (metaOf ob))
      else controlled E M (metaOf ob))"

definition deleteOk :: "env \<Rightarrow> object_meta \<Rightarrow> obj \<Rightarrow> obj \<Rightarrow> bool" where
  "deleteOk E M ob0 ob \<longleftrightarrow>
     kindOf ob = kindOf ob0 \<and> objectKey (metaOf ob) = objectKey (metaOf ob0) \<and>
     (kindOf ob \<in> {KObjectStore, KScheduledBackup, KJob} \<and> labelled M (metaOf ob0) \<or>
      kindOf ob \<in> {KDeployment, KService, KConfigMap, KJob, KCronJob, KPublication} \<and>
      (\<exists>q. p_meta q = M \<and> isControlledBy E (metaOf ob0) q))"

fun permitted :: "env \<Rightarrow> object_meta \<Rightarrow> project_spec \<Rightarrow> event list \<Rightarrow> call \<Rightarrow> bool" where
  "permitted E M S h (Get _ _) \<longleftrightarrow> True"
| "permitted E M S h (RandRead _) \<longleftrightarrow> True"
| "permitted E M S h (ListProjects _) \<longleftrightarrow> False"
| "permitted E M S h (StatusUpdate q) \<longleftrightarrow> p_meta q = M \<and> p_spec q = S"
| "permitted E M S h (Create ob) \<longleftrightarrow> createOk E M ob"
| "permitted E M S h (Update ob) \<longleftrightarrow>
     (\<exists>ob0. seen M ob0 h \<and> objectKey (metaOf ob) = objectKey (metaOf ob0) \<and> updateOk E M ob0 ob)"
| "permitted E M S h (Delete ob _) \<longleftrightarrow> (\<exists>ob0. seen M ob0 h \<and> deleteOk E M ob0 ob)"

text \<open>The histories a policy allows, starting from a given one.\<close>

inductive trace_ok :: "(event list \<Rightarrow> call \<Rightarrow> bool) \<Rightarrow> event list \<Rightarrow> event list \<Rightarrow> bool" for pol h0 where
  start: "trace_ok pol h0 h0"
| request: "trace_ok pol h0 h \<Longrightarrow> pol h c \<Longrightarrow> trace_ok pol h0 ((c, r) # h)"

lemma trace_ok_mono:
  assumes "trace_ok pol h0 h" and "\<And>h c. pol h c \<Longrightarrow> pol' h c"
  shows "trace_ok pol' h0 h"
  using assms(1) by induction (auto intro: trace_ok.intros assms(2))

lemma trace_ok_event:
  assumes "trace_ok pol h0 h" and "(c, r) \<in> set h" "(c, r) \<notin> set h0"
  shows "\<exists>earlier later. h = later @ (c, r) # earlier \<and> pol earlier c \<and> trace_ok pol h0 earlier"
  using assms
proof induction
  case (request h d a)
  show ?case
  proof (cases "(c, r) = (d, a)")
    case True
    with request show ?thesis by (intro exI [of _ h] exI [of _ "[]"]) simp
  next
    case False
    with request obtain earlier later where "h = later @ (c, r) # earlier" "pol earlier c" "trace_ok pol h0 earlier"
      by auto
    then show ?thesis by (intro exI [of _ earlier] exI [of _ "(d, a) # later"]) simp
  qed
qed simp

lemma trace_ok_suffix: "trace_ok pol h0 h \<Longrightarrow> \<exists>new. h = new @ h0"
  by (induction rule: trace_ok.induct) (auto intro: exI [of _ "_ # _"])

lemma trace_ok_trans: "trace_ok pol h1 h \<Longrightarrow> trace_ok pol h0 h1 \<Longrightarrow> trace_ok pol h0 h"
  by (induction rule: trace_ok.induct) (auto intro: trace_ok.intros)

section \<open>The invariant\<close>

text \<open>
  The metadata and the specification of the project in memory never change, a fact \<open>known\<close>
  about the history holds, and every request so far was allowed.
\<close>

definition policy_inv ::
  "object_meta \<Rightarrow> project_spec \<Rightarrow> (event list \<Rightarrow> call \<Rightarrow> bool) \<Rightarrow> event list \<Rightarrow> (event list \<Rightarrow> bool) \<Rightarrow> rstate \<Rightarrow> bool" where
  "policy_inv M S pol h0 known s \<longleftrightarrow>
     p_meta (rs_project s) = M \<and> p_spec (rs_project s) = S \<and> known (rs_events s) \<and> trace_ok pol h0 (rs_events s)"

definition stable :: "(event list \<Rightarrow> bool) \<Rightarrow> bool" where
  "stable known \<longleftrightarrow> (\<forall>h e. known h \<longrightarrow> known (e # h))"

lemma stable_conj: "stable f \<Longrightarrow> stable (\<lambda>h. f h \<and> e \<in> set h)"
  by (simp add: stable_def)

text \<open>Value postconditions: what a handler returns when it succeeds.\<close>

definition returns :: "'a result handler \<Rightarrow> ('a \<Rightarrow> bool) \<Rightarrow> bool" where
  "returns m Q \<longleftrightarrow> (\<forall>s x s'. run_state m s = (Inr x, s') \<longrightarrow> Q x)"

lemma keeps_andthen_returns:
  assumes "keeps I m" "returns m Q" "\<And>x. Q x \<Longrightarrow> keeps I (k x)"
  shows "keeps I (andthen m k)"
proof (rule keepsI)
  fix s assume I: "I s"
  obtain r s' where m: "run_state m s = (r, s')" by fastforce
  then have "I s'" using assms(1) I by (rule keepsD [rotated 2])
  with m show "I (snd (run_state (andthen m k) s))"
    using assms(2,3) by (cases r) (auto simp: run_andthen returns_def keeps_def)
qed

lemma keeps_bind_returns:
  assumes "keeps I m" "returns m Q" "\<And>e. keeps I (k (Inl e))" "\<And>x. Q x \<Longrightarrow> keeps I (k (Inr x))"
  shows "keeps I (State_Monad.bind m k)"
proof (rule keepsI)
  fix s assume I: "I s"
  obtain r s' where m: "run_state m s = (r, s')" by fastforce
  then have "I s'" using assms(1) I by (rule keepsD [rotated 2])
  with m show "I (snd (run_state (State_Monad.bind m k) s))"
  proof (cases r)
    case (Inr x)
    with m assms(2) have "Q x" by (auto simp: returns_def)
    with \<open>I s'\<close> m Inr assms(4) [of x] show ?thesis by (simp add: keeps_def)
  qed (use \<open>I s'\<close> m assms(3) in \<open>simp add: keeps_def\<close>)
qed

lemma keeps_get: "keeps I State_Monad.get"
  by (simp add: keeps_def)

definition ctx :: "(event list \<Rightarrow> bool) \<Rightarrow> (event list \<Rightarrow> bool) \<Rightarrow> bool" where
  "ctx base known \<longleftrightarrow> stable known \<and> (\<forall>h. known h \<longrightarrow> base h)"

lemma ctx_seen: "ctx base known \<Longrightarrow> ctx base (\<lambda>h. known h \<and> e \<in> set h)"
  by (auto simp: ctx_def stable_def)

section \<open>What the merges write\<close>

lemma adopt_controlled: "adopt E p m = Inr (m', c) \<Longrightarrow> p_meta p = M \<Longrightarrow> controlled E M m'"
  using adopt_ok [of E p m m' c] by (auto simp: controlled_def)

lemma controlled_labels:
  "controlled E M m \<Longrightarrow> md_owners m' = md_owners m \<Longrightarrow> md_namespace m' = md_namespace m \<Longrightarrow> controlled E M m'"
  by (auto simp: controlled_def)

lemma mergeLabels_controlled: "mergeLabels E' m d = (m', c) \<Longrightarrow> controlled E M m \<Longrightarrow> controlled E M m'"
  using mergeLabels_rest [of E' m d m' c] by (auto intro: controlled_labels)

lemma mergeLabels_key: "mergeLabels E m d = (m', c) \<Longrightarrow> objectKey m' = objectKey m"
  by (metis fst_conv mergeLabels_keeps(2))

lemma mergeSecret_ok:
  assumes "mergeSecret E p d e = Inr (u, c)" "p_meta p = M"
  shows "updateOk E M (OSecret e) (OSecret u)" "objectKey (sec_meta u) = objectKey (sec_meta e)"
proof -
  from assms(1) have ad: "adopt E p (sec_meta e) = Inr (sec_meta u, c)" and u: "u = e\<lparr>sec_meta := sec_meta u\<rparr>"
    by (auto simp: mergeSecret_def split: sum.splits prod.splits)
  show "objectKey (sec_meta u) = objectKey (sec_meta e)" using adopt_ok [OF ad] by simp
  have "sec_meta u = (sec_meta e)\<lparr>md_owners := md_owners (sec_meta u)\<rparr>" using adopt_ok [OF ad] by simp
  with u adopt_controlled [OF ad assms(2)] show "updateOk E M (OSecret e) (OSecret u)"
    by auto
qed

lemma mergeConfigMap_ok:
  assumes "mergeConfigMap E p d e = Inr (u, c)" "p_meta p = M"
  shows "updateOk E M (OConfigMap e) (OConfigMap u)" "objectKey (cm_meta u) = objectKey (cm_meta e)"
proof -
  from assms(1) obtain m c1 c2 where lab: "goget (md_labels (cm_meta e)) LabelInstance = p_name p"
    and ad: "adopt E p (cm_meta e) = Inr (m, c1)" and ml: "mergeLabels E m (md_labels (cm_meta d)) = (cm_meta u, c2)"
    by (auto simp: mergeConfigMap_def split: if_splits sum.splits prod.splits)
  show "objectKey (cm_meta u) = objectKey (cm_meta e)" using adopt_ok [OF ad] mergeLabels_key [OF ml] by simp
  show "updateOk E M (OConfigMap e) (OConfigMap u)"
    using lab assms(2) mergeLabels_controlled [OF ml adopt_controlled [OF ad assms(2)]] by (simp add: labelled_def)
qed

lemma mergeDeployment_ok:
  assumes "mergeDeployment E p d e = Inr (u, c)" "p_meta p = M"
  shows "updateOk E M (ODeployment e) (ODeployment u)" "objectKey (dep_meta u) = objectKey (dep_meta e)"
proof -
  from assms(1) obtain c1 where ad: "adopt E p (dep_meta e) = Inr (dep_meta u, c1)"
    and rest: "dep_selector u = dep_selector e" "dep_foreign u = dep_foreign e"
    by (auto simp: mergeDeployment_def Let_def split: if_splits sum.splits prod.splits)
  show "objectKey (dep_meta u) = objectKey (dep_meta e)" using adopt_ok [OF ad] by simp
  show "updateOk E M (ODeployment e) (ODeployment u)" using rest adopt_controlled [OF ad assms(2)] by simp
qed

lemma mergeService_ok:
  assumes "mergeService E p d e = Inr (u, c)" "p_meta p = M"
  shows "updateOk E M (OService e) (OService u)" "objectKey (svc_meta u) = objectKey (svc_meta e)"
proof -
  from assms(1) obtain c1 where ad: "adopt E p (svc_meta e) = Inr (svc_meta u, c1)"
    and rest: "svc_type u = svc_type e" "svc_foreign u = svc_foreign e"
    by (auto simp: mergeService_def split: if_splits sum.splits prod.splits)
  show "objectKey (svc_meta u) = objectKey (svc_meta e)" using adopt_ok [OF ad] by simp
  show "updateOk E M (OService e) (OService u)" using rest adopt_controlled [OF ad assms(2)] by simp
qed

lemma mergeCronJob_ok:
  assumes "mergeCronJob E p d e = Inr (u, c)" "p_meta p = M"
  shows "updateOk E M (OCronJob e) (OCronJob u)" "objectKey (cj_meta u) = objectKey (cj_meta e)"
proof -
  from assms(1) obtain m c1 c2 where ad: "adopt E p (cj_meta e) = Inr (m, c1)"
    and ml: "mergeLabels E m (md_labels (cj_meta d)) = (cj_meta u, c2)"
    by (auto simp: mergeCronJob_def Let_def split: if_splits sum.splits prod.splits)
  show "objectKey (cj_meta u) = objectKey (cj_meta e)" using adopt_ok [OF ad] mergeLabels_key [OF ml] by simp
  show "updateOk E M (OCronJob e) (OCronJob u)"
    using mergeLabels_controlled [OF ml adopt_controlled [OF ad assms(2)]] by simp
qed

lemma kindOf_setOwners [simp]: "kindOf (setOwners os ob) = kindOf ob"
  by (cases ob) simp_all

lemma removeOwner_then_labels_detached:
  assumes "removeSupabaseProjectOwnerReference E m0 n = (m, c)" "mergeLabels E m d = (m', c')" "n = md_name M"
  shows "detached E M m'" "objectKey m' = objectKey m0"
proof -
  have "m = fst (removeSupabaseProjectOwnerReference E m0 n)" "m' = fst (mergeLabels E m d)"
    using assms by simp_all
  then show "detached E M m'" "objectKey m' = objectKey m0"
    using removeOwner_unowned [of n E m0] assms(3) by (auto simp: detached_def)
qed

lemma mergeObjectStore_ok:
  assumes "mergeObjectStore E d e = Inr (u, c)" "labelled M (os_meta d)"
  shows "updateOk E M (OObjectStore e) (OObjectStore u)" "objectKey (os_meta u) = objectKey (os_meta e)"
proof -
  obtain m c1 where rm: "removeSupabaseProjectOwnerReference E (os_meta e) (md_name M) = (m, c1)" by fastforce
  obtain m' c2 where ml: "mergeLabels E m (md_labels (os_meta d)) = (m', c2)" by fastforce
  note d = removeOwner_then_labels_detached [OF rm ml refl]
  have "goget (md_labels (os_meta e)) LabelInstance = md_name M" "os_meta u = m'"
      "oss_foreign (os_spec u) = oss_foreign (os_spec e)"
    using assms [unfolded mergeObjectStore_def labelled_def Let_def]
    by (auto simp: rm ml split: if_splits)
  with d show "updateOk E M (OObjectStore e) (OObjectStore u)" "objectKey (os_meta u) = objectKey (os_meta e)"
    by (simp_all add: labelled_def)
qed

lemma mergeScheduledBackup_ok:
  assumes "mergeScheduledBackup E d e = Inr (u, c)" "labelled M (sb_meta d)"
  shows "updateOk E M (OScheduledBackup e) (OScheduledBackup u)" "objectKey (sb_meta u) = objectKey (sb_meta e)"
proof -
  obtain m c1 where rm: "removeSupabaseProjectOwnerReference E (sb_meta e) (md_name M) = (m, c1)" by fastforce
  obtain m' c2 where ml: "mergeLabels E m (md_labels (sb_meta d)) = (m', c2)" by fastforce
  note d = removeOwner_then_labels_detached [OF rm ml refl]
  have "goget (md_labels (sb_meta e)) LabelInstance = md_name M" "sb_meta u = m'"
      "sbs_foreign (sb_spec u) = sbs_foreign (sb_spec e)"
    using assms [unfolded mergeScheduledBackup_def labelled_def Let_def]
    by (auto simp: rm ml split: if_splits)
  with d show "updateOk E M (OScheduledBackup e) (OScheduledBackup u)" "objectKey (sb_meta u) = objectKey (sb_meta e)"
    by (simp_all add: labelled_def)
qed

lemma mergePublication_ok:
  assumes "mergePublication E p d e = Inr (u, c)" "p_meta p = M" "labelled M (pub_meta e)"
  shows "updateOk E M (OPublication e) (OPublication u)" "objectKey (pub_meta u) = objectKey (pub_meta e)"
proof -
  obtain m c1 where ml: "mergeLabels E (pub_meta e) (md_labels (pub_meta d)) = (m, c1)" by fastforce
  with assms(1) obtain c2 where ad: "adopt E p m = Inr (pub_meta u, c2)"
    by (auto simp: mergePublication_def Let_def split: sum.splits prod.splits)
  show "objectKey (pub_meta u) = objectKey (pub_meta e)" using adopt_ok [OF ad] mergeLabels_key [OF ml] by simp
  show "updateOk E M (OPublication e) (OPublication u)" using adopt_controlled [OF ad assms(2)] assms(3) by simp
qed

section \<open>Carrying the policy through the handlers\<close>

text \<open>
  Three interfaces, one above the other: a policy that lets the handlers read and write the
  status; one that also lets them repair the metadata of durable objects; one that lets them
  send whatever the specification permits. Each is needed only where \<open>base\<close> holds of the
  history.
\<close>

fun quiet :: "call \<Rightarrow> bool" where
  "quiet (Get _ _) = True"
| "quiet (RandRead _) = True"
| "quiet (StatusUpdate _) = True"
| "quiet _ = False"

locale read_policy =
  fixes E :: env and M :: object_meta and S :: project_spec
    and pol :: "event list \<Rightarrow> call \<Rightarrow> bool" and h0 :: "event list" and base :: "event list \<Rightarrow> bool"
  assumes reads: "base h \<Longrightarrow> permitted E M S h c \<Longrightarrow> quiet c \<Longrightarrow> pol h c"
begin

lemma ask_quiet:
  assumes "ctx base known" "\<And>h. known h \<Longrightarrow> permitted E M S h c" "quiet c"
  shows "keeps (policy_inv M S pol h0 known) (ask E c)"
  using assms reads
  by (intro keepsI) (auto simp: policy_inv_def ctx_def stable_def intro: trace_ok.request)

lemma send_quiet:
  assumes "ctx base known" "\<And>h. known h \<Longrightarrow> permitted E M S h c" "quiet c"
  shows "keeps (policy_inv M S pol h0 known) (send E c)"
  unfolding send_def by (intro keeps_bind ask_quiet assms keeps_return)

lemma fetch_keeps:
  assumes "ctx base known"
  shows "keeps (policy_inv M S pol h0 known) (fetch E k f name)"
  unfolding fetch_def by (intro keeps_bind ask_quiet assms keeps_return) simp_all

lemma bind_fetch:
  assumes "ctx base known" "\<And>e. keeps (policy_inv M S pol h0 known) (k (Inl e))"
    and "\<And>x ob. f ob = Some x \<Longrightarrow>
      keeps (policy_inv M S pol h0 (\<lambda>h. known h \<and> (Get K name, RObj ob) \<in> set h)) (k (Inr x))"
  shows "keeps (policy_inv M S pol h0 known) (State_Monad.bind (fetch E K f name) k)"
proof (rule keepsI)
  fix s assume inv: "policy_inv M S pol h0 known s"
  obtain r s' where run: "run_state (fetch E K f name) s = (r, s')" by fastforce
  with inv have inv': "policy_inv M S pol h0 known s'"
    by (rule keepsD [OF fetch_keeps [OF assms(1)]])
  show "policy_inv M S pol h0 known (snd (run_state (State_Monad.bind (fetch E K f name) k) s))"
  proof (cases r)
    case (Inl e)
    with inv' run assms(2) show ?thesis by (simp add: keeps_def)
  next
    case (Inr x)
    with run obtain ob where ob: "f ob = Some x" "(Get K name, RObj ob) \<in> set (rs_events s')"
      by (auto simp: Let_def)
    with inv' have "policy_inv M S pol h0 (\<lambda>h. known h \<and> (Get K name, RObj ob) \<in> set h) s'"
      by (simp add: policy_inv_def)
    with assms(3) [OF ob(1)] have "policy_inv M S pol h0 (\<lambda>h. known h \<and> (Get K name, RObj ob) \<in> set h) (snd (run_state (k (Inr x)) s'))"
      by (simp add: keeps_def)
    with run Inr show ?thesis by (simp add: policy_inv_def)
  qed
qed

lemma bind_getProject:
  assumes "\<And>p. p_meta p = M \<Longrightarrow> p_spec p = S \<Longrightarrow> keeps (policy_inv M S pol h0 known) (k p)"
  shows "keeps (policy_inv M S pol h0 known) (State_Monad.bind getProject k)"
  using assms by (intro keepsI) (simp add: keeps_def policy_inv_def)

lemma modifyStatus_keeps: "keeps (policy_inv M S pol h0 known) (modifyStatus f)"
  by (intro keepsI) (simp add: policy_inv_def)

lemma setCondition_keeps: "keeps (policy_inv M S pol h0 known) (setCondition E ty st reason msg)"
  by (intro keepsI) (simp add: policy_inv_def setCondition_def Let_def)

lemma updateProjectStatus_keeps:
  assumes "ctx base known"
  shows "keeps (policy_inv M S pol h0 known) (updateProjectStatus E)"
  unfolding updateProjectStatus_def
  by (intro bind_getProject keeps_andthen fetch_keeps keeps_if keeps_ok send_quiet assms) simp_all

lemmas handler_rules = bind_getProject modifyStatus_keeps setCondition_keeps updateProjectStatus_keeps fetch_keeps
  keeps_ok keeps_fail keeps_return keeps_if keeps_case_sum keeps_case_option keeps_case_prod keeps_Let

lemma failCondition_keeps:
  "ctx base known \<Longrightarrow> keeps (policy_inv M S pol h0 known) (failCondition E ty reason err)"
  unfolding failCondition_def by (intro handler_rules keeps_andthen keeps_bind)

lemma waitCondition_keeps:
  "ctx base known \<Longrightarrow> keeps (policy_inv M S pol h0 known) (waitCondition E ty reason msg)"
  unfolding waitCondition_def by (intro handler_rules keeps_andthen keeps_bind)

lemma onError_keeps:
  "keeps I m \<Longrightarrow> (\<And>e. keeps I (h e)) \<Longrightarrow> keeps I (onError m h)"
  unfolding onError_def by (intro handler_rules keeps_bind)

lemma orFailCondition_keeps:
  "ctx base known \<Longrightarrow> keeps (policy_inv M S pol h0 known) m \<Longrightarrow>
   keeps (policy_inv M S pol h0 known) (orFailCondition E ty reason m)"
  unfolding orFailCondition_def by (intro onError_keeps failCondition_keeps)

lemma wrapErr_keeps: "keeps I m \<Longrightarrow> keeps I (wrapErr prefix m)"
  unfolding wrapErr_def by (intro handler_rules keeps_bind)

lemma unlessRequeue_keeps: "keeps I m \<Longrightarrow> keeps I k \<Longrightarrow> keeps I (unlessRequeue m k)"
  unfolding unlessRequeue_def by (intro handler_rules keeps_andthen)

lemma failReconcileSecrets_keeps:
  "ctx base known \<Longrightarrow> keeps (policy_inv M S pol h0 known) (failReconcileSecrets E reason msg err)"
  unfolding failReconcileSecrets_def by (intro handler_rules keeps_andthen keeps_bind)

end

locale repair_policy = read_policy +
  assumes repairs: "base h \<Longrightarrow> permitted E M S h (Update ob) \<Longrightarrow> durableKind (kindOf ob) \<Longrightarrow> pol h (Update ob)"
begin

text \<open>A read, and then a request about the object that was read.\<close>

lemma send_repair_keeps:
  assumes "ctx base known" "kindOf ob = K" "\<And>h. known h \<Longrightarrow> fst name = md_namespace M"
    and "\<And>h. seen M ob h \<Longrightarrow> permitted E M S h (Update ob')" "durableKind (kindOf ob')"
  shows "keeps (policy_inv M S pol h0 (\<lambda>h. known h \<and> (Get K name, RObj ob) \<in> set h)) (send E (Update ob'))"
proof (rule keepsI)
  fix s assume inv: "policy_inv M S pol h0 (\<lambda>h. known h \<and> (Get K name, RObj ob) \<in> set h) s"
  then have "base (rs_events s)" "seen M ob (rs_events s)"
    using assms(1-3) by (cases name; auto simp: policy_inv_def ctx_def seen_def)+
  with repairs assms(4,5) have "pol (rs_events s) (Update ob')" by blast
  with inv assms(1) show "policy_inv M S pol h0 (\<lambda>h. known h \<and> (Get K name, RObj ob) \<in> set h) (snd (run_state (send E (Update ob')) s))"
    by (auto simp: policy_inv_def Let_def ctx_def stable_def intro: trace_ok.request)
qed

lemma protectDurable_keeps:
  assumes "ctx base known" "durableKind (fst d)"
  shows "keeps (policy_inv M S pol h0 known) (protectDurable E d)"
  unfolding protectDurable_def Let_def
proof (intro bind_getProject bind_fetch [OF assms(1)], goal_cases)
  case (2 p x ob)
  then have ob: "kindOf ob = fst d" "x = ob" by simp_all
  have upd: "updateOk E M ob (setOwners (md_owners m) ob) \<and> objectKey (metaOf (setOwners (md_owners m) ob)) = objectKey (metaOf ob)"
    if "removeSupabaseProjectOwnerReference E (metaOf ob) (p_name p) = (m, c)" "labelled M (metaOf ob)" for m c
    using that ob(1) assms(2) 2 removeOwner_unowned [of "p_name p" E "metaOf ob"]
    by (cases ob) (auto simp: durableKind_def detached_def unowned_def notShrunk_def objectKey_def)
  then have "permitted E M S h (Update (setOwners (md_owners m) ob))"
    if "removeSupabaseProjectOwnerReference E (metaOf ob) (p_name p) = (m, c)" "labelled M (metaOf ob)" "seen M ob h" for m c h
    using that by auto
  then show ?case
    unfolding sum.case ob(2)
    by (intro handler_rules wrapErr_keeps send_repair_keeps assms(1))
      (use ob 2 upd assms(2) in \<open>auto simp: namespaced_def labelled_def simp del: permitted.simps\<close>)
qed (simp add: keeps_ok keeps_fail)

lemma reconcileDurableMetadataProtection_keeps:
  "ctx base known \<Longrightarrow> keeps (policy_inv M S pol h0 known) (reconcileDurableMetadataProtection E)"
  unfolding reconcileDurableMetadataProtection_def
  by (intro bind_getProject keeps_for_each protectDurable_keeps) (auto simp: durables_def durableKind_def)

end

locale request_policy = repair_policy +
  assumes permits: "base h \<Longrightarrow> permitted E M S h c \<Longrightarrow> pol h c"
    and default_meta: "base h \<Longrightarrow> cl_meta (defaultCluster E cl) = cl_meta cl"
begin

lemma send_keeps:
  assumes "ctx base known" "\<And>h. known h \<Longrightarrow> permitted E M S h c"
  shows "keeps (policy_inv M S pol h0 known) (send E c)"
  using assms permits
  by (intro keepsI) (auto simp: policy_inv_def ctx_def stable_def Let_def intro: trace_ok.request)

lemma upsert_keeps:
  assumes "ctx base known" "\<And>x. kindOf (wrap x) = K" "\<And>ob x. as ob = Some x \<Longrightarrow> ob = wrap x"
    and "fst name = md_namespace M" "createOk E M (wrap desired)"
    and "\<And>e u c. merge e = Inr (u, c) \<Longrightarrow> updateOk E M (wrap e) (wrap u) \<and> objectKey (metaOf (wrap u)) = objectKey (metaOf (wrap e))"
  shows "keeps (policy_inv M S pol h0 known) (upsert E K as wrap blame name desired merge)"
  unfolding upsert_def
proof (rule bind_fetch [OF assms(1)], goal_cases)
  case (1 err)
  show ?case
    using assms(5) by (simp, intro conjI impI keeps_bind send_keeps assms(1) handler_rules) simp_all
next
  case (2 x ob)
  then have ob: "ob = wrap x" by (rule assms(3))
  have seen: "seen M (wrap x) h" if "(Get K name, RObj ob) \<in> set h" for h
    using that assms(2,4) by (cases name) (auto simp: seen_def ob)
  show ?case
    unfolding sum.case
    by (intro handler_rules keeps_bind send_keeps ctx_seen assms(1))
      (use seen assms(6) in \<open>auto intro!: exI [of _ "wrap x"]\<close>)
qed

end

section \<open>Generated secrets lie in the namespace of the project\<close>

lemma returns_andthen: "(\<And>x. returns (k x) Q) \<Longrightarrow> returns (andthen m k) Q"
  by (auto simp: returns_def run_andthen split: prod.splits sum.splits)

lemma returns_andthen2:
  assumes "returns m P" "\<And>x. P x \<Longrightarrow> returns (k x) Q"
  shows "returns (andthen m k) Q"
  unfolding returns_def
proof (intro allI impI)
  fix s x s'
  assume run: "run_state (andthen m k) s = (Inr x, s')"
  then obtain y s1 where "run_state m s = (Inr y, s1)" "run_state (k y) s1 = (Inr x, s')"
    by (auto simp: run_andthen split: prod.splits sum.splits)
  with assms show "Q x" unfolding returns_def by blast
qed

lemma returns_ok: "Q x \<Longrightarrow> returns (ok x) Q"
  by (auto simp: returns_def)

lemma returns_onError: "returns m Q \<Longrightarrow> (\<And>e. returns (h e) Q) \<Longrightarrow> returns (onError m h) Q"
  unfolding returns_def onError_def by (fastforce split: prod.splits sum.splits)

lemma failCondition_returns: "returns (failCondition E ty reason err) Q"
  unfolding failCondition_def returns_def by (auto simp: run_andthen split: prod.splits sum.splits)

lemma returns_orFailCondition: "returns m Q \<Longrightarrow> returns (orFailCondition E ty reason m) Q"
  unfolding orFailCondition_def by (intro returns_onError failCondition_returns)

definition inNamespace :: "project \<Rightarrow> secret \<Rightarrow> bool" where
  "inNamespace p sec \<longleftrightarrow> md_namespace (sec_meta sec) = p_namespace p"

lemma generateRoleSecret_returns:
  "returns (generateRoleSecret E p suffix username) (\<lambda>(sec, _). inNamespace p sec)"
  unfolding generateRoleSecret_def Let_def
  by (intro returns_andthen returns_ok) (simp add: inNamespace_def)

lemma GenerateGoTrueFallbackSecret_returns:
  "returns (GenerateGoTrueFallbackSecret E p) (\<lambda>(sec, _). inNamespace p sec)"
  unfolding GenerateGoTrueFallbackSecret_def
  by (intro returns_andthen returns_ok) (simp add: inNamespace_def)

lemma GenerateEmailHookSecret_returns:
  "returns (GenerateEmailHookSecret E p) (\<lambda>(sec, _). inNamespace p sec)"
  unfolding GenerateEmailHookSecret_def
  by (intro returns_andthen returns_ok) (simp add: inNamespace_def)

lemma GeneratePowersyncAPITokenSecret_returns:
  "returns (GeneratePowersyncAPITokenSecret E p) (inNamespace p)"
  unfolding GeneratePowersyncAPITokenSecret_def
  by (intro returns_andthen returns_ok) (simp add: inNamespace_def)

lemma GenerateSecrets_returns:
  "returns (GenerateSecrets E p) (\<lambda>(secs, _). list_all (inNamespace p) secs)"
  unfolding GenerateSecrets_def
  by (intro returns_andthen2 [OF GenerateGoTrueFallbackSecret_returns] returns_andthen2 [OF generateRoleSecret_returns])
    (auto intro!: returns_andthen2 [OF generateRoleSecret_returns] returns_ok)

lemma GeneratePowersyncSecrets_returns:
  "returns (GeneratePowersyncSecrets E p) (list_all (inNamespace p))"
  unfolding GeneratePowersyncSecrets_def
  by (auto intro!: returns_andthen2 [OF generateRoleSecret_returns] returns_ok)

section \<open>Every handler keeps to the policy\<close>

context request_policy
begin

lemma readRandom_keeps: "ctx base known \<Longrightarrow> keeps (policy_inv M S pol h0 known) (readRandom E n)"
  unfolding readRandom_def
  by (intro keeps_bind ask_quiet) (auto split: resp.splits intro!: handler_rules)

lemma Generate_keeps:
  assumes "ctx base known"
  shows "keeps (policy_inv M S pol h0 known) (generateRoleSecret E p suffix username)"
    and "keeps (policy_inv M S pol h0 known) (GenerateEmailHookSecret E p)"
    and "keeps (policy_inv M S pol h0 known) (GeneratePowersyncAPITokenSecret E p)"
    and "keeps (policy_inv M S pol h0 known) (GenerateSecrets E p)"
    and "keeps (policy_inv M S pol h0 known) (GeneratePowersyncSecrets E p)"
proof -
  note defs = GenerateHex_def GeneratePassword_def GenerateBase64_def GenerateWebhookSecret_def
  note rules = keeps_andthen wrapErr_keeps readRandom_keeps handler_rules assms
  show role: "keeps (policy_inv M S pol h0 known) (generateRoleSecret E p suffix username)" for suffix username
    unfolding generateRoleSecret_def defs by (intro rules)
  show "keeps (policy_inv M S pol h0 known) (GenerateEmailHookSecret E p)"
    unfolding GenerateEmailHookSecret_def defs by (intro rules)
  show "keeps (policy_inv M S pol h0 known) (GeneratePowersyncAPITokenSecret E p)"
    unfolding GeneratePowersyncAPITokenSecret_def defs by (intro rules)
  have "keeps (policy_inv M S pol h0 known) (GenerateGoTrueFallbackSecret E p)"
    unfolding GenerateGoTrueFallbackSecret_def defs by (intro rules)
  with role show "keeps (policy_inv M S pol h0 known) (GenerateSecrets E p)"
    unfolding GenerateSecrets_def by (intro keeps_andthen keeps_case_prod keeps_ok)
  from role show "keeps (policy_inv M S pol h0 known) (GeneratePowersyncSecrets E p)"
    unfolding GeneratePowersyncSecrets_def by (intro keeps_andthen keeps_case_prod keeps_ok)
qed

lemma adopted:
  assumes "adopt E p m0 = Inr (m, c)" "p_meta p = M" "md_namespace m0 = md_namespace M"
  shows "fst (objectKey m) = md_namespace M" "md_namespace m = md_namespace M" "md_labels m = md_labels m0"
    "controlled E M m"
  using adopt_ok [OF assms(1)] adopt_controlled [OF assms(1,2)] assms(3) by (auto simp: objectKey_def)

lemma adopt_upsert_keeps:
  assumes "ctx base known" "\<And>x. kindOf (wrap x) = K" "\<And>ob x. as ob = Some x \<Longrightarrow> ob = wrap x"
    and "md_namespace m0 = md_namespace M" "K \<notin> {KCluster, KObjectStore, KScheduledBackup, KProject}"
    and "K \<noteq> KSecret \<Longrightarrow> labelled M m0" "\<And>m. metaOf (wrap (put m)) = m"
    and "\<And>p e u c. p_meta p = M \<Longrightarrow> merge p e = Inr (u, c) \<Longrightarrow>
      updateOk E M (wrap e) (wrap u) \<and> objectKey (metaOf (wrap u)) = objectKey (metaOf (wrap e))"
  shows "keeps (policy_inv M S pol h0 known) (do {
     p \<leftarrow> getProject;
     case adopt E p m0 of
       Inl e \<Rightarrow> fail e
     | Inr (m, _) \<Rightarrow> upsert E K as wrap blame (objectKey m) (put m) (merge p) })"
proof (intro handler_rules)
  fix p x m c
  assume p: "p_meta p = M" and "adopt E p m0 = Inr x" "x = (m, c)"
  then have ad: "adopt E p m0 = Inr (m, c)" by simp
  note meta = adopted [OF ad p assms(4)]
  have "createOk E M (wrap (put m))"
    using meta assms(2,5,6,7) by (auto simp: createOk_def durableKind_def labelled_def)
  then show "keeps (policy_inv M S pol h0 known) (upsert E K as wrap blame (objectKey m) (put m) (merge p))"
    using assms(1,2,3) meta(1) assms(8) [OF p] by (intro upsert_keeps)
qed

lemma createOrUpdateSecret_keeps:
  assumes "ctx base known" "md_namespace (sec_meta sec) = md_namespace M"
  shows "keeps (policy_inv M S pol h0 known) (createOrUpdateSecret E sec)"
  unfolding createOrUpdateSecret_def
  by (rule adopt_upsert_keeps [OF assms(1)]) (use assms(2) mergeSecret_ok in auto)

lemma createOrUpdateConfigMap_keeps:
  assumes "ctx base known" "md_namespace (cm_meta cm) = md_namespace M" "labelled M (cm_meta cm)"
  shows "keeps (policy_inv M S pol h0 known) (createOrUpdateConfigMap E cm)"
  unfolding createOrUpdateConfigMap_def
  by (rule adopt_upsert_keeps [OF assms(1)]) (use assms(2,3) mergeConfigMap_ok in \<open>auto simp del: updateOk.simps\<close>)

lemma createOrUpdateDeployment_keeps:
  assumes "ctx base known" "md_namespace (dep_meta d) = md_namespace M" "labelled M (dep_meta d)"
  shows "keeps (policy_inv M S pol h0 known) (createOrUpdateDeployment E (Some d))"
  unfolding createOrUpdateDeployment_def option.case
  by (rule adopt_upsert_keeps [OF assms(1)]) (use assms(2,3) mergeDeployment_ok in \<open>auto simp del: updateOk.simps\<close>)

lemma createOrUpdateService_keeps:
  assumes "ctx base known" "md_namespace (svc_meta d) = md_namespace M" "labelled M (svc_meta d)"
  shows "keeps (policy_inv M S pol h0 known) (createOrUpdateService E (Some d))"
  unfolding createOrUpdateService_def option.case
  by (rule adopt_upsert_keeps [OF assms(1)]) (use assms(2,3) mergeService_ok in \<open>auto simp del: updateOk.simps\<close>)

lemma createOrUpdateCronJob_keeps:
  assumes "ctx base known" "md_namespace (cj_meta d) = md_namespace M" "labelled M (cj_meta d)"
  shows "keeps (policy_inv M S pol h0 known) (createOrUpdateCronJob E d)"
  unfolding createOrUpdateCronJob_def
  by (rule adopt_upsert_keeps [OF assms(1)]) (use assms(2,3) mergeCronJob_ok in \<open>auto simp del: updateOk.simps\<close>)

lemma createOrUpdateObjectStore_keeps:
  assumes "ctx base known" "md_namespace (os_meta d) = md_namespace M" "labelled M (os_meta d)" "detached E M (os_meta d)"
    "durableName M KObjectStore (md_name (os_meta d))"
  shows "keeps (policy_inv M S pol h0 known) (createOrUpdateObjectStore E (Some d))"
  unfolding createOrUpdateObjectStore_def option.case
  by (rule upsert_keeps [OF assms(1)])
    (use assms(2-5) mergeObjectStore_ok [OF _ assms(3)] in
      \<open>auto simp: createOk_def durableKind_def objectKey_def simp del: updateOk.simps\<close>)

lemma createOrUpdateScheduledBackup_keeps:
  assumes "ctx base known" "md_namespace (sb_meta d) = md_namespace M" "labelled M (sb_meta d)" "detached E M (sb_meta d)"
    "durableName M KScheduledBackup (md_name (sb_meta d))"
  shows "keeps (policy_inv M S pol h0 known) (createOrUpdateScheduledBackup E (Some d))"
  unfolding createOrUpdateScheduledBackup_def option.case
  by (rule upsert_keeps [OF assms(1)])
    (use assms(2-5) mergeScheduledBackup_ok [OF _ assms(3)] in
      \<open>auto simp: createOk_def durableKind_def objectKey_def simp del: updateOk.simps\<close>)

lemma deploymentStatus_keeps:
  assumes "ctx base known"
  shows "keeps (policy_inv M S pol h0 known) (deploymentStatus E d)"
  unfolding deploymentStatus_def by (intro handler_rules keeps_bind assms)

text \<open>A read followed by a request about the object that was read.\<close>

lemma send_seen_keeps:
  assumes "ctx base known" "kindOf ob = K" "\<And>h. known h \<Longrightarrow> fst name = md_namespace M"
    and "\<And>h. seen M ob h \<Longrightarrow> permitted E M S h c"
  shows "keeps (policy_inv M S pol h0 (\<lambda>h. known h \<and> (Get K name, RObj ob) \<in> set h)) (send E c)"
  by (rule send_keeps [OF ctx_seen [OF assms(1)]], rule assms(4))
    (use assms(2,3) in \<open>cases name; auto simp: seen_def\<close>)

lemma deletePowerSyncOwnedResource_keeps:
  assumes "ctx base known" "fst name = md_namespace M"
    and "K \<in> {KDeployment, KService, KConfigMap, KJob, KCronJob, KPublication}"
  shows "keeps (policy_inv M S pol h0 known) (deletePowerSyncOwnedResource E K name)"
  unfolding deletePowerSyncOwnedResource_def
proof (rule bind_fetch [OF assms(1)], goal_cases)
  case (2 x ob)
  then have ob: "kindOf ob = K" "x = ob" by simp_all
  show ?case
    unfolding sum.case ob(2)
    by (intro handler_rules keeps_bind send_seen_keeps assms(1,2)) (use ob assms(3) in \<open>auto simp: deleteOk_def\<close>)
qed (simp add: keeps_ok keeps_fail)

lemma deleteLabelled_keeps:
  assumes "ctx base known" "K \<in> {KObjectStore, KScheduledBackup}"
  shows "keeps (policy_inv M S pol h0 known) (deleteLabelled E K what name)"
  unfolding deleteLabelled_def Let_def
proof (intro bind_getProject bind_fetch [OF assms(1)], goal_cases)
  case (2 p x ob)
  then have ob: "kindOf ob = K" "x = ob" by simp_all
  show ?case
    unfolding sum.case ob(2)
    by (intro handler_rules keeps_bind send_seen_keeps assms(1))
      (use ob assms(2) 2 in \<open>auto simp: deleteOk_def namespaced_def labelled_def\<close>)
qed (simp add: keeps_ok keeps_fail)

lemma createOrCheckJob_keeps:
  assumes "ctx base known" "md_namespace (job_meta j) = md_namespace M" "labelled M (job_meta j)"
  shows "keeps (policy_inv M S pol h0 known) (createOrCheckJob E j hash)"
  unfolding createOrCheckJob_def Let_def
proof (intro bind_getProject keeps_case_sum keeps_case_prod keeps_fail, rule bind_fetch [OF assms(1)], goal_cases)
  case (1 p mc m c err)
  then have "createOk E M (OJob (j\<lparr>job_meta := m\<lparr>md_annotations := fmupd cdcScriptHashAnnotation hash (md_annotations m)\<rparr>\<rparr>))"
    using adopted [of p "job_meta j" m c] assms(2,3)
    by (auto simp: createOk_def durableKind_def labelled_def controlled_def)
  then show ?case
    by (simp, intro conjI impI handler_rules keeps_andthen send_keeps assms(1)) simp
next
  case (2 p mc m c existing ob)
  then have ob: "ob = OJob existing" and ns: "fst (objectKey m) = md_namespace M"
    using adopted(1) [of p "job_meta j" m c] assms(2) by auto
  have upd: "updateOk E M (OJob existing) (OJob (existing\<lparr>job_meta := m'\<rparr>)) \<and> objectKey m' = objectKey (job_meta existing)"
    if "adopt E p (job_meta existing) = Inr (m0, c0)" "mergeLabels E m0 ls = (m', c1)" "labelled M (job_meta existing)"
    for m0 c0 m' c1 ls
    using that mergeLabels_controlled [OF that(2) adopt_controlled [OF that(1) 2(1)]]
      mergeLabels_key [OF that(2)] adopt_ok [OF that(1)] by auto
  have perm: "permitted E M S h (Update (OJob (existing\<lparr>job_meta := m'\<rparr>)))"
      "permitted E M S h (Delete (OJob (existing\<lparr>job_meta := m'\<rparr>)) fg)"
    if "adopt E p (job_meta existing) = Inr (m0, c0)" "mergeLabels E m0 ls = (m', c1)" "labelled M (job_meta existing)"
      "seen M (OJob existing) h"
    for m0 c0 m' c1 ls h fg
    using upd [OF that(1-3)] that(3,4) unfolding permitted.simps
    by (auto simp: deleteOk_def simp del: updateOk.simps intro!: exI [of _ "OJob existing"])
  show ?case
    unfolding sum.case
    by (intro handler_rules keeps_bind keeps_andthen wrapErr_keeps send_seen_keeps assms(1))
      (use ob ns perm 2(1) in \<open>simp_all add: labelled_def objectKey_def del: permitted.simps\<close>)
qed

lemmas phase_rules = failCondition_keeps waitCondition_keeps orFailCondition_keeps onError_keeps wrapErr_keeps
  unlessRequeue_keeps keeps_for_each createOrUpdateSecret_keeps createOrUpdateConfigMap_keeps
  createOrUpdateDeployment_keeps createOrUpdateService_keeps createOrUpdateCronJob_keeps deploymentStatus_keeps
  createOrCheckJob_keeps Generate_keeps handler_rules keeps_andthen keeps_bind

lemma failEmailHookSecret_keeps:
  "ctx base known \<Longrightarrow> keeps (policy_inv M S pol h0 known) (failEmailHookSecret E reason err)"
  unfolding failEmailHookSecret_def by (intro phase_rules)

lemma ensureEmailHookSecret_keeps:
  assumes "ctx base known"
  shows "keeps (policy_inv M S pol h0 known) (ensureEmailHookSecret E)"
  unfolding ensureEmailHookSecret_def
  by (intro failEmailHookSecret_keeps keeps_bind_returns [OF _ GenerateEmailHookSecret_returns] phase_rules assms)
    (simp_all add: inNamespace_def)

lemma reconcileEmailHookSecret_keeps:
  "ctx base known \<Longrightarrow> keeps (policy_inv M S pol h0 known) (reconcileEmailHookSecret E)"
  unfolding reconcileEmailHookSecret_def setEmailHookName_def
  by (intro ensureEmailHookSecret_keeps phase_rules)

lemma reconcilePowersyncAPITokenSecret_keeps:
  assumes "ctx base known"
  shows "keeps (policy_inv M S pol h0 known) (reconcilePowersyncAPITokenSecret E)"
  unfolding reconcilePowersyncAPITokenSecret_def
  by (intro keeps_andthen_returns [OF _ GeneratePowersyncAPITokenSecret_returns] phase_rules assms)
    (simp_all add: inNamespace_def)

lemma allSecretsExist_keeps:
  "ctx base known \<Longrightarrow> keeps (policy_inv M S pol h0 known) (allSecretsExist E names)"
  by (induction names) (auto intro!: handler_rules keeps_bind)

lemma reconcilePowersyncSecrets_keeps:
  assumes "ctx base known"
  shows "keeps (policy_inv M S pol h0 known) (reconcilePowersyncSecrets E names)"
  unfolding reconcilePowersyncSecrets_def
  by (intro allSecretsExist_keeps reconcilePowersyncAPITokenSecret_keeps
      keeps_andthen_returns [OF _ returns_orFailCondition [OF GeneratePowersyncSecrets_returns]] phase_rules assms)
    (auto simp: list_all_iff inNamespace_def)

lemma reconcileImplementationSecrets_keeps:
  assumes "ctx base known"
  shows "keeps (policy_inv M S pol h0 known) (reconcileImplementationSecrets E)"
  unfolding reconcileImplementationSecrets_def
  by (intro reconcilePowersyncSecrets_keeps reconcileEmailHookSecret_keeps
      keeps_andthen_returns [OF _ GenerateSecrets_returns] phase_rules assms)
    (auto simp: list_all_iff inNamespace_def)

lemma reconcileSecrets_keeps:
  assumes "ctx base known"
  shows "keeps (policy_inv M S pol h0 known) (reconcileSecrets E)"
  unfolding reconcileSecrets_def
  by (intro reconcileImplementationSecrets_keeps failReconcileSecrets_keeps keeps_get phase_rules assms)

lemma validateRecoveryBootstrapIntent_keeps:
  "ctx base known \<Longrightarrow> keeps (policy_inv M S pol h0 known) (validateRecoveryBootstrapIntent E)"
  unfolding validateRecoveryBootstrapIntent_def by (intro phase_rules)

lemma reconcileInitSQL_keeps:
  "ctx base known \<Longrightarrow> keeps (policy_inv M S pol h0 known) (reconcileInitSQL E)"
  unfolding reconcileInitSQL_def
  by (intro phase_rules) (simp_all add: BuildInitSQLConfigMap_def labelled_def)

lemma reconcileJWKSConfigMap_keeps:
  "ctx base known \<Longrightarrow> keeps (policy_inv M S pol h0 known) (reconcileJWKSConfigMap E jwks)"
  unfolding reconcileJWKSConfigMap_def
  by (intro phase_rules) (simp_all add: BuildJWKSConfigMap_def labelled_def)

lemma validateS3Secret_keeps:
  "ctx base known \<Longrightarrow> keeps (policy_inv M S pol h0 known) (validateS3Secret E ns name)"
  unfolding validateS3Secret_def by (intro phase_rules)

lemma removeCondition_keeps: "keeps (policy_inv M S pol h0 known) (removeCondition E ty)"
  unfolding removeCondition_def by (rule modifyStatus_keeps)

lemma cleanupBackupResources_keeps:
  "ctx base known \<Longrightarrow> keeps (policy_inv M S pol h0 known) (cleanupBackupResources E)"
  unfolding cleanupBackupResources_def
  by (intro deleteLabelled_keeps removeCondition_keeps phase_rules) simp_all

lemma cleanupRecoveryResources_keeps:
  "ctx base known \<Longrightarrow> keeps (policy_inv M S pol h0 known) (cleanupRecoveryResources E)"
  unfolding cleanupRecoveryResources_def
  by (intro deleteLabelled_keeps removeCondition_keeps phase_rules) simp_all

lemma createOrUpdateObjectStore_built_keeps:
  assumes "ctx base known" "p_meta p = M" "b = BuildObjectStore p \<or> b = BuildRecoveryObjectStore p"
  shows "keeps (policy_inv M S pol h0 known) (createOrUpdateObjectStore E b)"
proof (cases b)
  case None
  then show ?thesis by (simp add: createOrUpdateObjectStore_def keeps_ok)
next
  case (Some d)
  have "md_namespace (os_meta d) = md_namespace M" "labelled M (os_meta d)" "detached E M (os_meta d)"
      "durableName M KObjectStore (md_name (os_meta d))"
    using assms(2,3) Some
    by (auto simp: durableName_def ObjectStoreName_def RecoveryObjectStoreName_def BuildObjectStore_def BuildRecoveryObjectStore_def Let_def labelled_def detached_def split: if_splits option.splits)
  with Some assms(1) show ?thesis by (simp add: createOrUpdateObjectStore_keeps)
qed

lemma createOrUpdateScheduledBackup_built_keeps:
  assumes "ctx base known" "p_meta p = M"
  shows "keeps (policy_inv M S pol h0 known) (createOrUpdateScheduledBackup E (BuildScheduledBackup p))"
proof (cases "BuildScheduledBackup p")
  case None
  then show ?thesis by (simp add: createOrUpdateScheduledBackup_def keeps_ok)
next
  case (Some d)
  then have "md_namespace (sb_meta d) = md_namespace M" "labelled M (sb_meta d)" "detached E M (sb_meta d)"
      "durableName M KScheduledBackup (md_name (sb_meta d))"
    using assms(2)
    by (auto simp: durableName_def ScheduledBackupName_def BuildScheduledBackup_def Let_def labelled_def detached_def split: if_splits option.splits)
  with Some assms(1) show ?thesis by (simp add: createOrUpdateScheduledBackup_keeps)
qed

lemma reconcileBackup_keeps:
  assumes "ctx base known"
  shows "keeps (policy_inv M S pol h0 known) (reconcileBackup E)"
  unfolding reconcileBackup_def failBackup_def
  by (intro createOrUpdateObjectStore_built_keeps createOrUpdateScheduledBackup_built_keeps validateS3Secret_keeps
      cleanupBackupResources_keeps phase_rules assms) auto

lemma reconcileRecovery_keeps:
  assumes "ctx base known"
  shows "keeps (policy_inv M S pol h0 known) (reconcileRecovery E)"
  unfolding reconcileRecovery_def failRecovery_def
  by (intro createOrUpdateObjectStore_built_keeps validateS3Secret_keeps
      cleanupRecoveryResources_keeps phase_rules assms) auto

lemma waitForDatabase_keeps:
  "ctx base known \<Longrightarrow> keeps (policy_inv M S pol h0 known) (waitForDatabase E)"
  unfolding waitForDatabase_def by (intro phase_rules)

lemma defaultCluster_built:
  assumes "ctx base known" "p_meta p = M" "known h"
  shows "cl_meta (defaultCluster E (BuildCluster p names)) = cl_meta (BuildCluster p names)"
    "createOk E M (OCluster (defaultCluster E (BuildCluster p names)))"
proof -
  have "base h" using assms by (auto simp: ctx_def)
  then show meta: "cl_meta (defaultCluster E (BuildCluster p names)) = cl_meta (BuildCluster p names)"
    by (rule default_meta)
  show "createOk E M (OCluster (defaultCluster E (BuildCluster p names)))"
    using assms(2) by (simp add: createOk_def durableKind_def meta BuildCluster_meta labelled_def detached_def durableName_def ClusterName_def)
qed

lemma mutableFields_updateOk:
  assumes "reconcileClusterMutableFields E (e\<lparr>cl_meta := m\<rparr>) d = Inr (u, c)"
    and "detached E M m" "labelled M (cl_meta e)"
  shows "updateOk E M (OCluster e) (OCluster u) \<and> cl_meta u = m"
proof -
  from assms(1) obtain s c0 where s: "reconcileStorage E (cs_storage (cl_spec e)) (cs_storage (cl_spec d)) = Inr (s, c0)"
    and u: "u = e\<lparr>cl_meta := m, cl_spec := specAfter (cl_spec d) ((cl_spec e)\<lparr>cs_storage := s\<rparr>)\<rparr>"
    using fst_assignMutableFields [of "cl_spec d" "((cl_spec e)\<lparr>cs_storage := _\<rparr>, _)"]
    by (auto simp: reconcileClusterMutableFields_def split: sum.splits prod.splits) (metis fst_conv)
  from reconcileStorage_ok(3) [OF s] obtain c1
    where "reconcileStorageSize E (cs_storage (cl_spec e)) (cs_storage (cl_spec d)) = Inr ((cs_storage (cl_spec e))\<lparr>sc_size := sc_size s\<rparr>, c1)" ..
  note size = reconcileStorageSize_ok [OF this]
  have "sc_size s = (if sc_size (cs_storage (cl_spec d)) = '''' then sc_size (cs_storage (cl_spec e)) else sc_size (cs_storage (cl_spec d)))"
    using arg_cong [OF size(1), of sc_size] by simp
  then have "notShrunk E e u"
    using size(4) by (auto simp: notShrunk_def u specAfter_def split: if_splits)
  then show ?thesis using assms(2,3) by (simp add: u specAfter_def)
qed

lemma reconcileCNPGCluster_keeps:
  assumes "ctx base known"
  shows "keeps (policy_inv M S pol h0 known) (reconcileCNPGCluster E)"
  unfolding reconcileCNPGCluster_def Let_def
proof (intro bind_getProject bind_fetch [OF assms], goal_cases)
  case (1 p err)
  then show ?case
    unfolding sum.case
    by (intro phase_rules send_keeps assms) (simp add: defaultCluster_built [OF assms 1(1)])
next
  case (2 p existing ob)
  let ?d = "defaultCluster E (BuildCluster p (st_secretNames (p_status p)))"
  from 2 have ob: "ob = OCluster existing" and p: "p_meta p = M" by simp_all
  have ns: "fst (objectKey (cl_meta ?d)) = md_namespace M" if "known h" for h
    using defaultCluster_built(1) [OF assms p that] p by (simp add: objectKey_def)
  have plain: "updateOk E M (OCluster existing) (OCluster (existing\<lparr>cl_meta := m'\<rparr>))"
    if "detached E M m'" "labelled M (cl_meta existing)" for m'
    using that by (simp add: notShrunk_def)
  have upd: "permitted E M S h (Update (OCluster (existing\<lparr>cl_meta := m'\<rparr>))) \<and>
      (\<forall>u cu. reconcileClusterMutableFields E (existing\<lparr>cl_meta := m'\<rparr>) ?d = Inr (u, cu) \<longrightarrow> permitted E M S h (Update (OCluster u)))"
    if "removeSupabaseProjectOwnerReference E (cl_meta existing) (p_name p) = (m, c)" "mergeLabels E m ls = (m', c')"
      "labelled M (cl_meta existing)" "seen M (OCluster existing) h" for m c m' c' ls h
  proof -
    have d: "detached E M m'" "objectKey m' = objectKey (cl_meta existing)"
      using removeOwner_then_labels_detached [OF that(1,2), of M] p by simp_all
    have "permitted E M S h (Update (OCluster u))" if "updateOk E M (OCluster existing) (OCluster u) \<and> cl_meta u = m'" for u
      using that d(2) \<open>seen M (OCluster existing) h\<close> unfolding permitted.simps
      by (intro exI [of _ "OCluster existing"]) (simp del: updateOk.simps)
    then show ?thesis
      using plain [OF d(1) that(3)] mutableFields_updateOk [OF _ d(1) that(3)] by auto
  qed
  show ?case
    unfolding sum.case
    by (intro phase_rules send_seen_keeps ctx_seen assms)
      (use ob ns upd p in \<open>simp_all add: labelled_def del: permitted.simps\<close>)
qed

end

section \<open>What the builders produce lies in the project\<close>

definition ours :: "object_meta \<Rightarrow> object_meta \<Rightarrow> bool" where
  "ours M m \<longleftrightarrow> md_namespace m = md_namespace M \<and> labelled M m"

lemma built_deployments_ours:
  assumes "p_meta p = M"
  shows "ours M (dep_meta (BuildAuthDeployment E p names))" "ours M (dep_meta (BuildRestDeployment p names))"
    "ours M (dep_meta (BuildStudioDeployment p names))" "ours M (dep_meta (BuildMetaDeployment p names))"
    "ours M (dep_meta (BuildGatewayDeployment p))" "ours M (dep_meta (BuildPowersyncAPIDeployment p spec names))"
    "ours M (dep_meta (BuildPowersyncReplicationDeployment p spec names))"
  using assms
  by (simp_all add: ours_def labelled_def BuildAuthDeployment_def BuildRestDeployment_def BuildStudioDeployment_def
      BuildMetaDeployment_def BuildGatewayDeployment_def BuildPowersyncAPIDeployment_def
      BuildPowersyncReplicationDeployment_def Let_def)

lemma built_services_ours:
  assumes "p_meta p = M"
  shows "ours M (svc_meta (BuildAuthService p))" "ours M (svc_meta (BuildRestService p))"
    "ours M (svc_meta (BuildStudioService p))" "ours M (svc_meta (BuildMetaService p))"
    "ours M (svc_meta (BuildGatewayService p))" "ours M (svc_meta (BuildPowersyncAPIService p))"
  using assms
  by (simp_all add: ours_def labelled_def BuildAuthService_def BuildRestService_def BuildStudioService_def
      BuildMetaService_def BuildGatewayService_def BuildPowersyncAPIService_def BuildService_def)

lemma built_configs_ours:
  assumes "p_meta p = M"
  shows "ours M (cm_meta (BuildEnvoyConfigMap p))" "ours M (cm_meta (BuildPowersyncConfigMap E p))"
    "BuildPowersyncSyncRulesConfigMap p spec = Some cm \<Longrightarrow> ours M (cm_meta cm)"
    "BuildCDCMigrationsConfigMap p = Inr cm \<Longrightarrow> ours M (cm_meta cm)"
    "ours M (job_meta (BuildCDCPermissionsJob p names))"
    "BuildPowersyncCompactCronJob p spec names = Some cj \<Longrightarrow> ours M (cj_meta cj)"
    "BuildPowerSyncPublication p = Inr pub \<Longrightarrow> ours M (pub_meta pub)"
  using assms
  by (auto simp: ours_def labelled_def BuildEnvoyConfigMap_def BuildPowersyncConfigMap_def Let_def
      BuildPowersyncSyncRulesConfigMap_def BuildCDCMigrationsConfigMap_def BuildCDCPermissionsJob_def
      BuildPowersyncCompactCronJob_def BuildPowerSyncPublication_def split: if_splits sum.splits option.splits)

lemma hashed_meta [simp]:
  "dep_meta (annotateTemplate k v d) = dep_meta d"
  "dep_meta (applyProjectCredentialsHash d v) = dep_meta d"
  "dep_meta (applyPowerSyncConfigHash E d v w) = dep_meta d"
  by (simp_all add: annotateTemplate_def applyProjectCredentialsHash_def applyPowerSyncConfigHash_def)

context request_policy
begin

lemma failComponent_keeps:
  "ctx base known \<Longrightarrow> keeps (policy_inv M S pol h0 known) (failComponent E config reason err)"
  unfolding failComponent_def setServiceStatus_def by (intro phase_rules)

lemma reconcileServiceComponent_keeps:
  assumes "ctx base known"
    and "\<And>p. p_meta p = M \<Longrightarrow> ours M (dep_meta (src_deployment config p))"
    and "\<And>p. p_meta p = M \<Longrightarrow> ours M (svc_meta (src_service config p))"
  shows "keeps (policy_inv M S pol h0 known) (reconcileServiceComponent E config)"
  unfolding reconcileServiceComponent_def setServiceStatus_def
  by (intro failComponent_keeps phase_rules assms(1)) (use assms(2,3) in \<open>auto simp: ours_def Let_def\<close>)

lemma validateGoTrueEnvSources_keeps:
  assumes "ctx base known"
  shows "keeps (policy_inv M S pol h0 known) (validateGoTrueEnvSources E)"
proof -
  have keys: "keeps (policy_inv M S pol h0 known) (validateGoTrueEnvSecretKey E ns r)"
      "keeps (policy_inv M S pol h0 known) (validateGoTrueEnvConfigMapKey E ns r)" for ns r
    unfolding validateGoTrueEnvSecretKey_def validateGoTrueEnvConfigMapKey_def Let_def by (intro phase_rules assms)+
  have "keeps (policy_inv M S pol h0 known) (validateGoTrueEnvSource E ns g)" for ns g
    unfolding validateGoTrueEnvSource_def Let_def prod.case by (intro keys phase_rules assms)
  then show ?thesis
    unfolding validateGoTrueEnvSources_def by (intro bind_getProject keeps_for_each)
qed

lemma keeps_andthen_gives:
  assumes "keeps I m" "\<And>s x s'. I s \<Longrightarrow> run_state m s = (Inr x, s') \<Longrightarrow> Q x" "\<And>x. Q x \<Longrightarrow> keeps I (k x)"
  shows "keeps I (andthen m k)"
proof (rule keepsI)
  fix s assume I: "I s"
  obtain r s' where m: "run_state m s = (r, s')" by fastforce
  then have "I s'" using assms(1) I by (rule keepsD [rotated 2])
  with I m show "I (snd (run_state (andthen m k) s))"
    using assms(2,3) by (cases r) (auto simp: run_andthen keeps_def)
qed

lemma buildAuthDeployment_gives:
  assumes "policy_inv M S pol h0 known s" "run_state (buildAuthDeployment E names) s = (Inr d, s')"
  shows "ours M (dep_meta d)"
  using assms built_deployments_ours(1) [of "rs_project s" M E names]
  by (auto simp: buildAuthDeployment_def policy_inv_def Let_def split: if_splits sum.splits)

lemma reconcileAuth_keeps:
  assumes "ctx base known"
  shows "keeps (policy_inv M S pol h0 known) (reconcileAuth E names hash)"
proof -
  have "keeps (policy_inv M S pol h0 known) (buildAuthDeployment E names)"
    unfolding buildAuthDeployment_def by (intro phase_rules assms)
  moreover have "keeps (policy_inv M S pol h0 known) (failAuthGoTrueEnv E err)" for err :: go_error
    unfolding failAuthGoTrueEnv_def by (intro phase_rules assms)
  ultimately show ?thesis
    unfolding reconcileAuth_def
    by (intro keeps_andthen [OF onError_keeps] validateGoTrueEnvSources_keeps keeps_andthen_gives [OF _ buildAuthDeployment_gives]
        reconcileServiceComponent_keeps assms) (simp_all add: built_services_ours)
qed

lemma reconcileServices_keeps:
  assumes "ctx base known"
  shows "keeps (policy_inv M S pol h0 known) (reconcileServices E credentials)"
proof -
  have parts: "keeps (policy_inv M S pol h0 known) (reconcileRest E names hash)"
      "keeps (policy_inv M S pol h0 known) (reconcileStudio E names hash)"
      "keeps (policy_inv M S pol h0 known) (reconcileMeta E names)" for names hash
    unfolding reconcileRest_def reconcileStudio_def reconcileMeta_def
    by (intro reconcileServiceComponent_keeps assms; simp add: built_deployments_ours built_services_ours)+
  have gateway: "keeps (policy_inv M S pol h0 known) (reconcileGateway E hash)" for hash
    unfolding reconcileGateway_def gatewayConfig_def
    by (intro reconcileServiceComponent_keeps failComponent_keeps phase_rules assms)
      (simp_all add: built_deployments_ours built_services_ours built_configs_ours [unfolded ours_def])
  have "keeps (policy_inv M S pol h0 known) (failCoreServices E err)" for err :: go_error
    unfolding failCoreServices_def by (intro phase_rules assms)
  then show ?thesis
    unfolding reconcileServices_def by (intro reconcileAuth_keeps parts gateway phase_rules assms)
qed

lemma reconcilePowerSyncRulesValidation_keeps:
  "ctx base known \<Longrightarrow> keeps (policy_inv M S pol h0 known) (reconcilePowerSyncRulesValidation E spec)"
  unfolding reconcilePowerSyncRulesValidation_def loadAndValidatePowerSyncRules_def by (intro phase_rules)

lemma waitForPowerSyncManagedRoles_keeps:
  "ctx base known \<Longrightarrow> keeps (policy_inv M S pol h0 known) (waitForPowerSyncManagedRoles E)"
  unfolding waitForPowerSyncManagedRoles_def by (intro phase_rules)

lemma reconcilePowerSyncPublication_keeps:
  assumes "ctx base known"
  shows "keeps (policy_inv M S pol h0 known) (reconcilePowerSyncPublication E)"
  unfolding reconcilePowerSyncPublication_def
proof (intro bind_getProject keeps_case_sum keeps_fail, rule bind_fetch [OF assms], goal_cases)
  case (1 p d err)
  have "permitted E M S h (Create (OPublication (d\<lparr>pub_meta := m\<rparr>)))" if "adopt E p (pub_meta d) = Inr (m, c)" for m c h
    using adopted [OF that 1(1)] built_configs_ours(7) [OF 1(1,3)]
    by (simp add: ours_def createOk_def durableKind_def labelled_def)
  then show ?case
    unfolding sum.case by (intro phase_rules send_keeps assms) (simp del: permitted.simps)
next
  case (2 p d existing ob)
  then have ob: "ob = OPublication existing" and ns: "fst (objectKey (pub_meta d)) = md_namespace M"
    using built_configs_ours(7) [of p M d] by (simp_all add: ours_def objectKey_def)
  have "permitted E M S h (Update (OPublication u))"
    if "mergePublication E p d existing = Inr (u, c)" "labelled M (pub_meta existing)" "seen M (OPublication existing) h" for u c h
    using mergePublication_ok [OF that(1) 2(1) that(2)] that(3) unfolding permitted.simps
    by (intro exI [of _ "OPublication existing"]) (simp del: updateOk.simps)
  then show ?case
    unfolding sum.case
    by (intro phase_rules send_seen_keeps ctx_seen assms) (use ob ns 2(1) in \<open>simp_all add: labelled_def del: permitted.simps\<close>)
qed

lemma reconcileCDCPermissions_keeps:
  assumes "ctx base known"
  shows "keeps (policy_inv M S pol h0 known) (reconcileCDCPermissions E)"
  unfolding reconcileCDCPermissions_def
  by (intro phase_rules assms) (simp_all add: built_configs_ours [unfolded ours_def])

lemma cleanupPowerSyncCompact_keeps:
  "ctx base known \<Longrightarrow> keeps (policy_inv M S pol h0 known) (cleanupPowerSyncCompact E)"
  unfolding cleanupPowerSyncCompact_def
  by (intro bind_getProject deletePowerSyncOwnedResource_keeps) (simp_all add: namespaced_def)

lemma reconcilePowersync_keeps:
  assumes "ctx base known"
  shows "keeps (policy_inv M S pol h0 known) (reconcilePowersync E spec rules)"
proof -
  have "keeps (policy_inv M S pol h0 known) (applyPowersyncWorkloads E spec rules)"
    unfolding applyPowersyncWorkloads_def Let_def
    by (intro cleanupPowerSyncCompact_keeps phase_rules assms)
      (simp_all add: built_configs_ours [unfolded ours_def] built_services_ours [unfolded ours_def]
        built_deployments_ours [unfolded ours_def])
  then show ?thesis
    unfolding reconcilePowersync_def by (intro phase_rules assms)
qed

lemma cleanupPowerSync_keeps:
  assumes "ctx base known"
  shows "keeps (policy_inv M S pol h0 known) (cleanupPowerSync E)"
  unfolding cleanupPowerSync_def
  by (intro deletePowerSyncOwnedResource_keeps removeCondition_keeps phase_rules assms)
    (auto simp: powersyncResources_def namespaced_def)

lemma powerSyncPhase_keeps:
  "ctx base known \<Longrightarrow> keeps (policy_inv M S pol h0 known) (powerSyncPhase E)"
  unfolding powerSyncPhase_def
  by (intro reconcilePowerSyncRulesValidation_keeps waitForPowerSyncManagedRoles_keeps reconcilePowerSyncPublication_keeps
      reconcileCDCPermissions_keeps reconcilePowersync_keeps cleanupPowerSync_keeps phase_rules)

lemma finishReconcile_keeps:
  "ctx base known \<Longrightarrow> keeps (policy_inv M S pol h0 known) (finishReconcile E)"
  unfolding finishReconcile_def by (intro phase_rules)

lemma reconcilePhases_keeps:
  "ctx base known \<Longrightarrow> keeps (policy_inv M S pol h0 known) (reconcilePhases E credentials)"
  unfolding reconcilePhases_def reconcileBackupInfrastructure_def
  by (intro validateRecoveryBootstrapIntent_keeps reconcileInitSQL_keeps reconcileJWKSConfigMap_keeps reconcileBackup_keeps
      reconcileRecovery_keeps reconcileCNPGCluster_keeps waitForDatabase_keeps reconcileServices_keeps powerSyncPhase_keeps
      finishReconcile_keeps phase_rules)

lemma reconcileProject_keeps:
  "ctx base known \<Longrightarrow> keeps (policy_inv M S pol h0 known) (reconcileProject E)"
  unfolding reconcileProject_def
  by (intro reconcileDurableMetadataProtection_keeps reconcileSecrets_keeps reconcilePhases_keeps phase_rules)

end

end
