(* ===== verification/Guarantees.thy ===== *)
theory Guarantees
  imports Policy
begin

text \<open>
  What the policy gives for whole reconciliations: the interpretations of the policy locales
  on \<open>permitted\<close>, and the guarantees on every request that \<open>Reconcile\<close> sends.
\<close>

section \<open>Nothing is written before the credentials are accepted\<close>

text \<open>The credential Secret the project names was read, and it validated.\<close>

definition validated :: "env \<Rightarrow> object_meta \<Rightarrow> project_spec \<Rightarrow> event list \<Rightarrow> bool" where
  "validated E M S h \<longleftrightarrow> (\<exists>sec now now' credentials.
     (Get KSecret (md_namespace M, sp_projectCredentialsSecret S), RObj (OSecret sec)) \<in> set h \<and>
     ValidateProjectCredentials E now now' (Some sec) = Inr credentials)"

text \<open>
  The policy of a reconciliation: what is permitted, and before the credentials are accepted
  only reads, status writes and the removal of owners from durable objects.
\<close>

definition gated :: "env \<Rightarrow> object_meta \<Rightarrow> project_spec \<Rightarrow> event list \<Rightarrow> call \<Rightarrow> bool" where
  "gated E M S h c \<longleftrightarrow> permitted E M S h c \<and>
     (quiet c \<or> validated E M S h \<or> (\<exists>ob. c = Update ob \<and> durableKind (kindOf ob)))"

interpretation quietly: read_policy E M S "\<lambda>h c. quiet c \<and> permitted E M S h c" h0 "\<lambda>_. True" for E M S h0
  by unfold_locales simp

interpretation early: repair_policy E M S "gated E M S" h0 "\<lambda>_. lawful_defaulting E" for E M S h0
  by unfold_locales (auto simp: gated_def)

interpretation late: request_policy E M S "gated E M S" h0 "\<lambda>h. lawful_defaulting E \<and> validated E M S h" for E M S h0
  by unfold_locales (auto simp: gated_def lawful_defaulting_def)

text \<open>A handler that keeps an invariant when it fails and establishes another when it succeeds.\<close>

definition leads :: "(rstate \<Rightarrow> bool) \<Rightarrow> 'a result handler \<Rightarrow> (rstate \<Rightarrow> bool) \<Rightarrow> bool" where
  "leads I m J \<longleftrightarrow> (\<forall>s r s'. I s \<longrightarrow> run_state m s = (r, s') \<longrightarrow> (if isl r then I s' else J s'))"

lemma leadsI: "(\<And>s r s'. I s \<Longrightarrow> run_state m s = (r, s') \<Longrightarrow> if isl r then I s' else J s') \<Longrightarrow> leads I m J"
  by (simp add: leads_def)

lemma leadsD: "leads I m J \<Longrightarrow> I s \<Longrightarrow> run_state m s = (r, s') \<Longrightarrow> if isl r then I s' else J s'"
  by (simp add: leads_def)

lemma leads_fails: "keeps I m \<Longrightarrow> (\<And>s. isl (fst (run_state m s))) \<Longrightarrow> leads I m J"
  unfolding leads_def by (metis keepsD fst_conv)

lemma leads_keeps: "keeps I m \<Longrightarrow> (\<And>s. I s \<Longrightarrow> J s) \<Longrightarrow> leads I m J"
  unfolding leads_def by (metis keepsD)

lemma leads_bind:
  assumes "keeps I m" "\<And>x. leads I (k x) J"
  shows "leads I (State_Monad.bind m k) J"
proof (rule leadsI)
  fix s r s'
  assume I: "I s" and run: "run_state (State_Monad.bind m k) s = (r, s')"
  obtain x s1 where m: "run_state m s = (x, s1)" by fastforce
  then have "I s1" using assms(1) I by (rule keepsD [rotated 2])
  moreover have "run_state (k x) s1 = (r, s')" using run m by simp
  ultimately show "if isl r then I s' else J s'" by (rule leadsD [OF assms(2)])
qed

lemma leads_if: "(c \<Longrightarrow> leads I m J) \<Longrightarrow> (\<not> c \<Longrightarrow> leads I n J) \<Longrightarrow> leads I (if c then m else n) J"
  by simp

lemma leads_Let: "leads I (f x) J \<Longrightarrow> leads I (Let x f) J"
  by simp

lemma leads_case_sum:
  "(\<And>e. r = Inl e \<Longrightarrow> leads I (f e) J) \<Longrightarrow> (\<And>x. r = Inr x \<Longrightarrow> leads I (g x) J) \<Longrightarrow>
   leads I (case r of Inl e \<Rightarrow> f e | Inr x \<Rightarrow> g x) J"
  by (simp split: sum.splits)

lemma keeps_andthen_leads:
  assumes "leads I m J" "\<And>x. keeps J (k x)" "\<And>s. J s \<Longrightarrow> I s"
  shows "keeps I (andthen m k)"
proof (rule keepsI)
  fix s assume I: "I s"
  obtain r s' where m: "run_state m s = (r, s')" by fastforce
  with assms(1) I have "if isl r then I s' else J s'" by (rule leadsD)
  with m show "I (snd (run_state (andthen m k) s))"
    using assms(2,3) by (cases r) (auto simp: run_andthen keeps_def)
qed

lemma leads_bind_getProject:
  assumes "\<And>p. p_meta p = M \<Longrightarrow> p_spec p = S \<Longrightarrow> leads (policy_inv M S pol h0 known) (k p) J"
  shows "leads (policy_inv M S pol h0 known) (State_Monad.bind getProject k) J"
proof (rule leadsI)
  fix s r s'
  assume inv: "policy_inv M S pol h0 known s" and "run_state (State_Monad.bind getProject k) s = (r, s')"
  then have run: "run_state (k (rs_project s)) s = (r, s')" by simp
  from inv have "leads (policy_inv M S pol h0 known) (k (rs_project s)) J" by (intro assms) (simp_all add: policy_inv_def)
  from leadsD [OF this inv run] show "if isl r then policy_inv M S pol h0 known s' else J s'" .
qed

lemma leads_bind_fetch:
  assumes "stable known" "\<And>h. known h \<Longrightarrow> pol h (Get K name)"
    and "\<And>e. leads (policy_inv M S pol h0 known) (k (Inl e)) J"
    and "\<And>x ob. f ob = Some x \<Longrightarrow>
      leads (policy_inv M S pol h0 (\<lambda>h. known h \<and> (Get K name, RObj ob) \<in> set h)) (k (Inr x)) J"
  shows "leads (policy_inv M S pol h0 known) (State_Monad.bind (fetch E K f name) k) J"
proof (rule leadsI)
  fix s r s'
  assume inv: "policy_inv M S pol h0 known s" and run: "run_state (State_Monad.bind (fetch E K f name) k) s = (r, s')"
  let ?a = "respond E (rs_events s) (Get K name)"
  let ?s1 = "s\<lparr>rs_events := (Get K name, ?a) # rs_events s\<rparr>"
  have inv1: "policy_inv M S pol h0 known ?s1"
    using inv assms(1,2) by (auto simp: policy_inv_def stable_def intro: trace_ok.request)
  have run1: "run_state (k (expect f ?a)) ?s1 = (r, s')" using run by (simp add: Let_def)
  show "if isl r then policy_inv M S pol h0 known s' else J s'"
  proof (cases "expect f ?a")
    case (Inl e)
    with run1 have "run_state (k (Inl e)) ?s1 = (r, s')" by simp
    from leadsD [OF assms(3) inv1 this] show ?thesis .
  next
    case (Inr x)
    then obtain ob where ob: "f ob = Some x" "?a = RObj ob" by auto
    with inv1 have inv2: "policy_inv M S pol h0 (\<lambda>h. known h \<and> (Get K name, RObj ob) \<in> set h) ?s1"
      by (simp add: policy_inv_def)
    from run1 Inr have "run_state (k (Inr x)) ?s1 = (r, s')" by simp
    from leadsD [OF assms(4) [OF ob(1)] inv2 this] show ?thesis
      by (simp add: policy_inv_def split: if_splits)
  qed
qed

lemma ctx_early: "ctx (\<lambda>_. lawful_defaulting E) (\<lambda>_. lawful_defaulting E)"
  by (simp add: ctx_def stable_def)

lemma ctx_late:
  "ctx (\<lambda>h. lawful_defaulting E \<and> validated E M S h) (\<lambda>h. lawful_defaulting E \<and> validated E M S h)"
  by (auto simp: ctx_def stable_def validated_def)

lemma failReconcileSecrets_fails: "isl (fst (run_state (failReconcileSecrets E reason msg err) s))"
  by (auto simp: failReconcileSecrets_def run_andthen split: prod.splits sum.splits)

lemma leads_fetch_gated:
  assumes "\<And>e. leads (policy_inv M S (gated E M S) h0 (\<lambda>_. lawful_defaulting E)) (k (Inl e)) J"
    and "\<And>x. leads (policy_inv M S (gated E M S) h0 (\<lambda>h. lawful_defaulting E \<and> (Get KSecret name, RObj (OSecret x)) \<in> set h))
      (k (Inr x)) J"
  shows "leads (policy_inv M S (gated E M S) h0 (\<lambda>_. lawful_defaulting E))
    (State_Monad.bind (fetch E KSecret asSecret name) k) J"
  by (rule leads_bind_fetch) (use assms in \<open>auto simp: stable_def gated_def\<close>)

text \<open>After the credential phase has succeeded, the credentials have been validated.\<close>

lemma reconcileSecrets_leads:
  "leads (policy_inv M S (gated E M S) h0 (\<lambda>_. lawful_defaulting E)) (reconcileSecrets E)
     (policy_inv M S (gated E M S) h0 (\<lambda>h. lawful_defaulting E \<and> validated E M S h))"
  (is "leads ?I _ ?J")
proof -
  have fails: "leads ?I (failReconcileSecrets E reason msg err) ?J" for reason msg err
    by (rule leads_fails [OF early.failReconcileSecrets_keeps [OF ctx_early] failReconcileSecrets_fails])
  show ?thesis
    unfolding reconcileSecrets_def
  proof (intro leads_bind [OF early.modifyStatus_keeps] leads_bind_getProject leads_Let leads_if leads_fetch_gated fails, goal_cases)
    case (1 u p e)
    show ?case unfolding sum.case by (rule fails)
  next
    case (2 u p x)
    let ?known = "\<lambda>h. lawful_defaulting E \<and> (Get KSecret (namespaced p (sp_projectCredentialsSecret (p_spec p))), RObj (OSecret x)) \<in> set h"
    let ?K = "policy_inv M S (gated E M S) h0 ?known"
    have ctx0: "ctx (\<lambda>_. lawful_defaulting E) ?known" by (simp add: ctx_def stable_def)
    have fails': "leads ?K (failReconcileSecrets E reason msg err) ?J" for reason msg err
      by (rule leads_fails [OF early.failReconcileSecrets_keeps [OF ctx0] failReconcileSecrets_fails])
    have valid: "ctx (\<lambda>h. lawful_defaulting E \<and> validated E M S h) ?known" "?K s \<Longrightarrow> ?J s"
      if "ValidateProjectCredentials E now now' (Some x) = Inr c" for now now' c s
      using that 2 by (auto simp: ctx_def stable_def validated_def namespaced_def policy_inv_def)
    show ?case
      unfolding sum.case
    proof (intro leads_bind [OF keeps_get] leads_case_sum fails', goal_cases)
      case (1 s c)
      note v = valid [OF 1]
      show ?case
        by (intro leads_bind [OF late.reconcileImplementationSecrets_keeps [OF v(1)]] leads_case_sum fails' leads_keeps v(2)
            late.phase_rules v(1))
    qed
  qed
qed

lemma reconcileProject_gated:
  "keeps (policy_inv M S (gated E M S) h0 (\<lambda>_. lawful_defaulting E)) (reconcileProject E)"
  unfolding reconcileProject_def
  by (intro keeps_bind keeps_andthen [OF early.reconcileDurableMetadataProtection_keeps [OF ctx_early]] early.modifyStatus_keeps
      keeps_andthen_leads [OF reconcileSecrets_leads late.reconcilePhases_keeps [OF ctx_late]])
    (simp add: policy_inv_def)

section \<open>The requests of a reconciliation\<close>

text \<open>\<open>c\<close> was sent after the history \<open>before\<close>, in a run that started at \<open>h\<close> and ended at \<open>h'\<close>.\<close>

definition sent :: "event list \<Rightarrow> event list \<Rightarrow> event list \<Rightarrow> call \<Rightarrow> bool" where
  "sent h h' before c \<longleftrightarrow> (\<exists>later r. h' = later @ (c, r) # before) \<and> (\<exists>new. before = new @ h)"

lemma append_Cons_eq_suffix: "later @ e # new @ h1 = h1 \<Longrightarrow> False"
  by (drule arg_cong [where f = length]) simp

lemma trace_ok_sent:
  assumes "trace_ok pol h1 h'" "h' = later @ (c, r) # new @ h1"
  shows "pol (new @ h1) c"
  using assms
proof (induction arbitrary: later)
  case start
  then show ?case by (metis append_Cons_eq_suffix)
next
  case (request h d a)
  then show ?case by (cases later) auto
qed

lemma Reconcile_run:
  assumes "respond E h (Get KProject name) = RObj (OProject p0)" "Reconcile E name h = (result, h', p)"
  obtains s where "run_state (reconcileProject E)
      \<lparr>rs_project = p0, rs_events = (Get KProject name, RObj (OProject p0)) # h\<rparr> = (result, s)"
    and "h' = rs_events s" "p = Some (rs_project s)"
  using assms by (auto simp: Reconcile_def expect_def asProject_def Let_def split: prod.splits)

lemma Reconcile_trace:
  assumes "lawful_defaulting E"
    and "respond E h (Get KProject name) = RObj (OProject p0)" "Reconcile E name h = (result, h', p)"
  shows "trace_ok (gated E (p_meta p0) (p_spec p0)) ((Get KProject name, RObj (OProject p0)) # h) h' \<and>
    (\<exists>q. p = Some q \<and> p_meta q = p_meta p0 \<and> p_spec q = p_spec p0)"
proof -
  let ?h1 = "(Get KProject name, RObj (OProject p0)) # h"
  obtain s where run: "run_state (reconcileProject E) \<lparr>rs_project = p0, rs_events = ?h1\<rparr> = (result, s)"
    and s: "h' = rs_events s" "p = Some (rs_project s)"
    using Reconcile_run [OF assms(2,3)] .
  have "policy_inv (p_meta p0) (p_spec p0) (gated E (p_meta p0) (p_spec p0)) ?h1 (\<lambda>_. lawful_defaulting E) s"
    by (rule keepsD [OF reconcileProject_gated _ run]) (simp add: policy_inv_def assms(1) trace_ok.start)
  with s show ?thesis by (simp add: policy_inv_def)
qed

lemma sent_gated:
  assumes "lawful_defaulting E"
    and "respond E h (Get KProject name) = RObj (OProject p0)" "Reconcile E name h = (result, h', p)"
    and "sent h h' before c"
  shows "gated E (p_meta p0) (p_spec p0) before c"
proof -
  let ?e = "(Get KProject name, RObj (OProject p0))"
  note tr = Reconcile_trace [OF assms(1-3), THEN conjunct1]
  obtain all where all: "h' = all @ ?e # h" using trace_ok_suffix [OF tr] by auto
  obtain later r new where split: "h' = later @ (c, r) # before" "before = new @ h"
    using assms(4) by (auto simp: sent_def)
  show ?thesis
  proof (cases new rule: rev_cases)
    case Nil
    with all split have "(later @ [(c, r)]) @ h = (all @ [?e]) @ h" by simp
    then have "c = Get KProject name" by simp
    then show ?thesis by (simp add: gated_def)
  next
    case (snoc new' e)
    with all split have "(later @ (c, r) # new' @ [e]) @ h = (all @ [?e]) @ h" by simp
    then have "later @ (c, r) # new' @ [e] = all @ [?e]" by (simp only: append_same_eq)
    then have "e = ?e" by (metis append_Cons append_assoc last_snoc)
    then show ?thesis using trace_ok_sent [OF tr, of later c r new'] split snoc by simp
  qed
qed

lemma sent_permitted:
  assumes "lawful_defaulting E"
    and "respond E h (Get KProject name) = RObj (OProject p0)" "Reconcile E name h = (result, h', p)"
    and "sent h h' before c"
  shows "permitted E (p_meta p0) (p_spec p0) before c"
  using sent_gated [OF assms] by (simp add: gated_def)

lemma deleteOk_key: "deleteOk E M old ob \<Longrightarrow> objectKey (metaOf ob) = objectKey (metaOf old)"
  by (simp add: deleteOk_def)

section \<open>Properties\<close>

text \<open>
  C1. Whatever the API server answers, every request of a reconciliation is one that the
  policy permits at that point of the history, and the metadata and the specification of the
  project in memory are those that were read.
\<close>

theorem Reconcile_follows_policy:
  assumes "lawful_defaulting E"
    and "respond E h (Get KProject name) = RObj (OProject p0)"
    and "Reconcile E name h = (result, h', p)"
  shows "(\<forall>before c. sent h h' before c \<longrightarrow> gated E (p_meta p0) (p_spec p0) before c) \<and>
    (\<exists>q. p = Some q \<and> p_meta q = p_meta p0 \<and> p_spec q = p_spec p0)"
  using sent_gated [OF assms] Reconcile_trace [OF assms] by blast

text \<open>
  C2. Secrets are written once. A reconciliation never deletes a Secret, and a Secret it
  updates is one it has read, with the same name, labels, type and contents: only its owner
  references differ.
\<close>

theorem Reconcile_never_changes_secret_contents:
  assumes "lawful_defaulting E"
    and "respond E [] (Get KProject name) = RObj (OProject p0)"
    and "Reconcile E name [] = (result, h', p)"
  shows "(\<forall>before ob foreground. sent [] h' before (Delete ob foreground) \<longrightarrow> kindOf ob \<noteq> KSecret) \<and>
    (\<forall>before new. sent [] h' before (Update (OSecret new)) \<longrightarrow>
       (\<exists>old key. (Get KSecret key, RObj (OSecret old)) \<in> set before \<and> fst key = p_namespace p0 \<and>
          new = old\<lparr>sec_meta := (sec_meta old)\<lparr>md_owners := md_owners (sec_meta new)\<rparr>\<rparr>))"
proof (intro conjI allI impI)
  fix before ob fg assume "sent [] h' before (Delete ob fg)"
  from sent_permitted [OF assms this] show "kindOf ob \<noteq> KSecret" by (auto simp: deleteOk_def)
next
  fix before new assume "sent [] h' before (Update (OSecret new))"
  from sent_permitted [OF assms this] obtain ob0
    where ob0: "seen (p_meta p0) ob0 before" "updateOk E (p_meta p0) ob0 (OSecret new)" by auto
  then obtain old where "ob0 = OSecret old"
      "new = old\<lparr>sec_meta := (sec_meta old)\<lparr>md_owners := md_owners (sec_meta new)\<rparr>\<rparr>"
    by (cases ob0) auto
  with ob0(1) show "\<exists>old key. (Get KSecret key, RObj (OSecret old)) \<in> set before \<and> fst key = p_namespace p0 \<and>
      new = old\<lparr>sec_meta := (sec_meta old)\<lparr>md_owners := md_owners (sec_meta new)\<rparr>\<rparr>"
    by (auto simp: seen_def)
qed

text \<open>
  C3. Durable data outlives the project. The database cluster is never deleted; a deleted
  ObjectStore or ScheduledBackup was read before and carried the project's label; and no
  cluster, store or scheduled backup is written with an owner reference to the project, so
  that garbage collection never takes it away.
\<close>

theorem Reconcile_durable_objects_outlive_project:
  assumes "lawful_defaulting E" and "p_name p0 \<noteq> ''''"
    and "respond E [] (Get KProject name) = RObj (OProject p0)"
    and "Reconcile E name [] = (result, h', p)"
  shows "(\<forall>before ob foreground. sent [] h' before (Delete ob foreground) \<longrightarrow> durableKind (kindOf ob) \<longrightarrow>
       kindOf ob \<noteq> KCluster \<and>
       (\<exists>old key. (Get (kindOf ob) key, RObj old) \<in> set before \<and> objectKey (metaOf old) = objectKey (metaOf ob) \<and>
          goget (md_labels (metaOf old)) LabelInstance = p_name p0)) \<and>
    (\<forall>before ob. sent [] h' before (Create ob) \<or> sent [] h' before (Update ob) \<longrightarrow> durableKind (kindOf ob) \<longrightarrow>
       unowned E (p_name p0) (metaOf ob))"
proof (intro conjI allI impI)
  note perm = sent_permitted [OF assms(1,3,4)]
  fix before ob fg assume "sent [] h' before (Delete ob fg)" "durableKind (kindOf ob)"
  with perm [of before "Delete ob fg"] obtain old where seen: "seen (p_meta p0) old before"
    and del: "deleteOk E (p_meta p0) old ob" "durableKind (kindOf ob)" by auto
  then show "kindOf ob \<noteq> KCluster" by (auto simp: deleteOk_def)
  from seen del show "\<exists>old key. (Get (kindOf ob) key, RObj old) \<in> set before \<and> objectKey (metaOf old) = objectKey (metaOf ob) \<and>
          goget (md_labels (metaOf old)) LabelInstance = p_name p0"
    by (intro exI [of _ old]) (auto simp: deleteOk_def durableKind_def seen_def labelled_def)
next
  note perm = sent_permitted [OF assms(1,3,4)]
  fix before ob assume "sent [] h' before (Create ob) \<or> sent [] h' before (Update ob)" and durable: "durableKind (kindOf ob)"
  then consider "createOk E (p_meta p0) ob" | ob0 where "updateOk E (p_meta p0) ob0 ob"
    using perm [of before "Create ob"] perm [of before "Update ob"] by auto
  then have "detached E (p_meta p0) (metaOf ob)"
  proof cases
    case 1
    with durable show ?thesis by (simp add: createOk_def)
  next
    case (2 ob0)
    with durable show ?thesis by (cases ob0) (auto simp: durableKind_def)
  qed
  with assms(2) show "unowned E (p_name p0) (metaOf ob)" by (simp add: detached_def)
qed

text \<open>
  C4. The database is never re-bootstrapped or shrunk. An update of the cluster was preceded
  by a read of it, the stored cluster carried the project's label, its bootstrap method, its
  external clusters and the fields the operator does not know are written back as they were,
  and the requested volume size is never below the stored one.
\<close>

theorem Reconcile_cluster_updates_are_safe:
  assumes "lawful_defaulting E"
    and "respond E [] (Get KProject name) = RObj (OProject p0)"
    and "Reconcile E name [] = (result, h', p)"
    and "sent [] h' before (Update (OCluster new))"
  shows "\<exists>old key. (Get KCluster key, RObj (OCluster old)) \<in> set before \<and> fst key = p_namespace p0 \<and>
    goget (md_labels (cl_meta old)) LabelInstance = p_name p0 \<and>
    objectKey (cl_meta new) = objectKey (cl_meta old) \<and>
    cs_bootstrap (cl_spec new) = cs_bootstrap (cl_spec old) \<and>
    cs_externalClusters (cl_spec new) = cs_externalClusters (cl_spec old) \<and>
    cs_foreign (cl_spec new) = cs_foreign (cl_spec old) \<and>
    (\<forall>q. sc_size (cs_storage (cl_spec old)) \<noteq> '''' \<and> parseQuantity E (sc_size (cs_storage (cl_spec old))) = Inr q \<longrightarrow>
       (\<exists>q'. parseQuantity E (sc_size (cs_storage (cl_spec new))) = Inr q' \<and> q \<le> q'))"
proof -
  from sent_permitted [OF assms] obtain ob0 where ob0: "seen (p_meta p0) ob0 before"
      "objectKey (cl_meta new) = objectKey (metaOf ob0)" "updateOk E (p_meta p0) ob0 (OCluster new)" by auto
  then obtain old where "ob0 = OCluster old" by (cases ob0) auto
  with ob0 show ?thesis by (auto simp: seen_def labelled_def notShrunk_def)
qed


text \<open>
  C6. Foreign objects are left alone. What a reconciliation creates lies in the project's
  namespace and, Secrets apart, carries its label; an object it updates or deletes was read
  from that namespace in the same reconciliation; and a deleted object carried the project's
  label or was controlled by the project.
\<close>

theorem Reconcile_leaves_foreign_objects_alone:
  assumes "lawful_defaulting E"
    and "respond E [] (Get KProject name) = RObj (OProject p0)"
    and "Reconcile E name [] = (result, h', p)"
  shows "(\<forall>before ob. sent [] h' before (Create ob) \<longrightarrow>
       md_namespace (metaOf ob) = p_namespace p0 \<and>
       (kindOf ob = KSecret \<or> goget (md_labels (metaOf ob)) LabelInstance = p_name p0)) \<and>
    (\<forall>before ob c. sent [] h' before c \<longrightarrow> c = Update ob \<or> (\<exists>fg. c = Delete ob fg) \<longrightarrow>
       (\<exists>old n. (Get (kindOf old) (p_namespace p0, n), RObj old) \<in> set before \<and>
          objectKey (metaOf ob) = objectKey (metaOf old) \<and>
          (c \<noteq> Update ob \<longrightarrow> goget (md_labels (metaOf old)) LabelInstance = p_name p0 \<or>
             (\<exists>q. p_meta q = p_meta p0 \<and> isControlledBy E (metaOf old) q))))"
proof (intro conjI allI impI)
  note perm = sent_permitted [OF assms]
  fix before ob assume "sent [] h' before (Create ob)"
  from perm [OF this] show "md_namespace (metaOf ob) = p_namespace p0"
    "kindOf ob = KSecret \<or> goget (md_labels (metaOf ob)) LabelInstance = p_name p0"
    by (auto simp: createOk_def labelled_def)
next
  note perm = sent_permitted [OF assms]
  fix before ob c assume "sent [] h' before c" and "c = Update ob \<or> (\<exists>fg. c = Delete ob fg)"
  with perm [of before c] obtain old where old: "seen (p_meta p0) old before" "objectKey (metaOf ob) = objectKey (metaOf old)"
      "c \<noteq> Update ob \<longrightarrow> deleteOk E (p_meta p0) old ob"
    by (metis deleteOk_key permitted.simps(6,7))
  then obtain n where "(Get (kindOf old) (p_namespace p0, n), RObj old) \<in> set before" by (auto simp: seen_def)
  with old show "\<exists>old n. (Get (kindOf old) (p_namespace p0, n), RObj old) \<in> set before \<and>
      objectKey (metaOf ob) = objectKey (metaOf old) \<and>
      (c \<noteq> Update ob \<longrightarrow> goget (md_labels (metaOf old)) LabelInstance = p_name p0 \<or>
         (\<exists>q. p_meta q = p_meta p0 \<and> isControlledBy E (metaOf old) q))"
    unfolding deleteOk_def labelled_def by blast
qed

end
