(* ===== verification/Outcome.thy ===== *)
theory Outcome
  imports Guarantees
begin

text \<open>
  What a reconciliation reports: that the project is running only after the database and the
  five core deployments were seen ready in the same reconciliation, and that rejected
  credentials are reported as such.
\<close>

section \<open>The core services\<close>

datatype core_service = CoreAuth | CoreRest | CoreStudio | CoreMeta | CoreGateway

primrec slot :: "core_service \<Rightarrow> services_status \<Rightarrow> service_status" where
  "slot CoreAuth sv = svs_auth sv"
| "slot CoreRest sv = svs_rest sv"
| "slot CoreStudio sv = svs_studio sv"
| "slot CoreMeta sv = svs_meta sv"
| "slot CoreGateway sv = svs_gateway sv"

primrec coreDeployment :: "core_service \<Rightarrow> string" where
  "coreDeployment CoreAuth = ''-auth''"
| "coreDeployment CoreRest = ''-rest''"
| "coreDeployment CoreStudio = ''-studio''"
| "coreDeployment CoreMeta = ''-meta''"
| "coreDeployment CoreGateway = ''-api-gw''"

definition coreKey :: "object_meta \<Rightarrow> core_service \<Rightarrow> key" where
  "coreKey M c = (md_namespace M, md_name M @ coreDeployment c)"

text \<open>The deployment of the service was read, and it was ready.\<close>

definition observedReady :: "object_meta \<Rightarrow> core_service \<Rightarrow> event list \<Rightarrow> bool" where
  "observedReady M c h \<longleftrightarrow>
     (\<exists>dep. (Get KDeployment (coreKey M c), RObj (ODeployment dep)) \<in> set h \<and> deploymentIsReady dep)"

definition observedDatabase :: "object_meta \<Rightarrow> event list \<Rightarrow> bool" where
  "observedDatabase M h \<longleftrightarrow>
     (\<exists>cluster. (Get KCluster (md_namespace M, md_name M @ ''-pg''), RObj (OCluster cluster)) \<in> set h \<and>
        cs_instances (cl_spec cluster) \<le> cst_readyInstances (cl_status cluster))"

definition servicesOf :: "rstate \<Rightarrow> services_status" where
  "servicesOf s = st_services (p_status (rs_project s))"

lemma coreServicesReady_iff: "coreServicesReady (rs_project s) \<longleftrightarrow> (\<forall>c. ss_ready (slot c (servicesOf s)))"
proof
  assume "coreServicesReady (rs_project s)"
  then show "\<forall>c. ss_ready (slot c (servicesOf s))"
    by (intro allI) (case_tac c; simp add: coreServicesReady_def servicesOf_def Let_def)
next
  assume "\<forall>c. ss_ready (slot c (servicesOf s))"
  then have "ss_ready (slot CoreAuth (servicesOf s))" "ss_ready (slot CoreRest (servicesOf s))"
      "ss_ready (slot CoreStudio (servicesOf s))" "ss_ready (slot CoreMeta (servicesOf s))"
      "ss_ready (slot CoreGateway (servicesOf s))" by blast+
  then show "coreServicesReady (rs_project s)" by (simp add: coreServicesReady_def servicesOf_def Let_def)
qed

section \<open>Frames\<close>

text \<open>
  An invariant that does not mind further requests, nor changes of the status that leave the
  status of the core services alone.
\<close>

locale status_frame =
  fixes E :: env and I :: "rstate \<Rightarrow> bool"
  assumes asks: "I s \<Longrightarrow> I (s\<lparr>rs_events := e # rs_events s\<rparr>)"
    and unrelated: "I s \<Longrightarrow> (\<And>c. slot c (st_services st) = slot c (servicesOf s)) \<Longrightarrow>
      I (s\<lparr>rs_project := (rs_project s)\<lparr>p_status := st\<rparr>\<rparr>)"
begin

lemma ask_frame: "keeps I (ask E c)"
  by (rule keepsI) (simp add: asks)

lemma modifyStatus_frame:
  "(\<And>st c. slot c (st_services (f st)) = slot c (st_services st)) \<Longrightarrow> keeps I (modifyStatus f)"
  by (rule keepsI) (simp add: unrelated servicesOf_def)

lemma setCondition_frame: "keeps I (setCondition E ty st reason msg)"
  by (rule keepsI) (simp add: setCondition_def unrelated servicesOf_def Let_def)

lemma removeCondition_frame: "keeps I (removeCondition E ty)"
  unfolding removeCondition_def by (rule modifyStatus_frame) simp

lemma getProject_frame: "keeps I getProject"
  by (rule keepsI) simp

lemma fetch_frame: "keeps I (fetch E k f name)"
  unfolding fetch_def by (intro keeps_bind ask_frame keeps_return)

lemma send_frame: "keeps I (send E c)"
  unfolding send_def by (intro keeps_bind ask_frame keeps_return)

lemmas frame_rules = setCondition_frame removeCondition_frame getProject_frame fetch_frame send_frame
  keeps_ok keeps_fail keeps_return keeps_if keeps_case_sum keeps_case_option keeps_case_prod keeps_Let keeps_andthen
  keeps_for_each keeps_bind

lemma updateProjectStatus_frame: "keeps I (updateProjectStatus E)"
  unfolding updateProjectStatus_def by (intro frame_rules)

lemma idioms_frame:
  "keeps I (failCondition E ty reason err)" "keeps I (waitCondition E ty reason msg)"
  "keeps I m \<Longrightarrow> keeps I (wrapErr prefix m)" "keeps I m \<Longrightarrow> (\<And>e. keeps I (g e)) \<Longrightarrow> keeps I (onError m g)"
  "keeps I m \<Longrightarrow> keeps I (orFailCondition E ty reason m)"
  "keeps I n \<Longrightarrow> keeps I k \<Longrightarrow> keeps I (unlessRequeue n k)"
  unfolding failCondition_def waitCondition_def wrapErr_def orFailCondition_def onError_def unlessRequeue_def
  by (intro frame_rules updateProjectStatus_frame | assumption)+

lemma upsert_frame: "keeps I (upsert E k as wrap blame name desired merge)"
  unfolding upsert_def by (intro frame_rules)

lemma apply_frame:
  "keeps I (createOrUpdateConfigMap E cm)" "keeps I (createOrUpdateDeployment E d)" "keeps I (createOrUpdateService E sv)"
  "keeps I (createOrUpdateCronJob E cj)" "keeps I (deploymentStatus E d)" "keeps I (createOrCheckJob E j hash)"
  "keeps I (deletePowerSyncOwnedResource E K name)"
  unfolding createOrUpdateConfigMap_def createOrUpdateDeployment_def createOrUpdateService_def createOrUpdateCronJob_def
    deploymentStatus_def createOrCheckJob_def deletePowerSyncOwnedResource_def
  by (intro frame_rules upsert_frame idioms_frame(3))+

lemmas phase_frame = idioms_frame apply_frame updateProjectStatus_frame frame_rules

lemma auth_sources_frame: "keeps I (validateGoTrueEnvSources E)"
proof -
  have keys: "keeps I (validateGoTrueEnvSecretKey E ns r)" "keeps I (validateGoTrueEnvConfigMapKey E ns r)" for ns r
    unfolding validateGoTrueEnvSecretKey_def validateGoTrueEnvConfigMapKey_def Let_def by (intro phase_frame)+
  have "keeps I (validateGoTrueEnvSource E ns g)" for ns g
    unfolding validateGoTrueEnvSource_def Let_def prod.case by (intro keys phase_frame)
  then show ?thesis
    unfolding validateGoTrueEnvSources_def by (intro keeps_bind getProject_frame keeps_for_each)
qed

lemma buildAuthDeployment_frame: "keeps I (buildAuthDeployment E names)"
  unfolding buildAuthDeployment_def by (intro phase_frame)

lemma cleanup_frame: "keeps I (cleanupPowerSync E)" "keeps I (cleanupPowerSyncCompact E)"
proof -
  have "keeps I (modifyStatus (\<lambda>st. st\<lparr>st_services := (st_services st)\<lparr>svs_powersyncAPI := noServiceStatus,
      svs_powersyncReplication := noServiceStatus\<rparr>\<rparr>))"
    by (rule modifyStatus_frame) (case_tac c; simp)
  then show "keeps I (cleanupPowerSync E)" "keeps I (cleanupPowerSyncCompact E)"
    unfolding cleanupPowerSync_def cleanupPowerSyncCompact_def by (intro phase_frame | assumption)+
qed

lemma powersync_frame: "keeps I (reconcilePowersync E spec rules)"
proof -
  have status: "keeps I (modifyStatus (\<lambda>st. st\<lparr>st_services := (st_services st)\<lparr>svs_powersyncAPI := a,
      svs_powersyncReplication := b\<rparr>\<rparr>))" for a b
    by (rule modifyStatus_frame) (case_tac c; simp)
  have "keeps I (applyPowersyncWorkloads E spec rules)"
    unfolding applyPowersyncWorkloads_def Let_def by (intro cleanup_frame phase_frame)
  then show ?thesis
    unfolding reconcilePowersync_def by (intro status phase_frame)
qed

lemma powerSyncPhase_frame: "keeps I (powerSyncPhase E)"
proof -
  have "keeps I (reconcilePowerSyncRulesValidation E spec)" "keeps I (waitForPowerSyncManagedRoles E)"
    "keeps I (reconcilePowerSyncPublication E)" "keeps I (reconcileCDCPermissions E)" for spec
    unfolding reconcilePowerSyncRulesValidation_def loadAndValidatePowerSyncRules_def waitForPowerSyncManagedRoles_def
      reconcilePowerSyncPublication_def reconcileCDCPermissions_def
    by (intro phase_frame)+
  then show ?thesis
    unfolding powerSyncPhase_def by (intro powersync_frame cleanup_frame phase_frame)
qed

lemma secrets_frame:
  "keeps I (reconcileSecrets E)" "keeps I (reconcileDurableMetadataProtection E)"
proof -
  have create: "keeps I (createOrUpdateSecret E sec)" for sec
    unfolding createOrUpdateSecret_def by (intro upsert_frame phase_frame)
  have random: "keeps I (readRandom E n)" for n
    unfolding readRandom_def by (intro keeps_bind ask_frame) (auto split: resp.splits intro!: phase_frame)
  have Generate: "keeps I (generateRoleSecret E p suffix username)" "keeps I (GenerateGoTrueFallbackSecret E p)"
      "keeps I (GenerateEmailHookSecret E p)" "keeps I (GeneratePowersyncAPITokenSecret E p)" for p suffix username
    unfolding generateRoleSecret_def GenerateGoTrueFallbackSecret_def GenerateEmailHookSecret_def
      GeneratePowersyncAPITokenSecret_def GenerateHex_def GeneratePassword_def GenerateBase64_def GenerateWebhookSecret_def
    by (intro random phase_frame)+
  have lists: "keeps I (GenerateSecrets E p)" "keeps I (GeneratePowersyncSecrets E p)" "keeps I (allSecretsExist E names)" for p names
    unfolding GenerateSecrets_def GeneratePowersyncSecrets_def
    by (intro Generate phase_frame)+ (induction names; auto intro!: phase_frame)
  have hook: "keeps I (reconcileEmailHookSecret E)"
    unfolding reconcileEmailHookSecret_def ensureEmailHookSecret_def failEmailHookSecret_def setEmailHookName_def
    by (intro create Generate phase_frame modifyStatus_frame) simp_all
  have token: "keeps I (reconcilePowersyncSecrets E names)" for names
    unfolding reconcilePowersyncSecrets_def reconcilePowersyncAPITokenSecret_def by (intro create lists Generate phase_frame)
  have implementation: "keeps I (reconcileImplementationSecrets E)"
    unfolding reconcileImplementationSecrets_def
    by (intro create lists hook token phase_frame modifyStatus_frame) simp
  show "keeps I (reconcileSecrets E)"
    unfolding reconcileSecrets_def failReconcileSecrets_def
    by (intro implementation keeps_get phase_frame modifyStatus_frame) simp
  show "keeps I (reconcileDurableMetadataProtection E)"
    unfolding reconcileDurableMetadataProtection_def protectDurable_def by (intro phase_frame)
qed

lemma database_frame:
  "keeps I (validateRecoveryBootstrapIntent E)" "keeps I (reconcileInitSQL E)" "keeps I (reconcileJWKSConfigMap E jwks)"
  "keeps I (reconcileBackupInfrastructure E)" "keeps I (reconcileCNPGCluster E)" "keeps I (waitForDatabase E)"
proof -
  have stores: "keeps I (createOrUpdateObjectStore E st)" "keeps I (createOrUpdateScheduledBackup E sb)"
      "keeps I (deleteLabelled E K what name)" "keeps I (validateS3Secret E ns name)" for st sb K what name ns
    unfolding createOrUpdateObjectStore_def createOrUpdateScheduledBackup_def deleteLabelled_def validateS3Secret_def
    by (intro upsert_frame phase_frame)+
  show "keeps I (reconcileBackupInfrastructure E)"
    unfolding reconcileBackupInfrastructure_def reconcileBackup_def reconcileRecovery_def cleanupBackupResources_def
      cleanupRecoveryResources_def failBackup_def failRecovery_def
    by (intro stores phase_frame)
  show "keeps I (waitForDatabase E)"
    unfolding waitForDatabase_def by (intro phase_frame modifyStatus_frame) simp
  show "keeps I (validateRecoveryBootstrapIntent E)" "keeps I (reconcileInitSQL E)" "keeps I (reconcileJWKSConfigMap E jwks)"
      "keeps I (reconcileCNPGCluster E)"
    unfolding validateRecoveryBootstrapIntent_def reconcileInitSQL_def reconcileJWKSConfigMap_def reconcileCNPGCluster_def Let_def
    by (intro phase_frame)+
qed

end

section \<open>The status tells the truth\<close>

text \<open>
  The services in \<open>C\<close> are marked ready only if they were seen ready, and, if \<open>D\<close>, the database
  was seen ready.
\<close>

definition truthful :: "object_meta \<Rightarrow> core_service set \<Rightarrow> bool \<Rightarrow> rstate \<Rightarrow> bool" where
  "truthful M C D s \<longleftrightarrow> p_meta (rs_project s) = M \<and>
     (\<forall>c \<in> C. ss_ready (slot c (servicesOf s)) \<longrightarrow> observedReady M c (rs_events s)) \<and>
     (D \<longrightarrow> observedDatabase M (rs_events s))"

interpretation truth: status_frame E "truthful M C D" for E M C D
  by unfold_locales (auto simp: truthful_def servicesOf_def observedReady_def observedDatabase_def)

text \<open>What holds when a handler succeeds.\<close>

definition establishes :: "(rstate \<Rightarrow> bool) \<Rightarrow> 'a result handler \<Rightarrow> ('a \<Rightarrow> rstate \<Rightarrow> bool) \<Rightarrow> bool" where
  "establishes I m Q \<longleftrightarrow> (\<forall>s x s'. I s \<longrightarrow> run_state m s = (Inr x, s') \<longrightarrow> Q x s')"

lemma establishesI: "(\<And>s x s'. I s \<Longrightarrow> run_state m s = (Inr x, s') \<Longrightarrow> Q x s') \<Longrightarrow> establishes I m Q"
  by (simp add: establishes_def)

lemma establishesD: "establishes I m Q \<Longrightarrow> I s \<Longrightarrow> run_state m s = (Inr x, s') \<Longrightarrow> Q x s'"
  by (simp add: establishes_def)

lemma establishes_keeps: "keeps I m \<Longrightarrow> establishes I m (\<lambda>_. I)"
  by (rule establishesI) (rule keepsD)

lemma establishes_mono: "establishes I m Q \<Longrightarrow> (\<And>x s. Q x s \<Longrightarrow> R x s) \<Longrightarrow> establishes I m R"
  by (simp add: establishes_def)

lemma establishes_andthen:
  assumes "establishes I m Q" "\<And>x. establishes (Q x) (k x) R"
  shows "establishes I (andthen m k) R"
proof (rule establishesI)
  fix s x s' assume I: "I s" and run: "run_state (andthen m k) s = (Inr x, s')"
  then obtain y s1 where m: "run_state m s = (Inr y, s1)" and k: "run_state (k y) s1 = (Inr x, s')"
    by (auto simp: run_andthen split: prod.splits sum.splits)
  show "R x s'" by (rule establishesD [OF assms(2) establishesD [OF assms(1) I m] k])
qed

lemma establishes_bind:
  assumes "keeps I m" "\<And>x. establishes I (k x) R"
  shows "establishes I (State_Monad.bind m k) R"
proof (rule establishesI)
  fix s x s' assume I: "I s" and run: "run_state (State_Monad.bind m k) s = (Inr x, s')"
  obtain y s1 where m: "run_state m s = (y, s1)" by fastforce
  with I have "I s1" by (rule keepsD [OF assms(1)])
  moreover from run m have "run_state (k y) s1 = (Inr x, s')" by simp
  ultimately show "R x s'" by (rule establishesD [OF assms(2)])
qed

lemma establishes_onError:
  assumes "establishes I m Q" "\<And>e s. isl (fst (run_state (g e) s))"
  shows "establishes I (onError m g) Q"
proof (rule establishesI)
  fix s x s' assume I: "I s" and run: "run_state (onError m g) s = (Inr x, s')"
  obtain r s1 where m: "run_state m s = (r, s1)" by fastforce
  show "Q x s'"
  proof (cases r)
    case (Inl e)
    with run m have "run_state (g e) s1 = (Inr x, s')" by (simp add: onError_def)
    with assms(2) [of e s1] show ?thesis by simp
  next
    case (Inr y)
    with run m have "y = x" "s1 = s'" by (simp_all add: onError_def)
    with m Inr show ?thesis by (blast intro: establishesD [OF assms(1) I])
  qed
qed

lemma establishes_unlessRequeue:
  assumes "establishes I m (\<lambda>x s. x \<le> 0 \<longrightarrow> J s)" "establishes J k (\<lambda>x s. x \<le> 0 \<longrightarrow> K s)"
  shows "establishes I (unlessRequeue m k) (\<lambda>x s. x \<le> 0 \<longrightarrow> K s)"
  unfolding unlessRequeue_def
  by (rule establishes_andthen [OF assms(1)]) (use assms(2) in \<open>auto simp: establishes_def\<close>)

lemma failCondition_fails: "isl (fst (run_state (failCondition E ty reason err) s))"
  by (auto simp: failCondition_def run_andthen split: prod.splits sum.splits)

lemma failComponent_fails: "isl (fst (run_state (failComponent E config reason err) s))"
  using failCondition_fails by (simp add: failComponent_def setServiceStatus_def)

lemma failCoreServices_fails: "isl (fst (run_state (failCoreServices E err) s))"
  by (auto simp: failCoreServices_def split: prod.splits)

lemma establishes_getProject:
  assumes "\<And>p. p_meta p = M \<Longrightarrow> establishes (truthful M C D) (k p) R"
  shows "establishes (truthful M C D) (State_Monad.bind getProject k) R"
proof (rule establishesI)
  fix s x s' assume I: "truthful M C D s" and run: "run_state (State_Monad.bind getProject k) s = (Inr x, s')"
  then have meta: "p_meta (rs_project s) = M" and run': "run_state (k (rs_project s)) s = (Inr x, s')"
    by (simp_all add: truthful_def)
  from establishesD [OF assms [OF meta] I run'] show "R x s'" .
qed

lemma deploymentStatus_establishes:
  assumes "objectKey (dep_meta d) = coreKey M c"
  shows "establishes (truthful M C D) (deploymentStatus E (Some d))
    (\<lambda>x s. truthful M C D s \<and> (fst x \<longrightarrow> observedReady M c (rs_events s)))"
proof (rule establishesI, rule conjI)
  fix s x s' assume I: "truthful M C D s" and run: "run_state (deploymentStatus E (Some d)) s = (Inr x, s')"
  show "truthful M C D s'" by (rule keepsD [OF truth.apply_frame(5) I run])
  show "fst x \<longrightarrow> observedReady M c (rs_events s')"
    using run assms
    by (auto simp: deploymentStatus_def Let_def observedReady_def split: sum.splits if_splits)
qed

text \<open>Reporting what was observed of a component keeps the status truthful, and covers one component more.\<close>

lemma establishes_report:
  assumes put: "\<And>c' v sv. slot c' (src_setStatus config v sv) = (if c' = c then v else slot c' sv)"
    and cond: "\<And>C'. keeps (truthful M C' D) m"
  shows "establishes (\<lambda>s. truthful M C D s \<and> (ready \<longrightarrow> observedReady M c (rs_events s)))
    (do { setServiceStatus config \<lparr>ss_ready = ready, ss_availableReplicas = n\<rparr>; m; ok () }) (\<lambda>_. truthful M (insert c C) D)"
    (is "establishes ?I ?m _")
proof (rule establishesI)
  fix s x s' assume I: "?I s" and run: "run_state ?m s = (Inr x, s')"
  let ?s1 = "snd (run_state (setServiceStatus config \<lparr>ss_ready = ready, ss_availableReplicas = n\<rparr>) s)"
  have "truthful M (insert c C) D ?s1"
    using I by (auto simp: truthful_def setServiceStatus_def servicesOf_def put)
  moreover have "s' = snd (run_state m ?s1)"
    using run by (auto simp: setServiceStatus_def split: prod.splits)
  ultimately show "truthful M (insert c C) D s'" using cond by (simp add: keeps_def)
qed

lemma establishes_component:
  assumes put: "\<And>c' v sv. slot c' (src_setStatus config v sv) = (if c' = c then v else slot c' sv)"
    and key: "\<And>p. p_meta p = M \<Longrightarrow> objectKey (dep_meta (src_deployment config p)) = coreKey M c"
  shows "establishes (truthful M C D) (reconcileServiceComponent E config) (\<lambda>_. truthful M (insert c C) D)"
  unfolding reconcileServiceComponent_def Let_def
proof (rule establishes_getProject, goal_cases)
  case (1 p)
  then have "objectKey (dep_meta (if src_credentialHash config \<noteq> '''' then applyProjectCredentialsHash (src_deployment config p)
      (src_credentialHash config) else src_deployment config p)) = coreKey M c"
    by (simp add: key)
  note status = deploymentStatus_establishes [OF this]
  show ?case
    by (intro establishes_andthen [OF establishes_onError [OF establishes_keeps [OF truth.apply_frame(2)] failComponent_fails]]
        establishes_andthen [OF establishes_onError [OF establishes_keeps [OF truth.apply_frame(3)] failComponent_fails]]
        establishes_andthen [OF establishes_onError [OF status failComponent_fails]])
      (simp only: split_paired_all prod.case fst_conv, intro establishes_report put truth.frame_rules)
qed

lemma slots_put:
  "slot c (setAuthStatus v sv) = (if c = CoreAuth then v else slot c sv)"
  "slot c (setRestStatus v sv) = (if c = CoreRest then v else slot c sv)"
  "slot c (setStudioStatus v sv) = (if c = CoreStudio then v else slot c sv)"
  "slot c (setMetaStatus v sv) = (if c = CoreMeta then v else slot c sv)"
  "slot c (setGatewayStatus v sv) = (if c = CoreGateway then v else slot c sv)"
  by (cases c; simp add: setAuthStatus_def setRestStatus_def setStudioStatus_def setMetaStatus_def setGatewayStatus_def)+

lemma built_deployments_key:
  assumes "p_meta p = M"
  shows "objectKey (dep_meta (BuildAuthDeployment E p names)) = coreKey M CoreAuth"
    "objectKey (dep_meta (BuildRestDeployment p names)) = coreKey M CoreRest"
    "objectKey (dep_meta (BuildStudioDeployment p names)) = coreKey M CoreStudio"
    "objectKey (dep_meta (BuildMetaDeployment p names)) = coreKey M CoreMeta"
    "objectKey (dep_meta (BuildGatewayDeployment p)) = coreKey M CoreGateway"
  using assms
  by (simp_all add: coreKey_def objectKey_def BuildAuthDeployment_def BuildRestDeployment_def BuildStudioDeployment_def
      BuildMetaDeployment_def BuildGatewayDeployment_def AuthDeploymentName_def RestDeploymentName_def
      StudioDeploymentName_def MetaDeploymentName_def GatewayName_def Let_def)

lemma buildAuthDeployment_establishes:
  "establishes (truthful M C D) (buildAuthDeployment E names)
     (\<lambda>d s. truthful M C D s \<and> objectKey (dep_meta d) = coreKey M CoreAuth)"
proof (rule establishesI, rule conjI)
  fix s x s' assume I: "truthful M C D s" and run: "run_state (buildAuthDeployment E names) s = (Inr x, s')"
  show "truthful M C D s'" by (rule keepsD [OF truth.buildAuthDeployment_frame I run])
  show "objectKey (dep_meta x) = coreKey M CoreAuth"
    using run I built_deployments_key(1) [of "rs_project s" M E names]
    by (auto simp: buildAuthDeployment_def truthful_def Let_def split: if_splits sum.splits)
qed

lemma failAuthGoTrueEnv_fails: "isl (fst (run_state (failAuthGoTrueEnv E err) s))"
  using failCondition_fails by (simp add: failAuthGoTrueEnv_def)

lemma establishes_guarded:
  "(b \<Longrightarrow> establishes I m Q) \<Longrightarrow> establishes (\<lambda>s. I s \<and> b) m Q"
  by (auto simp: establishes_def)

lemma services_establish:
  "establishes (truthful M C D) (reconcileAuth E names hash) (\<lambda>_. truthful M (insert CoreAuth C) D)"
  "establishes (truthful M C D) (reconcileRest E names hash) (\<lambda>_. truthful M (insert CoreRest C) D)"
  "establishes (truthful M C D) (reconcileStudio E names hash) (\<lambda>_. truthful M (insert CoreStudio C) D)"
  "establishes (truthful M C D) (reconcileMeta E names) (\<lambda>_. truthful M (insert CoreMeta C) D)"
  "establishes (truthful M C D) (reconcileGateway E hash) (\<lambda>_. truthful M (insert CoreGateway C) D)"
proof -
  show "establishes (truthful M C D) (reconcileAuth E names hash) (\<lambda>_. truthful M (insert CoreAuth C) D)"
    unfolding reconcileAuth_def
    by (intro establishes_andthen [OF establishes_onError [OF establishes_keeps [OF truth.auth_sources_frame] failAuthGoTrueEnv_fails]]
        establishes_andthen [OF buildAuthDeployment_establishes] establishes_guarded establishes_component)
      (simp_all add: slots_put)
  show "establishes (truthful M C D) (reconcileRest E names hash) (\<lambda>_. truthful M (insert CoreRest C) D)"
    "establishes (truthful M C D) (reconcileStudio E names hash) (\<lambda>_. truthful M (insert CoreStudio C) D)"
    "establishes (truthful M C D) (reconcileMeta E names) (\<lambda>_. truthful M (insert CoreMeta C) D)"
    unfolding reconcileRest_def reconcileStudio_def reconcileMeta_def
    by (intro establishes_component; simp add: slots_put built_deployments_key)+
  have gateway: "establishes (truthful M C D) (reconcileServiceComponent E (gatewayConfig hash)) (\<lambda>_. truthful M (insert CoreGateway C) D)"
    by (intro establishes_component) (simp_all add: gatewayConfig_def slots_put built_deployments_key)
  show "establishes (truthful M C D) (reconcileGateway E hash) (\<lambda>_. truthful M (insert CoreGateway C) D)"
    unfolding reconcileGateway_def
    by (intro establishes_bind truth.getProject_frame
        establishes_andthen [OF establishes_onError [OF establishes_keeps [OF truth.apply_frame(1)] failComponent_fails]]
        establishes_andthen [OF gateway] establishes_keeps truth.modifyStatus_frame truth.frame_rules) simp
qed

lemma all_core: "insert CoreGateway (insert CoreMeta (insert CoreStudio (insert CoreRest (insert CoreAuth {})))) = UNIV"
  by (auto intro: core_service.exhaust)

lemma reconcileServices_establishes:
  "establishes (truthful M {} D) (reconcileServices E credentials) (\<lambda>_. truthful M UNIV D)"
proof -
  have last: "establishes (truthful M UNIV D) (do {
       p \<leftarrow> getProject;
       if \<not> coreServicesReady p then do {
         modifyStatus (\<lambda>st. st\<lparr>st_phase := PhaseProvisioning\<rparr>);
         setCondition E ConditionTypeReady ConditionFalse ''CoreServicesPending''
           ''Waiting for all core service deployments to become ready'';
         updateProjectStatus E }
       else ok () }) (\<lambda>_. truthful M UNIV D)"
    by (intro establishes_keeps truth.updateProjectStatus_frame truth.frame_rules truth.modifyStatus_frame) simp
  show ?thesis
    unfolding reconcileServices_def Let_def
    by (rule establishes_bind [OF truth.getProject_frame],
        intro establishes_andthen [OF establishes_onError [OF services_establish(1) failCoreServices_fails]]
        establishes_andthen [OF establishes_onError [OF services_establish(2) failCoreServices_fails]]
        establishes_andthen [OF establishes_onError [OF services_establish(3) failCoreServices_fails]]
        establishes_andthen [OF establishes_onError [OF services_establish(4) failCoreServices_fails]]
        establishes_andthen [OF establishes_onError [OF services_establish(5) failCoreServices_fails]])
      (simp only: all_core last)
qed

lemma establishes_pre: "establishes J m Q \<Longrightarrow> (\<And>s. I s \<Longrightarrow> J s) \<Longrightarrow> establishes I m Q"
  unfolding establishes_def by blast

lemma establishes_fetch:
  assumes "\<And>x ob. f ob = Some x \<Longrightarrow>
      establishes (\<lambda>s. truthful M C D s \<and> (Get K name, RObj ob) \<in> set (rs_events s)) (k x) R"
  shows "establishes (truthful M C D) (andthen (fetch E K f name) k) R"
proof (rule establishesI)
  fix s x s' assume I: "truthful M C D s" and run: "run_state (andthen (fetch E K f name) k) s = (Inr x, s')"
  let ?r = "respond E (rs_events s) (Get K name)"
  let ?s1 = "s\<lparr>rs_events := (Get K name, ?r) # rs_events s\<rparr>"
  from run obtain y where y: "expect f ?r = Inr y" and k: "run_state (k y) ?s1 = (Inr x, s')"
    by (auto simp: run_andthen Let_def split: sum.splits)
  then obtain ob where ob: "?r = RObj ob" "f ob = Some y" by auto
  with I have "truthful M C D ?s1 \<and> (Get K name, RObj ob) \<in> set (rs_events ?s1)"
    by (simp add: truth.asks)
  from establishesD [OF assms [OF ob(2)] this k] show "R x s'" .
qed

lemma waitCondition_requeues: "establishes I (waitCondition E ty reason msg) (\<lambda>x s. x \<le> 0 \<longrightarrow> J s)"
  by (auto simp: establishes_def waitCondition_def run_andthen RequeueDelay_def split: prod.splits sum.splits)

lemma establishes_if: "(b \<Longrightarrow> establishes I m Q) \<Longrightarrow> (\<not> b \<Longrightarrow> establishes I n Q) \<Longrightarrow> establishes I (if b then m else n) Q"
  by simp

lemma establishes_kept: "keeps I m \<Longrightarrow> (\<And>s. I s \<Longrightarrow> J s) \<Longrightarrow> establishes I m (\<lambda>x s. x \<le> 0 \<longrightarrow> J s)"
  by (auto simp: establishes_def dest: keepsD)

lemma waitForDatabase_establishes:
  "establishes (truthful M {} False) (waitForDatabase E) (\<lambda>x s. x \<le> 0 \<longrightarrow> truthful M {} True s)"
  unfolding waitForDatabase_def
proof (intro establishes_getProject establishes_fetch establishes_if waitCondition_requeues, goal_cases)
  case (1 p cluster ob)
  then have obs: "truthful M {} True s" if "truthful M {} False s \<and>
      (Get KCluster (namespaced p (ClusterName p)), RObj ob) \<in> set (rs_events s)" for s
    using that by (auto simp: truthful_def observedDatabase_def namespaced_def ClusterName_def)
  show ?case
  proof (rule establishes_pre [where J = "truthful M {} True"], rule establishes_kept, goal_cases)
    case 1
    show ?case by (intro truth.phase_frame truth.modifyStatus_frame) simp
  qed (use obs in auto)
qed

text \<open>The database and the five core deployments were seen ready, and the status says so.\<close>

definition allReady :: "object_meta \<Rightarrow> rstate \<Rightarrow> bool" where
  "allReady M s \<longleftrightarrow> p_meta (rs_project s) = M \<and> observedDatabase M (rs_events s) \<and>
     (\<forall>c. ss_ready (slot c (servicesOf s)) \<and> observedReady M c (rs_events s))"

interpretation ready: status_frame E "allReady M" for E M
  by unfold_locales (auto simp: allReady_def servicesOf_def observedReady_def observedDatabase_def)

lemma allReadyI: "truthful M UNIV True s \<Longrightarrow> coreServicesReady (rs_project s) \<Longrightarrow> allReady M s"
  by (auto simp: truthful_def allReady_def coreServicesReady_iff)

text \<open>What a finished reconciliation leaves behind.\<close>

definition persisted :: "project \<Rightarrow> event list \<Rightarrow> bool" where
  "persisted q h \<longleftrightarrow>
     (\<exists>r. (StatusUpdate q, r) \<in> set h \<and> acknowledged r = Inr ()) \<or>
     (\<exists>current. (Get KProject (objectKey (p_meta q)), RObj (OProject current)) \<in> set h \<and> p_status current = p_status q)"

definition finished :: "env \<Rightarrow> object_meta \<Rightarrow> rstate \<Rightarrow> bool" where
  "finished E M s \<longleftrightarrow> allReady M s \<and> st_phase (p_status (rs_project s)) = PhaseRunning \<and>
     st_observedGeneration (p_status (rs_project s)) = md_generation M \<and>
     (lawful_conditions E \<longrightarrow> conditionIs E (rs_project s) ConditionTypeReady ConditionTrue) \<and>
     persisted (rs_project s) (rs_events s)"

lemma updateProjectStatus_persists:
  assumes "run_state (updateProjectStatus E) s = (Inr x, s')"
  shows "rs_project s' = rs_project s" "persisted (rs_project s) (rs_events s')"
  using assms
  by (auto simp: updateProjectStatus_def run_andthen persisted_def Let_def split: sum.splits if_splits)

lemma setCondition_holds:
  assumes "lawful_conditions E"
  shows "conditionIs E (rs_project (snd (run_state (setCondition E ty st reason msg) s))) ty st"
  using assms unfolding lawful_conditions_def setCondition_def conditionIs_def
  by (auto simp: Let_def dest!: conjunct1 spec [where x = "st_conditions (p_status (rs_project s))"]
      spec [where x = "\<lparr>c_type = ty, c_status = st, c_observedGeneration = md_generation (p_meta (rs_project s)),
           c_lastTransitionTime = clock E (rs_events s), c_reason = reason, c_message = msg\<rparr>"])

lemma setCondition_other:
  assumes "lawful_conditions E" "conditionIs E (rs_project s) ty' st'" "ty' \<noteq> ty"
  shows "conditionIs E (rs_project (snd (run_state (setCondition E ty st reason msg) s))) ty' st'"
  using assms by (auto simp: lawful_conditions_def conditionIs_def setCondition_def Let_def)

text \<open>A status write leaves the project in memory alone and sends reads and a status update only.\<close>

lemma updateProjectStatus_outcome:
  assumes "run_state (updateProjectStatus E) s = (r, s')"
  shows "rs_project s' = rs_project s \<and> (\<exists>new. rs_events s' = new @ rs_events s \<and> list_all (\<lambda>(c, _). quiet c) new) \<and>
    (case r of Inr _ \<Rightarrow> persisted (rs_project s) (rs_events s')
     | Inl e \<Rightarrow> (\<exists>c. (c, RErr e) \<in> set (rs_events s')) \<or> e = badResponse)"
  using assms
  by (auto simp: updateProjectStatus_def run_andthen persisted_def acknowledged_def expect_def Let_def
      split: sum.splits if_splits resp.splits option.splits)

lemma finishReconcile_establishes: "establishes (allReady M) (finishReconcile E) (\<lambda>_. finished E M)"
proof (rule establishesI)
  fix s x s' assume I: "allReady M s" and run: "run_state (finishReconcile E) s = (Inr x, s')"
  let ?set = "setCondition E ConditionTypeReady ConditionTrue ''AllComponentsReady'' ''All Supabase components are running''"
  define s1 where "s1 = snd (run_state (modifyStatus (\<lambda>st. st\<lparr>st_phase := PhaseRunning,
      st_observedGeneration := md_generation (p_meta (rs_project s))\<rparr>)) s)"
  define s2 where "s2 = snd (run_state ?set s1)"
  have "allReady M s1"
    unfolding s1_def using ready.modifyStatus_frame [of "\<lambda>st. st\<lparr>st_phase := PhaseRunning,
      st_observedGeneration := md_generation (p_meta (rs_project s))\<rparr>" M] I by (simp add: keeps_def)
  then have "allReady M s2" unfolding s2_def using ready.setCondition_frame by (simp add: keeps_def)
  from run obtain u where up: "run_state (updateProjectStatus E) s2 = (Inr u, s')"
    by (auto simp: finishReconcile_def run_andthen s2_def s1_def split: prod.splits sum.splits)
  note persists = updateProjectStatus_persists [OF up]
  have "allReady M s'" by (rule keepsD [OF ready.updateProjectStatus_frame \<open>allReady M s2\<close> up])
  moreover have "st_phase (p_status (rs_project s2)) = PhaseRunning" "st_observedGeneration (p_status (rs_project s2)) = md_generation M"
    using I by (simp_all add: s2_def s1_def setCondition_def Let_def allReady_def)
  moreover have "lawful_conditions E \<longrightarrow> conditionIs E (rs_project s2) ConditionTypeReady ConditionTrue"
    unfolding s2_def using setCondition_holds by blast
  ultimately show "finished E M s'" using persists by (simp add: finished_def)
qed

lemma establishes_result: "keeps I m \<Longrightarrow> establishes I m (\<lambda>x s. x \<le> (0 :: int) \<longrightarrow> I s)"
  by (rule establishes_kept)

lemma establishes_orFail:
  "keeps I m \<Longrightarrow> establishes I (orFailCondition E ty reason m) (\<lambda>_. I)"
  unfolding orFailCondition_def by (intro establishes_onError establishes_keeps failCondition_fails)

lemma reconcilePhases_establishes:
  "establishes (truthful M {} False) (reconcilePhases E credentials) (\<lambda>x s. x \<le> 0 \<longrightarrow> finished E M s)"
proof -
  have finish: "establishes (allReady M) (unlessRequeue (powerSyncPhase E) (finishReconcile E)) (\<lambda>x s. x \<le> 0 \<longrightarrow> finished E M s)"
    by (rule establishes_unlessRequeue [OF establishes_result [OF ready.powerSyncPhase_frame]])
      (rule establishes_mono [OF finishReconcile_establishes], simp)
  have services: "establishes (truthful M {} True) (andthen (reconcileServices E credentials) (\<lambda>_. do {
            p \<leftarrow> getProject;
            if \<not> coreServicesReady p then ok RequeueDelay
            else unlessRequeue (powerSyncPhase E) (finishReconcile E) })) (\<lambda>x s. x \<le> 0 \<longrightarrow> finished E M s)"
  proof (rule establishes_andthen [OF reconcileServices_establishes], rule establishesI)
    fix s x s'
    assume t: "truthful M UNIV True s" and run: "run_state (do {
            p \<leftarrow> getProject;
            if \<not> coreServicesReady p then ok RequeueDelay
            else unlessRequeue (powerSyncPhase E) (finishReconcile E) }) s = (Inr x, s')"
    show "x \<le> 0 \<longrightarrow> finished E M s'"
    proof (cases "coreServicesReady (rs_project s)")
      case True
      with run have "run_state (unlessRequeue (powerSyncPhase E) (finishReconcile E)) s = (Inr x, s')" by simp
      from establishesD [OF finish allReadyI [OF t True] this] show ?thesis .
    qed (use run in \<open>auto simp: RequeueDelay_def\<close>)
  qed
  show ?thesis
    unfolding reconcilePhases_def
    by (intro establishes_andthen [OF establishes_orFail [OF truth.database_frame(1)]]
        establishes_andthen [OF establishes_keeps [OF truth.database_frame(2)]]
        establishes_andthen [OF establishes_keeps [OF truth.database_frame(3)]]
        establishes_andthen [OF establishes_keeps [OF truth.database_frame(4)]]
        establishes_unlessRequeue [OF establishes_result [OF truth.database_frame(5)]]
        establishes_unlessRequeue [OF waitForDatabase_establishes] services)
qed

lemma reconcileProject_establishes:
  "establishes (truthful M {} False) (reconcileProject E) (\<lambda>x s. x \<le> 0 \<longrightarrow> finished E M s)"
  unfolding reconcileProject_def
  by (intro establishes_bind establishes_andthen [OF establishes_keeps [OF truth.secrets_frame(2)]]
      establishes_andthen [OF establishes_keeps [OF truth.secrets_frame(1)]] reconcilePhases_establishes truth.modifyStatus_frame) simp

section \<open>Properties\<close>

text \<open>
  C7. A reconciliation that finishes without error and without a requeue reports the truth:
  in that same reconciliation the database cluster was read with all its instances ready, each
  of the five core deployments was read and found ready, the phase is Running for the
  generation that was read, the Ready condition is true, and this status is in the API server,
  because its write was acknowledged or a read of the project returned it.
\<close>

theorem Reconcile_done_means_ready:
  assumes "lawful_conditions E"
    and "respond E [] (Get KProject name) = RObj (OProject p0)"
    and "Reconcile E name [] = (Inr doneResult, h', Some q)"
  shows "(\<exists>cluster. (Get KCluster (p_namespace p0, ClusterName p0), RObj (OCluster cluster)) \<in> set h' \<and>
      cs_instances (cl_spec cluster) \<le> cst_readyInstances (cl_status cluster)) \<and>
    (\<forall>n \<in> {AuthDeploymentName p0, RestDeploymentName p0, StudioDeploymentName p0, MetaDeploymentName p0, GatewayName p0}.
      \<exists>dep. (Get KDeployment (p_namespace p0, n), RObj (ODeployment dep)) \<in> set h' \<and> deploymentIsReady dep) \<and>
    coreServicesReady q \<and> st_phase (p_status q) = PhaseRunning \<and>
    st_observedGeneration (p_status q) = md_generation (p_meta p0) \<and>
    conditionIs E q ConditionTypeReady ConditionTrue \<and> persisted q h'"
proof -
  obtain s where run: "run_state (reconcileProject E)
      \<lparr>rs_project = p0, rs_events = [(Get KProject name, RObj (OProject p0))]\<rparr> = (Inr doneResult, s)"
    and s: "h' = rs_events s" "q = rs_project s"
    using Reconcile_run [OF assms(2,3)] by blast
  have "finished E (p_meta p0) s"
    using establishesD [OF reconcileProject_establishes _ run, of "p_meta p0"] by (simp add: truthful_def doneResult_def)
  then have fin: "allReady (p_meta p0) s" "st_phase (p_status q) = PhaseRunning" "persisted q h'"
      "st_observedGeneration (p_status q) = md_generation (p_meta p0)" "conditionIs E q ConditionTypeReady ConditionTrue"
    using assms(1) s by (simp_all add: finished_def)
  have obs: "observedReady (p_meta p0) c h'" for c using fin(1) s by (simp add: allReady_def)
  have "\<exists>dep. (Get KDeployment (p_namespace p0, n), RObj (ODeployment dep)) \<in> set h' \<and> deploymentIsReady dep"
    if "n \<in> {AuthDeploymentName p0, RestDeploymentName p0, StudioDeploymentName p0, MetaDeploymentName p0, GatewayName p0}" for n
    using that obs [of CoreAuth] obs [of CoreRest] obs [of CoreStudio] obs [of CoreMeta] obs [of CoreGateway]
    by (auto simp: observedReady_def coreKey_def AuthDeploymentName_def RestDeploymentName_def StudioDeploymentName_def
        MetaDeploymentName_def GatewayName_def)
  moreover have "coreServicesReady q" using fin(1) s by (simp add: allReady_def coreServicesReady_iff)
  moreover have "\<exists>cluster. (Get KCluster (p_namespace p0, ClusterName p0), RObj (OCluster cluster)) \<in> set h' \<and>
      cs_instances (cl_spec cluster) \<le> cst_readyInstances (cl_status cluster)"
    using fin(1) s by (auto simp: allReady_def observedDatabase_def ClusterName_def)
  ultimately show ?thesis using fin by blast
qed

text \<open>
  C15. Credentials that do not validate stop the reconciliation and are reported: the phase
  fails, no object is created, updated or deleted, both SecretsReady and Ready are false in
  the status it leaves, and when the status write succeeds the error is the validation error
  and the status is in the API server.
\<close>

theorem reconcileSecrets_rejects_invalid_credentials:
  assumes "lawful_conditions E"
    and "ref = sp_projectCredentialsSecret (p_spec (rs_project s))" and "ref \<noteq> ''''"
    and "key = (p_namespace (rs_project s), ref)"
    and "respond E (rs_events s) (Get KSecret key) = RObj (OSecret sec)"
    and "now = clock E ((Get KSecret key, RObj (OSecret sec)) # rs_events s)"
    and "ValidateProjectCredentials E now now (Some sec) = Inl err"
    and "run_state (reconcileSecrets E) s = (r, s')"
  shows "isl r \<and> conditionIs E (rs_project s') ConditionTypeSecretsReady ConditionFalse \<and>
    conditionIs E (rs_project s') ConditionTypeReady ConditionFalse \<and>
    (\<exists>new. rs_events s' = new @ rs_events s \<and> list_all (\<lambda>(c, _). quiet c) new) \<and>
    (r = Inl err \<and> persisted (rs_project s') (rs_events s') \<or>
     (\<exists>c e. (c, RErr e) \<in> set (rs_events s') \<and> r = Inl e) \<or> r = Inl badResponse)"
proof -
  define s0 where "s0 = snd (run_state (modifyStatus (\<lambda>st. if st_phase st = PhasePending then st\<lparr>st_phase := PhaseProvisioning\<rparr> else st)) s)"
  define s1 where "s1 = s0\<lparr>rs_events := (Get KSecret key, RObj (OSecret sec)) # rs_events s\<rparr>"
  have s0: "rs_events s0 = rs_events s" "p_meta (rs_project s0) = p_meta (rs_project s)" "p_spec (rs_project s0) = p_spec (rs_project s)"
    by (simp_all add: s0_def)
  have fails: "run_state (failReconcileSecrets E ''InvalidProjectCredentials'' (Error err) err) s1 = (r, s')"
    using assms(2-8) s0
    by (simp add: reconcileSecrets_def s0_def s1_def namespaced_def Let_def expect_def asSecret_def)
  define s2 where "s2 = snd (run_state (setCondition E ConditionTypeSecretsReady ConditionFalse ''InvalidProjectCredentials'' (Error err)) s1)"
  define s3 where "s3 = snd (run_state (setCondition E ConditionTypeReady ConditionFalse ''SecretsNotReady''
       ''Project credentials and implementation secrets are not ready'') s2)"
  obtain u where up: "run_state (updateProjectStatus E) s3 = (u, s')" and r: "r = (case u of Inl e \<Rightarrow> Inl e | Inr _ \<Rightarrow> Inl err)"
    using fails
    by (auto simp: failReconcileSecrets_def run_andthen s3_def s2_def split: prod.splits sum.splits)
  have ready: "conditionIs E (rs_project s3) ConditionTypeReady ConditionFalse"
    unfolding s3_def by (rule setCondition_holds [OF assms(1)])
  have "conditionIs E (rs_project s2) ConditionTypeSecretsReady ConditionFalse"
    unfolding s2_def by (rule setCondition_holds [OF assms(1)])
  then have secrets: "conditionIs E (rs_project s3) ConditionTypeSecretsReady ConditionFalse"
    unfolding s3_def by (rule setCondition_other [OF assms(1)]) (simp add: ConditionTypeSecretsReady_def ConditionTypeReady_def)
  have events: "rs_events s3 = (Get KSecret key, RObj (OSecret sec)) # rs_events s"
    by (simp add: s3_def s2_def s1_def setCondition_def Let_def)
  note status = updateProjectStatus_outcome [OF up]
  show ?thesis
    using status ready secrets r events by (auto split: sum.splits)
qed

text \<open>
  C38. A token that is deleted at the wrong moment is replaced by an empty one. When the
  PowerSync API token Secret exists and validates, but is gone when the method reads it again
  to adopt it, the method creates a Secret of that name with no data at all.
\<close>

theorem adopting_deleted_token_creates_empty_secret:
  assumes "p = rs_project s" and "key = (p_namespace p, PowersyncAPITokenSecretName p)"
    and "respond E (rs_events s) (Get KSecret key) = RObj (OSecret sec)"
    and "ValidatePowersyncAPITokenSecret (Some sec) = Inr ()"
    and "setControllerReference E p (namedMeta (snd key) (fst key) fmempty) = Inr owners"
    and "respond E ((Get KSecret key, RObj (OSecret sec)) # rs_events s) (Get KSecret key) = RErr gone" and "IsNotFound gone"
    and "run_state (reconcilePowersyncAPITokenSecret E) s = (r, s')"
  shows "\<exists>created answer. rs_events s' = (Create (OSecret created), answer) # (Get KSecret key, RErr gone) #
      (Get KSecret key, RObj (OSecret sec)) # rs_events s \<and>
    objectKey (sec_meta created) = key \<and> sec_data created = fmempty \<and> sec_stringData created = fmempty"
  using assms
  by (auto simp: reconcilePowersyncAPITokenSecret_def createOrUpdateSecret_def adopt_def upsert_def wrapErr_def
      namespaced_def expect_def asSecret_def Let_def objectKey_def namedMeta_def split: sum.splits)

text \<open>
  The API endpoint is blanked in every reconciliation: when the database is ready, the
  phase that waits for it leaves a status without the API endpoint, and persists it before the
  services are looked at.
\<close>

theorem waitForDatabase_blanks_api_endpoint:
  assumes "run_state (waitForDatabase E) s = (Inr doneResult, s')"
  shows "ep_api (st_endpoints (p_status (rs_project s'))) = '''' \<and> persisted (rs_project s') (rs_events s')"
proof -
  obtain s1 where up: "run_state (updateProjectStatus E) s1 = (Inr (), s')"
      and blank: "ep_api (st_endpoints (p_status (rs_project s1))) = ''''"
    using assms
    by (auto simp: waitForDatabase_def waitCondition_def run_andthen RequeueDelay_def doneResult_def setCondition_def Let_def
        split: prod.splits sum.splits if_splits)
  with updateProjectStatus_persists [OF up] show ?thesis by simp
qed

end
