(* ===== verification/Reference_Env.thy ===== *)
theory Reference_Env
  imports Outcome "HOL-Library.List_Lexorder"
begin

text \<open>
  A concrete environment: functions for every parameter of the model, with the laws they
  satisfy, a project, a credential bundle and the answers of an API server. The theorems that
  have hypotheses are applied to it, which shows that the hypotheses can hold together.
\<close>

section \<open>Keys and tokens\<close>

text \<open>The base point of P-256 is the public key of the private scalar 1.\<close>

definition refX :: int where
  "refX = 0x6b17d1f2e12c4247f8bce6e563a440f277037d812deb33a0f4a13945d898c296"

definition refY :: int where
  "refY = 0x4fe342e2fe1a7f9b8ee7eb4a7c0f9e162bce33576b315ececbb6406837bf51f5"

definition refKey :: jwk where
  "refKey = \<lparr>k_kty = ''EC'', k_alg = ''ES256'', k_use = ''sig'', k_crv = ''P-256'',
     k_x = EncodeToString RawURLEncoding (paddedCoordinate refX),
     k_y = EncodeToString RawURLEncoding (paddedCoordinate refY),
     k_d = EncodeToString RawURLEncoding (paddedCoordinate 1),
     k_kid = ''ref'', k_keyOps = [], k_ext = None\<rparr>"

text \<open>A token whose claims segment spells its role; the decoder of the environment reads it so.\<close>

definition refToken :: "string \<Rightarrow> string" where
  "refToken role = EncodeToString RawURLEncoding ''{}'' @ ''.'' @ EncodeToString RawURLEncoding role @ ''.'' @
     EncodeToString RawURLEncoding (replicate 64 (CHR 0x00))"

definition refOpaque :: "string \<Rightarrow> string" where
  "refOpaque prefix = prefix @ replicate 22 (CHR ''a'') @ ''_AAAAAAAA''"

definition refValues :: "string gomap" where
  "refValues = fmap_of_list
     [(''signingKeys'', ''[ref]''), (''publishableKey'', refOpaque ''sb_publishable_''),
      (''secretKey'', refOpaque ''sb_secret_''), (''anonRoleJwt'', refToken ''anon''),
      (''serviceRoleJwt'', refToken ''service_role'')]"

section \<open>The functions of the libraries\<close>

definition refOwner :: "project \<Rightarrow> owner_ref" where
  "refOwner p = \<lparr>or_apiVersion = ''supabase.guion.dev/v1alpha1'', or_kind = ''SupabaseProject'', or_name = p_name p,
     or_uid = md_uid (p_meta p), or_controller = Some True, or_blockOwnerDeletion = Some True\<rparr>"

definition refGroupVersion :: "string \<Rightarrow> (string \<times> string) result" where
  "refGroupVersion s = (case Split s (CHR ''/'') of [v] \<Rightarrow> Inr ('''', v) | [g, v] \<Rightarrow> Inr (g, v)
     | _ \<Rightarrow> Inl (Errorf ''unexpected GroupVersion string''))"

definition refQuantity :: "string \<Rightarrow> quantity result" where
  "refQuantity s = (if s = ''10Gi'' then Inr 10 else if s = ''20Gi'' then Inr 20
     else Inl (Errorf ''quantities must match the regular expression''))"

definition refEnv :: "(event list \<Rightarrow> call \<Rightarrow> resp) \<Rightarrow> env" where
  "refEnv answer = \<lparr>
     json_jwks = (\<lambda>_. Inr [refKey]),
     json_header = (\<lambda>_. Inr \<lparr>jh_alg = ''ES256'', jh_typ = ''JWT'', jh_kid = ''ref''\<rparr>),
     json_claims = (\<lambda>role. Inr \<lparr>jcl_role = role, jcl_aud = AudString ''authenticated'', jcl_iss = '''', jcl_iat = 0, jcl_exp = 100\<rparr>),
     json_marshal_keys = (\<lambda>_. Inr ''{}''),
     sha256 = (\<lambda>_. replicate 32 (CHR 0x00)),
     scalarBaseMult = (\<lambda>_. (refX, refY)),
     ecdsa_verify = (\<lambda>_ _ _ _. True),
     respond = answer,
     clock = (\<lambda>_. 50),
     rangeKeys = sorted_list_of_fset,
     setStatusCondition = (\<lambda>cs c. c # filter (\<lambda>x. c_type x \<noteq> c_type c) cs),
     removeStatusCondition = (\<lambda>cs ty. filter (\<lambda>x. c_type x \<noteq> ty) cs),
     findStatusCondition = (\<lambda>cs ty. List.find (\<lambda>x. c_type x = ty) cs),
     setControllerReference = (\<lambda>p m. Inr (if List.member (md_owners m) (refOwner p) then md_owners m else md_owners m @ [refOwner p])),
     isControlledBy = (\<lambda>m p. List.member (md_owners m) (refOwner p)),
     parseGroupVersion = refGroupVersion,
     parseQuantity = refQuantity,
     defaultCluster = (\<lambda>c. c),
     unmarshalSyncRules = (\<lambda>_. Inr \<lparr>sdoc_edition = 3, sdoc_streams = True\<rparr>),
     url_parse = (\<lambda>s. Inl (Errorf ''missing scheme'')),
     url_string = u_path\<rparr>"

lemma refEnv_sel [simp]:
  "json_jwks (refEnv a) = (\<lambda>_. Inr [refKey])" "sha256 (refEnv a) = (\<lambda>_. replicate 32 (CHR 0x00))"
  "respond (refEnv a) = a" "clock (refEnv a) = (\<lambda>_. 50)" "rangeKeys (refEnv a) = sorted_list_of_fset"
  "parseGroupVersion (refEnv a) = refGroupVersion" "parseQuantity (refEnv a) = refQuantity"
  "defaultCluster (refEnv a) = (\<lambda>c. c)" "scalarBaseMult (refEnv a) = (\<lambda>_. (refX, refY))"
  "ecdsa_verify (refEnv a) = (\<lambda>_ _ _ _. True)" "json_marshal_keys (refEnv a) = (\<lambda>_. Inr ''{}'')"
  "json_header (refEnv a) = (\<lambda>_. Inr \<lparr>jh_alg = ''ES256'', jh_typ = ''JWT'', jh_kid = ''ref''\<rparr>)"
  "json_claims (refEnv a) = (\<lambda>role. Inr \<lparr>jcl_role = role, jcl_aud = AudString ''authenticated'', jcl_iss = '''', jcl_iat = 0, jcl_exp = 100\<rparr>)"
  "setControllerReference (refEnv a) = (\<lambda>p m. Inr (if List.member (md_owners m) (refOwner p) then md_owners m else md_owners m @ [refOwner p]))"
  "isControlledBy (refEnv a) = (\<lambda>m p. List.member (md_owners m) (refOwner p))"
  "setStatusCondition (refEnv a) = (\<lambda>cs c. c # filter (\<lambda>x. c_type x \<noteq> c_type c) cs)"
  "findStatusCondition (refEnv a) = (\<lambda>cs ty. List.find (\<lambda>x. c_type x = ty) cs)"
  by (simp_all add: refEnv_def)

section \<open>Its laws\<close>

lemma refEnv_defaulting: "lawful_defaulting (refEnv a)"
  by (simp add: lawful_defaulting_def)

lemma refEnv_range: "lawful_range (refEnv a)"
  by (simp add: lawful_range_def)

lemma refEnv_ownership: "lawful_ownership (refEnv a)"
  by (auto simp: lawful_ownership_def refOwner_def)

lemma find_filter_other: "ty \<noteq> ty' \<Longrightarrow>
    List.find (\<lambda>x. c_type x = ty) (filter (\<lambda>x. c_type x \<noteq> ty') cs) = List.find (\<lambda>x. c_type x = ty) cs"
  by (induction cs) auto

lemma find_filter_same: "List.find (\<lambda>x. c_type x = ty) (filter (\<lambda>x. c_type x \<noteq> ty) cs) = None"
  by (auto simp: find_None_iff)

lemma refEnv_conditions: "lawful_conditions (refEnv a)"
proof -
  have "\<exists>t. c = c\<lparr>c_lastTransitionTime := t\<rparr>" for c :: condition
    by (rule exI [of _ "c_lastTransitionTime c"]) simp
  then show ?thesis
    unfolding lawful_conditions_def by (simp add: refEnv_def find_filter_other find_filter_same)
qed

section \<open>The key and the tokens are good\<close>

definition refQuotient :: int where
  "refQuotient = -981570988164258562257936101525215858910690391106138407341175333813841188485201771743408849884010754226965632845910189239885256093057339116530079505515608"

lemma ref_on_curve: "IsOnCurve refX refY"
proof -
  have "refY * refY - (refX * refX * refX - 3 * refX + P256_b) = P256_p * refQuotient"
    unfolding refX_def refY_def P256_p_def P256_b_def refQuotient_def by simp
  then have "(refY * refY - (refX * refX * refX - 3 * refX + P256_b)) mod P256_p = 0" by simp
  moreover have "0 \<le> refX" "refX < P256_p" "0 \<le> refY" "refY < P256_p"
    by (simp_all add: refX_def refY_def P256_p_def)
  ultimately show ?thesis unfolding IsOnCurve_def by blast
qed

lemma refKey_private: "ecdsaPrivateKey (refEnv a) refKey = Inr \<lparr>pk_x = refX, pk_y = refY, pk_d = 1\<rparr>"
proof -
  have "decodeCoordinate (k_x refKey) = Inr refX" "decodeCoordinate (k_y refKey) = Inr refY" "decodeCoordinate (k_d refKey) = Inr 1"
    unfolding refKey_def jwk.simps by (rule decodeCoordinate_padded; simp add: refX_def refY_def)+
  then show ?thesis by (simp add: ecdsaPrivateKey_ok P256_N_def ref_on_curve)
qed

lemma refKey_valid: "ValidateSigningJWK (refEnv a) refKey = Inr ()"
proof -
  have "EncodeToString RawURLEncoding (paddedCoordinate v) \<noteq> ''''" if "0 \<le> v" "v < 256 ^ 32" for v
  proof
    assume "EncodeToString RawURLEncoding (paddedCoordinate v) = ''''"
    then have "decodeCoordinate '''' = Inr v" using decodeCoordinate_padded [OF that] by simp
    then show False by (simp add: decodeCoordinate_def)
  qed
  then have "k_x refKey \<noteq> ''''" "k_y refKey \<noteq> ''''" "k_d refKey \<noteq> ''''"
    by (simp_all add: refKey_def refX_def refY_def)
  with refKey_private [of a] show ?thesis
    by (simp add: ValidateSigningJWK_ok) (simp add: refKey_def ES256_def)
qed

lemma refToken_parts:
  "Split (refToken role) (CHR ''.'') = [EncodeToString RawURLEncoding ''{}'', EncodeToString RawURLEncoding role,
     EncodeToString RawURLEncoding (replicate 64 (CHR 0x00))]"
  unfolding refToken_def append_Cons append_Nil
  by (simp add: Split_append rawurl_no_dot Split_single del: EncodeToString.simps)

lemma refToken_verifies: "VerifyES256JWT (refEnv a) 50 (refToken role) refKey role RequiredRoleAudience = Inr ()"
  by (simp add: VerifyES256JWT_def refKey_valid refKey_private verifyWithPublicKey_def refToken_parts decodeBase64URL_raw
      ES256_def RequiredRoleAudience_def audienceMatches_def Let_def del: EncodeToString.simps) (simp add: refKey_def)

lemma zero_checksum: "take 8 (EncodeToString RawURLEncoding (replicate 32 (CHR 0x00))) = ''AAAAAAAA''"
  by code_simp

lemma refOpaque_valid: "validateOpaqueKey (refEnv a) (refOpaque prefix) prefix = Inr ()"
proof -
  have "isBase64URLCharacter (CHR ''a'')" "isBase64URLCharacter (CHR ''A'')" by code_simp+
  then show ?thesis
    by (simp add: validateOpaqueKey_def refOpaque_def Let_def opaqueKeyRandomLength_def opaqueKeyChecksumLength_def
        zero_checksum nth_append list_all_iff HasPrefix_append)
qed

section \<open>A project and its credentials\<close>

definition refSpec :: project_spec where
  "refSpec = \<lparr>
     sp_database = \<lparr>db_instances = 1, db_storage = \<lparr>sc_size = ''10Gi'', sc_storageClass = None, sc_resizeInUseVolumes = None, sc_pvcTemplate = None\<rparr>,
       db_image = '''', db_resources = emptyResources, db_enableSuperuserAccess = False, db_parameters = fmempty,
       db_additionalPreloadLibraries = [], db_additionalExtensions = [], db_backup = None, db_recovery = None, db_additionalRoles = []\<rparr>,
     sp_projectCredentialsSecret = ''credentials'',
     sp_auth = \<lparr>au_imageTag = '''', au_replicas = 1, au_siteURL = ''https://demo.example'', au_externalURL = ''https://demo.example'',
       au_accessTokenExpirationSeconds = 0, au_disableSignup = False, au_enableAnonymousUsers = False, au_autoConfirmEmail = False,
       au_goTrueEnv = [], au_providers = None, au_emailHook = None, au_smtp = None, au_resources = emptyResources\<rparr>,
     sp_rest = \<lparr>re_imageTag = '''', re_replicas = 1, re_schemas = [], re_resources = emptyResources\<rparr>,
     sp_studio = \<lparr>sd_imageTag = '''', sd_replicas = 1, sd_publicURL = '''', sd_organizationName = '''', sd_projectName = '''',
       sd_resources = emptyResources\<rparr>,
     sp_metaService = \<lparr>me_imageTag = '''', me_replicas = 1, me_resources = emptyResources\<rparr>,
     sp_gateway = \<lparr>gw_imageTag = '''', gw_replicas = 1, gw_resources = emptyResources\<rparr>,
     sp_powersync = None, sp_imagePullSecrets = []\<rparr>"

definition refMeta :: object_meta where
  "refMeta = \<lparr>md_name = ''demo'', md_namespace = ''apps'', md_uid = ''uid-1'', md_generation = 1,
     md_labels = fmempty, md_annotations = fmempty, md_owners = []\<rparr>"

definition refProject :: project where
  "refProject = \<lparr>p_meta = refMeta, p_spec = refSpec, p_status = emptyStatus\<rparr>"

definition refSecret :: secret where
  "refSecret = \<lparr>sec_meta = namedMeta ''credentials'' ''apps'' fmempty, sec_type = SecretTypeOpaque,
     sec_data = refValues, sec_stringData = fmempty\<rparr>"

definition refCredentials :: project_credentials where
  "refCredentials = \<lparr>pcr_SigningKeys = ''[ref]'', pcr_PublishableKey = refOpaque ''sb_publishable_'',
     pcr_SecretKey = refOpaque ''sb_secret_'', pcr_AnonRoleJWT = refToken ''anon'', pcr_ServiceRoleJWT = refToken ''service_role'',
     pcr_PublicJWKS = ''{}'', pcr_SigningKeyID = ''ref'', pcr_PodTemplateHash = hexEncode (replicate 32 (CHR 0x00))\<rparr>"

lemma refSecret_data [simp]: "sec_data refSecret = refValues" "sec_stringData refSecret = fmempty"
  by (simp_all add: refSecret_def)

lemma refValues_lookup [simp]:
  "fmlookup refValues ''signingKeys'' = Some ''[ref]''"
  "fmlookup refValues ''publishableKey'' = Some (refOpaque ''sb_publishable_'')"
  "fmlookup refValues ''secretKey'' = Some (refOpaque ''sb_secret_'')"
  "fmlookup refValues ''anonRoleJwt'' = Some (refToken ''anon'')"
  "fmlookup refValues ''serviceRoleJwt'' = Some (refToken ''service_role'')"
  by (simp_all add: refValues_def fmlookup_of_list)

lemma refPublic: "\<exists>public. PublicJWK (refEnv a) refKey = Inr public"
  by (simp add: PublicJWK_def refKey_valid refKey_private Let_def)

lemma refSecret_valid: "ValidateProjectCredentials (refEnv a) 50 50 (Some refSecret) = Inr refCredentials"
proof -
  have keys: "set (sorted_list_of_fset (fmdom refValues)) = set RequiredProjectCredentialKeys"
    by (simp add: refValues_def RequiredProjectCredentialKeys_def credential_key_defs fmdom_fmap_of_list)
  have parse: "ParseSigningJWK (refEnv a) x = Inr refKey" for x
    by (simp add: ParseSigningJWK_def ParseJWKArray_def refKey_valid)
  have public: "PublicJWKS (refEnv a) x = Inr ''{}''" for x
    using refPublic [of a] by (auto simp: PublicJWKS_def parse)
  have nonempty: "refToken role \<noteq> ''''" "refOpaque prefix \<noteq> ''''" for role prefix
    by (simp_all add: refToken_def refOpaque_def)
  have distinct: "refOpaque ''sb_publishable_'' \<noteq> refOpaque ''sb_secret_''" by (simp add: refOpaque_def)
  have "checkDataKeys (sorted_list_of_fset (fmdom refValues)) = Inr ()"
    unfolding checkDataKeys_ok keys by simp
  moreover have "sorted_list_of_fset ({||} :: string fset) = []" by (simp add: sorted_list_of_fset.rep_eq)
  ultimately show ?thesis
    by (simp add: ValidateProjectCredentials_def Let_def RequiredProjectCredentialKeys_def
        credential_key_defs secretValue_def nonempty goget_def fmlookup_of_list parse public refOpaque_valid distinct
        refToken_verifies refCredentials_def) (simp add: refKey_def)
qed

end
