(* ===== verification/Watches.thy ===== *)
theory Watches
  imports Outcome
begin

text \<open>
  The event sources of the controller: \<open>SetupWithManager\<close> and the functions that map a changed
  object to the projects that depend on it. An event handler asks the API server and answers
  with the keys of the projects to reconcile; it holds no project, so the history is passed
  explicitly.
\<close>

section \<open>Mapping an object to projects\<close>

type_synonym event_handler = "env \<Rightarrow> obj \<Rightarrow> event list \<Rightarrow> key list \<times> event list"

text \<open>One \<open>reconcile.Request\<close> per listed project that passes the test of the loop.\<close>

fun requestsWhere :: "(project \<Rightarrow> bool) \<Rightarrow> project list \<Rightarrow> key list" where
  "requestsWhere P [] = []"
| "requestsWhere P (project # items) =
     (if P project then (p_namespace project, p_name project) # requestsWhere P items
      else requestsWhere P items)"

definition listed :: "env \<Rightarrow> string \<Rightarrow> event list \<Rightarrow> project list option \<times> event list" where
  "listed E namespace h =
     (let r = respond E h (ListProjects namespace)
      in (case r of RProjects items \<Rightarrow> Some items | _ \<Rightarrow> None, (ListProjects namespace, r) # h))"

definition mapPowerSyncConfigMapToProjects :: event_handler where
  "mapPowerSyncConfigMapToProjects E object h =
     (case listed E (md_namespace (metaOf object)) h of
        (None, h') \<Rightarrow> ([], h')
      | (Some items, h') \<Rightarrow>
          (requestsWhere (\<lambda>project. \<not> (case sp_powersync (p_spec project) of
               None \<Rightarrow> True
             | Some ps \<Rightarrow> sy_configMapRef (pw_syncRules ps) \<noteq> md_name (metaOf object))) items, h'))"

definition mapProjectCredentialsSecretToProjects :: event_handler where
  "mapProjectCredentialsSecretToProjects E object h =
     (case listed E (md_namespace (metaOf object)) h of
        (None, h') \<Rightarrow> ([], h')
      | (Some items, h') \<Rightarrow>
          (requestsWhere (\<lambda>project. sp_projectCredentialsSecret (p_spec project) = md_name (metaOf object)) items, h'))"

text \<open>The type switch: the names under which an object of each kind belongs to the project.\<close>

primrec belongs :: "project \<Rightarrow> obj \<Rightarrow> bool option" where
  "belongs p (OCluster x) = Some (md_name (cl_meta x) = ClusterName p)"
| "belongs p (OScheduledBackup x) = Some (md_name (sb_meta x) = ScheduledBackupName p)"
| "belongs p (OObjectStore x) = Some (md_name (os_meta x) = ObjectStoreName p \<or> md_name (os_meta x) = RecoveryObjectStoreName p)"
| "belongs p (OSecret x) = None"
| "belongs p (OConfigMap x) = None"
| "belongs p (OService x) = None"
| "belongs p (ODeployment x) = None"
| "belongs p (OJob x) = None"
| "belongs p (OCronJob x) = None"
| "belongs p (OPublication x) = None"
| "belongs p (OProject x) = None"

definition mapDurableResourceToProject :: event_handler where
  "mapDurableResourceToProject E object h =
     (let instance' = goget (md_labels (metaOf object)) LabelInstance
      in if instance' = '''' then ([], h)
         else let key = (md_namespace (metaOf object), instance');
                  r = respond E h (Get KProject key);
                  h' = (Get KProject key, r) # h
              in case expect asProject r of
                   Inl _ \<Rightarrow> ([], h')
                 | Inr project \<Rightarrow>
                     (case belongs project object of
                        None \<Rightarrow> ([], h')
                      | Some b \<Rightarrow> if \<not> b then ([], h') else ([key], h')))"

section \<open>The watches\<close>

text \<open>
  A watch of the controller: the resource itself, the resources it owns, or a resource with a
  mapping function. Events of the resource itself pass only when its generation changed.
\<close>

datatype watch = For kind | Owns kind | Watch kind event_handler

definition SetupWithManager :: "watch list" where
  "SetupWithManager =
     [For KProject, Owns KSecret, Owns KConfigMap,
      Watch KConfigMap mapPowerSyncConfigMapToProjects,
      Watch KSecret mapProjectCredentialsSecretToProjects,
      Owns KService, Owns KDeployment, Owns KJob, Owns KCronJob, Owns KPublication,
      Watch KCluster mapDurableResourceToProject,
      Watch KScheduledBackup mapDurableResourceToProject,
      Watch KObjectStore mapDurableResourceToProject]"

text \<open>
  What a watch enqueues for an event on an object. The function that reads the controller out
  of the owner references belongs to controller-runtime and is an argument; the flag says
  whether the generation of the object changed.
\<close>

primrec enqueued :: "env \<Rightarrow> (object_meta \<Rightarrow> key list) \<Rightarrow> bool \<Rightarrow> obj \<Rightarrow> event list \<Rightarrow> watch \<Rightarrow> key list" where
  "enqueued E ownerRequests generationChanged object h (For k) =
     (if kindOf object = k \<and> generationChanged then [objectKey (metaOf object)] else [])"
| "enqueued E ownerRequests generationChanged object h (Owns k) =
     (if kindOf object = k then ownerRequests (metaOf object) else [])"
| "enqueued E ownerRequests generationChanged object h (Watch k f) =
     (if kindOf object = k then fst (f E object h) else [])"

definition requests :: "env \<Rightarrow> (object_meta \<Rightarrow> key list) \<Rightarrow> bool \<Rightarrow> obj \<Rightarrow> event list \<Rightarrow> key list" where
  "requests E ownerRequests generationChanged object h =
     concat (map (enqueued E ownerRequests generationChanged object h) SetupWithManager)"

text \<open>
  The documented behaviour of \<open>handler.EnqueueRequestForOwner\<close>: an object that the project
  controls enqueues the project, in the namespace of the object.
\<close>

definition enqueues_controller :: "env \<Rightarrow> (object_meta \<Rightarrow> key list) \<Rightarrow> bool" where
  "enqueues_controller E ownerRequests \<longleftrightarrow>
     (\<forall>m q. isControlledBy E m q \<longrightarrow> (md_namespace m, p_name q) \<in> set (ownerRequests m))"

section \<open>The mapping functions\<close>

lemma set_requestsWhere: "set (requestsWhere P items) = (\<lambda>p. objectKey (p_meta p)) ` {p \<in> set items. P p}"
  by (induction items) (auto simp: objectKey_def)

lemma belongs_durable:
  "belongs p object \<noteq> None \<longleftrightarrow> durableKind (kindOf object)"
  by (cases object) (simp_all add: durableKind_def)

lemma belongs_name:
  assumes "durableKind (kindOf object)" "durableName (p_meta p) (kindOf object) (md_name (metaOf object))"
  shows "belongs p object = Some True"
  using assms
  by (cases object) (auto simp: durableKind_def durableName_def ClusterName_def ScheduledBackupName_def
      ObjectStoreName_def RecoveryObjectStoreName_def)

lemma mapDurable_found:
  assumes "goget (md_labels (metaOf object)) LabelInstance = p_name p" "p_name p \<noteq> ''''"
    and "respond E h (Get KProject (md_namespace (metaOf object), p_name p)) = RObj (OProject p)"
    and "belongs p object = Some True"
  shows "fst (mapDurableResourceToProject E object h) = [(md_namespace (metaOf object), p_name p)]"
  using assms by (simp add: mapDurableResourceToProject_def Let_def expect_def asProject_def)

lemma mem_requests:
  "k \<in> set (requests E f g object h) \<longleftrightarrow> (\<exists>w \<in> set SetupWithManager. k \<in> set (enqueued E f g object h w))"
  by (simp add: requests_def)

lemma durable_watched:
  assumes "durableKind (kindOf object)" "k \<in> set (fst (mapDurableResourceToProject E object h))"
  shows "k \<in> set (requests E f g object h)"
  using assms by (auto simp: mem_requests SetupWithManager_def durableKind_def)

lemma owned_watched:
  assumes "\<not> durableKind (kindOf object)" "kindOf object \<noteq> KProject" "k \<in> set (f (metaOf object))"
  shows "k \<in> set (requests E f g object h)"
  using assms by (cases object) (simp_all add: requests_def SetupWithManager_def durableKind_def)

lemma controlled_enqueued:
  assumes "lawful_ownership E" "enqueues_controller E f" "controlled E M m" "md_namespace m = md_namespace M"
  shows "objectKey M \<in> set (f m)"
proof -
  from assms(3) obtain q m0 where "p_meta q = M" "md_namespace m0 = md_namespace m"
    "setControllerReference E q m0 = Inr (md_owners m)" by (auto simp: controlled_def)
  with assms(1) have "isControlledBy E m q" unfolding lawful_ownership_def by metis
  with assms(2,4) \<open>p_meta q = M\<close> show ?thesis unfolding enqueues_controller_def objectKey_def by metis
qed

lemma createOk_watched:
  assumes "lawful_ownership E" "enqueues_controller E f" "createOk E (p_meta p0) object" "p_name p0 \<noteq> ''''"
    and "respond E h (Get KProject (objectKey (p_meta p0))) = RObj (OProject p)" "p_name p = p_name p0"
  shows "objectKey (p_meta p0) \<in> set (requests E f g object h)"
proof (cases "durableKind (kindOf object)")
  case True
  with assms(3) have ob: "goget (md_labels (metaOf object)) LabelInstance = p_name p0"
      "md_namespace (metaOf object) = p_namespace p0"
      "durableName (p_meta p0) (kindOf object) (md_name (metaOf object))"
    by (auto simp: createOk_def labelled_def durableKind_def)
  have "belongs p object = Some True"
    using belongs_name [OF True, of p] ob(3) assms(6) by (simp add: durableName_def)
  with mapDurable_found [of object p E h] ob assms(4-6)
  have "fst (mapDurableResourceToProject E object h) = [objectKey (p_meta p0)]" by (simp add: objectKey_def)
  then show ?thesis by (intro durable_watched [OF True]) simp
next
  case False
  with assms(3) have "controlled E (p_meta p0) (metaOf object)" "md_namespace (metaOf object) = p_namespace p0"
    "kindOf object \<noteq> KProject" by (auto simp: createOk_def)
  with controlled_enqueued [OF assms(1,2)] False show ?thesis by (intro owned_watched) auto
qed

section \<open>Properties\<close>

text \<open>
  C34. The controller hears about everything it makes. A later change of any object that a
  reconciliation creates enqueues the project again, whether the object is owned by the
  project or detached from it because it holds durable data, as long as the project exists.
\<close>

theorem created_objects_are_watched:
  assumes "lawful_defaulting E" "lawful_ownership E" "enqueues_controller E ownerRequests"
    and "respond E [] (Get KProject name) = RObj (OProject p0)" "p_name p0 \<noteq> ''''"
    and "Reconcile E name [] = (result, h', q)"
    and "sent [] h' before (Create ob)"
    and "respond E h (Get KProject (objectKey (p_meta p0))) = RObj (OProject p)" "p_name p = p_name p0"
  shows "objectKey (p_meta p0) \<in> set (requests E ownerRequests generationChanged ob h)"
  using createOk_watched [OF assms(2,3) _ assms(5,8,9)] sent_permitted [OF assms(1,4,6,7)] by simp


end
