(* ===== verification/Witnesses.thy ===== *)
theory Witnesses
  imports Reference_Env Watches
begin

text \<open>
  The properties applied to the reference environment: their hypotheses hold there together.
\<close>

section \<open>Answers\<close>

definition notFound :: resp where
  "notFound = RErr (StatusError NotFound ''not found'')"

text \<open>An API server with nothing in it that accepts every write, and an entropy source of zeros.\<close>

definition emptyServer :: "event list \<Rightarrow> call \<Rightarrow> resp" where
  "emptyServer h c = (case c of Get _ _ \<Rightarrow> notFound | RandRead n \<Rightarrow> RBytes (replicate n (CHR 0x00)) | _ \<Rightarrow> ROk)"

definition refState :: rstate where
  "refState = \<lparr>rs_project = refProject, rs_events = []\<rparr>"

lemma refState_sel [simp]: "rs_project refState = refProject" "rs_events refState = []"
  by (simp_all add: refState_def)

section \<open>Crypto and Secrets\<close>

theorem public_projection_witness:
  "\<exists>public. PublicJWK (refEnv emptyServer) refKey = Inr public \<and> k_d public = '''' \<and> k_kid public = ''ref'' \<and>
     VerifyES256JWTWithPublicKey (refEnv emptyServer) 50 (refToken ''anon'') public ''anon'' RequiredRoleAudience = Inr ()"
proof -
  obtain public where pub: "PublicJWK (refEnv emptyServer) refKey = Inr public" using refPublic by blast
  from public_projection_verifies_same_tokens [OF pub] pub show ?thesis
    by (auto simp: refToken_verifies) (simp add: refKey_def)
qed

theorem VerifyES256JWT_witness:
  "VerifyES256JWT (refEnv emptyServer) 50 (refToken ''anon'') refKey ''anon'' RequiredRoleAudience = Inr () \<and>
   (\<exists>h c s. \<exists>claims :: jwt_claims. refToken ''anon'' = h @ ''.'' @ c @ ''.'' @ s \<and> jcl_role claims = ''anon'' \<and> (50 :: int) < jcl_exp claims)"
proof -
  obtain h c s and claims :: jwt_claims where "refToken ''anon'' = h @ ''.'' @ c @ ''.'' @ s" "jcl_role claims = ''anon''" "50 < jcl_exp claims"
    using VerifyES256JWT_sound [OF refToken_verifies [of emptyServer "''anon''"]]
    by (elim exE conjE) (rule that, assumption+)
  then show ?thesis using refToken_verifies by blast
qed

theorem validateOpaqueKey_witness:
  "validateOpaqueKey (refEnv emptyServer) (refOpaque ''sb_secret_'') ''sb_secret_'' = Inr () \<and>
   (\<exists>random. length random = 22 \<and> list_all isBase64URLCharacter random \<and>
      refOpaque ''sb_secret_'' = ''sb_secret_'' @ random @ ''_'' @
        take 8 (EncodeToString RawURLEncoding (sha256 (refEnv emptyServer) (''supabase-self-hosted|'' @ ''sb_secret_'' @ random))))"
  using validateOpaqueKey_iff [of "refEnv emptyServer" "refOpaque ''sb_secret_''" "''sb_secret_''"]
    refOpaque_valid [of emptyServer "''sb_secret_''"] by simp

theorem credentialPreimage_witness:
  "goget refValues ''secretKey'' = goget (fmupd ''extra'' ''value'' refValues) ''secretKey''"
  by (rule credentialPreimage_determines_values)
    (simp_all add: credentialPreimage_def RequiredProjectCredentialKeys_def credential_key_defs goget_def)

theorem ValidateProjectCredentials_witness:
  "ValidateProjectCredentials (refEnv emptyServer) 50 50 (Some refSecret) = Inr refCredentials \<and>
   fmdom (sec_data refSecret) |\<union>| fmdom (sec_stringData refSecret) = fset_of_list RequiredProjectCredentialKeys \<and>
   pcr_PublishableKey refCredentials \<noteq> pcr_SecretKey refCredentials \<and>
   PublicJWKS (refEnv emptyServer) (pcr_SigningKeys refCredentials) = Inr (pcr_PublicJWKS refCredentials)"
  using ValidateProjectCredentials_sound [OF refSecret_valid [of emptyServer] refEnv_range] refSecret_valid by blast


section \<open>Merging\<close>

definition otherOwner :: owner_ref where
  "otherOwner = \<lparr>or_apiVersion = ''apps/v1'', or_kind = ''Deployment'', or_name = ''demo'', or_uid = ''uid-2'',
     or_controller = None, or_blockOwnerDeletion = None\<rparr>"

definition ownedMeta :: object_meta where
  "ownedMeta = refMeta\<lparr>md_owners := [otherOwner, refOwner refProject]\<rparr>"


definition smallStorage :: storage_configuration where
  "smallStorage = \<lparr>sc_size = ''10Gi'', sc_storageClass = Some ''fast'', sc_resizeInUseVolumes = None, sc_pvcTemplate = None\<rparr>"

definition largeStorage :: storage_configuration where
  "largeStorage = \<lparr>sc_size = ''20Gi'', sc_storageClass = None, sc_resizeInUseVolumes = None, sc_pvcTemplate = None\<rparr>"


definition refCluster :: cluster where
  "refCluster = BuildCluster refProject noSecretNames"

lemma refCluster_storage: "reconcileStorage (refEnv a) (cs_storage (cl_spec refCluster)) (cs_storage (cl_spec refCluster)) =
    Inr (cs_storage (cl_spec refCluster), False)"
  by (simp add: refCluster_def BuildCluster_def refProject_def refSpec_def reconcileStorage_def reconcileStorageSize_def
      refQuantity_def Let_def)


definition recoveringProject :: project where
  "recoveringProject = refProject\<lparr>p_spec := refSpec\<lparr>sp_database := (sp_database refSpec)\<lparr>
     db_recovery := Some \<lparr>rv_enabled = True, rv_serverName = ''old'', rv_targetTime = '''',
       rv_s3 = \<lparr>s3_destinationPath = '''', s3_endpointURL = '''', s3_s3CredentialsSecret = ''s3''\<rparr>\<rparr>\<rparr>\<rparr>\<rparr>"



section \<open>Applying objects\<close>

definition refDeployment :: deployment where
  "refDeployment = BuildMetaDeployment refProject noSecretNames"

lemma refDeployment_key: "objectKey (dep_meta refDeployment) = (''apps'', ''demo-meta'')"
  using built_deployments_key(4) [of refProject refMeta noSecretNames]
  by (simp add: refDeployment_def coreKey_def refProject_def) (simp add: refMeta_def)

text \<open>The deployment as it is stored after the first write, with the project as its controller.\<close>

definition storedDeployment :: deployment where
  "storedDeployment = refDeployment\<lparr>
     dep_meta := (dep_meta refDeployment)\<lparr>md_owners := [refOwner refProject]\<rparr>,
     dep_template := normalizePodTemplateDefaults (dep_template refDeployment)\<rparr>"

definition deploymentServer :: "event list \<Rightarrow> call \<Rightarrow> resp" where
  "deploymentServer h c = (if c = Get KDeployment (''apps'', ''demo-meta'') then RObj (ODeployment storedDeployment) else emptyServer h c)"

theorem createOrUpdateDeployment_witness:
  "run_state (createOrUpdateDeployment (refEnv deploymentServer) (Some refDeployment)) refState =
     (Inr (), refState\<lparr>rs_events := [(Get KDeployment (''apps'', ''demo-meta''), RObj (ODeployment storedDeployment))]\<rparr>)"
proof -
  have owners: "md_owners (dep_meta refDeployment) = []"
    by (simp add: refDeployment_def BuildMetaDeployment_def Let_def)
  have strategy: "ds_type (dep_strategy refDeployment) = ''''"
    by (simp add: refDeployment_def BuildMetaDeployment_def componentDeployment_def Let_def)
  have adopt: "\<exists>m c. adopt (refEnv deploymentServer) (rs_project refState) (dep_meta refDeployment) = Inr (m, c)"
    by (simp add: adopt_def)
  have merge: "mergeDeployment (refEnv deploymentServer) (rs_project refState) refDeployment refDeployment = Inr (storedDeployment, True)"
    by (simp add: mergeDeployment_def adopt_def owners strategy storedDeployment_def Let_def)
  from adopt obtain m c where "adopt (refEnv deploymentServer) (rs_project refState) (dep_meta refDeployment) = Inr (m, c)" by blast
  from createOrUpdateDeployment_converges [OF refEnv_ownership refEnv_range this merge]
  show ?thesis by (simp add: refDeployment_key deploymentServer_def)
qed

definition refStore :: object_store where
  "refStore = \<lparr>os_meta = (namedMeta ''demo-backup'' ''apps'' (ComponentLabels refProject ''backup'')),
     os_spec = \<lparr>oss_configuration = \<lparr>osc_destinationPath = ''s3://bucket'', osc_endpointURL = '''', osc_barmanCredentials = None,
        osc_wal = None, osc_data = None, osc_foreign = ''''\<rparr>, oss_retentionPolicy = ''30d'', oss_foreign = ''''\<rparr>\<rparr>"

definition ownedStore :: object_store where
  "ownedStore = refStore\<lparr>os_meta := (os_meta refStore)\<lparr>md_owners := [otherOwner, refOwner refProject]\<rparr>\<rparr>"

theorem createOrUpdateObjectStore_witness:
  "\<exists>stored changed. mergeObjectStore (refEnv emptyServer) refStore ownedStore = Inr (stored, changed) \<and>
     unowned (refEnv emptyServer) ''demo'' (os_meta stored)"
proof -
  have lab: "goget (md_labels (os_meta refStore)) LabelInstance = ''demo''" "md_labels (os_meta ownedStore) = md_labels (os_meta refStore)"
    by (simp_all add: refStore_def ownedStore_def refProject_def refMeta_def)
  then obtain stored changed where run: "mergeObjectStore (refEnv emptyServer) refStore ownedStore = Inr (stored, changed)"
    by (fastforce simp: mergeObjectStore_def Let_def split: prod.splits)
  with createOrUpdateObjectStore_durable [OF refEnv_ownership refEnv_range run] lab show ?thesis by auto
qed

definition refJob :: job where
  "refJob = BuildCDCPermissionsJob refProject noSecretNames"

text \<open>The Job as the server stores it once it has completed for the script hash \<open>h1\<close>.\<close>

definition completedJob :: job where
  "completedJob = refJob\<lparr>job_meta := (job_meta refJob)\<lparr>md_annotations := fmap_of_list [(cdcScriptHashAnnotation, ''h1'')]\<rparr>,
     job_conditions := [\<lparr>jc_type = JobComplete, jc_status = ConditionTrue, jc_message = ''''\<rparr>]\<rparr>"

definition jobServer :: "event list \<Rightarrow> call \<Rightarrow> resp" where
  "jobServer h c = (case c of Get KJob _ \<Rightarrow> RObj (OJob completedJob) | _ \<Rightarrow> emptyServer h c)"

theorem createOrCheckJob_witness:
  "\<exists>s' existing c. run_state (createOrCheckJob (refEnv jobServer) refJob ''h1'') refState = (Inr True, s') \<and>
     respond (refEnv jobServer) [] (Get KJob (objectKey (job_meta refJob))) = RObj (OJob existing) \<and>
     goget (md_annotations (job_meta existing)) cdcScriptHashAnnotation = ''h1'' \<and>
     List.find terminal (job_conditions existing) = Some c \<and> jc_type c = JobComplete"
proof -
  have lab: "goget (md_labels (job_meta completedJob)) LabelInstance = p_name refProject"
    by (simp add: completedJob_def refJob_def BuildCDCPermissionsJob_def Let_def)
  have ann: "goget (md_annotations (job_meta completedJob)) cdcScriptHashAnnotation = ''h1''"
    by (simp add: completedJob_def goget_def fmlookup_of_list)
  have owners: "md_owners (job_meta completedJob) = []"
    by (simp add: completedJob_def refJob_def BuildCDCPermissionsJob_def Let_def)
  have kept: "md_annotations (fst (mergeLabels E m d)) = md_annotations m" for E m d
    by (auto simp: mergeLabels_def split: prod.splits)
  have outcome: "jobOutcome n (job_conditions completedJob) = Inr True" for n by (simp add: completedJob_def)
  have answers: "jobServer h (Get KJob k) = RObj (OJob completedJob)" "jobServer h (Update ob) = ROk" for h k ob
    by (simp_all add: jobServer_def emptyServer_def)
  obtain s' where run: "run_state (createOrCheckJob (refEnv jobServer) refJob ''h1'') refState = (Inr True, s')"
    by (simp add: createOrCheckJob_def adopt_def expect_def asJob_def Let_def lab ann owners kept answers case_prod_unfold
        run_andthen wrapErr_def acknowledged_def outcome)
  from createOrCheckJob_completed [OF this] this show ?thesis by auto
qed

section \<open>Workloads\<close>

definition smtpVariable :: gotrue_env_var where
  "smtpVariable = \<lparr>ge_name = ''GOTRUE_SMTP_HOST'', ge_value = Some ''mail.example'', ge_valueFrom = None\<rparr>"

definition smtpProject :: project where
  "smtpProject = refProject\<lparr>p_spec := refSpec\<lparr>sp_auth := (sp_auth refSpec)\<lparr>au_goTrueEnv := [smtpVariable]\<rparr>\<rparr>\<rparr>"



definition syncProject :: project where
  "syncProject = refProject\<lparr>p_spec := refSpec\<lparr>sp_powersync := Some \<lparr>pw_publicationSchemas = None,
     pw_image = \<lparr>im_registry = '''', im_repository = '''', im_tag = '''', im_pullPolicy = ''''\<rparr>,
     pw_api = \<lparr>pa_replicas = 1, pa_resources = emptyResources, pa_nodeOptions = ''''\<rparr>,
     pw_replication = \<lparr>prs_resources = emptyResources, prs_nodeOptions = ''''\<rparr>,
     pw_syncRules = \<lparr>sy_inline = ''rules'', sy_configMapRef = ''''\<rparr>,
     pw_compact = \<lparr>pcs_enabled = False, pcs_schedule = '''', pcs_resources = emptyResources\<rparr>\<rparr>\<rparr>\<rparr>"


section \<open>A reconciliation that is denied\<close>

text \<open>
  A server that holds the project, its credentials and a cluster that an older operator left
  with an owner reference to the project, and that refuses to create anything.
\<close>

definition ownedCluster :: cluster where
  "ownedCluster = refCluster\<lparr>cl_meta := (cl_meta refCluster)\<lparr>md_owners := [refOwner refProject]\<rparr>\<rparr>"

definition denied :: go_error where
  "denied = StatusError (OtherReason ''Forbidden'') ''denied''"

definition denyingServer :: "event list \<Rightarrow> call \<Rightarrow> resp" where
  "denyingServer h c = (case c of
     Get KProject _ \<Rightarrow> RObj (OProject refProject)
   | Get KCluster _ \<Rightarrow> RObj (OCluster ownedCluster)
   | Get KSecret k \<Rightarrow> if snd k = ''credentials'' then RObj (OSecret refSecret) else notFound
   | Get _ _ \<Rightarrow> notFound
   | RandRead n \<Rightarrow> RBytes (replicate n (CHR 0x00))
   | Create _ \<Rightarrow> RErr denied
   | _ \<Rightarrow> ROk)"

lemma denyingServer_simps [simp]:
  "denyingServer h (Get KProject k) = RObj (OProject refProject)"
  "denyingServer h (Get KCluster k) = RObj (OCluster ownedCluster)"
  "denyingServer h (Get KSecret k) = (if snd k = ''credentials'' then RObj (OSecret refSecret) else notFound)"
  "denyingServer h (Get KObjectStore k) = notFound" "denyingServer h (Get KScheduledBackup k) = notFound"
  "denyingServer h (RandRead n) = RBytes (replicate n (CHR 0x00))" "denyingServer h (Create ob) = RErr denied"
  "denyingServer h (Update ob) = ROk" "denyingServer h (StatusUpdate q) = ROk"
  by (simp_all add: denyingServer_def)

lemma refProject_sel [simp]: "p_meta refProject = refMeta" "p_spec refProject = refSpec" "p_status refProject = emptyStatus"
  by (simp_all add: refProject_def)

lemma refMeta_sel [simp]: "md_name refMeta = ''demo''" "md_namespace refMeta = ''apps''" "md_generation refMeta = 1"
  by (simp_all add: refMeta_def)

lemma refSpec_sel [simp]: "sp_projectCredentialsSecret refSpec = ''credentials''" "sp_powersync refSpec = None"
  by (simp_all add: refSpec_def)

lemma objectKey_owners [simp]: "objectKey (m\<lparr>md_owners := os\<rparr>) = objectKey m"
  by (simp add: objectKey_def)

lemma ownedCluster_label: "goget (md_labels (cl_meta ownedCluster)) LabelInstance = ''demo''"
  by (simp add: ownedCluster_def refCluster_def)

lemma owner_removed:
  "removeSupabaseProjectOwnerReference (refEnv a) (cl_meta ownedCluster) ''demo'' = (cl_meta refCluster, True)"
  by (simp add: removeOwner_eq ownedCluster_def refCluster_def isProjectOwner_def refOwner_def refGroupVersion_def
      GroupVersionGroup_def supabaseProjectKind_def)

text \<open>The first Secret the operator generates.\<close>

definition fallbackSecret :: secret where
  "fallbackSecret = \<lparr>sec_meta = (namedMeta ''demo-gotrue-jwt-secret'' ''apps'' (ComponentLabels refProject ''gotrue-secret''))
      \<lparr>md_owners := [refOwner refProject]\<rparr>, sec_type = SecretTypeOpaque, sec_data = fmempty,
     sec_stringData = fmap_of_list [(GoTrueFallbackSecretKey, hexEncode (replicate 32 (CHR 0x00)))]\<rparr>"

definition beforeRepair :: "event list" where
  "beforeRepair =
    [(Get KCluster (''apps'', ''demo-pg''), RObj (OCluster ownedCluster)),
     (Get KProject (''apps'', ''demo''), RObj (OProject refProject))]"

definition repaired :: cluster where
  "repaired = ownedCluster\<lparr>cl_meta := (cl_meta ownedCluster)\<lparr>md_owners := []\<rparr>\<rparr>"

definition credentialEvents :: "event list" where
  "credentialEvents =
    [(Get KSecret (''apps'', ''demo-gotrue-jwt-secret''), notFound), (RandRead 32, RBytes (replicate 32 (CHR 0x00))),
     (RandRead 32, RBytes (replicate 32 (CHR 0x00))), (RandRead 32, RBytes (replicate 32 (CHR 0x00))),
     (RandRead 32, RBytes (replicate 32 (CHR 0x00))), (Get KSecret (''apps'', ''credentials''), RObj (OSecret refSecret)),
     (Get KScheduledBackup (''apps'', ''demo-backup''), notFound),
     (Get KObjectStore (''apps'', ''demo-recovery''), notFound), (Get KObjectStore (''apps'', ''demo-backup''), notFound)]"

lemma implementation_denied:
  assumes "p_meta (rs_project s) = refMeta" "p_spec (rs_project s) = refSpec"
  shows "run_state (reconcileImplementationSecrets (refEnv denyingServer)) s =
    (Inl denied, s\<lparr>rs_events := (Create (OSecret fallbackSecret), RErr denied) # take 5 credentialEvents @ rs_events s\<rparr>)"
proof -
  have same: "refOwner (rs_project s) = refOwner refProject" "ComponentLabels (rs_project s) c = ComponentLabels refProject c" for c
    using assms by (simp_all add: refOwner_def ComponentLabels_def CommonLabels_def)
  have "IsNotFound denied = False" by (simp add: denied_def)
  with assms show ?thesis
    by (simp add: reconcileImplementationSecrets_def GenerateSecrets_def GenerateGoTrueFallbackSecret_def generateRoleSecret_def
        GeneratePassword_def GenerateHex_def readRandom_def createOrUpdateSecret_def adopt_def upsert_def plainError_def
        GoTrueFallbackSecretName_def GoTrueFallbackSecretNameSuffix_def credentialEvents_def fallbackSecret_def same
        run_andthen Let_def expect_def namespaced_def wrapErr_def acknowledged_def notFound_def)
qed

lemma failReconcileSecrets_denied:
  "\<exists>s' new. run_state (failReconcileSecrets (refEnv denyingServer) r m e) s = (Inl e, s') \<and> rs_events s' = new @ rs_events s"
  by (simp add: failReconcileSecrets_def run_andthen updateProjectStatus_def setCondition_def expect_def asProject_def
      acknowledged_def Let_def)

lemma Reconcile_denied:
  "\<exists>later p. Reconcile (refEnv denyingServer) (''apps'', ''demo'') [] =
     (Inl denied, later @ (Create (OSecret fallbackSecret), RErr denied) # credentialEvents @ (Update (OCluster repaired), ROk) # beforeRepair, Some p)"
proof -
  have phase: "st_phase emptyStatus = ''''" by (simp add: emptyStatus_def)
  let ?s = "\<lparr>rs_project = refProject\<lparr>p_status := emptyStatus\<lparr>st_phase := PhaseProvisioning\<rparr>\<rparr>,
    rs_events = (Create (OSecret fallbackSecret), RErr denied) # credentialEvents @ (Update (OCluster repaired), ROk) # beforeRepair\<rparr>"
  obtain s' new where fail: "run_state (failReconcileSecrets (refEnv denyingServer) ''ImplementationSecretFailed'' (Error denied)
        denied :: project_credentials result handler) ?s = (Inl denied, s')" "rs_events s' = new @ rs_events ?s"
    using failReconcileSecrets_denied by metis
  have "md_owners (cl_meta refCluster) = []" by (simp add: refCluster_def)
  with fail show ?thesis
    by (simp add: Reconcile_def reconcileProject_def reconcileDurableMetadataProtection_def durables_def protectDurable_def
        run_andthen Let_def expect_def asKind_def namespaced_def ownedCluster_label owner_removed wrapErr_def acknowledged_def
        notFound_def ClusterName_def asProject_def phase ObjectStoreName_def RecoveryObjectStoreName_def ScheduledBackupName_def
        beforeRepair_def credentialEvents_def reconcileSecrets_def asSecret_def refSecret_valid implementation_denied repaired_def)
qed

lemma Reconcile_denied_sent:
  assumes "Reconcile (refEnv denyingServer) (''apps'', ''demo'') [] = (r, h', p)"
  shows "sent [] h' beforeRepair (Update (OCluster repaired))"
    "sent [] h' (credentialEvents @ (Update (OCluster repaired), ROk) # beforeRepair) (Create (OSecret fallbackSecret))"
proof -
  obtain later where "h' = later @ (Create (OSecret fallbackSecret), RErr denied) # credentialEvents @ (Update (OCluster repaired), ROk) # beforeRepair"
    using Reconcile_denied assms by auto
  then show "sent [] h' beforeRepair (Update (OCluster repaired))"
    "sent [] h' (credentialEvents @ (Update (OCluster repaired), ROk) # beforeRepair) (Create (OSecret fallbackSecret))"
    by (auto simp: sent_def intro: exI [of _ "later @ (Create (OSecret fallbackSecret), RErr denied) # credentialEvents"])
qed

lemma denyingServer_project: "respond (refEnv denyingServer) h (Get KProject name) = RObj (OProject refProject)"
  by simp

theorem Reconcile_follows_policy_witness:
  "\<exists>h' p. Reconcile (refEnv denyingServer) (''apps'', ''demo'') [] = (Inl denied, h', p) \<and>
     sent [] h' beforeRepair (Update (OCluster repaired)) \<and>
     gated (refEnv denyingServer) refMeta refSpec beforeRepair (Update (OCluster repaired))"
proof -
  obtain h' p where run: "Reconcile (refEnv denyingServer) (''apps'', ''demo'') [] = (Inl denied, h', p)"
    using Reconcile_denied by blast
  from Reconcile_follows_policy [OF refEnv_defaulting denyingServer_project run] Reconcile_denied_sent [OF run] run
  show ?thesis by auto
qed

theorem Reconcile_secret_contents_witness:
  "\<exists>h' p. Reconcile (refEnv denyingServer) (''apps'', ''demo'') [] = (Inl denied, h', p) \<and>
     \<not> sent [] h' beforeRepair (Delete (OSecret refSecret) False)"
proof -
  obtain h' p where run: "Reconcile (refEnv denyingServer) (''apps'', ''demo'') [] = (Inl denied, h', p)"
    using Reconcile_denied by blast
  from Reconcile_never_changes_secret_contents [OF refEnv_defaulting denyingServer_project run] run show ?thesis by fastforce
qed

theorem Reconcile_durable_objects_witness:
  "\<exists>h' p. Reconcile (refEnv denyingServer) (''apps'', ''demo'') [] = (Inl denied, h', p) \<and>
     sent [] h' beforeRepair (Update (OCluster repaired)) \<and> unowned (refEnv denyingServer) ''demo'' (cl_meta repaired)"
proof -
  obtain h' p where run: "Reconcile (refEnv denyingServer) (''apps'', ''demo'') [] = (Inl denied, h', p)"
    using Reconcile_denied by blast
  have name: "p_name refProject \<noteq> ''''" by simp
  have "durableKind (kindOf (OCluster repaired))" by (simp add: durableKind_def)
  with Reconcile_durable_objects_outlive_project [OF refEnv_defaulting name denyingServer_project run] Reconcile_denied_sent [OF run] run
  show ?thesis by fastforce
qed

theorem Reconcile_cluster_updates_witness:
  "\<exists>h' p old key. Reconcile (refEnv denyingServer) (''apps'', ''demo'') [] = (Inl denied, h', p) \<and>
     sent [] h' beforeRepair (Update (OCluster repaired)) \<and>
     (Get KCluster key, RObj (OCluster old)) \<in> set beforeRepair \<and> cs_bootstrap (cl_spec repaired) = cs_bootstrap (cl_spec old)"
proof -
  obtain h' p where run: "Reconcile (refEnv denyingServer) (''apps'', ''demo'') [] = (Inl denied, h', p)"
    using Reconcile_denied by blast
  note sent = Reconcile_denied_sent(1) [OF run]
  from Reconcile_cluster_updates_are_safe [OF refEnv_defaulting denyingServer_project run sent] sent run show ?thesis by blast
qed


theorem Reconcile_foreign_objects_witness:
  "\<exists>h' p. Reconcile (refEnv denyingServer) (''apps'', ''demo'') [] = (Inl denied, h', p) \<and>
     sent [] h' (credentialEvents @ (Update (OCluster repaired), ROk) # beforeRepair) (Create (OSecret fallbackSecret)) \<and>
     md_namespace (sec_meta fallbackSecret) = ''apps''"
proof -
  obtain h' p where run: "Reconcile (refEnv denyingServer) (''apps'', ''demo'') [] = (Inl denied, h', p)"
    using Reconcile_denied by blast
  from Reconcile_leaves_foreign_objects_alone [OF refEnv_defaulting denyingServer_project run] Reconcile_denied_sent(2) [OF run] run
  show ?thesis by fastforce
qed

section \<open>Reports\<close>

text \<open>The same project with an empty credential Secret.\<close>

definition blankSecret :: secret where
  "blankSecret = refSecret\<lparr>sec_data := fmempty\<rparr>"

definition blankServer :: "event list \<Rightarrow> call \<Rightarrow> resp" where
  "blankServer h c = (if c = Get KSecret (''apps'', ''credentials'') then RObj (OSecret blankSecret) else denyingServer h c)"

theorem reconcileSecrets_rejects_witness:
  "\<exists>r s'. run_state (reconcileSecrets (refEnv blankServer)) refState = (r, s') \<and> isl r \<and>
     conditionIs (refEnv blankServer) (rs_project s') ConditionTypeReady ConditionFalse"
proof -
  have "sorted_list_of_fset ({||} :: string fset) = []" by (simp add: sorted_list_of_fset.rep_eq)
  then have "isl (ValidateProjectCredentials (refEnv blankServer) 50 50 (Some blankSecret))"
    by (simp add: ValidateProjectCredentials_def blankSecret_def RequiredProjectCredentialKeys_def secretValue_def)
  then obtain err where invalid: "ValidateProjectCredentials (refEnv blankServer) 50 50 (Some blankSecret) = Inl err"
    by (cases "ValidateProjectCredentials (refEnv blankServer) 50 50 (Some blankSecret)") auto
  obtain r s' where run: "run_state (reconcileSecrets (refEnv blankServer)) refState = (r, s')" by fastforce
  have "isl r \<and> conditionIs (refEnv blankServer) (rs_project s') ConditionTypeReady ConditionFalse"
    using reconcileSecrets_rejects_invalid_credentials [where E = "refEnv blankServer" and s = refState and ref = "''credentials''"
        and key = "(''apps'', ''credentials'')" and sec = blankSecret and now = 50 and err = err and r = r and s' = s']
      refEnv_conditions invalid run
    by (simp add: blankServer_def)
  with run show ?thesis by blast
qed

text \<open>A server on which the token Secret disappears after the first read.\<close>

definition tokenSecret :: secret where
  "tokenSecret = \<lparr>sec_meta = namedMeta ''demo-powersync-api-token'' ''apps'' fmempty, sec_type = SecretTypeOpaque,
     sec_data = fmap_of_list [(''token'', ''secret-token'')], sec_stringData = fmempty\<rparr>"

definition racingServer :: "event list \<Rightarrow> call \<Rightarrow> resp" where
  "racingServer h c = (case c of Get KSecret _ \<Rightarrow> if h = [] then RObj (OSecret tokenSecret) else notFound | _ \<Rightarrow> ROk)"

theorem adopting_deleted_token_witness:
  "\<exists>r s' created answer. run_state (reconcilePowersyncAPITokenSecret (refEnv racingServer)) refState = (r, s') \<and>
     (Create (OSecret created), answer) \<in> set (rs_events s') \<and>
     objectKey (sec_meta created) = (''apps'', ''demo-powersync-api-token'') \<and> sec_data created = fmempty"
proof -
  have name: "PowersyncAPITokenSecretName refProject = ''demo-powersync-api-token''"
    by (simp add: PowersyncAPITokenSecretName_def PowersyncAPITokenSecretNameSuffix_def)
  have valid: "ValidatePowersyncAPITokenSecret (Some tokenSecret) = Inr ()"
    by (simp add: ValidatePowersyncAPITokenSecret_def secretValue_def tokenSecret_def PowersyncAPITokenSecretKey_def
        fmlookup_of_list TrimSpace_def is_space_def)
  obtain r s' where run: "run_state (reconcilePowersyncAPITokenSecret (refEnv racingServer)) refState = (r, s')" by fastforce
  obtain owners where "setControllerReference (refEnv racingServer) refProject (namedMeta ''demo-powersync-api-token'' ''apps'' fmempty) = Inr owners"
    by simp
  then show ?thesis
    using adopting_deleted_token_creates_empty_secret [where E = "refEnv racingServer" and s = refState and p = refProject
        and key = "(''apps'', ''demo-powersync-api-token'')" and sec = tokenSecret and owners = owners
        and gone = "StatusError NotFound ''not found''" and r = r and s' = s'] valid run
    by (auto simp: racingServer_def notFound_def name)
qed

text \<open>A server whose cluster is ready.\<close>

definition readyCluster :: cluster where
  "readyCluster = refCluster\<lparr>cl_status := emptyClusterStatus\<lparr>cst_readyInstances := 1\<rparr>\<rparr>"

definition readyServer :: "event list \<Rightarrow> call \<Rightarrow> resp" where
  "readyServer h c = (case c of Get KCluster _ \<Rightarrow> RObj (OCluster readyCluster) | _ \<Rightarrow> denyingServer h c)"

theorem waitForDatabase_blanks_witness:
  "\<exists>s'. run_state (waitForDatabase (refEnv readyServer)) refState = (Inr doneResult, s') \<and>
     ep_api (st_endpoints (p_status (rs_project s'))) = ''''"
proof -
  have "cs_instances (cl_spec readyCluster) = 1" "cst_readyInstances (cl_status readyCluster) = 1"
    by (simp_all add: readyCluster_def refCluster_def BuildCluster_def refSpec_def Let_def)
  then obtain s' where "run_state (waitForDatabase (refEnv readyServer)) refState = (Inr doneResult, s')"
    by (simp add: waitForDatabase_def run_andthen updateProjectStatus_def setCondition_def expect_def asCluster_def asProject_def
        acknowledged_def Let_def readyServer_def emptyStatus_def)
  with waitForDatabase_blanks_api_endpoint show ?thesis by blast
qed

section \<open>Watches\<close>

definition refOwnerRequests :: "object_meta \<Rightarrow> key list" where
  "refOwnerRequests m = map (\<lambda>r. (md_namespace m, or_name r)) (md_owners m)"

lemma refOwnerRequests_ok: "enqueues_controller (refEnv a) refOwnerRequests"
  by (auto simp: enqueues_controller_def refOwnerRequests_def refOwner_def image_iff intro!: bexI)

theorem created_objects_are_watched_witness:
  "\<exists>h' p. Reconcile (refEnv denyingServer) (''apps'', ''demo'') [] = (Inl denied, h', p) \<and>
     sent [] h' (credentialEvents @ (Update (OCluster repaired), ROk) # beforeRepair) (Create (OSecret fallbackSecret)) \<and>
     (''apps'', ''demo'') \<in> set (requests (refEnv denyingServer) refOwnerRequests False (OSecret fallbackSecret) [])"
proof -
  obtain h' p where run: "Reconcile (refEnv denyingServer) (''apps'', ''demo'') [] = (Inl denied, h', p)"
    using Reconcile_denied by blast
  have name: "p_name refProject \<noteq> ''''" by simp
  note sent = Reconcile_denied_sent(2) [OF run]
  from created_objects_are_watched [OF refEnv_defaulting refEnv_ownership refOwnerRequests_ok denyingServer_project name run sent
      denyingServer_project refl]
  have "objectKey (p_meta refProject) \<in> set (requests (refEnv denyingServer) refOwnerRequests False (OSecret fallbackSecret) [])" .
  moreover have "objectKey (p_meta refProject) = (''apps'', ''demo'')" by (simp add: objectKey_def)
  ultimately show ?thesis using run sent by metis
qed

end
