(* ===== verification/Wizard.thy ===== *)
theory Wizard
  imports Secrets
begin

unbundle bit_operations_syntax

text \<open>
  The credentials wizard, \<open>src/cmd/project-credentials-wizard\<close>: the generator of a credential
  bundle and the terminal dialogue that hands its five fields to the clipboard.

  As in the operator, what the outside world answers is a function of the history: the
  entropy source (with the key generation and signing of \<open>crypto/ecdsa\<close> that draw from it),
  the standard input, the standard output and the clipboard. The JSON encoder and the calendar
  arithmetic of \<open>time.AddDate\<close> (which depends on the time zone) are further parameters.
\<close>

section \<open>The world of the wizard\<close>

datatype wcall =
    GenerateKey \<comment> \<open>\<open>ecdsa.GenerateKey(elliptic.P256(), random)\<close>\<close>
  | SignDigest private_key string \<comment> \<open>\<open>ecdsa.Sign(random, privateKey, digest)\<close>\<close>
  | ReadFull nat \<comment> \<open>\<open>io.ReadFull(random, ...)\<close>\<close>
  | WriteOut string
  | ReadLine
  | ClipCopy string
  | ClipClear
  | IsTerminal nat \<comment> \<open>\<open>term.IsTerminal\<close> on a file descriptor\<close>
  | OpenTTY \<comment> \<open>\<open>os.OpenFile("/dev/tty", os.O_WRONLY, 0)\<close>\<close>
  | CloseTTY
  | Notify \<comment> \<open>\<open>signal.Notify\<close> and the start of the goroutine that receives the signal\<close>
  | StopNotify \<comment> \<open>\<open>signal.Stop\<close>\<close>
  | WriteErr string \<comment> \<open>\<open>fmt.Fprintf(os.Stderr, ...)\<close>\<close>

datatype wresp =
    WErr go_error
  | WDone
  | WKey private_key
  | WSig int int
  | WBytes string
  | WBool bool

type_synonym wevent = "wcall \<times> wresp"

record wizard =
  w_env :: env
  w_respond :: "wevent list \<Rightarrow> wcall \<Rightarrow> wresp"
  w_clock :: "wevent list \<Rightarrow> int" \<comment> \<open>\<open>time.Now().Unix()\<close>\<close>
  w_marshalKeys :: "jwk list \<Rightarrow> string result"
  w_marshalHeader :: "jwt_header \<Rightarrow> string result"
  w_marshalClaims :: "jwt_claims \<Rightarrow> string result"
  w_addYears :: "int \<Rightarrow> int \<Rightarrow> int" \<comment> \<open>\<open>now.AddDate(years, 0, 0).Unix()\<close>\<close>

type_synonym 'a whandler = "(wevent list, 'a) state"

definition wask :: "wizard \<Rightarrow> wcall \<Rightarrow> wresp whandler" where
  "wask W c = do {
     h \<leftarrow> State_Monad.get;
     let r = w_respond W h c;
     State_Monad.set ((c, r) # h);
     State_Monad.return r }"

text \<open>An answer of another shape than the call can give is an error, too.\<close>

definition wexpect :: "(wresp \<Rightarrow> 'a option) \<Rightarrow> wresp \<Rightarrow> 'a result" where
  "wexpect f r =
     (case r of WErr e \<Rightarrow> Inl e
      | _ \<Rightarrow> (case f r of Some x \<Rightarrow> Inr x | None \<Rightarrow> Inl (Errorf ''unexpected answer'')))"

definition wdo :: "wizard \<Rightarrow> wcall \<Rightarrow> (wresp \<Rightarrow> 'a option) \<Rightarrow> 'a result whandler" where
  "wdo W c f = do { r \<leftarrow> wask W c; State_Monad.return (wexpect f r) }"

definition asKey :: "wresp \<Rightarrow> private_key option" where
  "asKey r = (case r of WKey k \<Rightarrow> Some k | _ \<Rightarrow> None)"
definition asSig :: "wresp \<Rightarrow> (int \<times> int) option" where
  "asSig r = (case r of WSig a b \<Rightarrow> Some (a, b) | _ \<Rightarrow> None)"
definition asBytes :: "wresp \<Rightarrow> string option" where
  "asBytes r = (case r of WBytes bs \<Rightarrow> Some bs | _ \<Rightarrow> None)"
definition asDone :: "wresp \<Rightarrow> unit option" where
  "asDone r = (case r of WDone \<Rightarrow> Some () | _ \<Rightarrow> None)"

lemma run_wask [simp]: "run_state (wask W c) h = (w_respond W h c, (c, w_respond W h c) # h)"
  by (simp add: wask_def Let_def)

lemma run_wdo [simp]:
  "run_state (wdo W c f) h = (wexpect f (w_respond W h c), (c, w_respond W h c) # h)"
  by (simp add: wdo_def)

section \<open>generator.go\<close>

record credential_bundle =
  cb_SigningKeys :: string
  cb_PublishableKey :: string
  cb_SecretKey :: string
  cb_AnonRoleJWT :: string
  cb_ServiceRoleJWT :: string

definition opaqueChecksumContext :: string where "opaqueChecksumContext = ''supabase-self-hosted''"

definition paddedInteger :: "int \<Rightarrow> string" where
  "paddedInteger value =
     (let encoded = Bytes value in replicate (32 - length encoded) (CHR 0x00) @ encoded)"

definition encodeCoordinate :: "int \<Rightarrow> string" where
  "encodeCoordinate value = EncodeToString RawURLEncoding (paddedInteger value)"

definition signRoleJWT ::
  "wizard \<Rightarrow> private_key \<Rightarrow> string \<Rightarrow> string \<Rightarrow> int \<Rightarrow> int \<Rightarrow> string result whandler" where
  "signRoleJWT W privateKey kid role issuedAt expiresAt =
     (case w_marshalHeader W \<lparr>jh_alg = ES256, jh_typ = ''JWT'', jh_kid = kid\<rparr> of
        Inl err \<Rightarrow> fail err
      | Inr header \<Rightarrow>
     (case w_marshalClaims W \<lparr>jcl_role = role, jcl_aud = AudString RequiredRoleAudience, jcl_iss = ''supabase'',
             jcl_iat = issuedAt, jcl_exp = expiresAt\<rparr> of
        Inl err \<Rightarrow> fail err
      | Inr claims \<Rightarrow>
          (let message = EncodeToString RawURLEncoding header @ ''.'' @ EncodeToString RawURLEncoding claims;
               digest = sha256 (w_env W) message
           in andthen (wdo W (SignDigest privateKey digest) asSig) (\<lambda>(r, s).
                let signature = paddedInteger r @ paddedInteger s
                in ok (message @ ''.'' @ EncodeToString RawURLEncoding signature)))))"

text \<open>The version and variant bits of a random UUID, then the five groups in hexadecimal.\<close>

definition generateKeyID :: "wizard \<Rightarrow> string result whandler" where
  "generateKeyID W =
     andthen (wrapErr ''generate key ID: '' (wdo W (ReadFull 16) asBytes)) (\<lambda>value.
       let value = value[6 := char_of ((of_char (value ! 6) AND 0x0f) OR (0x40 :: nat))];
           value = value[8 := char_of ((of_char (value ! 8) AND 0x3f) OR (0x80 :: nat))]
       in ok (hexEncode (take 4 value) @ ''-'' @ hexEncode (take 2 (drop 4 value)) @ ''-'' @
              hexEncode (take 2 (drop 6 value)) @ ''-'' @ hexEncode (take 2 (drop 8 value)) @ ''-'' @
              hexEncode (take 6 (drop 10 value))))"

definition generateOpaqueKey :: "wizard \<Rightarrow> string \<Rightarrow> string result whandler" where
  "generateOpaqueKey W prefix =
     andthen (wdo W (ReadFull 17) asBytes) (\<lambda>randomBytes.
       let randomSegment = take 22 (EncodeToString RawURLEncoding randomBytes);
           base = prefix @ randomSegment;
           digest = sha256 (w_env W) (opaqueChecksumContext @ ''|'' @ base);
           checksum = take 8 (EncodeToString RawURLEncoding digest)
       in ok (base @ ''_'' @ checksum))"

definition bundleSecret :: "credential_bundle \<Rightarrow> secret" where
  "bundleSecret bundle =
     \<lparr>sec_meta = emptyMeta, sec_type = '''', sec_data = fmempty,
      sec_stringData = fmap_of_list
        [(ProjectCredentialsSigningKeysKey, cb_SigningKeys bundle),
         (ProjectCredentialsPublishableKey, cb_PublishableKey bundle),
         (ProjectCredentialsSecretKey, cb_SecretKey bundle),
         (ProjectCredentialsAnonRoleJWTKey, cb_AnonRoleJWT bundle),
         (ProjectCredentialsServiceRoleJWTKey, cb_ServiceRoleJWT bundle)]\<rparr>"

definition signingJWK :: "private_key \<Rightarrow> string \<Rightarrow> jwk" where
  "signingJWK privateKey kid =
     \<lparr>k_kty = ''EC'', k_alg = ES256, k_use = ''sig'', k_crv = ''P-256'',
      k_x = encodeCoordinate (pk_x privateKey), k_y = encodeCoordinate (pk_y privateKey),
      k_d = encodeCoordinate (pk_d privateKey), k_kid = kid, k_keyOps = [''sign''], k_ext = Some True\<rparr>"

definition generateCredentialBundle :: "wizard \<Rightarrow> int \<Rightarrow> credential_bundle result whandler" where
  "generateCredentialBundle W now =
     andthen (wrapErr ''generate ES256 key: '' (wdo W GenerateKey asKey)) (\<lambda>privateKey.
     andthen (generateKeyID W) (\<lambda>kid.
     case w_marshalKeys W [signingJWK privateKey kid] of
       Inl err \<Rightarrow> fail (Wrap ''encode signing key: '' err)
     | Inr signingKeys \<Rightarrow>
     andthen (wrapErr ''generate publishable key: '' (generateOpaqueKey W ''sb_publishable_'')) (\<lambda>publishableKey.
     andthen (wrapErr ''generate secret key: '' (generateOpaqueKey W ''sb_secret_'')) (\<lambda>secretKey.
     let expiresAt = w_addYears W now 5 in
     andthen (wrapErr ''sign anon role JWT: '' (signRoleJWT W privateKey kid ''anon'' now expiresAt)) (\<lambda>anonRoleJWT.
     andthen (wrapErr ''sign service role JWT: '' (signRoleJWT W privateKey kid ''service_role'' now expiresAt)) (\<lambda>serviceRoleJWT.
     do {
       h \<leftarrow> State_Monad.get;
       let bundle = \<lparr>cb_SigningKeys = signingKeys, cb_PublishableKey = publishableKey, cb_SecretKey = secretKey,
             cb_AnonRoleJWT = anonRoleJWT, cb_ServiceRoleJWT = serviceRoleJWT\<rparr>;
       case ValidateProjectCredentials (w_env W) (w_clock W h) (w_clock W h) (Some (bundleSecret bundle)) of
         Inl err \<Rightarrow> fail (Wrap ''generated bundle failed operator validation: '' err)
       | Inr _ \<Rightarrow> ok bundle }))))))"

section \<open>What the wizard relies on\<close>

definition ascii :: "string \<Rightarrow> bool" where
  "ascii s \<longleftrightarrow> list_all (\<lambda>c. of_char c < (128 :: nat)) s"

definition asciiKey :: "jwk \<Rightarrow> bool" where
  "asciiKey k \<longleftrightarrow> ascii (k_kty k) \<and> ascii (k_alg k) \<and> ascii (k_use k) \<and> ascii (k_crv k) \<and> ascii (k_x k) \<and>
     ascii (k_y k) \<and> ascii (k_d k) \<and> ascii (k_kid k) \<and> list_all ascii (k_keyOps k)"

definition keyPair :: "env \<Rightarrow> private_key \<Rightarrow> bool" where
  "keyPair E sk \<longleftrightarrow> IsOnCurve (pk_x sk) (pk_y sk) \<and> 0 < pk_d sk \<and> pk_d sk < P256_N \<and>
     scalarBaseMult E (Bytes (pk_d sk)) = (pk_x sk, pk_y sk)"

text \<open>
  Documented behaviour: \<open>ecdsa.GenerateKey\<close> returns a key pair of the curve, \<open>io.ReadFull\<close> as
  many bytes as asked for, and \<open>ecdsa.Sign\<close> a signature of 256-bit numbers that verifies.
\<close>

definition lawful_entropy :: "wizard \<Rightarrow> bool" where
  "lawful_entropy W \<longleftrightarrow>
     (\<forall>h sk. w_respond W h GenerateKey = WKey sk \<longrightarrow> keyPair (w_env W) sk) \<and>
     (\<forall>h n bs. w_respond W h (ReadFull n) = WBytes bs \<longrightarrow> length bs = n) \<and>
     (\<forall>h sk digest r s. keyPair (w_env W) sk \<longrightarrow> w_respond W h (SignDigest sk digest) = WSig r s \<longrightarrow>
        0 \<le> r \<and> r < 256 ^ 32 \<and> 0 \<le> s \<and> s < 256 ^ 32 \<and> ecdsa_verify (w_env W) (pk_x sk, pk_y sk) digest r s)"

text \<open>
  \<open>encoding/json\<close> encodes the records with ASCII text and decodes them again; SHA-256 digests
  have 32 bytes.
\<close>

definition lawful_encoding :: "wizard \<Rightarrow> bool" where
  "lawful_encoding W \<longleftrightarrow>
     (\<forall>k. asciiKey k \<longrightarrow> (\<exists>t. w_marshalKeys W [k] = Inr t \<and> t \<noteq> '''' \<and> json_jwks (w_env W) t = Inr [k])) \<and>
     (\<forall>hd. ascii (jh_alg hd) \<and> ascii (jh_typ hd) \<and> ascii (jh_kid hd) \<longrightarrow>
        (\<exists>t. w_marshalHeader W hd = Inr t \<and> json_header (w_env W) t = Inr hd)) \<and>
     (\<forall>role aud iss iat exp. ascii role \<and> ascii aud \<and> ascii iss \<longrightarrow>
        (\<exists>t. w_marshalClaims W \<lparr>jcl_role = role, jcl_aud = AudString aud, jcl_iss = iss, jcl_iat = iat, jcl_exp = exp\<rparr> = Inr t \<and>
          json_claims (w_env W) t = Inr \<lparr>jcl_role = role, jcl_aud = AudString aud, jcl_iss = iss, jcl_iat = iat, jcl_exp = exp\<rparr>)) \<and>
     (\<forall>ks. \<exists>t. json_marshal_keys (w_env W) ks = Inr t) \<and>
     (\<forall>x. length (sha256 (w_env W) x) = 32)"

text \<open>An answer of the kind the call asks for.\<close>

fun answers :: "wcall \<Rightarrow> wresp \<Rightarrow> bool" where
  "answers GenerateKey (WKey _) = True"
| "answers (SignDigest _ _) (WSig _ _) = True"
| "answers (ReadFull _) (WBytes _) = True"
| "answers (WriteOut _) WDone = True"
| "answers ReadLine WDone = True"
| "answers (ClipCopy _) WDone = True"
| "answers ClipClear WDone = True"
| "answers (IsTerminal _) (WBool _) = True"
| "answers OpenTTY WDone = True"
| "answers CloseTTY WDone = True"
| "answers Notify WDone = True"
| "answers StopNotify WDone = True"
| "answers (WriteErr _) WDone = True"
| "answers _ _ = False"

text \<open>The last call of the history failed.\<close>

definition stuck :: "wevent list \<Rightarrow> bool" where
  "stuck h \<longleftrightarrow> (\<exists>c r rest. h = (c, r) # rest \<and> \<not> answers c r)"

lemma wexpect_ok:
  "wexpect asKey r = Inr k \<longleftrightarrow> r = WKey k" "wexpect asSig r = Inr p \<longleftrightarrow> r = WSig (fst p) (snd p)"
  "wexpect asBytes r = Inr bs \<longleftrightarrow> r = WBytes bs" "wexpect asDone r = Inr () \<longleftrightarrow> r = WDone"
  by (auto simp: wexpect_def asKey_def asSig_def asBytes_def asDone_def split: wresp.splits)

lemma wexpect_stuck:
  "wexpect asKey r = Inl e \<Longrightarrow> \<not> answers GenerateKey r" "wexpect asSig r = Inl e \<Longrightarrow> \<not> answers (SignDigest sk d) r"
  "wexpect asBytes r = Inl e \<Longrightarrow> \<not> answers (ReadFull n) r"
  by (auto simp: wexpect_def asKey_def asSig_def asBytes_def split: wresp.splits)

section \<open>The generated values pass the operator's checks\<close>

lemma paddedInteger_eq: "paddedInteger = paddedCoordinate"
  by (rule ext) (simp add: paddedInteger_def paddedCoordinate_def)

lemma entropy_bytes: "lawful_entropy W \<Longrightarrow> w_respond W h (ReadFull n) = WBytes bs \<Longrightarrow> length bs = n"
  unfolding lawful_entropy_def by blast

lemma ascii_simps [simp]:
  "ascii (s @ t) \<longleftrightarrow> ascii s \<and> ascii t" "ascii (c # s) \<longleftrightarrow> of_char c < (128 :: nat) \<and> ascii s" "ascii []"
  by (simp_all add: ascii_def)

lemma ascii_rawurl: "ascii (EncodeToString RawURLEncoding s)"
proof -
  have "\<forall>c \<in> set (b64_alphabet RawURLEncoding). of_char c < (128 :: nat)" by code_simp
  moreover have "c \<in> set (b64_alphabet RawURLEncoding)" if "c \<in> set (EncodeToString RawURLEncoding s)" for c
    using that by (rule EncodeToString_chars [rotated 2]) (simp_all add: RawURLEncoding_def)
  ultimately show ?thesis by (auto simp: ascii_def list_all_iff)
qed

lemma ascii_hex: "ascii (hexEncode bs)"
proof -
  have "of_char (hex_digit n) < (128 :: nat)" for n
  proof -
    have "\<forall>c \<in> set ''0123456789abcdef''. of_char c < (128 :: nat)" by code_simp
    moreover have "hex_digit n \<in> set ''0123456789abcdef''" unfolding hex_digit_def by (rule nth_mem) simp
    ultimately show ?thesis by blast
  qed
  then show ?thesis by (auto simp: ascii_def hexEncode_def hexByte_def list_all_iff)
qed

lemma generateOpaqueKey_ok:
  assumes "lawful_entropy W" "lawful_encoding W" "run_state (generateOpaqueKey W prefix) h = (Inr key, h')"
  shows "validateOpaqueKey (w_env W) key prefix = Inr ()" "HasPrefix key prefix"
proof -
  from assms(3) obtain bs where bs: "w_respond W h (ReadFull 17) = WBytes bs"
    and key: "key = prefix @ take 22 (EncodeToString RawURLEncoding bs) @ ''_'' @
      take 8 (EncodeToString RawURLEncoding (sha256 (w_env W) (''supabase-self-hosted|'' @ prefix @ take 22 (EncodeToString RawURLEncoding bs))))"
    by (auto simp: generateOpaqueKey_def run_andthen Let_def wexpect_ok opaqueChecksumContext_def split: sum.splits)
  from entropy_bytes [OF assms(1) bs] have len: "length bs = 17" .
  have "length (EncodeToString RawURLEncoding bs) = 23"
    using length_EncodeToString_unpadded [of RawURLEncoding bs] len by (simp add: RawURLEncoding_def)
  then show "validateOpaqueKey (w_env W) key prefix = Inr ()"
    using assms(2) key by (intro validateOpaqueKey_canonical [where random = "take 22 (EncodeToString RawURLEncoding bs)"])
      (simp_all add: lawful_encoding_def checksum_chars)
  show "HasPrefix key prefix" by (simp add: key)
qed

lemma generateKeyID_ok:
  assumes "lawful_entropy W" "run_state (generateKeyID W) h = (Inr kid, h')"
  shows "ascii kid" "kid \<noteq> ''''"
  using assms by (auto simp: generateKeyID_def run_andthen wrapErr_def Let_def ascii_hex split: sum.splits)

lemma keyPair_bounds:
  assumes "keyPair E sk"
  shows "0 \<le> pk_x sk" "pk_x sk < 256 ^ 32" "0 \<le> pk_y sk" "pk_y sk < 256 ^ 32" "0 \<le> pk_d sk" "pk_d sk < 256 ^ 32"
proof -
  have "P256_p < 256 ^ 32" "P256_N < 256 ^ 32" by (simp_all add: P256_p_def P256_N_def)
  with assms show "0 \<le> pk_x sk" "pk_x sk < 256 ^ 32" "0 \<le> pk_y sk" "pk_y sk < 256 ^ 32" "0 \<le> pk_d sk" "pk_d sk < 256 ^ 32"
    by (auto simp: keyPair_def IsOnCurve_def)
qed

lemma signingJWK_private:
  assumes "keyPair E sk"
  shows "ecdsaPrivateKey E (signingJWK sk kid) = Inr sk"
  using assms keyPair_bounds [OF assms]
  by (simp add: ecdsaPrivateKey_ok signingJWK_def encodeCoordinate_def paddedInteger_eq decodeCoordinate_padded keyPair_def)

lemma signingJWK_valid:
  assumes "keyPair E sk" "kid \<noteq> ''''"
  shows "ValidateSigningJWK E (signingJWK sk kid) = Inr ()"
proof -
  have ne: "encodeCoordinate v \<noteq> ''''" if "0 \<le> v" "v < 256 ^ 32" for v
    using decodeCoordinate_padded [OF that] by (auto simp: encodeCoordinate_def paddedInteger_eq decodeCoordinate_def)
  from signingJWK_private [OF assms(1)] keyPair_bounds [OF assms(1)] ne assms(2) show ?thesis
    unfolding ValidateSigningJWK_ok by (simp add: signingJWK_def)
qed

lemma signingJWK_ascii: "ascii kid \<Longrightarrow> asciiKey (signingJWK sk kid)"
  by (simp add: asciiKey_def signingJWK_def encodeCoordinate_def ascii_rawurl ES256_def)

lemma signature_decodes:
  assumes "0 \<le> r" "r < 256 ^ 32" "0 \<le> s" "s < 256 ^ 32"
  shows "length (paddedInteger r @ paddedInteger s) = 64"
    "SetBytes (take 32 (paddedInteger r @ paddedInteger s)) = r" "SetBytes (drop 32 (paddedInteger r @ paddedInteger s)) = s"
  using assms by (simp_all add: paddedInteger_eq paddedCoordinate_ok)

lemma entropy_signature:
  "lawful_entropy W \<Longrightarrow> keyPair (w_env W) sk \<Longrightarrow> w_respond W h (SignDigest sk digest) = WSig r s \<Longrightarrow>
     0 \<le> r \<and> r < 256 ^ 32 \<and> 0 \<le> s \<and> s < 256 ^ 32 \<and> ecdsa_verify (w_env W) (pk_x sk, pk_y sk) digest r s"
  unfolding lawful_entropy_def by blast

lemma encoding_header:
  "lawful_encoding W \<Longrightarrow> ascii (jh_alg k) \<and> ascii (jh_typ k) \<and> ascii (jh_kid k) \<Longrightarrow>
     \<exists>t. w_marshalHeader W k = Inr t \<and> json_header (w_env W) t = Inr k"
  unfolding lawful_encoding_def by blast

lemma encoding_claims:
  "lawful_encoding W \<Longrightarrow> ascii role \<and> ascii aud \<and> ascii iss \<Longrightarrow>
     \<exists>t. w_marshalClaims W \<lparr>jcl_role = role, jcl_aud = AudString aud, jcl_iss = iss, jcl_iat = iat, jcl_exp = exp\<rparr> = Inr t \<and>
       json_claims (w_env W) t = Inr \<lparr>jcl_role = role, jcl_aud = AudString aud, jcl_iss = iss, jcl_iat = iat, jcl_exp = exp\<rparr>"
  unfolding lawful_encoding_def by blast

text \<open>The token, or an entropy source that failed.\<close>

lemma signRoleJWT_ok:
  assumes "lawful_entropy W" "lawful_encoding W" "keyPair (w_env W) sk" "ascii kid" "kid \<noteq> ''''" "ascii role"
    and "run_state (signRoleJWT W sk kid role issuedAt expiresAt) h = (res, h')"
  shows "(\<exists>token. res = Inr token \<and> token \<noteq> '''' \<and>
      (\<forall>now < expiresAt. VerifyES256JWT (w_env W) now token (signingJWK sk kid) role RequiredRoleAudience = Inr ())) \<or> isl res \<and> stuck h'"
proof -
  let ?enc = "EncodeToString RawURLEncoding"
  let ?claims = "\<lparr>jcl_role = role, jcl_aud = AudString RequiredRoleAudience, jcl_iss = ''supabase'', jcl_iat = issuedAt, jcl_exp = expiresAt\<rparr>"
  obtain header where header: "w_marshalHeader W \<lparr>jh_alg = ES256, jh_typ = ''JWT'', jh_kid = kid\<rparr> = Inr header"
      "json_header (w_env W) header = Inr \<lparr>jh_alg = ES256, jh_typ = ''JWT'', jh_kid = kid\<rparr>"
    using encoding_header [OF assms(2), of "\<lparr>jh_alg = ES256, jh_typ = ''JWT'', jh_kid = kid\<rparr>"] assms(4)
    by (auto simp: ES256_def)
  obtain claims where claims: "w_marshalClaims W ?claims = Inr claims" "json_claims (w_env W) claims = Inr ?claims"
    using encoding_claims [OF assms(2), of role RequiredRoleAudience "''supabase''" issuedAt expiresAt] assms(6)
    by (auto simp: RequiredRoleAudience_def)
  let ?digest = "sha256 (w_env W) (?enc header @ ''.'' @ ?enc claims)"
  show ?thesis
  proof (cases "\<exists>r s. w_respond W h (SignDigest sk ?digest) = WSig r s")
    case True
    then obtain r s where sig: "w_respond W h (SignDigest sk ?digest) = WSig r s" by blast
    note good = entropy_signature [OF assms(1,3) sig]
    let ?signature = "paddedInteger r @ paddedInteger s"
    let ?token = "?enc header @ ''.'' @ ?enc claims @ ''.'' @ ?enc ?signature"
    have parts: "Split ?token (CHR ''.'') = [?enc header, ?enc claims, ?enc ?signature]"
      using rawurl_no_dot Split_append Split_single by simp
    have "verifyWithPublicKey (w_env W) now ?token (pk_x sk, pk_y sk) kid role RequiredRoleAudience = Inr ()"
      if "now < expiresAt" for now
      unfolding verifyWithPublicKey_parts [OF parts] segments_ok_def
      using header(2) claims(2) good that signature_decodes [of r s]
      by (auto simp: decodeBase64URL_raw audienceMatches_def)
    then have "VerifyES256JWT (w_env W) now ?token (signingJWK sk kid) role RequiredRoleAudience = Inr ()" if "now < expiresAt" for now
      using that signingJWK_valid [OF assms(3,5)] signingJWK_private [OF assms(3), of kid]
      by (simp add: VerifyES256JWT_ok) (simp add: signingJWK_def)
    moreover have "res = Inr ?token"
      using assms(7) header(1) claims(1) sig by (simp add: signRoleJWT_def run_andthen Let_def wexpect_def asSig_def)
    ultimately show ?thesis by simp
  next
    case False
    then have "\<not> answers (SignDigest sk ?digest) (w_respond W h (SignDigest sk ?digest))"
      by (cases "w_respond W h (SignDigest sk ?digest)") auto
    moreover from False have "isl (wexpect asSig (w_respond W h (SignDigest sk ?digest)))"
      by (cases "w_respond W h (SignDigest sk ?digest)") (simp_all add: wexpect_def asSig_def)
    then have "h' = (SignDigest sk ?digest, w_respond W h (SignDigest sk ?digest)) # h \<and> isl res"
      using assms(7) header(1) claims(1) by (auto simp: signRoleJWT_def run_andthen Let_def isl_def)
    ultimately show ?thesis by (auto simp: stuck_def)
  qed
qed

lemma ValidateProjectCredentials_complete:
  assumes "\<forall>ks. fset_of_list (rangeKeys E ks) = ks" "\<forall>ks. \<exists>t. json_marshal_keys E ks = Inr t"
    and "ParseSigningJWK E (cb_SigningKeys b) = Inr key" "ValidateSigningJWK E key = Inr ()"
    and "validateOpaqueKey E (cb_PublishableKey b) ''sb_publishable_'' = Inr ()"
    and "validateOpaqueKey E (cb_SecretKey b) ''sb_secret_'' = Inr ()"
    and "cb_PublishableKey b \<noteq> cb_SecretKey b"
    and "VerifyES256JWT E now (cb_AnonRoleJWT b) key ''anon'' RequiredRoleAudience = Inr ()"
    and "VerifyES256JWT E now' (cb_ServiceRoleJWT b) key ''service_role'' RequiredRoleAudience = Inr ()"
    and "cb_SigningKeys b \<noteq> [] \<and> cb_PublishableKey b \<noteq> [] \<and> cb_SecretKey b \<noteq> [] \<and> cb_AnonRoleJWT b \<noteq> [] \<and>
      cb_ServiceRoleJWT b \<noteq> []"
  shows "\<exists>cred. ValidateProjectCredentials E now now' (Some (bundleSecret b)) = Inr cred"
proof -
  have sd: "fmdom (sec_stringData (bundleSecret b)) = fset_of_list RequiredProjectCredentialKeys"
    by (simp add: bundleSecret_def RequiredProjectCredentialKeys_def fmdom_fmap_of_list)
  have rk: "set (rangeKeys E ks) = fset ks" for ks
    using assms(1) by (metis fset_of_list.rep_eq)
  have "checkDataKeys (rangeKeys E (fmdom (sec_data (bundleSecret b)))) = Inr ()"
    unfolding checkDataKeys_ok rk by (simp add: bundleSecret_def)
  moreover have "checkStringDataKeys (bundleSecret b) (rangeKeys E (fmdom (sec_stringData (bundleSecret b)))) = Inr ()"
    unfolding checkStringDataKeys_ok rk sd by (simp add: bundleSecret_def fset_of_list.rep_eq)
  moreover have val: "secretValue (bundleSecret b) ''signingKeys'' = Some (cb_SigningKeys b)"
      "secretValue (bundleSecret b) ''publishableKey'' = Some (cb_PublishableKey b)"
      "secretValue (bundleSecret b) ''secretKey'' = Some (cb_SecretKey b)"
      "secretValue (bundleSecret b) ''anonRoleJwt'' = Some (cb_AnonRoleJWT b)"
      "secretValue (bundleSecret b) ''serviceRoleJwt'' = Some (cb_ServiceRoleJWT b)"
    by (simp_all add: secretValue_def bundleSecret_def credential_key_defs fmlookup_of_list)
  moreover obtain public where "PublicJWK E key = Inr public"
    using assms(4) by (auto simp: ValidateSigningJWK_ok PublicJWK_def Let_def)
  moreover then obtain t where "PublicJWKS E (cb_SigningKeys b) = Inr t"
    using assms(2,3) by (metis (no_types, lifting) PublicJWKS_def sum.simps(6))
  ultimately show ?thesis
    using assms(3,5-10)
    by (simp add: ValidateProjectCredentials_def RequiredProjectCredentialKeys_def credential_key_defs goget_def
        fmlookup_of_list Let_def)
qed

lemma entropy_key: "lawful_entropy W \<Longrightarrow> w_respond W h GenerateKey = WKey sk \<Longrightarrow> keyPair (w_env W) sk"
  unfolding lawful_entropy_def by blast

lemma encoding_keys:
  "lawful_encoding W \<Longrightarrow> asciiKey k \<Longrightarrow> \<exists>t. w_marshalKeys W [k] = Inr t \<and> t \<noteq> '''' \<and> json_jwks (w_env W) t = Inr [k]"
  unfolding lawful_encoding_def by blast

lemma run_wrapErr: "run_state (wrapErr p m) s = (case run_state m s of (r, s') \<Rightarrow> (case r of Inl e \<Rightarrow> Inl (Wrap p e) | Inr x \<Rightarrow> Inr x, s'))"
  by (auto simp: wrapErr_def split: prod.splits sum.splits)

lemma generateOpaqueKey_stuck: "run_state (generateOpaqueKey W prefix) h = (Inl e, h') \<Longrightarrow> stuck h'"
  by (auto simp: generateOpaqueKey_def run_andthen Let_def stuck_def dest: wexpect_stuck split: sum.splits)

lemma generateKeyID_stuck: "run_state (generateKeyID W) h = (Inl e, h') \<Longrightarrow> stuck h'"
  by (auto simp: generateKeyID_def run_andthen run_wrapErr Let_def stuck_def dest: wexpect_stuck split: sum.splits)

lemma prefixes_differ: "HasPrefix a ''sb_publishable_'' \<Longrightarrow> HasPrefix b ''sb_secret_'' \<Longrightarrow> a \<noteq> b \<and> a \<noteq> [] \<and> b \<noteq> []"
  by (auto simp: HasPrefix_iff)

text \<open>
  What a handler ends with: a value that satisfies one postcondition, or an error and a history
  that satisfies another. \<open>yields\<close> is total correctness up to failures of the world: the
  error is due to the last call.
\<close>

definition ends :: "('s, 'a result) state \<Rightarrow> 's \<Rightarrow> ('a \<Rightarrow> 's \<Rightarrow> bool) \<Rightarrow> ('s \<Rightarrow> bool) \<Rightarrow> bool" where
  "ends m h P F \<longleftrightarrow> (case run_state m h of (Inr x, h') \<Rightarrow> P x h' | (Inl e, h') \<Rightarrow> F h')"

abbreviation yields :: "'a result whandler \<Rightarrow> wevent list \<Rightarrow> ('a \<Rightarrow> wevent list \<Rightarrow> bool) \<Rightarrow> bool" where
  "yields m h P \<equiv> ends m h P stuck"

lemma endsI:
  "(\<And>x h'. run_state m h = (Inr x, h') \<Longrightarrow> P x h') \<Longrightarrow> (\<And>e h'. run_state m h = (Inl e, h') \<Longrightarrow> F h') \<Longrightarrow> ends m h P F"
  by (auto simp: ends_def split: prod.splits sum.splits)

lemma ends_wrapErr: "ends m h P F \<Longrightarrow> ends (wrapErr p m) h P F"
  by (auto simp: ends_def run_wrapErr split: prod.splits sum.splits)

lemma ends_then: "ends m h P F \<Longrightarrow> (\<And>x h'. P x h' \<Longrightarrow> ends (k x) h' Q F) \<Longrightarrow> ends (andthen m k) h Q F"
  by (fastforce simp: ends_def run_andthen split: prod.splits sum.splits)

lemma ends_mono: "ends m h P F \<Longrightarrow> (\<And>x h'. P x h' \<Longrightarrow> Q x h') \<Longrightarrow> (\<And>h'. F h' \<Longrightarrow> G h') \<Longrightarrow> ends m h Q G"
  by (auto simp: ends_def split: prod.splits sum.splits)

lemma generateKey_yields:
  "lawful_entropy W \<Longrightarrow> yields (wrapErr p (wdo W GenerateKey asKey)) h (\<lambda>sk _. keyPair (w_env W) sk)"
  by (intro ends_wrapErr endsI) (auto simp: wexpect_ok stuck_def dest: entropy_key wexpect_stuck)

lemma generateKeyID_yields:
  "lawful_entropy W \<Longrightarrow> yields (generateKeyID W) h (\<lambda>kid _. ascii kid \<and> kid \<noteq> [])"
  by (intro endsI) (auto dest: generateKeyID_ok generateKeyID_stuck)

lemma generateOpaqueKey_yields:
  "lawful_entropy W \<Longrightarrow> lawful_encoding W \<Longrightarrow>
     yields (wrapErr p (generateOpaqueKey W prefix)) h (\<lambda>key _. validateOpaqueKey (w_env W) key prefix = Inr () \<and> HasPrefix key prefix)"
  by (intro ends_wrapErr endsI) (auto dest: generateOpaqueKey_ok generateOpaqueKey_stuck)

lemma signRoleJWT_yields:
  assumes "lawful_entropy W" "lawful_encoding W" "keyPair (w_env W) sk" "ascii kid \<and> kid \<noteq> []" "ascii role"
  shows "yields (wrapErr p (signRoleJWT W sk kid role issuedAt expiresAt)) h (\<lambda>token _. token \<noteq> [] \<and>
      (\<forall>now < expiresAt. VerifyES256JWT (w_env W) now token (signingJWK sk kid) role RequiredRoleAudience = Inr ()))"
  using signRoleJWT_ok [OF assms(1-3) _ _ assms(5)] assms(4) by (intro ends_wrapErr endsI) fastforce+

lemma generateCredentialBundle_yields:
  assumes "lawful_entropy W" "lawful_encoding W" "lawful_range (w_env W)"
    and "\<forall>h. w_clock W h < w_addYears W now 5"
  shows "yields (generateCredentialBundle W now) h (\<lambda>bundle h'. \<exists>cred.
    ValidateProjectCredentials (w_env W) (w_clock W h') (w_clock W h') (Some (bundleSecret bundle)) = Inr cred)"
  unfolding generateCredentialBundle_def
proof (rule ends_then [OF generateKey_yields [OF assms(1)]], rule ends_then [OF generateKeyID_yields [OF assms(1)]], goal_cases)
  case (1 sk h1 kid h2)
  let ?key = "signingJWK sk kid"
  obtain t where t: "w_marshalKeys W [?key] = Inr t" "t \<noteq> []" "json_jwks (w_env W) t = Inr [?key]"
    using encoding_keys [OF assms(2) signingJWK_ascii] 1 by blast
  have parse: "ParseSigningJWK (w_env W) t = Inr ?key" and valid: "ValidateSigningJWK (w_env W) ?key = Inr ()"
    using signingJWK_valid 1 t by (simp_all add: ParseSigningJWK_def ParseJWKArray_def)
  note keys = generateOpaqueKey_yields [OF assms(1,2)] and tokens = signRoleJWT_yields [OF assms(1,2) 1]
  show ?case
    unfolding t sum.case Let_def
  proof (rule ends_then [OF keys], rule ends_then [OF keys], rule ends_then [OF tokens], simp, rule ends_then [OF tokens], simp, goal_cases)
    case (1 pub h3 sec h4 anon h5 service h')
    let ?b = "\<lparr>cb_SigningKeys = t, cb_PublishableKey = pub, cb_SecretKey = sec, cb_AnonRoleJWT = anon, cb_ServiceRoleJWT = service\<rparr>"
    have marshal: "\<forall>ks. \<exists>t. json_marshal_keys (w_env W) ks = Inr t" using assms(2) unfolding lawful_encoding_def by blast
    obtain cred where "ValidateProjectCredentials (w_env W) (w_clock W h') (w_clock W h') (Some (bundleSecret ?b)) = Inr cred"
      using ValidateProjectCredentials_complete [OF assms(3) [unfolded lawful_range_def] marshal, of ?b ?key "w_clock W h'" "w_clock W h'"]
        parse valid 1 t prefixes_differ [of pub sec] assms(4) by auto
    then show ?case by (simp add: ends_def)
  qed
qed

section \<open>Property\<close>

text \<open>
  C32. The wizard produces only bundles the operator accepts, and fails only when the entropy
  source fails: with a lawful source, encoder and clock, either the bundle is returned and the
  operator's own validation accepts it, or the last call to the source did not answer. The
  error for a generated bundle that does not validate never occurs.
\<close>

theorem generated_bundle_is_accepted:
  assumes "lawful_entropy W" "lawful_encoding W" "lawful_range (w_env W)"
    and "\<forall>h. w_clock W h < w_addYears W now 5"
    and "run_state (generateCredentialBundle W now) h = (res, h')"
  shows "(\<exists>bundle cred. res = Inr bundle \<and>
      ValidateProjectCredentials (w_env W) (w_clock W h') (w_clock W h') (Some (bundleSecret bundle)) = Inr cred) \<or>
    isl res \<and> stuck h'"
  using generateCredentialBundle_yields [OF assms(1-4), of h] assms(5) by (auto simp: ends_def split: sum.splits)

end
