(* ===== verification/Wizard_Dialogue.thy ===== *)
theory Wizard_Dialogue
  imports Wizard "HOL-Library.Sublist"
begin

text \<open>
  The dialogue of the credentials wizard (\<open>src/cmd/project-credentials-wizard/main.go\<close>): each
  field of the generated bundle goes to the clipboard, is confirmed by the user, and is cleared
  again. The process starts with an empty history.
\<close>

section \<open>main.go\<close>

text \<open>The OSC 52 escape sequences that set and clear the clipboard of the terminal.\<close>

definition osc52Copy :: "string \<Rightarrow> string" where
  "osc52Copy value = [CHR 0x1B] @ '']52;c;'' @ EncodeToString StdEncoding value @ [CHR 0x07]"

definition osc52Clear :: string where
  "osc52Clear = [CHR 0x1B] @ '']52;c;'' @ [CHR 0x07]"

definition newline :: string where "newline = [CHR 0x0A]"

text \<open>\<open>fmt.Fprintln\<close> and \<open>fmt.Fprintf\<close> to the output with the error ignored.\<close>

definition printOut :: "wizard \<Rightarrow> string \<Rightarrow> unit whandler" where
  "printOut W t = do { _ \<leftarrow> wask W (WriteOut t); State_Monad.return () }"

definition waitForEnter :: "wizard \<Rightarrow> string \<Rightarrow> unit result whandler" where
  "waitForEnter W prompt =
     andthen (wrapErr ''write prompt: '' (wdo W (WriteOut prompt) asDone)) (\<lambda>_. do {
       r \<leftarrow> wdo W ReadLine asDone;
       case r of Inl _ \<Rightarrow> fail (Errorf ''input ended before the bundle was saved'') | Inr _ \<Rightarrow> ok () })"

definition bundleFields :: "credential_bundle \<Rightarrow> (string \<times> string) list" where
  "bundleFields b =
     [(''signingKeys'', cb_SigningKeys b), (''publishableKey'', cb_PublishableKey b), (''secretKey'', cb_SecretKey b),
      (''anonRoleJwt'', cb_AnonRoleJWT b), (''serviceRoleJwt'', cb_ServiceRoleJWT b)]"

definition fieldNotice :: "nat \<Rightarrow> string \<Rightarrow> string" where
  "fieldNotice index name = newline @ ''['' @ show_nat (index + 1) @ ''/'' @ show_nat 5 @ ''] '' @ name @
     '' is now in your clipboard.'' @ newline"

definition fieldPrompt :: "string \<Rightarrow> string" where
  "fieldPrompt name = ''Paste and save it under the exact key '' @ Quote name @ '', then press Enter: ''"

definition handOver :: "wizard \<Rightarrow> nat \<times> string \<times> string \<Rightarrow> unit result whandler" where
  "handOver W f = (case f of (index, name, value) \<Rightarrow>
     andthen (wrapErr (''copy '' @ name @ '': '') (wdo W (ClipCopy value) asDone)) (\<lambda>_. do {
       printOut W (fieldNotice index name);
       andthen (waitForEnter W (fieldPrompt name)) (\<lambda>_.
         wrapErr (''clear clipboard after '' @ name @ '': '') (wdo W ClipClear asDone)) }))"

definition introduction :: "string list" where
  "introduction =
     [''CloudNative Supabase project credential bundle'',
      ''=============================================='',
      '''',
      ''This generates one atomic five-field bundle in process memory.'',
      ''Credential values are sent to the terminal clipboard without rendering plaintext.'',
      '''']"

definition destinationPrompt :: string where
  "destinationPrompt = ''Open the target project/environment/path in your secret manager, '' @ ''then press Enter: ''"

definition confirmationPrompt :: string where
  "confirmationPrompt = ''Confirm the destination contains all five exact keys, '' @ ''then press Enter to finish: ''"

fun printLines :: "wizard \<Rightarrow> string list \<Rightarrow> unit whandler" where
  "printLines W [] = State_Monad.return ()"
| "printLines W (t # ts) = do { printOut W (t @ newline); printLines W ts }"

definition wizardBody :: "wizard \<Rightarrow> int \<Rightarrow> unit result whandler" where
  "wizardBody W now = do {
     printLines W introduction;
     andthen (waitForEnter W destinationPrompt) (\<lambda>_. do {
       printLines W ['''', ''Generating and validating the complete bundle...''];
       andthen (generateCredentialBundle W now) (\<lambda>bundle. do {
         printLines W [''Bundle validated. Keep all five values from this run together.''];
         andthen (for_each (handOver W) (enumerate 0 (bundleFields bundle))) (\<lambda>_. do {
           printLines W ['''', ''All five fields were copied in sequence.''];
           andthen (waitForEnter W confirmationPrompt) (\<lambda>_.
           andthen (wrapErr ''clear clipboard: '' (wdo W ClipClear asDone)) (\<lambda>_. do {
             printLines W ['''', ''Done. The clipboard is clear; the credential process will now exit.''];
             ok () })) }) }) }) }"

text \<open>\<open>errors.Join\<close> of the error returned so far, if there is one, and the error of the deferred call.\<close>

definition joinErr :: "'a result \<Rightarrow> go_error \<Rightarrow> go_error" where
  "joinErr r e = (case r of Inl err \<Rightarrow> Errorf (Error err @ newline @ Error e) | Inr _ \<Rightarrow> e)"

definition runWizard :: "wizard \<Rightarrow> int \<Rightarrow> unit result whandler" where
  "runWizard W now = do {
     r \<leftarrow> wizardBody W now;
     c \<leftarrow> wdo W ClipClear asDone;
     State_Monad.return (case c of Inl clearErr \<Rightarrow> Inl (joinErr r (Wrap ''clear clipboard: '' clearErr)) | Inr _ \<Rightarrow> r) }"

section \<open>The clipboard and the output\<close>

text \<open>Whether a credential may be in the clipboard after a history (newest event first).\<close>

fun exposed :: "wevent list \<Rightarrow> bool" where
  "exposed [] = False"
| "exposed ((ClipCopy v, a) # h) = True"
| "exposed ((ClipClear, a) # h) = (a \<noteq> WDone \<and> exposed h)"
| "exposed (_ # h) = exposed h"

text \<open>The values copied, in order.\<close>

fun copied :: "wevent list \<Rightarrow> string list" where
  "copied [] = []"
| "copied ((ClipCopy v, a) # h) = copied h @ [v]"
| "copied (_ # h) = copied h"

text \<open>Everything the wizard ever prints; nothing here depends on a credential.\<close>

definition wizardTexts :: "string set" where
  "wizardTexts =
     (\<lambda>t. t @ newline) ` set (introduction @ [''Generating and validating the complete bundle...'',
        ''Bundle validated. Keep all five values from this run together.'', ''All five fields were copied in sequence.'',
        ''Done. The clipboard is clear; the credential process will now exit.'']) \<union>
     {destinationPrompt, confirmationPrompt} \<union>
     (\<Union>(i, n) \<in> set (enumerate 0 RequiredProjectCredentialKeys). {fieldNotice i n, fieldPrompt n})"

text \<open>
  The discipline: a value is copied only when no other is exposed, and only fixed texts are
  printed.
\<close>

fun tidy :: "wevent list \<Rightarrow> bool" where
  "tidy [] = True"
| "tidy ((ClipCopy v, a) # h) = (\<not> exposed h \<and> tidy h)"
| "tidy ((WriteOut t, a) # h) = (t \<in> wizardTexts \<and> tidy h)"
| "tidy (_ # h) = tidy h"

lemma run_printOut [simp]: "run_state (printOut W t) h = ((), (WriteOut t, w_respond W h (WriteOut t)) # h)"
  by (simp add: printOut_def)

text \<open>The state between two steps of the dialogue.\<close>

definition calm :: "string list \<Rightarrow> wevent list \<Rightarrow> bool" where
  "calm vs h \<longleftrightarrow> tidy h \<and> \<not> exposed h \<and> copied h = vs"

definition busy :: "string list \<Rightarrow> wevent list \<Rightarrow> bool" where
  "busy vs h \<longleftrightarrow> tidy h \<and> prefix (copied h) vs"

lemma calm_busy: "calm vs h \<Longrightarrow> prefix vs ws \<Longrightarrow> busy ws h"
  by (simp add: calm_def busy_def)

lemma calm_write: "calm vs h \<Longrightarrow> t \<in> wizardTexts \<Longrightarrow> calm vs ((WriteOut t, a) # h)"
  by (simp add: calm_def)

lemma line_texts:
  "t \<in> set introduction \<Longrightarrow> t @ newline \<in> wizardTexts"
  "''Generating and validating the complete bundle...'' @ newline \<in> wizardTexts"
  "''Bundle validated. Keep all five values from this run together.'' @ newline \<in> wizardTexts"
  "''All five fields were copied in sequence.'' @ newline \<in> wizardTexts"
  "''Done. The clipboard is clear; the credential process will now exit.'' @ newline \<in> wizardTexts"
  "'''' @ newline \<in> wizardTexts"
  "destinationPrompt \<in> wizardTexts" "confirmationPrompt \<in> wizardTexts"
  unfolding wizardTexts_def introduction_def by (rule UnI1, rule UnI1, rule imageI, simp)+ auto

lemma printLines_calm:
  "calm vs h \<Longrightarrow> (\<forall>t \<in> set ts. t @ newline \<in> wizardTexts) \<Longrightarrow> calm vs (snd (run_state (printLines W ts) h))"
  by (induction ts arbitrary: h) (simp_all add: calm_write)

lemma ends_print:
  assumes "calm vs h" "\<forall>t \<in> set ts. t @ newline \<in> wizardTexts" "\<And>h'. calm vs h' \<Longrightarrow> ends m h' P F"
  shows "ends (State_Monad.bind (printLines W ts) (\<lambda>_. m)) h P F"
  using assms(3) [OF printLines_calm [OF assms(1,2), of W]] by (simp add: ends_def split_beta)

lemma wexpect_done: "wexpect asDone r = Inr u \<longleftrightarrow> r = WDone"
  by (auto simp: wexpect_def asDone_def split: wresp.splits)

text \<open>Waiting for the user prints the prompt and changes nothing else, whatever the outcome.\<close>

definition silent :: "wevent list \<Rightarrow> wevent list \<Rightarrow> bool" where
  "silent h h' \<longleftrightarrow> (tidy h \<longrightarrow> tidy h') \<and> exposed h' = exposed h \<and> copied h' = copied h"

lemma waitForEnter_silent:
  "prompt \<in> wizardTexts \<Longrightarrow> run_state (waitForEnter W prompt) h = (r, h') \<Longrightarrow> silent h h'"
  by (auto simp: waitForEnter_def run_andthen run_wrapErr silent_def split: sum.splits)

lemma ends_wait:
  assumes "prompt \<in> wizardTexts" "calm vs h" "\<And>h'. calm vs h' \<Longrightarrow> ends (k ()) h' P F" "\<And>h'. calm vs h' \<Longrightarrow> F h'"
  shows "ends (andthen (waitForEnter W prompt) k) h P F"
  by (rule ends_then [where P = "\<lambda>_. calm vs"], rule endsI)
    (use waitForEnter_silent [OF assms(1)] assms(2-4) in \<open>auto simp: silent_def calm_def\<close>)

lemma field_texts:
  assumes "(i, n) \<in> set (enumerate 0 RequiredProjectCredentialKeys)"
  shows "fieldNotice i n \<in> wizardTexts" "fieldPrompt n \<in> wizardTexts"
  using assms unfolding wizardTexts_def by blast+

lemma handOver_ends:
  assumes "calm vs h" "(i, n) \<in> set (enumerate 0 RequiredProjectCredentialKeys)" "prefix (vs @ [v]) ws"
  shows "ends (handOver W (i, n, v)) h (\<lambda>_. calm (vs @ [v])) (busy ws)"
proof -
  let ?a = "w_respond W h (ClipCopy v)"
  let ?h1 = "(ClipCopy v, ?a) # h"
  have h1: "tidy ?h1" "copied ?h1 = vs @ [v]" using assms(1) by (simp_all add: calm_def)
  let ?h2 = "(WriteOut (fieldNotice i n), w_respond W ?h1 (WriteOut (fieldNotice i n))) # ?h1"
  have h2: "tidy ?h2" "copied ?h2 = vs @ [v]" using h1 field_texts [OF assms(2)] by simp_all
  obtain r h3 where wait: "run_state (waitForEnter W (fieldPrompt n)) ?h2 = (r, h3)" by force
  from waitForEnter_silent [OF field_texts(2) [OF assms(2)] wait] h2
  have h3: "tidy h3" "copied h3 = vs @ [v]" by (simp_all add: silent_def)
  show ?thesis
    using h1 h3 assms(3) wait
    by (auto simp: ends_def handOver_def run_andthen run_wrapErr wexpect_done calm_def busy_def split: sum.splits)
qed

lemma handOver_all:
  assumes "calm vs h" "\<forall>(i, n, v) \<in> set fs. (i, n) \<in> set (enumerate 0 RequiredProjectCredentialKeys)"
    and "prefix (vs @ map (snd \<circ> snd) fs) ws"
  shows "ends (for_each (handOver W) fs) h (\<lambda>_. calm (vs @ map (snd \<circ> snd) fs)) (busy ws)"
  using assms
proof (induction fs arbitrary: vs h)
  case Nil
  then show ?case by (simp add: ends_def)
next
  case (Cons f fs)
  obtain i n v where f: "f = (i, n, v)" by (cases f) auto
  from Cons.prems f have "prefix (vs @ [v]) ws" by (auto simp: prefix_def)
  from handOver_ends [OF Cons.prems(1) _ this, of i n W] Cons.prems f
  have "ends (handOver W f) h (\<lambda>_. calm (vs @ [v])) (busy ws)" by auto
  then show ?case
    unfolding for_each.simps
    by (rule ends_then) (use Cons.IH [of "vs @ [v]"] Cons.prems f in simp)
qed

text \<open>The generator only draws from the entropy source.\<close>

lemma generate_keeps:
  assumes "\<And>c h. c = GenerateKey \<or> (\<exists>n. c = ReadFull n) \<or> (\<exists>k d. c = SignDigest k d) \<Longrightarrow> I h \<Longrightarrow> I ((c, w_respond W h c) # h)"
  shows "keeps I (generateCredentialBundle W now)"
proof -
  have wdo: "keeps I (wdo W c g)" if "c = GenerateKey \<or> (\<exists>n. c = ReadFull n) \<or> (\<exists>k d. c = SignDigest k d)"
    for c and g :: "wresp \<Rightarrow> 'z option"
    using assms [OF that] by (simp add: keeps_def)
  have wrap: "keeps I m \<Longrightarrow> keeps I (wrapErr p m)" for p and m :: "'y result whandler"
    unfolding wrapErr_def by (intro inv_intros)
  have get: "keeps I State_Monad.get" by (simp add: keeps_def State_Monad.get_def)
  show ?thesis
    unfolding generateCredentialBundle_def generateKeyID_def generateOpaqueKey_def signRoleJWT_def
    by (intro inv_intros wrap wdo get) auto
qed

lemma generate_quiet: "keeps (calm vs) (generateCredentialBundle W now)"
  by (rule generate_keeps) (auto simp: calm_def)

lemma generate_validated:
  assumes "run_state (generateCredentialBundle W now) h = (Inr b, h')"
  shows "\<exists>t cred. ValidateProjectCredentials (w_env W) t t (Some (bundleSecret b)) = Inr cred"
  using assms
  by (auto simp: generateCredentialBundle_def run_andthen Let_def split: sum.splits prod.splits)

lemma enumerate_keys: "\<forall>(i, n, v) \<in> set (enumerate 0 (bundleFields b)). (i, n) \<in> set (enumerate 0 RequiredProjectCredentialKeys)"
  by (simp add: bundleFields_def RequiredProjectCredentialKeys_def credential_key_defs)

lemma wizardBody_ends:
  assumes start: "calm [] h0"
  shows "ends (wizardBody W now) h0
     (\<lambda>_ h. \<exists>b t cred. calm (map snd (bundleFields b)) h \<and> ValidateProjectCredentials (w_env W) t t (Some (bundleSecret b)) = Inr cred)
     (\<lambda>h. \<exists>b. busy (map snd (bundleFields b)) h)"
  (is "ends _ _ ?P ?F")
proof -
  have quiet: "?F h" if "calm [] h" for h using calm_busy [OF that Nil_prefix] by blast
  have fields: "ends (for_each (handOver W) (enumerate 0 (bundleFields b))) h (\<lambda>_. calm (map snd (bundleFields b))) ?F"
    if "calm [] h" for b h
  proof -
    have "map (snd \<circ> snd) (enumerate 0 (bundleFields b)) = map snd (bundleFields b)"
      by (simp add: bundleFields_def)
    with handOver_all [OF that enumerate_keys, of b "map snd (bundleFields b)" W] show ?thesis
      by (auto intro: ends_mono)
  qed
  have finish: "ends (andthen (wrapErr p (wdo W ClipClear asDone)) (\<lambda>_. do { printLines W ['''', ''Done. The clipboard is clear; the credential process will now exit.'']; ok () })) h ?P ?F"
    if "calm (map snd (bundleFields b)) h" "ValidateProjectCredentials (w_env W) t t (Some (bundleSecret b)) = Inr cred" for b t cred p h
  proof (rule ends_then [where P = "\<lambda>_. calm (map snd (bundleFields b))"], goal_cases)
    case 1
    from that(1) show ?case by (intro ends_wrapErr endsI) (auto simp: calm_def busy_def)
  next
    case (2 x h')
    with that(2) show ?case by (intro ends_print [OF 2]) (auto simp: ends_def line_texts [simplified])
  qed
  show ?thesis
    unfolding wizardBody_def
  proof (rule ends_print [OF start], use line_texts(1) in simp, rule ends_wait [OF line_texts(7), of "[]"], assumption,
      rule ends_print [of "[]"], assumption, use line_texts(2,6) in simp, goal_cases)
    case (1 h1 h2 h3)
    note calm = 1(3)
    show ?case
    proof (rule ends_then [where P = "\<lambda>b h. calm [] h \<and> (\<exists>t cred. ValidateProjectCredentials (w_env W) t t (Some (bundleSecret b)) = Inr cred)"],
        goal_cases)
      case 1
      show ?case using calm generate_validated [of W now h3] keepsD [OF generate_quiet [of "[]" W now], of h3]
        by (intro endsI) (auto intro: quiet)
    next
      case (2 b h4)
      then obtain t cred where val: "ValidateProjectCredentials (w_env W) t t (Some (bundleSecret b)) = Inr cred" by blast
      show ?case
        by (rule ends_print [of "[]"], use 2 in simp, use line_texts(3) in simp, rule ends_then [OF fields], assumption,
            rule ends_print, assumption, use line_texts(4,6) in simp, rule ends_wait [OF line_texts(8)], assumption, erule finish, rule val)
           (auto intro: calm_busy)
    qed
  qed (rule quiet)
qed

lemma osc52_payload: "DecodeString StdEncoding (butlast (drop 7 (osc52Copy v))) = Some v"
  by (simp add: osc52Copy_def std64.dec_enc del: EncodeToString.simps)

text \<open>
  The whole dialogue, started in any history with an empty clipboard. Whatever the terminal, the
  clipboard and the entropy source answer, the wizard prints only its fixed texts, never puts a
  credential into a clipboard that still holds another one, copies the fields of one bundle in
  their order, and ends by clearing the clipboard. When it reports success all five fields of a
  validated bundle were copied and the clipboard holds none of them.
\<close>

lemma runWizard_safe:
  assumes "calm [] h0" "run_state (runWizard W now) h0 = (res, h)"
  shows "tidy h \<and> (\<exists>a earlier. h = (ClipClear, a) # earlier) \<and>
    (\<exists>bundle. prefix (copied h) (map snd (bundleFields bundle))) \<and>
    (res = Inr () \<longrightarrow> \<not> exposed h \<and>
      (\<exists>bundle t cred. copied h = map snd (bundleFields bundle) \<and>
         ValidateProjectCredentials (w_env W) t t (Some (bundleSecret bundle)) = Inr cred))"
proof -
  obtain r h1 where body: "run_state (wizardBody W now) h0 = (r, h1)" by force
  note ends = wizardBody_ends [OF assms(1), of W now]
  let ?a = "w_respond W h1 ClipClear"
  from assms(2) body have h: "h = (ClipClear, ?a) # h1"
    and res: "res = (case wexpect asDone ?a of Inl e \<Rightarrow> Inl (joinErr r (Wrap ''clear clipboard: '' e)) | Inr _ \<Rightarrow> r)"
    by (auto simp: runWizard_def)
  have "tidy h1 \<and> (\<exists>b. prefix (copied h1) (map snd (bundleFields b)))"
  proof (cases r)
    case (Inl e)
    with ends body show ?thesis by (auto simp: ends_def busy_def)
  next
    case (Inr u)
    with ends body show ?thesis by (auto simp: ends_def calm_def)
  qed
  moreover have "\<not> exposed h \<and> (\<exists>bundle t cred. copied h = map snd (bundleFields bundle) \<and>
         ValidateProjectCredentials (w_env W) t t (Some (bundleSecret bundle)) = Inr cred)" if "res = Inr ()"
  proof -
    from that res have "r = Inr ()" by (auto split: sum.splits)
    with ends body h show ?thesis by (auto simp: ends_def calm_def)
  qed
  ultimately show ?thesis using h by simp
qed

end
