(* ===== verification/Wizard_Process.thy ===== *)
theory Wizard_Process
  imports Wizard_Dialogue
begin

text \<open>
  The process of the credentials wizard, \<open>run\<close> and \<open>main\<close> of
  \<open>src/cmd/project-credentials-wizard/main.go\<close>. The main goroutine checks and opens the
  terminal, installs the signal handler, runs the dialogue, and undoes both in its deferred
  calls. A second goroutine waits for an interrupt, clears the clipboard and exits with status
  130. The two run concurrently: an execution of the process is a sequence of steps in which
  the calls of the one are interleaved with those of the other.
\<close>

section \<open>The main goroutine\<close>

definition asBool :: "wresp \<Rightarrow> bool option" where
  "asBool r = (case r of WBool b \<Rightarrow> Some b | _ \<Rightarrow> None)"

definition isTerminal :: "wizard \<Rightarrow> nat \<Rightarrow> bool whandler" where
  "isTerminal W fd = do { r \<leftarrow> wask W (IsTerminal fd); State_Monad.return (asBool r = Some True) }"

text \<open>Both deferred calls, in the order they run: the last one registered first.\<close>

definition runDeferred :: "wizard \<Rightarrow> unit result \<Rightarrow> unit result whandler" where
  "runDeferred W err = do {
     _ \<leftarrow> wask W StopNotify;
     closeErr \<leftarrow> wdo W CloseTTY asDone;
     State_Monad.return (case (err, closeErr) of
         (Inr _, Inl e) \<Rightarrow> Inl (Wrap ''close controlling terminal: '' e)
       | _ \<Rightarrow> err) }"

definition runProcess :: "wizard \<Rightarrow> unit result whandler" where
  "runProcess W = do {
     stdin \<leftarrow> isTerminal W 0;
     stdout \<leftarrow> (if stdin then isTerminal W 1 else State_Monad.return False);
     if \<not> stdin \<or> \<not> stdout
     then fail (Errorf ''run directly in an interactive terminal without redirected input or output'')
     else andthen (wrapErr ''open controlling terminal: '' (wdo W OpenTTY asDone)) (\<lambda>_. do {
       _ \<leftarrow> wask W Notify;
       h \<leftarrow> State_Monad.get;
       err \<leftarrow> runWizard W (w_clock W h);
       runDeferred W err }) }"

definition mainProcess :: "wizard \<Rightarrow> int whandler" where
  "mainProcess W = do {
     err \<leftarrow> runProcess W;
     case err of
       Inl e \<Rightarrow> do {
         _ \<leftarrow> wask W (WriteErr (''project credential wizard: '' @ Error e @ newline));
         State_Monad.return 1 }
     | Inr _ \<Rightarrow> State_Monad.return 0 }"

section \<open>The two goroutines together\<close>

text \<open>
  The main goroutine depends on nothing but the answers to its own calls, and the world that
  gives them is arbitrary: its calls are those of a run of \<^const>\<open>mainProcess\<close>, taken one at a
  time. A signal that arrives while the handler is installed goes to the channel, whose one
  slot keeps the first; at any other time it ends the process. Writes to the terminal and to
  the standard error are atomic, since \<open>os.File\<close> locks the descriptor.
\<close>

datatype thread = MainG | InterruptG

datatype handler_pc = Receiving | Clearing | Warning go_error | Exiting

datatype exit_status = Exited int | Killed

record process =
  p_done :: nat \<comment> \<open>the number of calls the main goroutine has made\<close>
  p_pending :: bool \<comment> \<open>a signal in the channel \<open>interrupts\<close>\<close>
  p_handler :: handler_pc
  p_log :: "(thread \<times> wevent) list" \<comment> \<open>all calls, newest first\<close>
  p_exit :: "exit_status option"

definition startProcess :: process where
  "startProcess = \<lparr>p_done = 0, p_pending = False, p_handler = Receiving, p_log = [], p_exit = None\<rparr>"

definition mainCalls :: "wizard \<Rightarrow> wevent list" where
  "mainCalls W = rev (snd (run_state (mainProcess W) []))"

definition mainStatus :: "wizard \<Rightarrow> int" where
  "mainStatus W = fst (run_state (mainProcess W) [])"

definition events :: "process \<Rightarrow> wevent list" where
  "events s = map snd (p_log s)"

definition called :: "wcall \<Rightarrow> (thread \<times> wevent) list \<Rightarrow> bool" where
  "called c log \<longleftrightarrow> list_ex (\<lambda>(t, c', a). t = MainG \<and> c' = c) log"

definition listening :: "process \<Rightarrow> bool" where
  "listening s \<longleftrightarrow> called Notify (p_log s) \<and> \<not> called StopNotify (p_log s)"

definition clearWarning :: "go_error \<Rightarrow> string" where
  "clearWarning e = newline @ ''warning: clipboard may still contain credential material: '' @ Error e @ newline"

inductive pstep :: "wizard \<Rightarrow> process \<Rightarrow> process \<Rightarrow> bool" for W where
  main_call: "p_exit s = None \<Longrightarrow> p_done s < length (mainCalls W) \<Longrightarrow>
    pstep W s (s\<lparr>p_done := p_done s + 1, p_log := (MainG, mainCalls W ! p_done s) # p_log s\<rparr>)"
| main_exit: "p_exit s = None \<Longrightarrow> p_done s = length (mainCalls W) \<Longrightarrow>
    pstep W s (s\<lparr>p_exit := Some (Exited (mainStatus W))\<rparr>)"
| signal_caught: "p_exit s = None \<Longrightarrow> listening s \<Longrightarrow> pstep W s (s\<lparr>p_pending := True\<rparr>)"
| signal_kills: "p_exit s = None \<Longrightarrow> \<not> listening s \<Longrightarrow> pstep W s (s\<lparr>p_exit := Some Killed\<rparr>)"
| receive: "p_exit s = None \<Longrightarrow> p_handler s = Receiving \<Longrightarrow> p_pending s \<Longrightarrow>
    pstep W s (s\<lparr>p_pending := False, p_handler := Clearing\<rparr>)"
| handler_clear: "p_exit s = None \<Longrightarrow> p_handler s = Clearing \<Longrightarrow>
    pstep W s (s\<lparr>p_handler := (case wexpect asDone a of Inl e \<Rightarrow> Warning e | Inr _ \<Rightarrow> Exiting),
                 p_log := (InterruptG, ClipClear, a) # p_log s\<rparr>)"
| handler_warn: "p_exit s = None \<Longrightarrow> p_handler s = Warning e \<Longrightarrow>
    pstep W s (s\<lparr>p_handler := Exiting, p_log := (InterruptG, WriteErr (clearWarning e), a) # p_log s\<rparr>)"
| handler_exit: "p_exit s = None \<Longrightarrow> p_handler s = Exiting \<Longrightarrow> pstep W s (s\<lparr>p_exit := Some (Exited 130)\<rparr>)"

inductive preachable :: "wizard \<Rightarrow> process \<Rightarrow> bool" for W where
  start: "preachable W startProcess"
| step: "preachable W s \<Longrightarrow> pstep W s s' \<Longrightarrow> preachable W s'"

section \<open>What the main goroutine does\<close>

lemma run_isTerminal [simp]:
  "run_state (isTerminal W fd) h = (asBool (w_respond W h (IsTerminal fd)) = Some True, (IsTerminal fd, w_respond W h (IsTerminal fd)) # h)"
  by (simp add: isTerminal_def)

definition mainSafe :: "wizard \<Rightarrow> wevent list \<Rightarrow> bool" where
  "mainSafe W h \<longleftrightarrow> tidy h \<and> (\<exists>bundle. prefix (copied h) (map snd (bundleFields bundle)))"

definition handedOver :: "wizard \<Rightarrow> wevent list \<Rightarrow> bool" where
  "handedOver W h \<longleftrightarrow> \<not> exposed h \<and> (\<exists>bundle t cred. copied h = map snd (bundleFields bundle) \<and>
     ValidateProjectCredentials (w_env W) t t (Some (bundleSecret bundle)) = Inr cred)"

lemma runWizard_ends:
  assumes "calm [] h0"
  shows "ends (runWizard W now) h0 (\<lambda>_ h. mainSafe W h \<and> handedOver W h) (mainSafe W)"
proof (rule endsI)
  fix x h' assume "run_state (runWizard W now) h0 = (Inr x, h')"
  from runWizard_safe [OF assms this] show "mainSafe W h' \<and> handedOver W h'"
    unfolding mainSafe_def handedOver_def by simp
next
  fix e h' assume "run_state (runWizard W now) h0 = (Inl e, h')"
  from runWizard_safe [OF assms this] show "mainSafe W h'" unfolding mainSafe_def by blast
qed

text \<open>The calls that touch neither the clipboard nor the standard output.\<close>

fun aside :: "wcall \<Rightarrow> bool" where
  "aside (WriteOut _) = False"
| "aside (ClipCopy _) = False"
| "aside ClipClear = False"
| "aside _ = True"

lemma aside_silent:
  assumes "aside c"
  shows "tidy ((c, a) # h) = tidy h" "exposed ((c, a) # h) = exposed h" "copied ((c, a) # h) = copied h"
  using assms by (cases c; simp)+

lemma safe_aside:
  assumes "aside c"
  shows "mainSafe W ((c, a) # h) = mainSafe W h" "handedOver W ((c, a) # h) = handedOver W h"
    "calm vs ((c, a) # h) = calm vs h"
  by (simp_all add: mainSafe_def handedOver_def calm_def aside_silent [OF assms])

lemma calm_safe: "calm [] h \<Longrightarrow> mainSafe W h"
  by (simp add: calm_def mainSafe_def)

lemma ends_ask: "(\<And>a. ends (k a) ((c, a) # h) P F) \<Longrightarrow> ends (State_Monad.bind (wask W c) k) h P F"
  by (simp add: ends_def)

lemma ends_isTerminal:
  "(\<And>a. ends (k (asBool a = Some True)) ((IsTerminal fd, a) # h) P F) \<Longrightarrow> ends (State_Monad.bind (isTerminal W fd) k) h P F"
  by (simp add: ends_def)

lemma runProcess_ends: "ends (runProcess W) [] (\<lambda>_ h. mainSafe W h \<and> handedOver W h) (mainSafe W)"
  (is "ends _ _ ?P ?F")
proof -
  have dialogue: "ends (do { err \<leftarrow> runWizard W now; runDeferred W err }) h ?P ?F" if "calm [] h" for h now
    using runWizard_ends [OF that, of W now]
    by (auto simp: ends_def runDeferred_def safe_aside split: prod.splits sum.splits)
  have opened: "ends (do { _ \<leftarrow> wask W Notify; h \<leftarrow> State_Monad.get; err \<leftarrow> runWizard W (w_clock W h); runDeferred W err }) h ?P ?F"
    if "calm [] h" for h
    by (rule ends_ask) (use dialogue that in \<open>simp add: ends_def State_Monad.get_def safe_aside\<close>)
  have checked: "ends (andthen (wrapErr p (wdo W OpenTTY asDone)) (\<lambda>_. do { _ \<leftarrow> wask W Notify; h \<leftarrow> State_Monad.get;
      err \<leftarrow> runWizard W (w_clock W h); runDeferred W err })) h ?P ?F" if "calm [] h" for p h
  proof (rule ends_then [where P = "\<lambda>_. calm []"])
    show "ends (wrapErr p (wdo W OpenTTY asDone)) h (\<lambda>_. calm []) ?F"
      using that by (intro ends_wrapErr endsI) (auto simp: safe_aside calm_safe)
  qed (rule opened)
  show ?thesis
    unfolding runProcess_def
  proof (rule ends_isTerminal, goal_cases)
    case (1 a)
    have calm: "calm [] [(IsTerminal 0, a)]" by (simp add: calm_def)
    show ?case
    proof (cases "asBool a = Some True")
      case False
      then show ?thesis using calm_safe [OF calm] by (simp add: ends_def)
    next
      case True
      have "ends (State_Monad.bind (isTerminal W 1) (\<lambda>stdout. if \<not> stdout then fail err else
          andthen (wrapErr p (wdo W OpenTTY asDone)) (\<lambda>_. do { _ \<leftarrow> wask W Notify; h \<leftarrow> State_Monad.get;
            err \<leftarrow> runWizard W (w_clock W h); runDeferred W err }))) [(IsTerminal 0, a)] ?P ?F" for p err
        by (rule ends_isTerminal) (use calm checked calm_safe in \<open>auto simp: safe_aside ends_def\<close>)
      with True show ?thesis by simp
    qed
  qed
qed

lemma mainProcess_safe:
  assumes "run_state (mainProcess W) [] = (status, h)"
  shows "mainSafe W h" "status = 0 \<Longrightarrow> handedOver W h" "status \<in> {0, 1}"
proof -
  obtain err h1 where run: "run_state (runProcess W) [] = (err, h1)" by force
  from runProcess_ends [of W] run assms show "mainSafe W h" "status = 0 \<Longrightarrow> handedOver W h" "status \<in> {0, 1}"
    by (auto simp: mainProcess_def ends_def safe_aside split: sum.splits)
qed

section \<open>Interleavings\<close>

text \<open>The part of a log one goroutine wrote.\<close>

definition byThread :: "thread \<Rightarrow> (thread \<times> wevent) list \<Rightarrow> wevent list" where
  "byThread t log = map snd (filter (\<lambda>e. fst e = t) log)"

lemma byThread_simps [simp]:
  "byThread t [] = []" "byThread t ((t', e) # log) = (if t' = t then e # byThread t log else byThread t log)"
  by (simp_all add: byThread_def)

text \<open>The interrupt goroutine makes two calls at most: it clears the clipboard, and warns on the standard error.\<close>

definition handlerEvent :: "wevent \<Rightarrow> bool" where
  "handlerEvent e \<longleftrightarrow> (\<exists>a. e = (ClipClear, a)) \<or> (\<exists>err a. e = (WriteErr (clearWarning err), a))"

lemma merge_handler:
  assumes "handlerEvent e"
  shows "exposed (e # h) \<Longrightarrow> exposed h" "copied (e # h) = copied h" "tidy (e # h) = tidy h"
  using assms by (auto simp: handlerEvent_def)

lemma merged:
  assumes "\<forall>e \<in> set (byThread InterruptG log). handlerEvent e"
  shows "exposed (map snd log) \<Longrightarrow> exposed (byThread MainG log)"
    and "copied (map snd log) = copied (byThread MainG log)"
    and "tidy (byThread MainG log) \<Longrightarrow> tidy (map snd log)"
proof -
  have "(exposed (map snd log) \<longrightarrow> exposed (byThread MainG log)) \<and> copied (map snd log) = copied (byThread MainG log) \<and>
      (tidy (byThread MainG log) \<longrightarrow> tidy (map snd log))"
    using assms
  proof (induction log)
    case (Cons x log)
    obtain t c a where x: "x = (t, c, a)" by (cases x) auto
    show ?case
    proof (cases t)
      case MainG
      with Cons x show ?thesis by (cases c) auto
    next
      case InterruptG
      with Cons x merge_handler [of "(c, a)" "map snd log"] show ?thesis by auto
    qed
  qed simp
  then show "exposed (map snd log) \<Longrightarrow> exposed (byThread MainG log)"
    and "copied (map snd log) = copied (byThread MainG log)"
    and "tidy (byThread MainG log) \<Longrightarrow> tidy (map snd log)" by blast+
qed

lemma copied_append: "copied (xs @ h) = copied h @ copied xs"
  by (induction xs rule: copied.induct) simp_all

lemma tidy_append: "tidy (xs @ h) \<Longrightarrow> tidy h"
  by (induction xs rule: tidy.induct) auto

lemma mainSafe_append: "mainSafe W (xs @ h) \<Longrightarrow> mainSafe W h"
  by (auto simp: mainSafe_def copied_append dest: tidy_append append_prefixD)

lemma exposed_since_clear: "exposed (xs @ (ClipClear, WDone) # h) \<Longrightarrow> \<exists>v a. (ClipCopy v, a) \<in> set xs"
  by (induction xs rule: exposed.induct) auto

section \<open>The invariant of the process\<close>

fun handlerState :: "handler_pc \<Rightarrow> (thread \<times> wevent) list \<Rightarrow> bool" where
  "handlerState Receiving log = (byThread InterruptG log = [])"
| "handlerState Clearing log = (byThread InterruptG log = [])"
| "handlerState (Warning e) log = (\<exists>a. wexpect asDone a = Inl e \<and> byThread InterruptG log = [(ClipClear, a)])"
| "handlerState Exiting log =
     (byThread InterruptG log = [(ClipClear, WDone)] \<or>
      (\<exists>e a b. byThread InterruptG log = [(WriteErr (clearWarning e), b), (ClipClear, a)] \<and> wexpect asDone a = Inl e))"

definition pinv :: "wizard \<Rightarrow> process \<Rightarrow> bool" where
  "pinv W s \<longleftrightarrow>
     p_done s \<le> length (mainCalls W) \<and> byThread MainG (p_log s) = rev (take (p_done s) (mainCalls W)) \<and>
     handlerState (p_handler s) (p_log s) \<and>
     (\<forall>x. p_exit s = Some (Exited x) \<longrightarrow>
        (x = 130 \<and> p_handler s = Exiting) \<or> (x = mainStatus W \<and> p_done s = length (mainCalls W)))"

lemma handlerState_main: "handlerState pc ((MainG, e) # log) = handlerState pc log"
  by (cases pc) auto

lemma pstep_pinv: "pstep W s s' \<Longrightarrow> pinv W s \<Longrightarrow> pinv W s'"
proof (induction rule: pstep.induct)
  case (main_call s)
  then show ?case by (auto simp: pinv_def handlerState_main take_Suc_conv_app_nth)
next
  case (handler_clear s a)
  then show ?case by (auto simp: pinv_def wexpect_done split: sum.splits)
qed (auto simp: pinv_def)

lemma preachable_pinv: "preachable W s \<Longrightarrow> pinv W s"
proof (induction rule: preachable.induct)
  case start
  show ?case by (simp add: pinv_def startProcess_def)
next
  case (step s s')
  from pstep_pinv [OF this(2,3)] show ?case .
qed

lemma handlerState_events: "handlerState pc log \<Longrightarrow> \<forall>e \<in> set (byThread InterruptG log). handlerEvent e"
  by (cases pc) (auto simp: handlerEvent_def)

lemma mem_byThread: "e \<in> set (byThread t log) \<longleftrightarrow> (t, e) \<in> set log"
  by (force simp: byThread_def)

lemma handler_exited:
  assumes "handlerState Exiting log" "exposed (map snd log)"
  shows "(\<exists>e a. (InterruptG, WriteErr (clearWarning e), a) \<in> set log) \<or>
    (\<exists>newer older v a. log = newer @ (InterruptG, ClipClear, WDone) # older \<and> (MainG, ClipCopy v, a) \<in> set newer)"
proof (cases "byThread InterruptG log = [(ClipClear, WDone)]")
  case True
  then have "(InterruptG, ClipClear, WDone) \<in> set log" by (simp flip: mem_byThread)
  then obtain newer older where log: "log = newer @ (InterruptG, ClipClear, WDone) # older" by (meson split_list)
  with assms(2) obtain t v a where "(t, ClipCopy v, a) \<in> set newer"
    using exposed_since_clear [of "map snd newer" "map snd older"] by auto
  moreover from this log True have "t \<noteq> InterruptG" using mem_byThread [of "(ClipCopy v, a)" InterruptG log] by auto
  ultimately have "(MainG, ClipCopy v, a) \<in> set newer" by (cases t) auto
  with log show ?thesis by blast
next
  case False
  with assms(1) show ?thesis by (auto simp flip: mem_byThread)
qed

section \<open>The order of the calls of the main goroutine\<close>

fun dialogueCall :: "wcall \<Rightarrow> bool" where
  "dialogueCall (IsTerminal _) = False"
| "dialogueCall OpenTTY = False"
| "dialogueCall CloseTTY = False"
| "dialogueCall Notify = False"
| "dialogueCall StopNotify = False"
| "dialogueCall (WriteErr _) = False"
| "dialogueCall _ = True"

definition extends :: "wevent list \<Rightarrow> wevent list \<Rightarrow> bool" where
  "extends h0 h \<longleftrightarrow> (\<exists>xs. h = xs @ h0 \<and> (\<forall>(c, a) \<in> set xs. dialogueCall c))"

lemma extends_call: "dialogueCall c \<Longrightarrow> extends h0 h \<Longrightarrow> extends h0 ((c, a) # h)"
  unfolding extends_def by (elim exE conjE, rule_tac x = "(c, a) # xs" in exI) simp

lemma keeps_wask: "dialogueCall c \<Longrightarrow> keeps (extends h0) (wask W c)"
  by (simp add: keeps_def extends_call)

lemma keeps_wdo: "dialogueCall c \<Longrightarrow> keeps (extends h0) (wdo W c f)"
  by (simp add: keeps_def extends_call)

lemma keeps_wrapErr: "keeps I m \<Longrightarrow> keeps I (wrapErr p m)"
  unfolding wrapErr_def by (intro inv_intros)

lemma keeps_printLines: "keeps (extends h0) (printLines W ts)"
  by (induction ts) (auto intro!: inv_intros keeps_wask simp: printOut_def)

lemma runWizard_extends: "keeps (extends h0) (runWizard W now)"
proof -
  have gen: "keeps (extends h0) (generateCredentialBundle W now)"
    by (rule generate_keeps) (auto intro: extends_call)
  have wait: "keeps (extends h0) (waitForEnter W p)" for p
    unfolding waitForEnter_def by (intro inv_intros keeps_wrapErr keeps_wdo) simp_all
  have hand: "keeps (extends h0) (handOver W f)" for f
    unfolding handOver_def printOut_def by (intro inv_intros keeps_wrapErr keeps_wdo keeps_wask wait) simp_all
  show ?thesis
    unfolding runWizard_def wizardBody_def
    by (intro inv_intros keeps_wrapErr keeps_wdo keeps_printLines keeps_for_each gen wait hand) simp_all
qed

lemma mainProcess_after:
  assumes "run_state (runProcess W) [] = (err, h)"
  shows "\<exists>post. snd (run_state (mainProcess W) []) = post @ h \<and> (\<forall>(c, a) \<in> set post. \<exists>t. c = WriteErr t)"
proof (cases err)
  case (Inl e)
  let ?c = "WriteErr (''project credential wizard: '' @ Error e @ newline)"
  from Inl assms show ?thesis by (intro exI [of _ "[(?c, w_respond W h ?c)]"]) (simp add: mainProcess_def)
next
  case (Inr u)
  with assms show ?thesis by (intro exI [of _ "[]"]) (simp add: mainProcess_def)
qed

lemma mainCalls_shape:
  obtains pre dia post where "mainCalls W = pre @ dia @ post"
    "\<forall>(c, a) \<in> set pre. c \<noteq> StopNotify \<and> (\<forall>v. c \<noteq> ClipCopy v)" "dia \<noteq> [] \<longrightarrow> (\<exists>a. (Notify, a) \<in> set pre)"
    "\<forall>(c, a) \<in> set dia. dialogueCall c" "\<forall>(c, a) \<in> set post. \<forall>v. c \<noteq> ClipCopy v"
proof -
  let ?a0 = "w_respond W [] (IsTerminal 0)"
  let ?h1 = "[(IsTerminal 0, ?a0)]"
  let ?h2 = "(IsTerminal 1, w_respond W ?h1 (IsTerminal 1)) # ?h1"
  let ?h3 = "(OpenTTY, w_respond W ?h2 OpenTTY) # ?h2"
  let ?h4 = "(Notify, w_respond W ?h3 Notify) # ?h3"
  obtain err h where run: "run_state (runWizard W (w_clock W ?h4)) ?h4 = (err, h)" by force
  have "extends ?h4 ?h4" by (simp add: extends_def)
  from keepsD [OF runWizard_extends this run] obtain xs
    where xs: "h = xs @ ?h4" "\<forall>(c, a) \<in> set xs. dialogueCall c" by (auto simp: extends_def)
  consider "asBool ?a0 \<noteq> Some True" | "asBool ?a0 = Some True" "asBool (w_respond W ?h1 (IsTerminal 1)) \<noteq> Some True"
    | "asBool ?a0 = Some True" "asBool (w_respond W ?h1 (IsTerminal 1)) = Some True" "wexpect asDone (w_respond W ?h2 OpenTTY) \<noteq> Inr ()"
    | "asBool ?a0 = Some True" "asBool (w_respond W ?h1 (IsTerminal 1)) = Some True" "wexpect asDone (w_respond W ?h2 OpenTTY) = Inr ()"
    by blast
  then show thesis
  proof cases
    case 1
    then show ?thesis
      by (intro that [of "mainCalls W" "[]" "[]"]) (auto simp: mainCalls_def mainProcess_def runProcess_def)
  next
    case 2
    then show ?thesis
      by (intro that [of "mainCalls W" "[]" "[]"]) (auto simp: mainCalls_def mainProcess_def runProcess_def)
  next
    case 3
    then show ?thesis
      by (intro that [of "mainCalls W" "[]" "[]"])
        (auto simp: mainCalls_def mainProcess_def runProcess_def run_andthen run_wrapErr split: sum.splits)
  next
    case 4
    let ?b = "w_respond W h StopNotify"
    let ?c = "w_respond W ((StopNotify, ?b) # h) CloseTTY"
    have "run_state (runProcess W) [] = (fst (run_state (runDeferred W err) h), (CloseTTY, ?c) # (StopNotify, ?b) # h)"
      using 4 run by (simp add: runProcess_def run_andthen run_wrapErr runDeferred_def State_Monad.get_def)
    from mainProcess_after [OF this] obtain post
      where "snd (run_state (mainProcess W) []) = post @ (CloseTTY, ?c) # (StopNotify, ?b) # h"
        "\<forall>(c, a) \<in> set post. \<exists>t. c = WriteErr t" by blast
    with xs show ?thesis
      by (intro that [of "rev ?h4" "rev xs" "(StopNotify, ?b) # (CloseTTY, ?c) # rev post"]) (auto simp: mainCalls_def)
  qed
qed

lemma copy_while_listening:
  assumes "i < length (mainCalls W)" "mainCalls W ! i = (ClipCopy v, a)"
  shows "\<exists>b. (Notify, b) \<in> set (take i (mainCalls W))" "(StopNotify, b) \<notin> set (take i (mainCalls W))"
proof -
  obtain pre dia post where shape: "mainCalls W = pre @ dia @ post"
    "\<forall>(c, a) \<in> set pre. c \<noteq> StopNotify \<and> (\<forall>v. c \<noteq> ClipCopy v)" "dia \<noteq> [] \<longrightarrow> (\<exists>a. (Notify, a) \<in> set pre)"
    "\<forall>(c, a) \<in> set dia. dialogueCall c" "\<forall>(c, a) \<in> set post. \<forall>v. c \<noteq> ClipCopy v"
    by (rule mainCalls_shape)
  have "\<not> i < length pre"
  proof
    assume "i < length pre"
    with assms shape(1) have "(ClipCopy v, a) \<in> set pre" by (metis nth_append nth_mem)
    with shape(2) show False by auto
  qed
  moreover have "i < length pre + length dia"
  proof (rule ccontr)
    assume "\<not> i < length pre + length dia"
    with assms shape(1) have "(ClipCopy v, a) \<in> set post"
      by (metis (no_types, lifting) append_assoc length_append nth_append nth_mem add_diff_inverse_nat nat_add_left_cancel_less)
    with shape(5) show False by auto
  qed
  ultimately have "take i (mainCalls W) = pre @ take (i - length pre) dia" "dia \<noteq> []" using shape(1) by auto
  moreover have "(StopNotify, b) \<notin> set (take n dia)" for n using shape(4) by (auto dest!: in_set_takeD)
  ultimately show "\<exists>b. (Notify, b) \<in> set (take i (mainCalls W))" "(StopNotify, b) \<notin> set (take i (mainCalls W))"
    using shape(2,3) by auto
qed

section \<open>Properties\<close>

text \<open>The main goroutine alone: no signal arrives.\<close>

definition undisturbed :: "wizard \<Rightarrow> nat \<Rightarrow> process" where
  "undisturbed W n = startProcess\<lparr>p_done := n, p_log := map (Pair MainG) (rev (take n (mainCalls W)))\<rparr>"

lemma undisturbed_reachable: "n \<le> length (mainCalls W) \<Longrightarrow> preachable W (undisturbed W n)"
proof (induction n)
  case 0
  show ?case by (simp add: undisturbed_def startProcess_def preachable.start [unfolded startProcess_def])
next
  case (Suc n)
  then have "pstep W (undisturbed W n) (undisturbed W (Suc n))"
    using pstep.main_call [of "undisturbed W n" W]
    by (simp add: undisturbed_def startProcess_def take_Suc_conv_app_nth)
  with Suc show ?case by (auto intro: preachable.step)
qed

text \<open>
  C33. Whatever the terminal, the clipboard, the entropy source and the user do, and however the
  interrupt goroutine is interleaved with the dialogue: the process prints only its fixed texts
  on the standard output, never puts a credential into a clipboard that still holds another
  one, and copies the fields of one bundle in their order. When it exits with status 0 all five
  fields of a validated bundle were copied and the clipboard holds none of them. When it exits
  with status 130 and a credential is still in the clipboard, then either the user was warned,
  or the main goroutine copied the credential after the interrupt goroutine had cleared the
  clipboard.
\<close>

theorem wizard_process_safe:
  assumes "preachable W s"
  shows "tidy (events s) \<and> (\<exists>bundle. prefix (copied (events s)) (map snd (bundleFields bundle))) \<and>
    (p_exit s = Some (Exited 0) \<longrightarrow> \<not> exposed (events s) \<and>
      (\<exists>bundle t cred. copied (events s) = map snd (bundleFields bundle) \<and>
         ValidateProjectCredentials (w_env W) t t (Some (bundleSecret bundle)) = Inr cred)) \<and>
    (p_exit s = Some (Exited 130) \<and> exposed (events s) \<longrightarrow>
      (\<exists>e a. (InterruptG, WriteErr (clearWarning e), a) \<in> set (p_log s)) \<or>
      (\<exists>newer older v a. p_log s = newer @ (InterruptG, ClipClear, WDone) # older \<and> (MainG, ClipCopy v, a) \<in> set newer))"
proof (intro conjI)
  note inv = preachable_pinv [OF assms]
  let ?calls = "mainCalls W"
  from inv have mine: "byThread MainG (p_log s) = rev (take (p_done s) ?calls)"
    and others: "\<forall>e \<in> set (byThread InterruptG (p_log s)). handlerEvent e"
    by (auto simp: pinv_def dest: handlerState_events)
  note merged = merged [OF others, folded events_def]
  obtain status h where run: "run_state (mainProcess W) [] = (status, h)" by force
  then have calls: "?calls = rev h" "mainStatus W = status" by (simp_all add: mainCalls_def mainStatus_def)
  have "rev ?calls = rev (drop (p_done s) ?calls) @ rev (take (p_done s) ?calls)" by (simp flip: rev_append)
  with mainProcess_safe(1) [OF run] calls mine have safe: "mainSafe W (byThread MainG (p_log s))"
    by (metis mainSafe_append rev_rev_ident)
  then show "tidy (events s)" "\<exists>bundle. prefix (copied (events s)) (map snd (bundleFields bundle))"
    using merged by (simp_all add: mainSafe_def)
  show "p_exit s = Some (Exited 0) \<longrightarrow> \<not> exposed (events s) \<and>
      (\<exists>bundle t cred. copied (events s) = map snd (bundleFields bundle) \<and>
         ValidateProjectCredentials (w_env W) t t (Some (bundleSecret bundle)) = Inr cred)"
  proof
    assume "p_exit s = Some (Exited 0)"
    with inv calls have "status = 0" "p_done s = length ?calls" by (auto simp: pinv_def)
    with mainProcess_safe(2) [OF run] mine calls have "handedOver W (byThread MainG (p_log s))" by simp
    with merged show "\<not> exposed (events s) \<and>
      (\<exists>bundle t cred. copied (events s) = map snd (bundleFields bundle) \<and>
         ValidateProjectCredentials (w_env W) t t (Some (bundleSecret bundle)) = Inr cred)"
      unfolding handedOver_def by metis
  qed
  have "handlerState Exiting (p_log s)" if "p_exit s = Some (Exited 130)"
    using inv that calls mainProcess_safe(3) [OF run] by (auto simp: pinv_def)
  then show "p_exit s = Some (Exited 130) \<and> exposed (events s) \<longrightarrow>
      (\<exists>e a. (InterruptG, WriteErr (clearWarning e), a) \<in> set (p_log s)) \<or>
      (\<exists>newer older v a. p_log s = newer @ (InterruptG, ClipClear, WDone) # older \<and> (MainG, ClipCopy v, a) \<in> set newer)"
    using handler_exited [of "p_log s"] unfolding events_def by blast
qed

text \<open>
  C40. An interrupt can leave a credential behind: whenever the dialogue copies one, it can
  be handled at that moment in such a way that the handler clears the clipboard successfully,
  the main goroutine then copies the credential, and the process exits with status 130, with no
  warning and with the credential in the clipboard. Nothing stops the main goroutine between
  the handler's clear and its exit.
\<close>

theorem interrupt_race_exposes_credential:
  assumes "i < length (mainCalls W)" "mainCalls W ! i = (ClipCopy v, a)"
  shows "\<exists>s. preachable W s \<and> p_exit s = Some (Exited 130) \<and> exposed (events s) \<and>
    (InterruptG, ClipClear, WDone) \<in> set (p_log s) \<and> (\<forall>t a. (InterruptG, WriteErr t, a) \<notin> set (p_log s))"
proof -
  let ?s0 = "undisturbed W i"
  let ?s1 = "?s0\<lparr>p_pending := True\<rparr>"
  let ?s2 = "?s1\<lparr>p_pending := False, p_handler := Clearing\<rparr>"
  let ?s3 = "?s2\<lparr>p_handler := Exiting, p_log := (InterruptG, ClipClear, WDone) # p_log ?s2\<rparr>"
  let ?s4 = "?s3\<lparr>p_done := p_done ?s3 + 1, p_log := (MainG, mainCalls W ! p_done ?s3) # p_log ?s3\<rparr>"
  let ?s5 = "?s4\<lparr>p_exit := Some (Exited 130)\<rparr>"
  have s0: "p_done ?s0 = i" "p_exit ?s0 = None" "p_handler ?s0 = Receiving" "p_log ?s0 = map (Pair MainG) (rev (take i (mainCalls W)))"
    by (simp_all add: undisturbed_def startProcess_def)
  have "listening ?s0"
    using copy_while_listening [OF assms] by (force simp: listening_def called_def list_ex_iff s0)
  then have "pstep W ?s0 ?s1" by (intro pstep.signal_caught) (simp_all add: s0)
  moreover have "pstep W ?s1 ?s2" by (intro pstep.receive) (simp_all add: s0)
  moreover have "pstep W ?s2 ?s3"
    using pstep.handler_clear [of ?s2 W WDone] by (simp add: s0 wexpect_def asDone_def)
  moreover have "pstep W ?s3 ?s4" using assms(1) by (intro pstep.main_call) (simp_all add: s0)
  moreover have "pstep W ?s4 ?s5" by (intro pstep.handler_exit) (simp_all add: s0)
  ultimately have "preachable W ?s5"
    using undisturbed_reachable [of i W] assms(1) by (meson less_imp_le preachable.step)
  moreover have "exposed (events ?s5)" using assms(2) by (simp add: events_def s0)
  ultimately show ?thesis
    by (intro exI [of _ ?s5]) (auto simp: s0 assms(2))
qed

end
