(* ===== verification/Wizard_Witnesses.thy ===== *)
theory Wizard_Witnesses
  imports Wizard_Process Reference_Env
begin

text \<open>
  A concrete world for the wizard: an encoder and decoder for its records, an entropy source
  of zero bytes with the base point as key, and a terminal that answers every prompt. The
  properties of the wizard are applied to it.
\<close>

section \<open>An encoder for the records\<close>

definition enc64 :: "string \<Rightarrow> string" where
  "enc64 = EncodeToString RawURLEncoding"

definition dec64 :: "string \<Rightarrow> string" where
  "dec64 t = (case DecodeString RawURLEncoding t of Some s \<Rightarrow> s | None \<Rightarrow> [])"

definition pack :: "string list \<Rightarrow> string" where
  "pack ws = Join (map enc64 ws) ''.''"

definition unpack :: "string \<Rightarrow> string list" where
  "unpack t = map dec64 (Split t (CHR ''.''))"

lemma dec64_enc64 [simp]: "dec64 (enc64 s) = s"
  by (simp add: dec64_def enc64_def rawurl64.dec_enc)

lemma Split_Join: "(\<forall>w \<in> set ws. d \<notin> set w) \<Longrightarrow> ws \<noteq> [] \<Longrightarrow> Split (Join ws [d]) d = ws"
proof (induction ws)
  case (Cons w ws)
  then show ?case by (cases ws) (auto simp: Split_single Split_append)
qed simp

lemma unpack_pack: "ws \<noteq> [] \<Longrightarrow> unpack (pack ws) = ws"
proof -
  assume "ws \<noteq> []"
  then have "Split (pack ws) (CHR ''.'') = map enc64 ws"
    unfolding pack_def by (intro Split_Join) (auto simp: enc64_def rawurl_no_dot)
  then show ?thesis by (simp add: unpack_def comp_def)
qed

definition extText :: "bool option \<Rightarrow> string" where
  "extText e = (case e of None \<Rightarrow> ''n'' | Some True \<Rightarrow> ''t'' | Some False \<Rightarrow> ''f'')"

definition refMarshalKeys :: "jwk list \<Rightarrow> string result" where
  "refMarshalKeys ks = (case ks of
     [k] \<Rightarrow> Inr (pack (extText (k_ext k) # k_kty k # k_alg k # k_use k # k_crv k # k_x k # k_y k # k_d k # k_kid k # k_keyOps k))
   | _ \<Rightarrow> Inl (Errorf ''one key''))"

definition refUnmarshalKeys :: "string \<Rightarrow> jwk list result" where
  "refUnmarshalKeys t = (case unpack t of
     e # kty # alg # use # crv # x # y # d # kid # ops \<Rightarrow>
       Inr [\<lparr>k_kty = kty, k_alg = alg, k_use = use, k_crv = crv, k_x = x, k_y = y, k_d = d, k_kid = kid, k_keyOps = ops,
         k_ext = (if e = ''n'' then None else Some (e = ''t''))\<rparr>]
   | _ \<Rightarrow> Inl (Errorf ''one key''))"

definition readInt :: "string \<Rightarrow> int" where
  "readInt s = (if HasPrefix s ''-'' then - int (read_nat 0 (tl s)) else int (read_nat 0 s))"

lemma readInt_show: "readInt (show_int i) = i"
proof (cases "i < 0")
  case True
  then show ?thesis by (simp add: readInt_def show_int_def read_show_nat)
next
  case False
  have "\<not> HasPrefix (show_nat (nat i)) ''-''"
  proof
    assume "HasPrefix (show_nat (nat i)) ''-''"
    then have "CHR ''-'' \<in> set (show_nat (nat i))" by (auto simp: HasPrefix_iff)
    from show_nat_digits [OF this] show False by simp
  qed
  with False show ?thesis by (simp add: readInt_def show_int_def read_show_nat)
qed

definition refMarshalHeader :: "jwt_header \<Rightarrow> string result" where
  "refMarshalHeader k = Inr (pack [jh_alg k, jh_typ k, jh_kid k])"

definition refUnmarshalHeader :: "string \<Rightarrow> jwt_header result" where
  "refUnmarshalHeader t = (case unpack t of [alg, typ, kid] \<Rightarrow> Inr \<lparr>jh_alg = alg, jh_typ = typ, jh_kid = kid\<rparr>
     | _ \<Rightarrow> Inl (Errorf ''header''))"

definition refMarshalClaims :: "jwt_claims \<Rightarrow> string result" where
  "refMarshalClaims c = Inr (pack [jcl_role c, (case jcl_aud c of AudString a \<Rightarrow> a | _ \<Rightarrow> []), jcl_iss c,
     show_int (jcl_iat c), show_int (jcl_exp c)])"

definition refUnmarshalClaims :: "string \<Rightarrow> jwt_claims result" where
  "refUnmarshalClaims t = (case unpack t of
     [role, aud, iss, iat, exp] \<Rightarrow> Inr \<lparr>jcl_role = role, jcl_aud = AudString aud, jcl_iss = iss, jcl_iat = readInt iat, jcl_exp = readInt exp\<rparr>
   | _ \<Rightarrow> Inl (Errorf ''claims''))"

section \<open>The world\<close>

definition refWizard :: "(wevent list \<Rightarrow> wcall \<Rightarrow> wresp) \<Rightarrow> wizard" where
  "refWizard answer = \<lparr>
     w_env = (refEnv (\<lambda>_ _. ROk))\<lparr>json_jwks := refUnmarshalKeys, json_header := refUnmarshalHeader, json_claims := refUnmarshalClaims\<rparr>,
     w_respond = answer, w_clock = (\<lambda>_. 50),
     w_marshalKeys = refMarshalKeys, w_marshalHeader = refMarshalHeader, w_marshalClaims = refMarshalClaims,
     w_addYears = (\<lambda>now years. now + years * 31536000)\<rparr>"

definition refTerminal :: "wevent list \<Rightarrow> wcall \<Rightarrow> wresp" where
  "refTerminal h c = (case c of
     GenerateKey \<Rightarrow> WKey \<lparr>pk_x = refX, pk_y = refY, pk_d = 1\<rparr>
   | SignDigest _ _ \<Rightarrow> WSig 1 1
   | ReadFull n \<Rightarrow> WBytes (replicate n (CHR 0x00))
   | IsTerminal _ \<Rightarrow> WBool True
   | _ \<Rightarrow> WDone)"

lemma refWizard_entropy: "lawful_entropy (refWizard refTerminal)"
  by (auto simp: lawful_entropy_def refWizard_def refTerminal_def keyPair_def ref_on_curve P256_N_def)

lemma refWizard_encoding: "lawful_encoding (refWizard a)"
proof -
  have "extText e = ''n'' \<longleftrightarrow> e = None" "extText e = ''t'' \<longleftrightarrow> e = Some True" for e
    by (auto simp: extText_def split: option.splits bool.splits)
  then have keys: "refUnmarshalKeys (pack (extText (k_ext k) # k_kty k # k_alg k # k_use k # k_crv k # k_x k # k_y k # k_d k # k_kid k # k_keyOps k)) = Inr [k]" for k
    by (cases "k_ext k") (auto simp: refUnmarshalKeys_def unpack_pack)
  have "pack (extText e # w # ws) \<noteq> []" for e w ws
    by (simp add: pack_def)
  with keys show ?thesis
    by (auto simp: lawful_encoding_def refWizard_def refMarshalKeys_def refMarshalHeader_def refUnmarshalHeader_def
        refMarshalClaims_def refUnmarshalClaims_def unpack_pack readInt_show)
qed

lemma refWizard_range: "lawful_range (w_env (refWizard a))"
  using refEnv_range by (simp add: lawful_range_def refWizard_def)

section \<open>Witnesses\<close>

lemma refTerminal_answers: "answers c (refTerminal h c)"
  by (cases c) (simp_all add: refTerminal_def)

theorem generated_bundle_witness:
  "\<exists>bundle cred h'. run_state (generateCredentialBundle (refWizard refTerminal) 0) [] = (Inr bundle, h') \<and>
     ValidateProjectCredentials (w_env (refWizard refTerminal)) 50 50 (Some (bundleSecret bundle)) = Inr cred"
proof -
  let ?W = "refWizard refTerminal"
  obtain res h' where run: "run_state (generateCredentialBundle ?W 0) [] = (res, h')" by force
  have clock: "\<forall>h. w_clock ?W h < w_addYears ?W 0 5" by (simp add: refWizard_def)
  have "keeps (list_all (\<lambda>(c, r). answers c r)) (generateCredentialBundle ?W 0)"
    by (intro generate_keeps) (simp add: refWizard_def refTerminal_answers)
  from keepsD [OF this _ run] have "\<not> stuck h'" by (auto simp: stuck_def)
  then show ?thesis
    using generated_bundle_is_accepted [OF refWizard_entropy refWizard_encoding refWizard_range clock run] run
    by (auto simp: refWizard_def)
qed

lemma refWizard_generates:
  assumes "list_all (\<lambda>(c, r). answers c r) h" "0 \<le> now"
  shows "\<exists>bundle h'. run_state (generateCredentialBundle (refWizard refTerminal) now) h = (Inr bundle, h')"
proof -
  let ?W = "refWizard refTerminal"
  obtain res h' where run: "run_state (generateCredentialBundle ?W now) h = (res, h')" by force
  have clock: "\<forall>h. w_clock ?W h < w_addYears ?W now 5" using assms(2) by (simp add: refWizard_def)
  have "keeps (list_all (\<lambda>(c, r). answers c r)) (generateCredentialBundle ?W now)"
    by (intro generate_keeps) (simp add: refWizard_def refTerminal_answers)
  from keepsD [OF this assms(1) run] have "\<not> stuck h'" by (auto simp: stuck_def)
  with generateCredentialBundle_yields [OF refWizard_entropy refWizard_encoding refWizard_range clock, of h] run
  show ?thesis by (cases res) (auto simp: ends_def)
qed

lemma run_refTerminal:
  assumes "c \<noteq> GenerateKey" "\<forall>n. c \<noteq> ReadFull n" "\<forall>k d. c \<noteq> SignDigest k d" "\<forall>fd. c \<noteq> IsTerminal fd"
  shows "run_state (wdo (refWizard refTerminal) c asDone) h = (Inr (), (c, WDone) # h)"
  using assms by (cases c) (simp_all add: refWizard_def refTerminal_def wexpect_def asDone_def)

lemma run_refPrint: "run_state (printOut (refWizard refTerminal) t) h = ((), (WriteOut t, WDone) # h)"
  by (simp add: refWizard_def refTerminal_def)

lemma refWizard_runs:
  assumes "list_all (\<lambda>(c, r). answers c r) h0" "0 \<le> now"
  shows "\<exists>h. run_state (runWizard (refWizard refTerminal) now) h0 = (Inr (), h)"
proof -
  let ?W = "refWizard refTerminal"
  define h where "h = snd (run_state (do { printLines ?W introduction; _ \<leftarrow> waitForEnter ?W destinationPrompt;
    printLines ?W ['''', ''Generating and validating the complete bundle...''] }) h0)"
  have "list_all (\<lambda>(c, r). answers c r) h"
    using assms(1) unfolding h_def introduction_def
    by (simp add: waitForEnter_def run_andthen run_wrapErr run_refPrint run_refTerminal del: run_printOut run_wdo)
  then obtain b h' where gen: "run_state (generateCredentialBundle ?W now) h = (Inr b, h')"
    using refWizard_generates assms(2) by blast
  from gen show ?thesis
    unfolding h_def introduction_def
    by (simp add: runWizard_def wizardBody_def waitForEnter_def run_andthen run_wrapErr run_refPrint run_refTerminal bundleFields_def
        handOver_def introduction_def del: run_printOut run_wdo)
qed

lemma refWizard_exits: "mainStatus (refWizard refTerminal) = 0"
proof -
  let ?W = "refWizard refTerminal"
  let ?h = "[(Notify, WDone), (OpenTTY, WDone), (IsTerminal 1, WBool True), (IsTerminal 0, WBool True)]"
  obtain h where run: "run_state (runWizard ?W 50) ?h = (Inr (), h)"
    using refWizard_runs [of ?h 50] by auto
  have ask: "run_state (wask ?W c) h = (WDone, (c, WDone) # h)" if "c \<in> {OpenTTY, CloseTTY, Notify, StopNotify}" for c h
    using that by (auto simp: refWizard_def refTerminal_def)
  have "run_state (isTerminal ?W n) h = (True, (IsTerminal n, WBool True) # h)" for n h
    by (simp add: refWizard_def refTerminal_def asBool_def)
  then have "fst (run_state (runProcess ?W) []) = Inr ()"
    using run
    by (simp add: runProcess_def run_andthen run_wrapErr wdo_def ask runDeferred_def State_Monad.get_def wexpect_def asDone_def
        refWizard_def [THEN arg_cong, of w_clock] del: run_isTerminal run_wask)
  then show ?thesis by (auto simp: mainStatus_def mainProcess_def split_beta)
qed

theorem wizard_process_safe_witness:
  "\<exists>s bundle. preachable (refWizard refTerminal) s \<and> p_exit s = Some (Exited 0) \<and> \<not> exposed (events s) \<and>
     copied (events s) = map snd (bundleFields bundle)"
proof -
  let ?W = "refWizard refTerminal"
  let ?s = "undisturbed ?W (length (mainCalls ?W))"
  let ?t = "?s\<lparr>p_exit := Some (Exited (mainStatus ?W))\<rparr>"
  have "pstep ?W ?s ?t" by (rule pstep.main_exit) (simp_all add: undisturbed_def startProcess_def)
  with undisturbed_reachable [of "length (mainCalls ?W)" ?W] have "preachable ?W ?t"
    by (auto intro: preachable.step)
  moreover have "p_exit ?t = Some (Exited 0)" by (simp add: refWizard_exits)
  ultimately show ?thesis using wizard_process_safe [of ?W ?t] by blast
qed

lemma copied_event: "copied h \<noteq> [] \<Longrightarrow> \<exists>v a. (ClipCopy v, a) \<in> set h"
  by (induction h rule: copied.induct) auto

theorem interrupt_race_witness:
  "\<exists>s. preachable (refWizard refTerminal) s \<and> p_exit s = Some (Exited 130) \<and> exposed (events s) \<and>
    (InterruptG, ClipClear, WDone) \<in> set (p_log s) \<and> (\<forall>t a. (InterruptG, WriteErr t, a) \<notin> set (p_log s))"
proof -
  let ?W = "refWizard refTerminal"
  obtain h where run: "run_state (mainProcess ?W) [] = (0, h)"
    using refWizard_exits unfolding mainStatus_def by (metis prod.collapse)
  have "copied h \<noteq> []" using mainProcess_safe(2) [OF run] by (auto simp: handedOver_def bundleFields_def)
  then obtain v a where "(ClipCopy v, a) \<in> set (mainCalls ?W)"
    using copied_event run by (fastforce simp: mainCalls_def)
  then obtain i where "i < length (mainCalls ?W)" "mainCalls ?W ! i = (ClipCopy v, a)"
    by (auto simp: in_set_conv_nth)
  then show ?thesis by (rule interrupt_race_exposes_credential)
qed

end
