(* ===== verification/Gateway.thy ===== *)
theory Gateway
  imports Config_Maps
begin

text \<open>
  What the Envoy gateway does with the assets of \<open>src/internal/resources/configmaps/envoy.go\<close>:
  the route table, the five Lua filters and the access rules of the listener \<open>envoyLDS\<close>, and
  the rendering of the credentials into it by \<open>envoyEntrypoint\<close>.

  Envoy itself is outside the repository. What the listener uses of it is a parameter, the
  operations of the record \<open>envoy\<close>: its header map, the matching of a path, the evaluation of
  access rules and what the router does to a request before it goes upstream. Their documented
  behaviour is the hypothesis \<open>lawful_envoy\<close>. The model has the listener's own content: the
  routes in their order, the rules, and the filters in their order. Lua and the shell script
  are modelled on the string functions and patterns they use.
\<close>

section \<open>The credentials in the listener\<close>

record gateway_keys =
  PUBLISHABLE_KEY :: string
  SECRET_KEY :: string
  ANON_ROLE_JWT :: string
  SERVICE_ROLE_JWT :: string

section \<open>Routes and access rules\<close>

datatype path_match = Path string | Prefix string

datatype permission = AnyPermission | UrlPathPrefix string

datatype principal = AnyPrincipal | HeaderExact string string

record policy =
  pol_permissions :: "permission list"
  pol_principals :: "principal list"

record route =
  rt_name :: string
  rt_match :: path_match
  rt_cluster :: "string option" \<comment> \<open>\<open>None\<close>: the direct response\<close>
  rt_rewrite :: "string option" \<comment> \<open>\<open>prefix_rewrite\<close>\<close>
  rt_remove :: "string list" \<comment> \<open>\<open>request_headers_to_remove\<close>\<close>
  rt_rbac :: "policy list option" \<comment> \<open>\<open>None\<close>: the rules of the filter\<close>

section \<open>What the listener uses of Envoy\<close>

record 'h envoy =
  hget :: "'h \<Rightarrow> string \<Rightarrow> string option"
  hadd :: "'h \<Rightarrow> string \<Rightarrow> string \<Rightarrow> 'h"
  hreplace :: "'h \<Rightarrow> string \<Rightarrow> string \<Rightarrow> 'h"
  pathMatches :: "path_match \<Rightarrow> string \<Rightarrow> bool"
  rbacAllows :: "policy list \<Rightarrow> 'h \<Rightarrow> string \<Rightarrow> bool"
  toUpstream :: "route \<Rightarrow> 'h \<Rightarrow> 'h"

text \<open>The path without the query.\<close>

definition pathOnly :: "string \<Rightarrow> string" where
  "pathOnly path = takeWhile (\<lambda>c. c \<noteq> CHR ''?'') path"

text \<open>The documented meaning of a path or prefix match, of permissions and of principals.\<close>

fun matches :: "path_match \<Rightarrow> string \<Rightarrow> bool" where
  "matches (Path p) path = (pathOnly path = p)"
| "matches (Prefix p) path = HasPrefix (pathOnly path) p"

fun matched :: "path_match \<Rightarrow> string" where
  "matched (Path p) = p"
| "matched (Prefix p) = p"

fun permits :: "permission \<Rightarrow> string \<Rightarrow> bool" where
  "permits AnyPermission path = True"
| "permits (UrlPathPrefix p) path = HasPrefix (pathOnly path) p"

fun identifies :: "('h \<Rightarrow> string \<Rightarrow> string option) \<Rightarrow> principal \<Rightarrow> 'h \<Rightarrow> bool" where
  "identifies get AnyPrincipal h = True"
| "identifies get (HeaderExact k v) h = (get h k = Some v)"

definition allowed :: "('h \<Rightarrow> string \<Rightarrow> string option) \<Rightarrow> policy list \<Rightarrow> 'h \<Rightarrow> string \<Rightarrow> bool" where
  "allowed get rules h path =
     list_ex (\<lambda>p. list_ex (\<lambda>q. permits q path) (pol_permissions p) \<and> list_ex (\<lambda>q. identifies get q h) (pol_principals p)) rules"

text \<open>
  The laws: a header reads back as written; a match and an access rule mean what is
  documented; the router removes the headers the route lists, puts \<open>prefix_rewrite\<close> in the
  place of the matched prefix, and leaves every header alone that the listener does not add.
\<close>

definition lawful_envoy :: "'h envoy \<Rightarrow> bool" where
  "lawful_envoy H \<longleftrightarrow>
     (\<forall>h k v k'. hget H (hreplace H h k v) k' = (if k' = k then Some v else hget H h k')) \<and>
     (\<forall>h k v k'. hget H h k = None \<longrightarrow> hget H (hadd H h k v) k' = (if k' = k then Some v else hget H h k')) \<and>
     (\<forall>m path. pathMatches H m path \<longleftrightarrow> matches m path) \<and>
     (\<forall>rules h path. rbacAllows H rules h path \<longleftrightarrow> allowed (hget H) rules h path) \<and>
     (\<forall>r h k. k \<notin> {'':path'', ''x-forwarded-prefix'', ''x-forwarded-host'', ''x-forwarded-port'', ''x-envoy-original-path''} \<longrightarrow>
        hget H (toUpstream H r h) k = (if k \<in> set (rt_remove r) then None else hget H h k)) \<and>
     (\<forall>r h p path. rt_rewrite r = Some p \<longrightarrow> hget H h '':path'' = Some path \<longrightarrow>
        hget H (toUpstream H r h) '':path'' = Some (p @ drop (length (matched (rt_match r))) path))"

section \<open>The rules and routes of the listener\<close>

definition allowAll :: "policy list" where
  "allowAll = [\<lparr>pol_permissions = [AnyPermission], pol_principals = [AnyPrincipal]\<rparr>]"

definition serviceRoleOnly :: "gateway_keys \<Rightarrow> policy list" where
  "serviceRoleOnly K = [\<lparr>pol_permissions = [AnyPermission], pol_principals = [HeaderExact ''apikey'' (SERVICE_ROLE_JWT K)]\<rparr>]"

definition filterRules :: "gateway_keys \<Rightarrow> policy list" where
  "filterRules K =
     [\<lparr>pol_permissions = [UrlPathPrefix ''/pg/''], pol_principals = [HeaderExact ''apikey'' (SERVICE_ROLE_JWT K)]\<rparr>,
      \<lparr>pol_permissions = [UrlPathPrefix ''/auth/v1/'', UrlPathPrefix ''/rest/v1/''],
       pol_principals = [HeaderExact ''apikey'' (ANON_ROLE_JWT K), HeaderExact ''apikey'' (SERVICE_ROLE_JWT K)]\<rparr>]"

text \<open>A route to the Auth service that needs no key.\<close>

definition publicAuth :: "string \<Rightarrow> string \<Rightarrow> string option \<Rightarrow> route" where
  "publicAuth name prefix' rewrite =
     \<lparr>rt_name = name, rt_match = Prefix prefix', rt_cluster = Some ''auth'', rt_rewrite = rewrite, rt_remove = [],
      rt_rbac = Some allowAll\<rparr>"

text \<open>A route behind the keys, with its own access rules if it has any.\<close>

definition keyedRoute :: "string \<Rightarrow> path_match \<Rightarrow> string \<Rightarrow> policy list option \<Rightarrow> route" where
  "keyedRoute name match' cluster rules =
     \<lparr>rt_name = name, rt_match = match', rt_cluster = Some cluster, rt_rewrite = Some ''/'', rt_remove = [], rt_rbac = rules\<rparr>"

definition routes :: "gateway_keys \<Rightarrow> route list" where
  "routes K =
     [\<lparr>rt_name = ''internal-health'', rt_match = Path ''/_internal/health'', rt_cluster = None, rt_rewrite = None,
       rt_remove = [], rt_rbac = Some allowAll\<rparr>,
      publicAuth ''auth-v1-verify'' ''/auth/v1/verify'' (Some ''/verify''),
      publicAuth ''auth-v1-callback'' ''/auth/v1/callback'' (Some ''/callback''),
      publicAuth ''auth-v1-authorize'' ''/auth/v1/authorize'' (Some ''/authorize''),
      publicAuth ''auth-v1-jwks'' ''/auth/v1/.well-known/jwks.json'' (Some ''/.well-known/jwks.json''),
      publicAuth ''oauth-authorization-server'' ''/.well-known/oauth-authorization-server'' None,
      publicAuth ''auth-v1-saml-acs'' ''/auth/v1/sso/saml/acs'' (Some ''/sso/saml/acs''),
      publicAuth ''auth-v1-saml-metadata'' ''/auth/v1/sso/saml/metadata'' (Some ''/sso/saml/metadata''),
      keyedRoute ''auth-v1-protected'' (Prefix ''/auth/v1/'') ''auth'' None,
      keyedRoute ''rest-v1-openapi-protected'' (Path ''/rest/v1/'') ''rest'' (Some (serviceRoleOnly K)),
      keyedRoute ''rest-v1-protected'' (Prefix ''/rest/v1/'') ''rest'' None,
      keyedRoute ''pg-protected'' (Prefix ''/pg/'') ''meta'' None,
      \<lparr>rt_name = ''studio'', rt_match = Prefix ''/'', rt_cluster = Some ''studio'', rt_rewrite = None,
       rt_remove = [''authorization''], rt_rbac = Some allowAll\<rparr>]"

text \<open>The first route of the table whose match accepts the path.\<close>

definition routeFor :: "gateway_keys \<Rightarrow> 'h envoy \<Rightarrow> string \<Rightarrow> route option" where
  "routeFor K H path = List.find (\<lambda>r. pathMatches H (rt_match r) path) (routes K)"

section \<open>The Lua filters\<close>

definition protectedRoute :: "string \<Rightarrow> bool" where
  "protectedRoute route \<longleftrightarrow> route = ''auth-v1-protected'' \<or> route = ''rest-v1-openapi-protected'' \<or>
     route = ''rest-v1-protected'' \<or> route = ''pg-protected''"

text \<open>\<open>string.find(path, "?", 1, true)\<close> and the \<open>string.sub\<close> after it: the query, if there is one.\<close>

definition queryOf :: "string \<Rightarrow> string option" where
  "queryOf path = (if CHR ''?'' \<in> set path then Some (tl (dropWhile (\<lambda>c. c \<noteq> CHR ''?'') path)) else None)"

text \<open>
  \<open>string.gmatch(query, "([^&=]+)=([^&]*)")\<close>: from each position the longest run without
  \<open>&\<close> and \<open>=\<close>, which must be followed by \<open>=\<close>; where it is not, the search goes on behind it.
\<close>

function queryPairs :: "string \<Rightarrow> (string \<times> string) list" where
  "queryPairs q =
     (let key = takeWhile (\<lambda>c. c \<noteq> CHR ''&'' \<and> c \<noteq> CHR ''='') q;
          rest = dropWhile (\<lambda>c. c \<noteq> CHR ''&'' \<and> c \<noteq> CHR ''='') q
      in case rest of
           [] \<Rightarrow> []
         | c # r \<Rightarrow>
             if c = CHR ''='' \<and> key \<noteq> [] then
               (key, takeWhile (\<lambda>c. c \<noteq> CHR ''&'') r) # queryPairs (dropWhile (\<lambda>c. c \<noteq> CHR ''&'') r)
             else queryPairs r)"
  by pat_completeness auto

termination
proof (relation "measure length", goal_cases)
  case (2 q key rest c r)
  have "length (c # r) \<le> length q" unfolding 2(3) [symmetric] 2(2) by (rule length_dropWhile_le)
  then show ?case using length_dropWhile_le [of "\<lambda>c. c \<noteq> CHR ''&''" r] by simp
next
  case (3 q key rest c r)
  have "length (c # r) \<le> length q" unfolding 3(3) [symmetric] 3(2) by (rule length_dropWhile_le)
  then show ?case by simp
qed simp

declare queryPairs.simps [simp del]

text \<open>The first filter: copy a non-empty query key to the header when there is no header.\<close>

definition queryKeyFilter :: "'h envoy \<Rightarrow> string \<Rightarrow> 'h \<Rightarrow> 'h" where
  "queryKeyFilter H route h =
     (if \<not> protectedRoute route then h
      else if hget H h ''apikey'' \<noteq> None then h
      else case hget H h '':path'' of None \<Rightarrow> h | Some path \<Rightarrow>
        (case queryOf path of None \<Rightarrow> h | Some query \<Rightarrow>
          (case List.find (\<lambda>(key, v). key = ''apikey'' \<and> v \<noteq> '''') (queryPairs query) of
             None \<Rightarrow> h | Some (key, v) \<Rightarrow> hadd H h ''apikey'' v)))"

text \<open>The second filter: only the two configured opaque keys are admitted.\<close>

definition admissionFilter :: "gateway_keys \<Rightarrow> 'h envoy \<Rightarrow> string \<Rightarrow> 'h \<Rightarrow> bool" where
  "admissionFilter K H route h =
     (if \<not> protectedRoute route then True
      else let key = hget H h ''apikey''
           in \<not> (key \<noteq> Some (PUBLISHABLE_KEY K) \<and> key \<noteq> Some (SECRET_KEY K)))"

definition translate :: "gateway_keys \<Rightarrow> string \<Rightarrow> string option" where
  "translate K key =
     (if key = PUBLISHABLE_KEY K then Some (ANON_ROLE_JWT K)
      else if key = SECRET_KEY K then Some (SERVICE_ROLE_JWT K) else None)"

text \<open>\<open>string.match(part, "^([^=]+)=")\<close>.\<close>

definition partKey :: "string \<Rightarrow> string option" where
  "partKey part =
     (let key = takeWhile (\<lambda>c. c \<noteq> CHR ''='') part
      in if key \<noteq> [] \<and> key \<noteq> part then Some key else None)"

definition replaceQueryApikey :: "string \<Rightarrow> string \<Rightarrow> string" where
  "replaceQueryApikey path replacement =
     (case queryOf path of
        None \<Rightarrow> path
      | Some query \<Rightarrow>
          (let base = pathOnly path @ ''?'';
               parts = filter (\<lambda>w. w \<noteq> []) (Split query (CHR ''&''));
               replaced = list_ex (\<lambda>part. partKey part = Some ''apikey'') parts;
               parts = map (\<lambda>part. if partKey part = Some ''apikey'' then ''apikey='' @ replacement else part) parts
           in if \<not> replaced then path else base @ Join parts ''&''))"

text \<open>The third filter: translate the first query key, in the header and in the URL.\<close>

definition queryTranslation :: "gateway_keys \<Rightarrow> 'h envoy \<Rightarrow> string \<Rightarrow> 'h \<Rightarrow> 'h" where
  "queryTranslation K H route h =
     (if \<not> protectedRoute route then h
      else case hget H h '':path'' of None \<Rightarrow> h | Some path \<Rightarrow>
        (case queryOf path of None \<Rightarrow> h | Some query \<Rightarrow>
          (case List.find (\<lambda>(key, v). key = ''apikey'') (queryPairs query) of
             None \<Rightarrow> h
           | Some (key, v) \<Rightarrow>
               (case translate K v of
                  None \<Rightarrow> h
                | Some translated \<Rightarrow>
                    hreplace H (hreplace H h ''apikey'' translated) '':path'' (replaceQueryApikey path translated)))))"

text \<open>The fourth filter: translate the header key, on every route.\<close>

definition headerTranslation :: "gateway_keys \<Rightarrow> 'h envoy \<Rightarrow> 'h \<Rightarrow> 'h" where
  "headerTranslation K H h =
     (let key = hget H h ''apikey''
      in if key = Some (PUBLISHABLE_KEY K) then hreplace H h ''apikey'' (ANON_ROLE_JWT K)
         else if key = Some (SECRET_KEY K) then hreplace H h ''apikey'' (SERVICE_ROLE_JWT K)
         else h)"

text \<open>The pattern \<open>^([^%.]+)%.([^%.]+)%.([^%.]+)$\<close>: three non-empty segments.\<close>

definition genuineBearer :: "string option \<Rightarrow> bool" where
  "genuineBearer v =
     (case v of None \<Rightarrow> False | Some s \<Rightarrow>
        if take 7 s \<noteq> ''Bearer '' then False
        else let token = drop 7 s
             in if token = '''' \<or> take 3 token = ''sb_'' then False
                else let parts = Split token (CHR ''.'') in length parts = 3 \<and> [] \<notin> set parts)"

text \<open>The fifth filter: a request without a genuine bearer token gets the role token.\<close>

definition bearerSynthesis :: "'h envoy \<Rightarrow> string \<Rightarrow> 'h \<Rightarrow> 'h" where
  "bearerSynthesis H route h =
     (if \<not> protectedRoute route then h
      else if genuineBearer (hget H h ''authorization'') then h
      else case hget H h ''apikey'' of
             None \<Rightarrow> h
           | Some key \<Rightarrow> if key \<noteq> '''' then hreplace H h ''authorization'' (''Bearer '' @ key) else h)"

section \<open>The listener\<close>

datatype 'h verdict = Respond nat | Forward string 'h

text \<open>
  A request that is not a CORS preflight: the route, the filters in order, the access rules of
  the route or of the filter, and the upstream cluster or the direct response.
\<close>

definition handleRequest :: "gateway_keys \<Rightarrow> 'h envoy \<Rightarrow> 'h \<Rightarrow> 'h verdict" where
  "handleRequest K H h =
     (case hget H h '':path'' of None \<Rightarrow> Respond 400 | Some path \<Rightarrow>
     (case routeFor K H path of None \<Rightarrow> Respond 404 | Some r \<Rightarrow>
        (let h = queryKeyFilter H (rt_name r) h
         in if \<not> admissionFilter K H (rt_name r) h then Respond 401
         else let h = queryTranslation K H (rt_name r) h;
                  h = headerTranslation K H h;
                  h = bearerSynthesis H (rt_name r) h;
                  path' = (case hget H h '':path'' of None \<Rightarrow> '''' | Some p \<Rightarrow> p);
                  rules = (case rt_rbac r of None \<Rightarrow> filterRules K | Some rules \<Rightarrow> rules)
              in if \<not> rbacAllows H rules h path' then Respond 403
                 else case rt_cluster r of None \<Rightarrow> Respond 200 | Some c \<Rightarrow> Forward c (toUpstream H r h))))"

section \<open>Rendering the credentials\<close>

text \<open>
  \<open>escape_sed\<close>. The script is a raw string, so its replacement \<open>\\\\&\<close> reaches \<open>sed\<close> as written:
  two backslashes and the matched character.
\<close>

definition escape_sed :: "string \<Rightarrow> string" where
  "escape_sed v = concat (map (\<lambda>c. if c \<in> {CHR 0x5C, CHR ''&'', CHR ''|''} then [CHR 0x5C, CHR 0x5C, c] else [c]) v)"

text \<open>\<open>$(...)\<close> drops trailing newlines.\<close>

definition commandOutput :: "string \<Rightarrow> string" where
  "commandOutput s = rev (dropWhile (\<lambda>c. c = CHR 0x0A) (rev s))"

text \<open>
  What \<open>s|placeholder|text|g\<close> puts in place of a match: a backslash takes the next character
  literally, \<open>&\<close> stands for the match, and a bare newline or the delimiter ends the replacement, so
  that the command is no longer that substitution (with a newline it is malformed): \<open>None\<close>.
\<close>

fun sedReplacement :: "string \<Rightarrow> string \<Rightarrow> string option" where
  "sedReplacement m [] = Some []"
| "sedReplacement m [c] =
     (if c \<in> {CHR 0x5C, CHR ''|'', CHR 0x0A} then None else if c = CHR ''&'' then Some m else Some [c])"
| "sedReplacement m (c # d # t) =
     (if c = CHR 0x5C then map_option (\<lambda>r. d # r) (sedReplacement m t)
      else if c = CHR ''|'' \<or> c = CHR 0x0A then None
      else if c = CHR ''&'' then map_option (\<lambda>r. m @ r) (sedReplacement m (d # t))
      else map_option (\<lambda>r. c # r) (sedReplacement m (d # t)))"

definition renderValue :: "string \<Rightarrow> string \<Rightarrow> string option" where
  "renderValue placeholder v = sedReplacement placeholder (commandOutput (escape_sed v))"

section \<open>Laws of the parts\<close>

lemma hget_hreplace:
  "lawful_envoy H \<Longrightarrow> hget H (hreplace H h k v) k' = (if k' = k then Some v else hget H h k')"
  by (simp add: lawful_envoy_def)

lemma hget_hadd:
  "lawful_envoy H \<Longrightarrow> hget H h k = None \<Longrightarrow> hget H (hadd H h k v) k' = (if k' = k then Some v else hget H h k')"
  by (simp add: lawful_envoy_def)

lemma lawful_envoyD:
  assumes "lawful_envoy H"
  shows "pathMatches H m path = matches m path" and "rbacAllows H rules h path = allowed (hget H) rules h path"
    and "k \<in> {''apikey'', ''authorization''} \<Longrightarrow>
           hget H (toUpstream H r h) k = (if k \<in> set (rt_remove r) then None else hget H h k)"
    and "rt_rewrite r = Some p \<Longrightarrow> hget H h '':path'' = Some path \<Longrightarrow>
           hget H (toUpstream H r h) '':path'' = Some (p @ drop (length (matched (rt_match r))) path)"
  using assms unfolding lawful_envoy_def by auto

text \<open>The key a client presents, and the key in the query that the third filter looks at.\<close>

definition presentedKey :: "'h envoy \<Rightarrow> 'h \<Rightarrow> string option" where
  "presentedKey H h =
     (case hget H h ''apikey'' of Some key \<Rightarrow> Some key | None \<Rightarrow>
        map_option snd (Option.bind (Option.bind (hget H h '':path'') queryOf)
          (\<lambda>query. List.find (\<lambda>(key, v). key = ''apikey'' \<and> v \<noteq> '''') (queryPairs query))))"

definition queryKey :: "'h envoy \<Rightarrow> 'h \<Rightarrow> string option" where
  "queryKey H h =
     map_option snd (Option.bind (Option.bind (hget H h '':path'') queryOf)
       (\<lambda>query. List.find (\<lambda>(key, v). key = ''apikey'') (queryPairs query)))"

lemma queryKeyFilter_get:
  assumes "lawful_envoy H" "protectedRoute route"
  shows "hget H (queryKeyFilter H route h) k = (if k = ''apikey'' then presentedKey H h else hget H h k)"
  using assms
  by (auto simp: queryKeyFilter_def presentedKey_def hget_hadd bind_eq_Some_conv split: option.splits)

lemma queryTranslation_get:
  assumes "lawful_envoy H" "protectedRoute route"
  shows "hget H (queryTranslation K H route h) ''apikey'' =
           (case Option.bind (queryKey H h) (translate K) of Some t \<Rightarrow> Some t | None \<Rightarrow> hget H h ''apikey'')"
    and "hget H (queryTranslation K H route h) '':path'' =
           (case Option.bind (queryKey H h) (translate K) of
              Some t \<Rightarrow> map_option (\<lambda>path. replaceQueryApikey path t) (hget H h '':path'')
            | None \<Rightarrow> hget H h '':path'')"
    and "k \<noteq> ''apikey'' \<Longrightarrow> k \<noteq> '':path'' \<Longrightarrow> hget H (queryTranslation K H route h) k = hget H h k"
  using assms
  by (auto simp: queryTranslation_def queryKey_def hget_hreplace split: option.splits)

lemma headerTranslation_get:
  assumes "lawful_envoy H"
  shows "hget H (headerTranslation K H h) k =
           (if k = ''apikey'' then map_option (\<lambda>key. case translate K key of Some t \<Rightarrow> t | None \<Rightarrow> key) (hget H h k)
            else hget H h k)"
  using assms
  by (cases "hget H h ''apikey''") (auto simp: headerTranslation_def translate_def Let_def hget_hreplace)

lemma bearerSynthesis_get:
  assumes "lawful_envoy H" "protectedRoute route" "hget H h ''apikey'' = Some key" "key \<noteq> ''''"
  shows "hget H (bearerSynthesis H route h) k =
           (if k = ''authorization'' \<and> \<not> genuineBearer (hget H h k) then Some (''Bearer '' @ key) else hget H h k)"
  using assms by (auto simp: bearerSynthesis_def hget_hreplace)

lemma pathOnly_query: "pathOnly (takeWhile (\<lambda>c. c \<noteq> CHR ''?'') path @ CHR ''?'' # rest) = pathOnly path"
  by (simp add: pathOnly_def takeWhile_append)

lemma replaceQueryApikey_pathOnly: "pathOnly (replaceQueryApikey path t) = pathOnly path"
  using pathOnly_query [of path]
  by (auto simp: replaceQueryApikey_def Let_def pathOnly_def split: option.splits)

section \<open>The routes behind the keys\<close>

lemma routeForD:
  assumes "lawful_envoy H" "routeFor K H path = Some r"
  shows "r \<in> set (routes K)" "matches (rt_match r) path"
  using assms by (auto simp: routeFor_def find_Some_iff lawful_envoyD)

text \<open>A route that only the service role may use.\<close>

definition serviceOnly :: "route \<Rightarrow> bool" where
  "serviceOnly r \<longleftrightarrow> rt_name r = ''rest-v1-openapi-protected'' \<or> rt_name r = ''pg-protected''"

lemma protected_routes:
  assumes "r \<in> set (routes K)" "protectedRoute (rt_name r)"
  shows "r = keyedRoute ''auth-v1-protected'' (Prefix ''/auth/v1/'') ''auth'' None \<or>
         r = keyedRoute ''rest-v1-openapi-protected'' (Path ''/rest/v1/'') ''rest'' (Some (serviceRoleOnly K)) \<or>
         r = keyedRoute ''rest-v1-protected'' (Prefix ''/rest/v1/'') ''rest'' None \<or>
         r = keyedRoute ''pg-protected'' (Prefix ''/pg/'') ''meta'' None"
  using assms by (auto simp: routes_def protectedRoute_def publicAuth_def)

lemma upstream_routes:
  assumes "r \<in> set (routes K)" "rt_cluster r = Some c"
  shows "c = ''meta'' \<Longrightarrow> rt_name r = ''pg-protected''"
    and "c = ''rest'' \<Longrightarrow> protectedRoute (rt_name r)"
    and "c = ''studio'' \<Longrightarrow> rt_remove r = [''authorization'']"
  using assms by (auto simp: routes_def protectedRoute_def publicAuth_def keyedRoute_def)

text \<open>With a role token in place, the access rules are exactly the service-role condition.\<close>

lemma allowed_iff:
  assumes "r \<in> set (routes K)" "protectedRoute (rt_name r)" "matches (rt_match r) path" "pathOnly path' = pathOnly path"
    and "hget H h ''apikey'' = Some t" "t \<in> {ANON_ROLE_JWT K, SERVICE_ROLE_JWT K}"
  shows "allowed (hget H) (case rt_rbac r of None \<Rightarrow> filterRules K | Some rules \<Rightarrow> rules) h path' \<longleftrightarrow>
           \<not> (serviceOnly r \<and> t \<noteq> SERVICE_ROLE_JWT K)"
  using protected_routes [OF assms(1,2)] assms(3-6)
  by (auto simp: keyedRoute_def allowed_def filterRules_def serviceRoleOnly_def serviceOnly_def HasPrefix_iff)

section \<open>The access decision\<close>

text \<open>
  The role token a request is given: that of the first key in the query when it is one of the
  two opaque keys, and otherwise that of the presented key. No token without a presented key.
\<close>

definition roleToken :: "gateway_keys \<Rightarrow> 'h envoy \<Rightarrow> 'h \<Rightarrow> string option" where
  "roleToken K H h =
     map_option (\<lambda>t. case Option.bind (queryKey H h) (translate K) of None \<Rightarrow> t | Some t' \<Rightarrow> t')
       (Option.bind (presentedKey H h) (translate K))"

text \<open>The keys and tokens of a project: no token is an opaque key, and no token is empty.\<close>

definition distinctKeys :: "gateway_keys \<Rightarrow> bool" where
  "distinctKeys K \<longleftrightarrow>
     distinct [PUBLISHABLE_KEY K, SECRET_KEY K, ANON_ROLE_JWT K, SERVICE_ROLE_JWT K] \<and>
     ANON_ROLE_JWT K \<noteq> '''' \<and> SERVICE_ROLE_JWT K \<noteq> ''''"

lemma translate_cases:
  assumes "translate K key = Some t"
  obtains "key = PUBLISHABLE_KEY K" "t = ANON_ROLE_JWT K" | "key = SECRET_KEY K" "t = SERVICE_ROLE_JWT K"
  using assms by (auto simp: translate_def split: if_splits)

lemma translate_role:
  assumes "distinctKeys K" "translate K key = Some t"
  shows "t \<in> {ANON_ROLE_JWT K, SERVICE_ROLE_JWT K}" "translate K t = None" "t \<noteq> ''''"
  using assms(2) by (rule translate_cases; use assms(1) in \<open>auto simp: distinctKeys_def translate_def\<close>)+

lemma roleToken_translate:
  "roleToken K H h = Some t \<Longrightarrow> \<exists>key. translate K key = Some t"
  by (auto simp: roleToken_def bind_eq_Some_conv split: option.splits)

lemma admissionFilter_iff:
  assumes "protectedRoute route"
  shows "admissionFilter K H route h \<longleftrightarrow> Option.bind (hget H h ''apikey'') (translate K) \<noteq> None"
  using assms by (cases "hget H h ''apikey''") (auto simp: admissionFilter_def translate_def)

lemma queryKey_cong:
  "hget H h' '':path'' = hget H h '':path'' \<Longrightarrow> queryKey H h' = queryKey H h"
  by (simp add: queryKey_def)

text \<open>The headers behind the three filters that follow admission.\<close>

lemma translated_get:
  assumes H: "lawful_envoy H" and p: "protectedRoute route" and d: "distinctKeys K" and t: "roleToken K H h = Some t"
  defines "h' \<equiv> bearerSynthesis H route (headerTranslation K H (queryTranslation K H route (queryKeyFilter H route h)))"
  shows "hget H h' ''apikey'' = Some t"
    and "hget H h' ''authorization'' =
           (if genuineBearer (hget H h ''authorization'') then hget H h ''authorization'' else Some (''Bearer '' @ t))"
    and "hget H h' '':path'' =
           (case Option.bind (queryKey H h) (translate K) of
              Some t' \<Rightarrow> map_option (\<lambda>path. replaceQueryApikey path t') (hget H h '':path'')
            | None \<Rightarrow> hget H h '':path'')"
    and "k \<notin> {''apikey'', ''authorization'', '':path''} \<Longrightarrow> hget H h' k = hget H h k"
proof -
  let ?q = "queryKeyFilter H route h" and ?b = "headerTranslation K H (queryTranslation K H route (queryKeyFilter H route h))"
  have q: "queryKey H ?q = queryKey H h"
    by (rule queryKey_cong) (simp add: queryKeyFilter_get [OF H p])
  obtain key u where key: "presentedKey H h = Some key" "translate K key = Some u"
    and tu: "t = (case Option.bind (queryKey H h) (translate K) of None \<Rightarrow> u | Some t' \<Rightarrow> t')"
    using t by (auto simp: roleToken_def bind_eq_Some_conv)
  have r: "translate K t = None" "t \<noteq> ''''"
    using roleToken_translate [OF t] translate_role(2,3) [OF d] by blast+
  have a: "hget H ?b ''apikey'' = Some t"
    using key tu r
    by (auto simp: headerTranslation_get [OF H] queryTranslation_get [OF H p] queryKeyFilter_get [OF H p] q
        split: option.splits)
  note get = bearerSynthesis_get [OF H p a r(2)]
  show "hget H h' ''apikey'' = Some t" by (simp add: h'_def get a)
  show "hget H h' ''authorization'' =
      (if genuineBearer (hget H h ''authorization'') then hget H h ''authorization'' else Some (''Bearer '' @ t))"
    by (simp add: h'_def get headerTranslation_get [OF H] queryTranslation_get [OF H p] queryKeyFilter_get [OF H p])
  show "hget H h' '':path'' =
      (case Option.bind (queryKey H h) (translate K) of
         Some t' \<Rightarrow> map_option (\<lambda>path. replaceQueryApikey path t') (hget H h '':path'') | None \<Rightarrow> hget H h '':path'')"
    by (simp add: h'_def get headerTranslation_get [OF H] queryTranslation_get [OF H p] queryKeyFilter_get [OF H p] q
        split: option.splits)
  show "k \<notin> {''apikey'', ''authorization'', '':path''} \<Longrightarrow> hget H h' k = hget H h k"
    by (simp add: h'_def get headerTranslation_get [OF H] queryTranslation_get [OF H p] queryKeyFilter_get [OF H p])
qed

lemma handleRequest_unadmitted:
  assumes "lawful_envoy H" "protectedRoute (rt_name r)" "hget H h '':path'' = Some path" "routeFor K H path = Some r"
    and "roleToken K H h = None"
  shows "handleRequest K H h = Respond 401"
proof -
  have "\<not> admissionFilter K H (rt_name r) (queryKeyFilter H (rt_name r) h)"
    using assms(5) by (simp add: admissionFilter_iff [OF assms(2)] queryKeyFilter_get [OF assms(1,2)] roleToken_def)
  then show ?thesis by (simp add: handleRequest_def assms)
qed

lemma handleRequest_admitted:
  assumes "lawful_envoy H" "protectedRoute (rt_name r)" "distinctKeys K"
    and "hget H h '':path'' = Some path" "routeFor K H path = Some r" "roleToken K H h = Some t"
  defines "h' \<equiv> bearerSynthesis H (rt_name r) (headerTranslation K H
                   (queryTranslation K H (rt_name r) (queryKeyFilter H (rt_name r) h)))"
  shows "handleRequest K H h =
           (if serviceOnly r \<and> t \<noteq> SERVICE_ROLE_JWT K then Respond 403
            else Forward (the (rt_cluster r)) (toUpstream H r h'))"
proof -
  note got = translated_get [OF assms(1-3,6), folded h'_def]
  have adm: "admissionFilter K H (rt_name r) (queryKeyFilter H (rt_name r) h)"
    using assms(6)
    by (auto simp: admissionFilter_iff [OF assms(2)] queryKeyFilter_get [OF assms(1,2)] roleToken_def bind_eq_Some_conv)
  have p: "pathOnly (case hget H h' '':path'' of None \<Rightarrow> '''' | Some p \<Rightarrow> p) = pathOnly path"
    using assms(4) by (auto simp: got(3) replaceQueryApikey_pathOnly split: option.splits)
  have role: "t \<in> {ANON_ROLE_JWT K, SERVICE_ROLE_JWT K}"
    using roleToken_translate [OF assms(6)] translate_role [OF assms(3)] by blast
  obtain c where c: "rt_cluster r = Some c"
    using protected_routes [OF routeForD(1) [OF assms(1,5)] assms(2)] by (auto simp: keyedRoute_def)
  show ?thesis
    unfolding handleRequest_def
    using allowed_iff [OF routeForD(1) [OF assms(1,5)] assms(2) routeForD(2) [OF assms(1,5)] p got(1) role]
    by (simp add: assms(4,5) adm c h'_def lawful_envoyD(2) [OF assms(1)])
qed

text \<open>The path behind the filters, with the query key replaced when it was translated.\<close>

definition translatedPath :: "gateway_keys \<Rightarrow> 'h envoy \<Rightarrow> 'h \<Rightarrow> string \<Rightarrow> string" where
  "translatedPath K H h path =
     (case Option.bind (queryKey H h) (translate K) of None \<Rightarrow> path | Some t \<Rightarrow> replaceQueryApikey path t)"


text \<open>All the keys a client offers, in the header or anywhere in the query.\<close>

definition presentedValues :: "'h envoy \<Rightarrow> 'h \<Rightarrow> string set" where
  "presentedValues H h =
     {v. hget H h ''apikey'' = Some v} \<union>
     {v. \<exists>path query. hget H h '':path'' = Some path \<and> queryOf path = Some query \<and> (''apikey'', v) \<in> set (queryPairs query)}"

lemma presentedKey_value: "presentedKey H h = Some v \<Longrightarrow> v \<in> presentedValues H h"
  by (auto simp: presentedKey_def presentedValues_def bind_eq_Some_conv find_Some_iff split: option.splits)
    (metis nth_mem)

lemma queryKey_value: "queryKey H h = Some v \<Longrightarrow> v \<in> presentedValues H h"
  by (auto simp: queryKey_def presentedValues_def bind_eq_Some_conv find_Some_iff) (metis nth_mem)

lemma roleToken_presented:
  assumes "roleToken K H h = Some t"
  obtains key where "key \<in> presentedValues H h" "translate K key = Some t"
  using assms
  by (auto simp: roleToken_def bind_eq_Some_conv split: option.splits dest: presentedKey_value queryKey_value)

lemma handleRequest_forwards:
  assumes "handleRequest K H h = Forward c h'"
  obtains path r where "hget H h '':path'' = Some path" "routeFor K H path = Some r" "rt_cluster r = Some c"
    and "h' = toUpstream H r (bearerSynthesis H (rt_name r) (headerTranslation K H
                (queryTranslation K H (rt_name r) (queryKeyFilter H (rt_name r) h))))"
  using assms by (auto simp: handleRequest_def Let_def split: option.splits if_splits)

lemma bearerSynthesis_other:
  "lawful_envoy H \<Longrightarrow> k \<noteq> ''authorization'' \<Longrightarrow> hget H (bearerSynthesis H route h) k = hget H h k"
  by (auto simp: bearerSynthesis_def hget_hreplace split: option.splits)

text \<open>No opaque key leaves the gateway in the key header, on any route, the public ones included.\<close>

lemma opaque_keys_hidden:
  assumes "lawful_envoy H" "distinctKeys K" "handleRequest K H h = Forward c h'"
  shows "hget H h' ''apikey'' \<notin> {Some (PUBLISHABLE_KEY K), Some (SECRET_KEY K)}"
proof -
  obtain r x where h': "h' = toUpstream H r (bearerSynthesis H (rt_name r) (headerTranslation K H x))"
    using assms(3) by (rule handleRequest_forwards)
  have "hget H (headerTranslation K H x) ''apikey'' \<notin> {Some (PUBLISHABLE_KEY K), Some (SECRET_KEY K)}"
    using assms(2)
    by (cases "hget H x ''apikey''") (auto simp: headerTranslation_get [OF assms(1)] translate_def distinctKeys_def)
  then show ?thesis
    by (simp add: h' lawful_envoyD(3) [OF assms(1)] bearerSynthesis_other [OF assms(1)])
qed

text \<open>
  C13. What reaches the services behind the gateway, whatever the request: the metadata service
  only requests that offered the secret key, the REST service only requests that offered one of
  the two opaque keys, and Studio no authorization header; and no opaque key leaves the gateway
  in the key header, on any route, the public ones included.
\<close>

theorem gateway_confines_upstreams:
  assumes "lawful_envoy H" "distinctKeys K" "handleRequest K H h = Forward c h'"
  shows "(c = ''meta'' \<longrightarrow> SECRET_KEY K \<in> presentedValues H h) \<and>
         (c = ''rest'' \<longrightarrow> PUBLISHABLE_KEY K \<in> presentedValues H h \<or> SECRET_KEY K \<in> presentedValues H h) \<and>
         (c = ''studio'' \<longrightarrow> hget H h' ''authorization'' = None) \<and>
         hget H h' ''apikey'' \<notin> {Some (PUBLISHABLE_KEY K), Some (SECRET_KEY K)}"
proof -
  obtain path r where path: "hget H h '':path'' = Some path" and r: "routeFor K H path = Some r" "rt_cluster r = Some c"
    and h': "\<exists>x. h' = toUpstream H r x"
    using handleRequest_forwards [OF assms(3)] by metis
  note up = upstream_routes [OF routeForD(1) [OF assms(1) r(1)] r(2)]
  have keyed: "\<exists>key t. key \<in> presentedValues H h \<and> translate K key = Some t \<and> (serviceOnly r \<longrightarrow> t = SERVICE_ROLE_JWT K)"
    if p: "protectedRoute (rt_name r)"
  proof (cases "roleToken K H h")
    case None
    then show ?thesis using handleRequest_unadmitted [OF assms(1) p path r(1)] assms(3) by simp
  next
    case (Some t)
    then obtain key where "key \<in> presentedValues H h" "translate K key = Some t" by (rule roleToken_presented)
    then show ?thesis
      using handleRequest_admitted [OF assms(1) p assms(2) path r(1) Some] assms(3) by (auto split: if_splits)
  qed
  have "SECRET_KEY K \<in> presentedValues H h" if "c = ''meta''"
    using keyed up(1) [OF that] assms(2)
    by (auto simp: protectedRoute_def serviceOnly_def distinctKeys_def elim!: translate_cases)
  moreover have "PUBLISHABLE_KEY K \<in> presentedValues H h \<or> SECRET_KEY K \<in> presentedValues H h" if "c = ''rest''"
    using keyed [OF up(2) [OF that]] by (auto elim!: translate_cases)
  moreover have "hget H h' ''authorization'' = None" if "c = ''studio''"
    using up(3) [OF that] h' by (auto simp: lawful_envoyD(3) [OF assms(1)])
  ultimately show ?thesis using opaque_keys_hidden [OF assms] by blast
qed

end
