(* ===== verification/Gateway_Credentials.thy ===== *)
theory Gateway_Credentials
  imports Gateway Secrets
begin

text \<open>
  The credentials at the gateway: what \<open>ValidateProjectCredentials\<close> of
  \<open>src/internal/resources/secrets/secrets.go\<close> guarantees of the values that
  \<open>envoyEntrypoint\<close> of \<open>src/internal/resources/configmaps/envoy.go\<close> writes into the listener.
\<close>

section \<open>The values the entrypoint renders\<close>

definition gatewayKeys :: "project_credentials \<Rightarrow> gateway_keys" where
  "gatewayKeys cred =
     \<lparr>PUBLISHABLE_KEY = pcr_PublishableKey cred, SECRET_KEY = pcr_SecretKey cred,
      ANON_ROLE_JWT = pcr_AnonRoleJWT cred, SERVICE_ROLE_JWT = pcr_ServiceRoleJWT cred\<rparr>"

definition renderKeys :: "gateway_keys \<Rightarrow> gateway_keys option" where
  "renderKeys K =
     do { publishable \<leftarrow> renderValue ''${SUPABASE_PUBLISHABLE_KEY}'' (PUBLISHABLE_KEY K);
          secret \<leftarrow> renderValue ''${SUPABASE_SECRET_KEY}'' (SECRET_KEY K);
          anon \<leftarrow> renderValue ''${SUPABASE_ANON_ROLE_JWT}'' (ANON_ROLE_JWT K);
          service \<leftarrow> renderValue ''${SUPABASE_SERVICE_ROLE_JWT}'' (SERVICE_ROLE_JWT K);
          Some \<lparr>PUBLISHABLE_KEY = publishable, SECRET_KEY = secret, ANON_ROLE_JWT = anon, SERVICE_ROLE_JWT = service\<rparr> }"

section \<open>Plain values\<close>

text \<open>The characters that neither \<open>sed\<close> command treats specially.\<close>

definition sedPlain :: "char \<Rightarrow> bool" where
  "sedPlain c \<longleftrightarrow> c \<notin> {CHR 0x5C, CHR ''&'', CHR ''|'', CHR 0x0A}"

lemma escape_sed_plain: "list_all sedPlain v \<Longrightarrow> escape_sed v = v"
  by (induction v) (auto simp: escape_sed_def sedPlain_def)

lemma commandOutput_plain: "list_all sedPlain v \<Longrightarrow> commandOutput v = v"
  by (cases v rule: rev_cases) (auto simp: commandOutput_def sedPlain_def)

lemma sedReplacement_plain: "list_all sedPlain v \<Longrightarrow> sedReplacement m v = Some v"
  by (induction m v rule: sedReplacement.induct) (auto simp: sedPlain_def)

lemma sedReplacement_newline: "list_all sedPlain u \<Longrightarrow> sedReplacement m (u @ CHR 0x0A # w) = None"
proof (induction u)
  case Nil
  then show ?case by (cases w) simp_all
next
  case (Cons c u)
  then show ?case by (cases u) (auto simp: sedPlain_def)
qed

lemma sedReplacement_prefix:
  "list_all sedPlain u \<Longrightarrow> w \<noteq> [] \<Longrightarrow> sedReplacement m (u @ w) = map_option (\<lambda>r. u @ r) (sedReplacement m w)"
proof (induction u)
  case (Cons c u)
  then obtain d t where "u @ w = d # t" by (cases "u @ w") auto
  with Cons show ?case by (auto simp: sedPlain_def option.map_comp comp_def)
qed (cases "sedReplacement m w"; simp)

lemma sedReplacement_ampersand: "sedReplacement m (CHR ''&'' # w) = map_option (\<lambda>r. m @ r) (sedReplacement m w)"
  by (cases w) auto

lemma renderValue_plain: "list_all sedPlain v \<Longrightarrow> renderValue placeholder v = Some v"
  by (simp add: renderValue_def escape_sed_plain commandOutput_plain sedReplacement_plain)

section \<open>The characters of validated values\<close>

text \<open>A text that decodes is written in the alphabet, the padding and the ignored line breaks.\<close>

lemma index_from_mem: "index_from n c xs = Some i \<Longrightarrow> c \<in> set xs"
  by (induction n c xs rule: index_from.induct) (auto split: if_splits)

lemma b64_decode_chars:
  "b64_decode e s = Some b \<Longrightarrow> c \<in> set s \<Longrightarrow> c \<in> set (b64_alphabet e) \<or> c = CHR ''=''"
  by (induction e s arbitrary: b rule: b64_decode.induct)
    (auto simp: b64_value_def bind_eq_Some_conv dest: index_from_mem split: if_splits)

lemma decodeBase64URL_chars:
  assumes "decodeBase64URL s = Some b" "c \<in> set s"
  shows "isBase64URLCharacter c \<or> c \<in> {CHR ''='', CHR 0x0A, CHR 0x0D}"
proof -
  have "\<exists>e \<in> {RawURLEncoding, URLEncoding}. b64_decode e (filter (\<lambda>c. c \<noteq> CHR 0x0A \<and> c \<noteq> CHR 0x0D) s) = Some b"
    using assms(1) by (auto simp: decodeBase64URL_def DecodeString_def split: option.splits)
  moreover have "\<forall>c \<in> set (b64_alphabet URLEncoding). isBase64URLCharacter c" by code_simp
  ultimately show ?thesis
    using b64_decode_chars [of _ _ b c] RawURL_alphabet assms(2) by fastforce
qed

lemma base64url_plain: "isBase64URLCharacter c \<Longrightarrow> sedPlain c \<and> c \<noteq> CHR ''.''"
  by (auto simp: isBase64URLCharacter_def sedPlain_def less_eq_char_def)

lemma opaque_chars:
  assumes "validateOpaqueKey E v prefix' = Inr ()" "list_all isBase64URLCharacter prefix'"
  shows "list_all isBase64URLCharacter v"
proof -
  have "isBase64URLCharacter (CHR ''_'')" by (simp add: isBase64URLCharacter_def)
  then show ?thesis
    using validateOpaqueKey_shape [OF assms(1)] assms(2) checksum_chars by auto
qed

lemma token_chars:
  assumes "VerifyES256JWT E now token key role aud = Inr ()"
  shows "CHR ''.'' \<in> set token" "CHR 0x0A \<notin> set token \<Longrightarrow> list_all sedPlain token"
proof -
  obtain h c s where t: "token = h @ ''.'' @ c @ ''.'' @ s"
    and d: "decodeBase64URL h \<noteq> None" "decodeBase64URL c \<noteq> None" "decodeBase64URL s \<noteq> None"
    using assms unfolding VerifyES256JWT_ok verifyWithPublicKey_iff segments_ok_def by blast
  show "CHR ''.'' \<in> set token" by (simp add: t)
  have plain: "x \<in> set part \<Longrightarrow> decodeBase64URL part \<noteq> None \<Longrightarrow> x \<noteq> CHR 0x0A \<Longrightarrow> sedPlain x" for x part
    using decodeBase64URL_chars [of part _ x] base64url_plain [of x] by (auto simp: sedPlain_def)
  show "list_all sedPlain token" if "CHR 0x0A \<notin> set token"
    using that plain d by (auto simp: t list_all_iff sedPlain_def)
qed

text \<open>A token carries one role.\<close>

lemma token_role:
  assumes "VerifyES256JWT E now token key role aud = Inr ()" "VerifyES256JWT E now' token key role' aud' = Inr ()"
  shows "role = role'"
  using assms unfolding VerifyES256JWT_ok verifyWithPublicKey_iff segments_ok_def by auto

lemma ValidateProjectCredentials_values:
  assumes "ValidateProjectCredentials E now now' (Some secret) = Inr cred"
  shows "validateOpaqueKey E (pcr_PublishableKey cred) ''sb_publishable_'' = Inr ()"
    and "validateOpaqueKey E (pcr_SecretKey cred) ''sb_secret_'' = Inr ()"
    and "pcr_PublishableKey cred \<noteq> pcr_SecretKey cred"
    and "\<exists>key. VerifyES256JWT E now (pcr_AnonRoleJWT cred) key ''anon'' RequiredRoleAudience = Inr () \<and>
           VerifyES256JWT E now' (pcr_ServiceRoleJWT cred) key ''service_role'' RequiredRoleAudience = Inr ()"
  using assms by (auto simp: ValidateProjectCredentials_def Let_def split: sum.splits if_splits)

section \<open>Properties\<close>

text \<open>
  C14. The gateway can rely on validated credentials: the two keys and the two role tokens are
  four different values, as the access decision requires, and the entrypoint writes each of
  them into the listener unchanged, provided the tokens contain no line break (which the
  Base64 decoder of the validation ignores).
\<close>

theorem validated_credentials_configure_gateway:
  assumes "ValidateProjectCredentials E now now' (Some secret) = Inr cred"
    and "CHR 0x0A \<notin> set (pcr_AnonRoleJWT cred)" "CHR 0x0A \<notin> set (pcr_ServiceRoleJWT cred)"
  shows "distinctKeys (gatewayKeys cred) \<and> renderKeys (gatewayKeys cred) = Some (gatewayKeys cred)"
proof -
  note valid = ValidateProjectCredentials_values [OF assms(1)]
  obtain key where anon: "VerifyES256JWT E now (pcr_AnonRoleJWT cred) key ''anon'' RequiredRoleAudience = Inr ()"
    and service: "VerifyES256JWT E now' (pcr_ServiceRoleJWT cred) key ''service_role'' RequiredRoleAudience = Inr ()"
    using valid(4) by blast
  have opaque: "list_all isBase64URLCharacter (pcr_PublishableKey cred)" "list_all isBase64URLCharacter (pcr_SecretKey cred)"
    by (rule opaque_chars [OF valid(1)] opaque_chars [OF valid(2)]; code_simp)+
  have tokens: "pcr_AnonRoleJWT cred \<noteq> pcr_ServiceRoleJWT cred" using token_role anon service by fastforce
  have dots: "CHR ''.'' \<in> set (pcr_AnonRoleJWT cred)" "CHR ''.'' \<in> set (pcr_ServiceRoleJWT cred)"
    using token_chars(1) anon service by blast+
  have "CHR ''.'' \<notin> set (pcr_PublishableKey cred)" "CHR ''.'' \<notin> set (pcr_SecretKey cred)"
    using opaque base64url_plain by (auto simp: list_all_iff)
  then have "distinctKeys (gatewayKeys cred)"
    using tokens dots valid(3) by (auto simp: distinctKeys_def gatewayKeys_def)
  moreover have "list_all sedPlain (pcr_PublishableKey cred)" "list_all sedPlain (pcr_SecretKey cred)"
    using opaque base64url_plain by (auto simp: list_all_iff)
  moreover have "list_all sedPlain (pcr_AnonRoleJWT cred)" "list_all sedPlain (pcr_ServiceRoleJWT cred)"
    using token_chars(2) anon service assms(2,3) by blast+
  ultimately show ?thesis by (simp add: renderKeys_def gatewayKeys_def renderValue_plain)
qed

text \<open>
  C39. The proviso is needed. A role token that verifies still verifies with a line break inside
  its signature segment, since the decoder skips it; but the entrypoint then builds a
  malformed \<open>sed\<close> command, and the gateway does not start.
\<close>

theorem folded_token_stops_gateway:
  assumes "VerifyES256JWT E now (h @ ''.'' @ c @ ''.'' @ a @ b) key role aud = Inr ()"
    and "CHR ''.'' \<notin> set (h @ c @ a @ b)" "CHR 0x0A \<notin> set (h @ c @ a @ b)" "b \<noteq> []"
  shows "VerifyES256JWT E now (h @ ''.'' @ c @ ''.'' @ a @ CHR 0x0A # b) key role aud = Inr () \<and>
         renderValue placeholder (h @ ''.'' @ c @ ''.'' @ a @ CHR 0x0A # b) = None"
proof -
  let ?u = "h @ ''.'' @ c @ ''.'' @ a"
  have split: "Split (h @ ''.'' @ c @ ''.'' @ s) (CHR ''.'') = [h, c, s]" if "CHR ''.'' \<notin> set s" for s
    using that assms(2) by (simp add: Split_append Split_single)
  have "DecodeString e (a @ CHR 0x0A # b) = DecodeString e (a @ b)" for e by (simp add: DecodeString_def)
  then have "decodeBase64URL (a @ CHR 0x0A # b) = decodeBase64URL (a @ b)" unfolding decodeBase64URL_def by presburger
  then have "segments_ok E now public kid role aud h c (a @ CHR 0x0A # b) =
      segments_ok E now public kid role aud h c (a @ b)" for public kid
    by (simp add: segments_ok_def)
  then have "verifyWithPublicKey E now (h @ ''.'' @ c @ ''.'' @ a @ CHR 0x0A # b) public kid role aud = Inr () \<longleftrightarrow>
      verifyWithPublicKey E now (h @ ''.'' @ c @ ''.'' @ a @ b) public kid role aud = Inr ()" for public kid
    using assms(2) by (subst (1 2) verifyWithPublicKey_parts [OF split]) simp_all
  then have "VerifyES256JWT E now (h @ ''.'' @ c @ ''.'' @ a @ CHR 0x0A # b) key role aud = Inr ()"
    using assms(1) unfolding VerifyES256JWT_ok by simp
  moreover have "list_all sedPlain (h @ ''.'' @ c @ ''.'' @ a @ b)"
    using token_chars(2) [OF assms(1)] assms(3) by simp
  then have u: "list_all sedPlain ?u" and b: "list_all sedPlain b" by simp_all
  have "escape_sed (?u @ CHR 0x0A # b) = ?u @ CHR 0x0A # b"
    using escape_sed_plain [OF u] escape_sed_plain [OF b] by (simp add: escape_sed_def)
  moreover have "commandOutput (?u @ CHR 0x0A # b) = ?u @ CHR 0x0A # b"
    using assms(3,4) by (cases b rule: rev_cases) (auto simp: commandOutput_def)
  ultimately show ?thesis
    using sedReplacement_newline [OF u] by (simp add: renderValue_def)
qed

text \<open>
  \<open>escape_sed\<close> puts two backslashes before a special character, where one escapes it: a
  value with an ampersand is rendered with a backslash and the placeholder in its place. No
  validated value contains one.
\<close>

theorem ampersand_misrendered:
  assumes "list_all sedPlain u" "list_all sedPlain w"
  shows "renderValue placeholder (u @ CHR ''&'' # w) = Some (u @ CHR 0x5C # placeholder @ w)"
proof -
  have "escape_sed (u @ CHR ''&'' # w) = u @ CHR 0x5C # CHR 0x5C # CHR ''&'' # w"
    using escape_sed_plain [OF assms(1)] escape_sed_plain [OF assms(2)] by (simp add: escape_sed_def)
  moreover have "commandOutput (u @ CHR 0x5C # CHR 0x5C # CHR ''&'' # w) = u @ CHR 0x5C # CHR 0x5C # CHR ''&'' # w"
    using assms(2) by (cases w rule: rev_cases) (auto simp: commandOutput_def sedPlain_def)
  ultimately show ?thesis
    by (simp add: renderValue_def sedReplacement_prefix [OF assms(1)] sedReplacement_ampersand sedReplacement_plain assms(2))
qed

end
