(* ===== verification/Gateway_Witnesses.thy ===== *)
theory Gateway_Witnesses
  imports Gateway_Credentials Reference_Env
begin

text \<open>
  The theorems about the gateway at concrete requests: a header map, keys, a request with its
  key in the query, and the reference credentials.
\<close>

section \<open>A header map and requests\<close>

definition mapEnvoy :: "(string \<Rightarrow> string option) envoy" where
  "mapEnvoy = \<lparr>hget = (\<lambda>h k. h k), hadd = (\<lambda>h k v. h(k \<mapsto> v)), hreplace = (\<lambda>h k v. h(k \<mapsto> v)),
     pathMatches = matches, rbacAllows = allowed (\<lambda>h k. h k),
     toUpstream = (\<lambda>r h.
       let h = (\<lambda>k. if k \<in> set (rt_remove r) \<and> k \<noteq> '':path'' then None else h k)
       in case (rt_rewrite r, h '':path'') of
            (Some p, Some path) \<Rightarrow> h('':path'' \<mapsto> p @ drop (length (matched (rt_match r))) path)
          | _ \<Rightarrow> h)\<rparr>"

lemma mapEnvoy_lawful: "lawful_envoy mapEnvoy"
  by (auto simp: lawful_envoy_def mapEnvoy_def Let_def split: option.splits)

definition demoKeys :: gateway_keys where
  "demoKeys = \<lparr>PUBLISHABLE_KEY = ''sb_publishable_p'', SECRET_KEY = ''sb_secret_s'',
     ANON_ROLE_JWT = ''h.anon.s'', SERVICE_ROLE_JWT = ''h.service.s''\<rparr>"

lemma demoKeys_distinct: "distinctKeys demoKeys"
  by (simp add: distinctKeys_def demoKeys_def)

definition demoRequest :: "string \<Rightarrow> string option" where
  "demoRequest = [ '':path'' \<mapsto> ''/pg/tables?x=1&apikey=sb_secret_s'', ''authorization'' \<mapsto> ''Bearer sb_secret_s'' ]"

definition pgRoute :: route where
  "pgRoute = keyedRoute ''pg-protected'' (Prefix ''/pg/'') ''meta'' None"

lemma demo_path: "hget mapEnvoy demoRequest '':path'' = Some ''/pg/tables?x=1&apikey=sb_secret_s''"
  by (simp add: mapEnvoy_def demoRequest_def)

lemma demo_route: "routeFor demoKeys mapEnvoy ''/pg/tables?x=1&apikey=sb_secret_s'' = Some pgRoute"
  by (simp add: routeFor_def mapEnvoy_def routes_def publicAuth_def keyedRoute_def pathOnly_def pgRoute_def)

lemma demo_protected: "protectedRoute (rt_name pgRoute)"
  by (simp add: protectedRoute_def pgRoute_def keyedRoute_def)

lemma demo_query: "queryPairs ''x=1&apikey=sb_secret_s'' = [(''x'', ''1''), (''apikey'', ''sb_secret_s'')]"
  by code_simp

lemma demo_role: "roleToken demoKeys mapEnvoy demoRequest = Some ''h.service.s''"
  by (simp add: roleToken_def presentedKey_def queryKey_def mapEnvoy_def demoRequest_def queryOf_def demo_query
      translate_def demoKeys_def)

lemma demo_translated:
  "translatedPath demoKeys mapEnvoy demoRequest ''/pg/tables?x=1&apikey=sb_secret_s'' = ''/pg/tables?x=1&apikey=h.service.s''"
proof -
  have "queryKey mapEnvoy demoRequest = Some ''sb_secret_s''"
    by (simp add: queryKey_def mapEnvoy_def demoRequest_def queryOf_def demo_query)
  moreover have "replaceQueryApikey ''/pg/tables?x=1&apikey=sb_secret_s'' ''h.service.s'' = ''/pg/tables?x=1&apikey=h.service.s''"
    by code_simp
  ultimately show ?thesis by (simp add: translatedPath_def translate_def demoKeys_def)
qed

lemma demo_bearer: "\<not> genuineBearer (hget mapEnvoy demoRequest ''authorization'')"
  by (simp add: genuineBearer_def mapEnvoy_def demoRequest_def)

section \<open>The access decision\<close>


lemma demo_forwarded: "\<exists>h'. handleRequest demoKeys mapEnvoy demoRequest = Forward ''meta'' h'"
  using handleRequest_admitted [OF mapEnvoy_lawful demo_protected demoKeys_distinct demo_path demo_route demo_role]
  by (simp add: demoKeys_def pgRoute_def keyedRoute_def)

theorem gateway_confines_upstreams_witness:
  "\<exists>h'. handleRequest demoKeys mapEnvoy demoRequest = Forward ''meta'' h' \<and>
     SECRET_KEY demoKeys \<in> presentedValues mapEnvoy demoRequest \<and>
     hget mapEnvoy h' ''apikey'' \<notin> {Some (PUBLISHABLE_KEY demoKeys), Some (SECRET_KEY demoKeys)}"
  using demo_forwarded gateway_confines_upstreams [OF mapEnvoy_lawful demoKeys_distinct] by blast

section \<open>The credentials\<close>

lemma rawurl_no_newline: "CHR 0x0A \<notin> set (EncodeToString RawURLEncoding s)"
proof
  assume "CHR 0x0A \<in> set (EncodeToString RawURLEncoding s)"
  then have "CHR 0x0A \<in> set (b64_alphabet RawURLEncoding)"
    by (rule EncodeToString_chars [rotated 2]) (simp_all add: RawURLEncoding_def)
  then show False by (simp add: RawURLEncoding_def)
qed

lemma refToken_no_newline: "CHR 0x0A \<notin> set (refToken role)"
  by (simp add: refToken_def rawurl_no_newline del: EncodeToString.simps)

theorem validated_credentials_configure_gateway_witness:
  "distinctKeys (gatewayKeys refCredentials) \<and> renderKeys (gatewayKeys refCredentials) = Some (gatewayKeys refCredentials)"
  by (rule validated_credentials_configure_gateway [OF refSecret_valid [of "\<lambda>_ _. RErr (Errorf [])"]])
    (simp_all add: refCredentials_def refToken_no_newline)

text \<open>The reference token with a line break before the last character of its signature.\<close>

definition refSignature :: string where
  "refSignature = EncodeToString RawURLEncoding (replicate 64 (CHR 0x00))"

lemma refSignature_split: "refSignature = butlast refSignature @ [last refSignature]"
proof -
  have "refSignature \<noteq> []" unfolding refSignature_def by code_simp
  then show ?thesis by simp
qed

theorem folded_token_stops_gateway_witness:
  "\<exists>token. VerifyES256JWT (refEnv (\<lambda>_ _. RErr (Errorf []))) 50 token refKey ''anon'' RequiredRoleAudience = Inr () \<and>
     renderValue ''${SUPABASE_ANON_ROLE_JWT}'' token = None"
proof -
  let ?h = "EncodeToString RawURLEncoding ''{}''" and ?c = "EncodeToString RawURLEncoding ''anon''"
  let ?a = "butlast refSignature" and ?b = "[last refSignature]"
  have token: "?h @ ''.'' @ ?c @ ''.'' @ ?a @ ?b = refToken ''anon''"
    unfolding refToken_def refSignature_split [symmetric] unfolding refSignature_def ..
  have set: "set (?h @ ?c @ ?a @ ?b) = set ?h \<union> set ?c \<union> set refSignature"
    using refSignature_split by (metis set_append sup_assoc)
  have "CHR ''.'' \<notin> set (?h @ ?c @ ?a @ ?b)" "CHR 0x0A \<notin> set (?h @ ?c @ ?a @ ?b)"
    unfolding set unfolding refSignature_def using rawurl_no_dot rawurl_no_newline by blast+
  then show ?thesis
    using folded_token_stops_gateway [of "refEnv (\<lambda>_ _. RErr (Errorf []))" 50 ?h ?c ?a ?b refKey "''anon''" RequiredRoleAudience]
      refToken_verifies unfolding token by blast
qed

theorem ampersand_misrendered_witness:
  "renderValue ''${SUPABASE_SECRET_KEY}'' ''a&b'' = Some (''a'' @ [CHR 0x5C] @ ''${SUPABASE_SECRET_KEY}b'')"
  using ampersand_misrendered [of "''a''" "''b''" "''${SUPABASE_SECRET_KEY}''"] by (simp add: sedPlain_def)

end
