(* ===== verification/Liveness.thy ===== *)
theory Liveness
  imports Outcome
begin

text \<open>
  That a reconciliation gets there: once the platform has settled, that is, the API server
  answers and acknowledges, the stored cluster is as desired with its instances ready and the
  five core deployments are ready, one call of \<open>Reconcile\<close> ends without an error and without
  a requeue. \<open>Outcome\<close> shows what such an end means.
\<close>

section \<open>Handlers that succeed\<close>

text \<open>
  The requests of a quiet stretch of the history create, change and delete nothing; the status
  of the project may be written.
\<close>

definition quietSince :: "event list \<Rightarrow> event list \<Rightarrow> bool" where
  "quietSince = trace_ok (\<lambda>_. quiet)"

lemma quietSince_refl [simp]: "quietSince h h"
  by (simp add: quietSince_def trace_ok.start)

lemma quietSince_request [simp]: "quiet c \<Longrightarrow> quietSince h h' \<Longrightarrow> quietSince h ((c, r) # h')"
  by (simp add: quietSince_def trace_ok.request)

lemma quietSince_trans: "quietSince h h1 \<Longrightarrow> quietSince h1 h2 \<Longrightarrow> quietSince h h2"
  unfolding quietSince_def by (blast intro: trace_ok_trans)

text \<open>
  From every state whose project satisfies \<open>P\<close>, the handler returns a value, no error, with
  \<open>Q\<close>; with the flag \<open>b\<close>, and quietly.
\<close>

definition achieves :: "bool \<Rightarrow> (project \<Rightarrow> bool) \<Rightarrow> 'a result handler \<Rightarrow> ('a \<Rightarrow> project \<Rightarrow> bool) \<Rightarrow> bool" where
  "achieves b P m Q \<longleftrightarrow> (\<forall>s. P (rs_project s) \<longrightarrow> (\<exists>x s'. run_state m s = (Inr x, s') \<and> Q x (rs_project s') \<and>
     (b \<longrightarrow> quietSince (rs_events s) (rs_events s'))))"

lemma achievesI:
  "(\<And>s. P (rs_project s) \<Longrightarrow> \<exists>x s'. run_state m s = (Inr x, s') \<and> Q x (rs_project s') \<and>
     (b \<longrightarrow> quietSince (rs_events s) (rs_events s'))) \<Longrightarrow> achieves b P m Q"
  by (simp add: achieves_def)

lemma achievesD:
  assumes "achieves b P m Q" "P (rs_project s)"
  obtains x s' where "run_state m s = (Inr x, s')" "Q x (rs_project s')" "b \<longrightarrow> quietSince (rs_events s) (rs_events s')"
  using assms by (auto simp: achieves_def)

lemma achieves_ok: "(\<And>q. P q \<Longrightarrow> Q x q) \<Longrightarrow> achieves b P (ok x) Q"
  by (auto simp: achieves_def)

lemma achieves_andthen:
  assumes "achieves b P m R" "\<And>x. achieves b (R x) (k x) Q"
  shows "achieves b P (andthen m k) Q"
proof (rule achievesI)
  fix s :: rstate assume "P (rs_project s)"
  with assms(1) obtain x s' where m: "run_state m s = (Inr x, s')" "R x (rs_project s')" "b \<longrightarrow> quietSince (rs_events s) (rs_events s')"
    by (rule achievesD)
  from assms(2) m(2) obtain y s'' where "run_state (k x) s' = (Inr y, s'')" "Q y (rs_project s'')"
      "b \<longrightarrow> quietSince (rs_events s') (rs_events s'')"
    by (rule achievesD)
  with m show "\<exists>x s'. run_state (andthen m k) s = (Inr x, s') \<and> Q x (rs_project s') \<and> (b \<longrightarrow> quietSince (rs_events s) (rs_events s'))"
    using quietSince_trans by (fastforce simp: run_andthen)
qed

lemma achieves_pre: "achieves b P m Q \<Longrightarrow> (\<And>q. P' q \<Longrightarrow> P q) \<Longrightarrow> achieves b P' m Q"
  by (auto simp: achieves_def)

lemma achieves_post: "achieves b P m Q \<Longrightarrow> (\<And>x q. Q x q \<Longrightarrow> Q' x q) \<Longrightarrow> achieves b P m Q'"
  by (fastforce simp: achieves_def)

lemma achieves_at: "achieves b (\<lambda>q. q = q') m (\<lambda>_ q. q = q') \<Longrightarrow> P q' \<Longrightarrow> achieves b (\<lambda>q. q = q') m (\<lambda>_. P)"
  by (erule achieves_post) auto

lemma achieves_getProject:
  "(\<And>p. P p \<Longrightarrow> achieves b (\<lambda>q. q = p) (k p) Q) \<Longrightarrow> achieves b P (State_Monad.bind getProject k) Q"
  by (auto simp: achieves_def)

lemma achieves_modifyStatus:
  assumes "achieves b R m Q" "\<And>q. P q \<Longrightarrow> R (q\<lparr>p_status := f (p_status q)\<rparr>)"
  shows "achieves b P (State_Monad.bind (modifyStatus f) (\<lambda>_. m)) Q"
proof (rule achievesI)
  fix s :: rstate assume "P (rs_project s)"
  then have "R (rs_project (s\<lparr>rs_project := (rs_project s)\<lparr>p_status := f (p_status (rs_project s))\<rparr>\<rparr>))" by (simp add: assms(2))
  from achievesD [OF assms(1) this]
  show "\<exists>x s'. run_state (State_Monad.bind (modifyStatus f) (\<lambda>_. m)) s = (Inr x, s') \<and> Q x (rs_project s') \<and>
      (b \<longrightarrow> quietSince (rs_events s) (rs_events s'))" by (simp, metis)
qed

lemma achieves_setCondition:
  assumes "achieves b R m Q" "\<And>q cs. P q \<Longrightarrow> R (q\<lparr>p_status := (p_status q)\<lparr>st_conditions := cs\<rparr>\<rparr>)"
  shows "achieves b P (State_Monad.bind (setCondition E ty st reason msg) (\<lambda>_. m)) Q"
proof (rule achievesI)
  fix s :: rstate assume P: "P (rs_project s)"
  let ?f = "\<lambda>st'. st'\<lparr>st_conditions := setStatusCondition E (st_conditions st') \<lparr>c_type = ty, c_status = st,
    c_observedGeneration = md_generation (p_meta (rs_project s)), c_lastTransitionTime = clock E (rs_events s),
    c_reason = reason, c_message = msg\<rparr>\<rparr>"
  have "achieves b P (State_Monad.bind (modifyStatus ?f) (\<lambda>_. m)) Q"
    by (rule achieves_modifyStatus [OF assms(1)]) (simp add: assms(2))
  moreover have "run_state (State_Monad.bind (setCondition E ty st reason msg) (\<lambda>_. m)) s = run_state (State_Monad.bind (modifyStatus ?f) (\<lambda>_. m)) s"
    by (simp add: setCondition_def Let_def)
  ultimately show "\<exists>x s'. run_state (State_Monad.bind (setCondition E ty st reason msg) (\<lambda>_. m)) s = (Inr x, s') \<and> Q x (rs_project s') \<and>
      (b \<longrightarrow> quietSince (rs_events s) (rs_events s'))" using P by (simp add: achieves_def)
qed

lemma achieves_onError: "achieves b P m Q \<Longrightarrow> achieves b P (onError m h) Q"
  by (fastforce simp: achieves_def onError_def)

lemma achieves_orFailCondition: "achieves b P m Q \<Longrightarrow> achieves b P (orFailCondition E ty reason m) Q"
  by (simp add: orFailCondition_def achieves_onError)

lemma achieves_wrapErr: "achieves b P m Q \<Longrightarrow> achieves b P (wrapErr prefix' m) Q"
  by (fastforce simp: achieves_def wrapErr_def)

lemma achieves_unlessRequeue:
  assumes "achieves b P m (\<lambda>x q. x = doneResult \<and> R q)" "achieves b R k Q"
  shows "achieves b P (unlessRequeue m k) Q"
  unfolding unlessRequeue_def
  by (rule achieves_andthen [OF assms(1)]) (use assms(2) in \<open>auto simp: achieves_def doneResult_def\<close>)

lemma achieves_for_each: "(\<And>x. x \<in> set xs \<Longrightarrow> achieves b P (f x) (\<lambda>_. P)) \<Longrightarrow> achieves b P (for_each f xs) (\<lambda>_. P)"
proof (induction xs)
  case (Cons x xs)
  then show ?case by (auto intro!: achieves_andthen [of b P "f x" "\<lambda>_. P"])
qed (simp add: achieves_ok)

section \<open>A settled platform\<close>

definition writes :: "call \<Rightarrow> bool" where
  "writes c = (case c of Create _ \<Rightarrow> True | Update _ \<Rightarrow> True | Delete _ _ \<Rightarrow> True | StatusUpdate _ \<Rightarrow> True | _ \<Rightarrow> False)"

text \<open>The API server acknowledges writes, and a read finds nothing or an object of the project.\<close>

definition responsive :: "env \<Rightarrow> project \<Rightarrow> bool" where
  "responsive E p \<longleftrightarrow>
     (\<forall>h c. writes c \<longrightarrow> acknowledged (respond E h c) = Inr ()) \<and>
     (\<forall>h k name. k \<noteq> KProject \<longrightarrow>
        (\<exists>e. respond E h (Get k name) = RErr e \<and> IsNotFound e) \<or>
        (\<exists>ob. respond E h (Get k name) = RObj ob \<and> kindOf ob = k \<and>
           (k \<noteq> KSecret \<longrightarrow> goget (md_labels (metaOf ob)) LabelInstance = p_name p))) \<and>
     (\<forall>h. \<exists>q. respond E h (Get KProject (objectKey (p_meta p))) = RObj (OProject q)) \<and>
     (\<forall>h n. \<exists>bytes. respond E h (RandRead n) = RBytes bytes \<and> length bytes = n) \<and>
     (\<forall>q m. \<exists>owners. setControllerReference E q m = Inr owners)"

text \<open>The names of the Secrets that the operator manages for a project without extras.\<close>

definition managedNames :: "project \<Rightarrow> secret_names_status" where
  "managedNames p = noSecretNames\<lparr>sn_goTrueFallback := GoTrueFallbackSecretName p,
     sn_supabaseAdmin := p_name p @ ''-supabase-admin-password'', sn_authenticator := p_name p @ ''-authenticator-password'',
     sn_authAdmin := p_name p @ ''-auth-admin-password''\<rparr>"

text \<open>The keys of the generated Secrets.\<close>

definition secretKeys :: "project \<Rightarrow> key set" where
  "secretKeys p = Pair (p_namespace p) ` {sn_goTrueFallback (managedNames p), sn_supabaseAdmin (managedNames p),
     sn_authenticator (managedNames p), sn_authAdmin (managedNames p)}"

text \<open>The stored cluster belongs to the project, needs no update, and all its instances are ready.\<close>

definition clusterSettled :: "env \<Rightarrow> project \<Rightarrow> cluster \<Rightarrow> bool" where
  "clusterSettled E p cl \<longleftrightarrow>
     (let built = BuildCluster p (managedNames p); desired = defaultCluster E built
      in goget (md_labels (cl_meta cl)) LabelInstance = p_name p \<and>
         removeSupabaseProjectOwnerReference E (cl_meta cl) (p_name p) = (cl_meta cl, False) \<and>
         mergeLabels E (cl_meta cl) (md_labels (cl_meta desired)) = (cl_meta cl, False) \<and>
         \<not> recoveryBootstrapIntentChanged cl built \<and> \<not> recoveryBootstrapIntentChanged cl desired \<and>
         (\<exists>cl'. reconcileClusterMutableFields E cl desired = Inr (cl', False)) \<and>
         cs_instances (cl_spec cl) \<le> cst_readyInstances (cl_status cl))"

definition settled :: "env \<Rightarrow> project \<Rightarrow> bool" where
  "settled E p \<longleftrightarrow> responsive E p \<and>
     (\<forall>h. \<exists>sec. respond E h (Get KSecret (p_namespace p, sp_projectCredentialsSecret (p_spec p))) = RObj (OSecret sec) \<and>
        (\<forall>h'. \<exists>cred. ValidateProjectCredentials E (clock E h') (clock E h') (Some sec) = Inr cred)) \<and>
     (\<forall>h. \<exists>cl. respond E h (Get KCluster (p_namespace p, ClusterName p)) = RObj (OCluster cl) \<and> clusterSettled E p cl) \<and>
     (\<forall>h c. \<exists>dep. respond E h (Get KDeployment (coreKey (p_meta p) c)) = RObj (ODeployment dep) \<and> deploymentIsReady dep)"

text \<open>
  What the operator manages for a project without the optional components, next to the cluster:
  its ConfigMaps, deployments and services, built for the given credentials.
\<close>

definition withCredentials :: "project_credentials \<Rightarrow> deployment \<Rightarrow> deployment" where
  "withCredentials cred d = (if pcr_PodTemplateHash cred \<noteq> '''' then applyProjectCredentialsHash d (pcr_PodTemplateHash cred) else d)"

definition coreObjects :: "env \<Rightarrow> project \<Rightarrow> project_credentials \<Rightarrow> obj list" where
  "coreObjects E p cred =
     map OConfigMap [BuildInitSQLConfigMap p, BuildJWKSConfigMap p (pcr_PublicJWKS cred), BuildEnvoyConfigMap p] @
     map ODeployment [withCredentials cred (BuildAuthDeployment E p (managedNames p)), withCredentials cred (BuildRestDeployment p (managedNames p)),
       withCredentials cred (BuildStudioDeployment p (managedNames p)), BuildMetaDeployment p (managedNames p),
       withCredentials cred (BuildGatewayDeployment p)] @
     map OService [BuildAuthService p, BuildRestService p, BuildStudioService p, BuildMetaService p, BuildGatewayService p]"

text \<open>Merging the desired object into the stored one leaves it as it is.\<close>

definition leaves :: "('a \<times> bool) result \<Rightarrow> bool" where
  "leaves r = (case r of Inr (_, changed) \<Rightarrow> \<not> changed | Inl _ \<Rightarrow> False)"

definition unchanged :: "env \<Rightarrow> project \<Rightarrow> obj \<Rightarrow> obj \<Rightarrow> bool" where
  "unchanged E p d e = (case d of
     OSecret x \<Rightarrow> (case asSecret e of Some y \<Rightarrow> leaves (mergeSecret E p x y) | None \<Rightarrow> False)
   | OConfigMap x \<Rightarrow> (case asConfigMap e of Some y \<Rightarrow> leaves (mergeConfigMap E p x y) | None \<Rightarrow> False)
   | ODeployment x \<Rightarrow> (case asDeployment e of Some y \<Rightarrow> leaves (mergeDeployment E p x y) | None \<Rightarrow> False)
   | OService x \<Rightarrow> (case asService e of Some y \<Rightarrow> leaves (mergeService E p x y) | None \<Rightarrow> False)
   | _ \<Rightarrow> False)"

definition inPlace :: "env \<Rightarrow> project \<Rightarrow> obj \<Rightarrow> bool" where
  "inPlace E p d \<longleftrightarrow> (\<forall>h. \<exists>e. respond E h (Get (kindOf d) (objectKey (metaOf d))) = RObj e \<and> unchanged E p d e)"

text \<open>The project in memory is the one that was read, up to its status.\<close>

definition kept :: "project \<Rightarrow> project \<Rightarrow> bool" where
  "kept p q \<longleftrightarrow> p_meta q = p_meta p \<and> p_spec q = p_spec p"

definition notFound :: "resp \<Rightarrow> bool" where
  "notFound r = (case r of RErr e \<Rightarrow> IsNotFound e | _ \<Rightarrow> False)"

definition validCredentials :: "env \<Rightarrow> project \<Rightarrow> project_credentials \<Rightarrow> bool" where
  "validCredentials E p cred \<longleftrightarrow> (\<exists>h h' sec.
     respond E h (Get KSecret (p_namespace p, sp_projectCredentialsSecret (p_spec p))) = RObj (OSecret sec) \<and>
     ValidateProjectCredentials E (clock E h') (clock E h') (Some sec) = Inr cred)"

text \<open>
  A steady platform: everything the operator manages is in place as it would write it, the
  durable objects have lost their owner, and nothing is left of the optional components.
\<close>

definition steady :: "env \<Rightarrow> project \<Rightarrow> bool" where
  "steady E p \<longleftrightarrow>
     (\<forall>q cred d. kept p q \<and> validCredentials E p cred \<and> d \<in> set (coreObjects E q cred) \<longrightarrow> inPlace E q d) \<and>
     (\<forall>q sec. kept p q \<and> objectKey (sec_meta sec) \<in> secretKeys p \<longrightarrow> inPlace E q (OSecret sec)) \<and>
     (\<forall>h d ob. d \<in> set (durables p) \<and> respond E h (Get (fst d) (namespaced p (snd d))) = RObj ob \<longrightarrow>
        \<not> snd (removeSupabaseProjectOwnerReference E (metaOf ob) (p_name p))) \<and>
     (\<forall>h. notFound (respond E h (Get KScheduledBackup (namespaced p (ScheduledBackupName p)))) \<and>
        notFound (respond E h (Get KObjectStore (namespaced p (ObjectStoreName p)))) \<and>
        notFound (respond E h (Get KObjectStore (namespaced p (RecoveryObjectStoreName p))))) \<and>
     (\<forall>h q k name ob. kept p q \<and> (k, name) \<in> set (powersyncResources p) \<and> respond E h (Get k name) = RObj ob \<longrightarrow>
        \<not> isControlledBy E (metaOf ob) q)"

text \<open>A project without backup, recovery, email hook, extra GoTrue variables and PowerSync.\<close>

definition coreProject :: "project \<Rightarrow> bool" where
  "coreProject p \<longleftrightarrow> sp_projectCredentialsSecret (p_spec p) \<noteq> '''' \<and> sp_powersync (p_spec p) = None \<and>
     \<not> emailHookEnabled p \<and> au_goTrueEnv (sp_auth (p_spec p)) = [] \<and>
     (case db_backup (sp_database (p_spec p)) of None \<Rightarrow> True | Some b \<Rightarrow> \<not> bk_enabled b) \<and>
     (case db_recovery (sp_database (p_spec p)) of None \<Rightarrow> True | Some r \<Rightarrow> \<not> rv_enabled r)"

text \<open>The platform around a project: settled, and with the flag steady too.\<close>

definition platform :: "bool \<Rightarrow> env \<Rightarrow> project \<Rightarrow> bool" where
  "platform b E p \<longleftrightarrow> settled E p \<and> (b \<longrightarrow> steady E p)"

lemma platform_settled: "platform b E p \<Longrightarrow> settled E p"
  by (simp add: platform_def)

lemma platform_responsive: "platform b E p \<Longrightarrow> responsive E p"
  by (simp add: platform_def settled_def)

lemma steady_object:
  "platform b E p \<Longrightarrow> b \<Longrightarrow> kept p q \<Longrightarrow> validCredentials E p cred \<Longrightarrow> d \<in> set (coreObjects E q cred) \<Longrightarrow> inPlace E q d"
  unfolding platform_def steady_def by blast

section \<open>Requests to a responsive server\<close>

lemma responsive_write: "responsive E p \<Longrightarrow> writes c \<Longrightarrow> acknowledged (respond E h c) = Inr ()"
  by (simp add: responsive_def)

lemma responsive_read:
  assumes "responsive E p" "k \<noteq> KProject"
  obtains e where "respond E h (Get k name) = RErr e" "IsNotFound e"
    | ob where "respond E h (Get k name) = RObj ob" "kindOf ob = k"
        "k \<noteq> KSecret \<Longrightarrow> goget (md_labels (metaOf ob)) LabelInstance = p_name p"
proof -
  have "(\<exists>e. respond E h (Get k name) = RErr e \<and> IsNotFound e) \<or>
    (\<exists>ob. respond E h (Get k name) = RObj ob \<and> kindOf ob = k \<and>
       (k \<noteq> KSecret \<longrightarrow> goget (md_labels (metaOf ob)) LabelInstance = p_name p))"
    using assms unfolding responsive_def by blast
  then show thesis using that by blast
qed

text \<open>The request pattern of the \<open>createOrUpdate\<close> methods, when the merge accepts the project's objects.\<close>

lemma upsert_achieves:
  assumes R: "responsive E p" "k \<noteq> KProject" and as: "\<And>ob. kindOf ob = k \<Longrightarrow> \<exists>x. as ob = Some x \<and> ob = wrap x"
    and merge: "\<And>x. (k \<noteq> KSecret \<Longrightarrow> goget (md_labels (metaOf (wrap x))) LabelInstance = p_name p) \<Longrightarrow> \<exists>y. merge x = Inr y"
    and steady: "\<And>h. b \<Longrightarrow> \<exists>ob x y. respond E h (Get k name) = RObj ob \<and> as ob = Some x \<and> merge x = Inr (y, False)"
  shows "achieves b P (upsert E k as wrap blame name desired merge) (\<lambda>_. P)"
proof (rule achievesI)
  fix s :: rstate assume P: "P (rs_project s)"
  let ?goal = "\<exists>x s'. run_state (upsert E k as wrap blame name desired merge) s = (Inr x, s') \<and> P (rs_project s') \<and>
    (b \<longrightarrow> quietSince (rs_events s) (rs_events s'))"
  show ?goal
  proof (cases b)
    case True
    with steady obtain ob x y where "respond E (rs_events s) (Get k name) = RObj ob" "as ob = Some x" "merge x = Inr (y, False)"
      by blast
    with P show ?thesis by (simp add: upsert_def expect_def Let_def)
  next
    case False
    show ?thesis
      using R
    proof (cases rule: responsive_read [where h = "rs_events s" and name = name])
      case (1 e)
      then show ?thesis using P False by (simp add: upsert_def expect_def Let_def responsive_write [OF R(1)] writes_def)
    next
      case (2 ob)
      then obtain x where x: "as ob = Some x" "ob = wrap x" using as by blast
      with 2(3) merge obtain y c where "merge x = Inr (y, c)" by fastforce
      with 2 x P False show ?thesis
        by (cases c) (simp_all add: upsert_def expect_def Let_def responsive_write [OF R(1)] writes_def)
    qed
  qed
qed

lemma adopt_responsive:
  assumes "responsive E p"
  obtains m' c where "adopt E q m = Inr (m', c)"
proof -
  obtain owners where "setControllerReference E q m = Inr owners" using assms unfolding responsive_def by blast
  then show ?thesis using that by (simp add: adopt_def)
qed

lemma adopt_achieves:
  assumes "responsive E p" "\<And>m' c. objectKey m' = objectKey m \<Longrightarrow> achieves b P (k (m', c)) Q"
  shows "achieves b P (case adopt E q m of Inl e \<Rightarrow> fail e | Inr x \<Rightarrow> k x) Q"
proof -
  obtain m' c where ad: "adopt E q m = Inr (m', c)" using assms(1) by (rule adopt_responsive)
  with assms(2) [of m' c] adopt_ok [OF ad] show ?thesis by simp
qed

lemma updateProjectStatus_achieves:
  assumes "responsive E p" "\<And>q. P q \<Longrightarrow> p_meta q = p_meta p"
  shows "achieves b P (updateProjectStatus E) (\<lambda>_. P)"
proof (rule achievesI)
  fix s :: rstate assume P: "P (rs_project s)"
  with assms obtain q where "respond E (rs_events s) (Get KProject (objectKey (p_meta (rs_project s)))) = RObj (OProject q)"
    by (metis responsive_def)
  then show "\<exists>x s'. run_state (updateProjectStatus E) s = (Inr x, s') \<and> P (rs_project s') \<and>
      (b \<longrightarrow> quietSince (rs_events s) (rs_events s'))"
    using P by (simp add: updateProjectStatus_def run_andthen expect_def asProject_def Let_def
        responsive_write [OF assms(1)] writes_def)
qed

section \<open>The phases\<close>

definition named :: "project \<Rightarrow> core_service set \<Rightarrow> project \<Rightarrow> bool" where
  "named p C q \<longleftrightarrow> kept p q \<and> st_secretNames (p_status q) = managedNames p \<and>
     (\<forall>c \<in> C. ss_ready (slot c (st_services (p_status q))))"

lemma kept_status [simp]: "kept p (q\<lparr>p_status := st\<rparr>) \<longleftrightarrow> kept p q"
  by (simp add: kept_def)

lemma named_kept: "named p C q \<Longrightarrow> kept p q"
  by (simp add: named_def)

lemma named_conditions [simp]: "named p C (q\<lparr>p_status := (p_status q)\<lparr>st_conditions := cs\<rparr>\<rparr>) \<longleftrightarrow> named p C q"
  by (simp add: named_def)

lemma merges_accept:
  assumes "responsive E p"
  shows "\<exists>y. mergeSecret E q d x = Inr y" and "\<exists>y. mergeService E q d' x' = Inr y" and "\<exists>y. mergeDeployment E q d'' x'' = Inr y"
    and "goget (md_labels (cm_meta z)) LabelInstance = p_name q \<Longrightarrow> \<exists>y. mergeConfigMap E q d''' z = Inr y"
  subgoal by (rule adopt_responsive [OF assms, of q "sec_meta x"]) (simp add: mergeSecret_def)
  subgoal by (rule adopt_responsive [OF assms, of q "svc_meta x'"]) (auto simp: mergeService_def)
  subgoal by (rule adopt_responsive [OF assms, of q "dep_meta x''"]) (auto simp: mergeDeployment_def Let_def)
  subgoal by (rule adopt_responsive [OF assms, of q "cm_meta z"]) (auto simp: mergeConfigMap_def split: prod.splits)
  done

lemma kind_cases:
  "kindOf ob = KSecret \<Longrightarrow> \<exists>x. asSecret ob = Some x \<and> ob = OSecret x"
  "kindOf ob = KConfigMap \<Longrightarrow> \<exists>x. asConfigMap ob = Some x \<and> ob = OConfigMap x"
  "kindOf ob = KService \<Longrightarrow> \<exists>x. asService ob = Some x \<and> ob = OService x"
  "kindOf ob = KDeployment \<Longrightarrow> \<exists>x. asDeployment ob = Some x \<and> ob = ODeployment x"
  by (cases ob; simp)+

lemma inPlaceD:
  "inPlace E q (OSecret d1) \<Longrightarrow> \<exists>e y. respond E h (Get KSecret (objectKey (sec_meta d1))) = RObj (OSecret e) \<and> mergeSecret E q d1 e = Inr (y, False)"
  "inPlace E q (OConfigMap d2) \<Longrightarrow> \<exists>e y. respond E h (Get KConfigMap (objectKey (cm_meta d2))) = RObj (OConfigMap e) \<and> mergeConfigMap E q d2 e = Inr (y, False)"
  "inPlace E q (ODeployment d3) \<Longrightarrow> \<exists>e y. respond E h (Get KDeployment (objectKey (dep_meta d3))) = RObj (ODeployment e) \<and> mergeDeployment E q d3 e = Inr (y, False)"
  "inPlace E q (OService d4) \<Longrightarrow> \<exists>e y. respond E h (Get KService (objectKey (svc_meta d4))) = RObj (OService e) \<and> mergeService E q d4 e = Inr (y, False)"
  unfolding inPlace_def unchanged_def
  by (drule spec [of _ h], fastforce simp: leaves_def split: option.splits sum.splits prod.splits)+

lemma createOrUpdate_achieves:
  assumes R: "responsive E p" and P: "\<And>q. P q \<Longrightarrow> kept p q"
  shows "(\<And>q. b \<Longrightarrow> P q \<Longrightarrow> inPlace E q (OSecret secret)) \<Longrightarrow> achieves b P (createOrUpdateSecret E secret) (\<lambda>_. P)"
    and "(\<And>q. b \<Longrightarrow> P q \<Longrightarrow> inPlace E q (OConfigMap configMap)) \<Longrightarrow> achieves b P (createOrUpdateConfigMap E configMap) (\<lambda>_. P)"
    and "(\<And>q. b \<Longrightarrow> P q \<Longrightarrow> inPlace E q (OService service)) \<Longrightarrow> achieves b P (createOrUpdateService E (Some service)) (\<lambda>_. P)"
    and "(\<And>q. b \<Longrightarrow> P q \<Longrightarrow> inPlace E q (ODeployment deployment)) \<Longrightarrow> achieves b P (createOrUpdateDeployment E (Some deployment)) (\<lambda>_. P)"
proof -
  have p_name: "P q \<Longrightarrow> p_name q = p_name p" for q using P by (fastforce simp: kept_def)
  note step = achieves_getProject achieves_at [where P = P] adopt_achieves [OF R]
  show "achieves b P (createOrUpdateSecret E secret) (\<lambda>_. P)" if "\<And>q. b \<Longrightarrow> P q \<Longrightarrow> inPlace E q (OSecret secret)"
    unfolding createOrUpdateSecret_def
    by (intro step, unfold prod.case, rule upsert_achieves [OF R], simp, erule kind_cases, rule merges_accept [OF R])
      (use inPlaceD(1) [OF that] in fastforce)+
  show "achieves b P (createOrUpdateConfigMap E configMap) (\<lambda>_. P)" if "\<And>q. b \<Longrightarrow> P q \<Longrightarrow> inPlace E q (OConfigMap configMap)"
    unfolding createOrUpdateConfigMap_def
    by (intro step, unfold prod.case, rule upsert_achieves [OF R], simp, erule kind_cases, rule merges_accept [OF R], simp add: p_name)
      (use inPlaceD(2) [OF that] in fastforce)+
  show "achieves b P (createOrUpdateService E (Some service)) (\<lambda>_. P)" if "\<And>q. b \<Longrightarrow> P q \<Longrightarrow> inPlace E q (OService service)"
    unfolding createOrUpdateService_def option.case
    by (intro step, unfold prod.case, rule upsert_achieves [OF R], simp, erule kind_cases, rule merges_accept [OF R])
      (use inPlaceD(4) [OF that] in fastforce)+
  show "achieves b P (createOrUpdateDeployment E (Some deployment)) (\<lambda>_. P)" if "\<And>q. b \<Longrightarrow> P q \<Longrightarrow> inPlace E q (ODeployment deployment)"
    unfolding createOrUpdateDeployment_def option.case
    by (intro step, unfold prod.case, rule upsert_achieves [OF R], simp, erule kind_cases, rule merges_accept [OF R])
      (use inPlaceD(3) [OF that] in fastforce)+
qed

lemma durables_kept: "kept p q \<Longrightarrow> durables q = durables p" "kept p q \<Longrightarrow> namespaced q n = namespaced p n"
  by (simp_all add: kept_def durables_def namespaced_def ClusterName_def ObjectStoreName_def RecoveryObjectStoreName_def ScheduledBackupName_def)

lemma durable_kinds: "d \<in> set (durables q) \<Longrightarrow> fst d \<noteq> KProject"
  by (auto simp: durables_def)

lemma protectDurable_achieves:
  assumes S: "platform b E p" and d: "d \<in> set (durables p)"
  shows "achieves b (kept p) (protectDurable E d) (\<lambda>_. kept p)"
proof (rule achievesI)
  fix s :: rstate assume s: "kept p (rs_project s)"
  have R: "responsive E p" using S by (rule platform_responsive)
  note ack = responsive_write [OF R]
  note names = durables_kept(2) [OF s]
  have name: "p_name (rs_project s) = p_name p" using s by (simp add: kept_def)
  have owner: "\<not> snd (removeSupabaseProjectOwnerReference E (metaOf ob) (p_name p))"
    if b "respond E (rs_events s) (Get (fst d) (namespaced p (snd d))) = RObj ob" for ob
    using S d that unfolding platform_def steady_def by blast
  show "\<exists>x s'. run_state (protectDurable E d) s = (Inr x, s') \<and> kept p (rs_project s') \<and>
      (b \<longrightarrow> quietSince (rs_events s) (rs_events s'))"
    using R durable_kinds [OF d]
  proof (cases rule: responsive_read [where h = "rs_events s" and name = "namespaced p (snd d)"])
    case (1 e)
    then show ?thesis using s by (simp add: protectDurable_def names expect_def Let_def)
  next
    case (2 ob)
    obtain m c where rm: "removeSupabaseProjectOwnerReference E (metaOf ob) (p_name p) = (m, c)" by force
    with owner 2 have "b \<longrightarrow> \<not> c" by force
    with 2 rm s show ?thesis
      by (cases c) (simp_all add: protectDurable_def names name expect_def asKind_def Let_def wrapErr_def ack writes_def)
  qed
qed

lemma durableMetadata_achieves:
  assumes "platform b E p"
  shows "achieves b (kept p) (reconcileDurableMetadataProtection E) (\<lambda>_. kept p)"
  unfolding reconcileDurableMetadataProtection_def
proof (rule achieves_getProject)
  fix q assume q: "kept p q"
  have "achieves b (kept p) (for_each (protectDurable E) (durables q)) (\<lambda>_. kept p)"
    unfolding durables_kept(1) [OF q] by (rule achieves_for_each) (rule protectDurable_achieves [OF assms])
  then show "achieves b (\<lambda>q'. q' = q) (for_each (protectDurable E) (durables q)) (\<lambda>_. kept p)"
    by (rule achieves_pre) (simp add: q)
qed

lemma readRandom_achieves:
  assumes "responsive E p"
  shows "achieves b P (readRandom E n) (\<lambda>_. P)"
proof (rule achievesI)
  fix s :: rstate assume P: "P (rs_project s)"
  obtain bytes where "respond E (rs_events s) (RandRead n) = RBytes bytes" "length bytes = n"
    using assms unfolding responsive_def by blast
  with P show "\<exists>x s'. run_state (readRandom E n) s = (Inr x, s') \<and> P (rs_project s') \<and> (b \<longrightarrow> quietSince (rs_events s) (rs_events s'))"
    by (simp add: readRandom_def)
qed

lemma GenerateHex_achieves: "responsive E p \<Longrightarrow> achieves b P (GenerateHex E n) (\<lambda>_. P)"
  unfolding GenerateHex_def by (rule achieves_andthen [OF readRandom_achieves]) (auto intro: achieves_ok)

lemma GenerateSecrets_achieves:
  assumes "responsive E p"
  shows "achieves b P (GenerateSecrets E q)
    (\<lambda>(secrets, names) q'. P q' \<and> names = managedNames q \<and> (\<forall>sec \<in> set secrets. objectKey (sec_meta sec) \<in> secretKeys q))"
proof -
  have fallback: "achieves b P (GenerateGoTrueFallbackSecret E q) (\<lambda>(sec, name) q'. P q' \<and> name = GoTrueFallbackSecretName q \<and>
      objectKey (sec_meta sec) = (p_namespace q, name))"
    unfolding GenerateGoTrueFallbackSecret_def
    by (rule achieves_andthen [OF achieves_wrapErr [OF GenerateHex_achieves [OF assms]]]) (auto intro: achieves_ok simp: objectKey_def namedMeta_def)
  have role: "achieves b P (generateRoleSecret E q suffix user) (\<lambda>(sec, name) q'. P q' \<and> name = p_name q @ ''-'' @ suffix @ ''-password'' \<and>
      objectKey (sec_meta sec) = (p_namespace q, name))"
    for P suffix user
    unfolding generateRoleSecret_def GeneratePassword_def Let_def
    by (rule achieves_andthen [OF achieves_wrapErr [OF GenerateHex_achieves [OF assms]]]) (auto intro: achieves_ok simp: objectKey_def namedMeta_def)
  show ?thesis
    unfolding GenerateSecrets_def
    by (rule achieves_andthen [OF fallback], clarify, rule achieves_andthen [OF role], clarify,
        rule achieves_andthen [OF role], clarify, rule achieves_andthen [OF role], clarify)
      (rule achieves_ok, auto simp: managedNames_def secretKeys_def)
qed

lemma emailHook_achieves:
  assumes "responsive E p" "\<not> emailHookEnabled p"
  shows "achieves b (kept p) (reconcileEmailHookSecret E) (\<lambda>_ q. kept p q \<and> sn_emailHook (st_secretNames (p_status q)) = '''')"
  unfolding reconcileEmailHookSecret_def setEmailHookName_def
proof (rule achieves_getProject)
  fix q assume q: "kept p q"
  then have "\<not> emailHookEnabled q" using assms(2) by (simp add: emailHookEnabled_def kept_def)
  then show "achieves b (\<lambda>q'. q' = q)
      (if \<not> emailHookEnabled q
       then if sn_emailHook (st_secretNames (p_status q)) = '''' then ok ()
            else do { modifyStatus (\<lambda>st. st\<lparr>st_secretNames := (st_secretNames st)\<lparr>sn_emailHook := ''''\<rparr>\<rparr>);
                      updateProjectStatus E }
       else andthen (ensureEmailHookSecret E) (\<lambda>_. do {
         modifyStatus (\<lambda>st. st\<lparr>st_secretNames := (st_secretNames st)\<lparr>sn_emailHook := EmailHookSecretName q\<rparr>\<rparr>);
         setCondition E ConditionTypeSecretsReady ConditionTrue ''SecretsReady''
           ''All secrets, including the email hook secret, are ready'';
         updateProjectStatus E }))
      (\<lambda>_ q. kept p q \<and> sn_emailHook (st_secretNames (p_status q)) = '''')"
    using q
    by (auto intro!: achieves_ok achieves_modifyStatus updateProjectStatus_achieves [OF assms(1)] simp: kept_def)
qed

lemma achieves_ok_then: "achieves b P (k x) Q \<Longrightarrow> achieves b P (andthen (ok x) k) Q"
  by (simp add: achieves_def run_andthen)

lemma implementationSecrets_achieves:
  assumes S: "platform b E p" and p: "coreProject p"
  shows "achieves b (kept p) (reconcileImplementationSecrets E) (\<lambda>_. named p {})"
proof -
  have R: "responsive E p" using S by (rule platform_responsive)
  have put: "achieves b (kept p) (createOrUpdateSecret E sec) (\<lambda>_. kept p)" if "objectKey (sec_meta sec) \<in> secretKeys p" for sec
    by (rule createOrUpdate_achieves(1) [OF R]) (use S that in \<open>auto simp: platform_def steady_def\<close>)
  have core: "sp_powersync (p_spec q) = None" "managedNames q = managedNames p" "secretKeys q = secretKeys p" if "kept p q" for q
    using p that by (auto simp: coreProject_def kept_def managedNames_def secretKeys_def GoTrueFallbackSecretName_def)
  have hook: "\<not> emailHookEnabled p" using p by (simp add: coreProject_def)
  have finish: "achieves b (\<lambda>q. kept p q \<and> sn_emailHook (st_secretNames (p_status q)) = '''')
      (do { modifyStatus (\<lambda>st. st\<lparr>st_secretNames := (managedNames p)\<lparr>sn_emailHook := sn_emailHook (st_secretNames st)\<rparr>\<rparr>); ok () })
      (\<lambda>_. named p {})"
    by (rule achieves_modifyStatus [OF achieves_ok [where P = "named p {}"]])
      (auto simp: named_def managedNames_def noSecretNames_def)
  have rest: "achieves b (kept p) (andthen (for_each (createOrUpdateSecret E) secrets) (\<lambda>_.
       andthen (ok (managedNames p)) (\<lambda>names. andthen (reconcileEmailHookSecret E) (\<lambda>_. do {
         modifyStatus (\<lambda>st. st\<lparr>st_secretNames := names\<lparr>sn_emailHook := sn_emailHook (st_secretNames st)\<rparr>\<rparr>);
         ok () })))) (\<lambda>_. named p {})" if "\<forall>sec \<in> set secrets. objectKey (sec_meta sec) \<in> secretKeys p" for secrets
    by (rule achieves_andthen [OF achieves_for_each [OF put] achieves_ok_then], use that in blast,
        rule achieves_andthen [OF emailHook_achieves [OF R hook] finish])
  show ?thesis
    unfolding reconcileImplementationSecrets_def
  proof (rule achieves_getProject, rule achieves_andthen)
    fix q assume q: "kept p q"
    let ?Q = "\<lambda>(secrets, names) q'. kept p q' \<and> names = managedNames p \<and> (\<forall>sec \<in> set secrets. objectKey (sec_meta sec) \<in> secretKeys p)"
    show "achieves b (\<lambda>q'. q' = q) (GenerateSecrets E q) ?Q"
      using GenerateSecrets_achieves [OF R, of b "kept p" q] unfolding core(2,3) [OF q] by (rule achieves_pre) (simp add: q)
    fix x :: "secret list \<times> secret_names_status"
    obtain secrets names where x: "x = (secrets, names)" by force
    show "achieves b (?Q x)
       ((\<lambda>(generated, names). andthen (for_each (createOrUpdateSecret E) generated) (\<lambda>_.
          andthen (if sp_powersync (p_spec q) \<noteq> None then reconcilePowersyncSecrets E names else ok names) (\<lambda>names.
          andthen (reconcileEmailHookSecret E) (\<lambda>_. do {
            modifyStatus (\<lambda>st. st\<lparr>st_secretNames := names\<lparr>sn_emailHook := sn_emailHook (st_secretNames st)\<rparr>\<rparr>);
            ok () })))) x) (\<lambda>_. named p {})"
    proof (cases "names = managedNames p \<and> (\<forall>sec \<in> set secrets. objectKey (sec_meta sec) \<in> secretKeys p)")
      case True
      with rest [of secrets] show ?thesis by (simp add: x core(1) [OF q])
    next
      case False
      then show ?thesis by (auto simp: x achieves_def)
    qed
  qed
qed

lemma persist_achieves:
  assumes "responsive E p"
  shows "achieves b (named p C) (updateProjectStatus E) (\<lambda>_. named p C)"
    and "achieves b (named p C) (andthen (updateProjectStatus E) (\<lambda>_. ok x)) (\<lambda>y q. y = x \<and> named p C q)"
proof -
  show up: "achieves b (named p C) (updateProjectStatus E) (\<lambda>_. named p C)"
    by (rule updateProjectStatus_achieves [OF assms]) (simp add: named_def kept_def)
  show "achieves b (named p C) (andthen (updateProjectStatus E) (\<lambda>_. ok x)) (\<lambda>y q. y = x \<and> named p C q)"
    by (rule achieves_andthen [OF up]) (simp add: achieves_ok)
qed

lemma reconcileSecrets_achieves:
  assumes S: "platform b E p" and p: "coreProject p"
  shows "achieves b (kept p) (reconcileSecrets E) (\<lambda>cred q. named p {} q \<and> validCredentials E p cred)"
proof (rule achievesI)
  fix s :: rstate assume s: "kept p (rs_project s)"
  have R: "responsive E p" using S by (rule platform_responsive)
  define s0 where "s0 = snd (run_state (modifyStatus (\<lambda>st. if st_phase st = PhasePending then st\<lparr>st_phase := PhaseProvisioning\<rparr> else st)) s)"
  let ?key = "(p_namespace p, sp_projectCredentialsSecret (p_spec p))"
  obtain sec where sec: "respond E (rs_events s) (Get KSecret ?key) = RObj (OSecret sec)"
    and valid: "\<forall>h. \<exists>cred. ValidateProjectCredentials E (clock E h) (clock E h) (Some sec) = Inr cred"
    using platform_settled [OF S] unfolding settled_def by blast
  define s1 where "s1 = s0\<lparr>rs_events := (Get KSecret ?key, RObj (OSecret sec)) # rs_events s\<rparr>"
  have k1: "kept p (rs_project s1)" using s by (simp add: s1_def s0_def)
  obtain cred where cred: "ValidateProjectCredentials E (clock E (rs_events s1)) (clock E (rs_events s1)) (Some sec) = Inr cred"
    using valid by blast
  obtain u s2 where impl: "run_state (reconcileImplementationSecrets E) s1 = (Inr u, s2)" "named p {} (rs_project s2)"
      "b \<longrightarrow> quietSince (rs_events s1) (rs_events s2)"
    using implementationSecrets_achieves [OF S p] k1 by (rule achievesD)
  let ?tail = "do {
       setCondition E ConditionTypeSecretsReady ConditionTrue ''CredentialsValidated''
         ''Project credentials and implementation secrets are ready'';
       andthen (updateProjectStatus E) (\<lambda>_. ok cred) }"
  have tail: "achieves b (named p {}) ?tail (\<lambda>c q. c = cred \<and> named p {} q)"
    by (rule achieves_setCondition [OF persist_achieves(2) [OF R]]) simp
  obtain c s3 where last: "run_state ?tail s2 = (Inr c, s3)" "c = cred \<and> named p {} (rs_project s3)"
      "b \<longrightarrow> quietSince (rs_events s2) (rs_events s3)"
    using tail impl(2) by (rule achievesD)
  have "sp_projectCredentialsSecret (p_spec p) \<noteq> ''''" using p by (simp add: coreProject_def)
  then have "run_state (reconcileSecrets E) s = run_state ?tail s2"
    using s sec cred impl(1)
    by (simp add: reconcileSecrets_def kept_def namespaced_def Let_def expect_def asSecret_def s1_def s0_def)
  moreover have "validCredentials E p cred" using sec cred unfolding validCredentials_def by blast
  moreover have "quietSince (rs_events s) (rs_events s1)" by (simp add: s1_def)
  ultimately show "\<exists>x s'. run_state (reconcileSecrets E) s = (Inr x, s') \<and> (named p {} (rs_project s') \<and> validCredentials E p x) \<and>
      (b \<longrightarrow> quietSince (rs_events s) (rs_events s'))"
    using last impl(3) quietSince_trans by (metis (no_types, lifting))
qed

lemma BuildCluster_kept:
  assumes "kept p q"
  shows "BuildCluster q names = BuildCluster p names"
proof -
  have "q = p\<lparr>p_status := p_status q\<rparr>" using assms by (simp add: kept_def)
  moreover have "BuildCluster (p\<lparr>p_status := st\<rparr>) names = BuildCluster p names" for st
    by (simp add: BuildCluster_def buildBootstrapConfiguration_def buildAllRoles_def backupEnabled_def
        ClusterName_def ComponentLabels_def CommonLabels_def InitSQLConfigMapName_def RecoverySourceName_def
        ObjectStoreName_def RecoveryObjectStoreName_def cong: option.case_cong if_cong)
  ultimately show ?thesis by metis
qed

lemma ClusterName_kept: "kept p q \<Longrightarrow> ClusterName q = ClusterName p"
  by (simp add: kept_def ClusterName_def)

lemma kept_meta: "kept p q \<Longrightarrow> p_meta q = p_meta p"
  by (simp add: kept_def)

lemma settled_cluster:
  assumes "settled E p"
  obtains cl where "respond E h (Get KCluster (p_namespace p, ClusterName p)) = RObj (OCluster cl)" "clusterSettled E p cl"
  using assms unfolding settled_def by blast

lemma validateRecovery_achieves:
  assumes S: "settled E p" and p: "coreProject p"
  shows "achieves b (named p C) (validateRecoveryBootstrapIntent E) (\<lambda>_. named p C)"
proof (rule achievesI)
  fix s :: rstate assume s: "named p C (rs_project s)"
  then have k: "kept p (rs_project s)" and names: "st_secretNames (p_status (rs_project s)) = managedNames p"
    by (simp_all add: named_def)
  obtain cl where cl: "respond E (rs_events s) (Get KCluster (p_namespace p, ClusterName p)) = RObj (OCluster cl)"
    and ok: "clusterSettled E p cl" using S by (rule settled_cluster)
  have "BuildRecoveryObjectStore (rs_project s) = None"
    using p k by (auto simp: BuildRecoveryObjectStore_def coreProject_def kept_def split: option.splits)
  then show "\<exists>x s'. run_state (validateRecoveryBootstrapIntent E) s = (Inr x, s') \<and> named p C (rs_project s') \<and> (b \<longrightarrow> quietSince (rs_events s) (rs_events s'))"
    using s cl ok
    by (simp add: validateRecoveryBootstrapIntent_def names BuildCluster_kept [OF k] ClusterName_kept [OF k] kept_meta [OF k]
        objectKey_def namedMeta_def clusterSettled_def Let_def expect_def asCluster_def)
qed

lemma CNPGCluster_achieves:
  assumes S: "settled E p" and D: "lawful_defaulting E"
  shows "achieves b (named p C) (reconcileCNPGCluster E) (\<lambda>x q. x = doneResult \<and> named p C q)"
proof (rule achievesI)
  fix s :: rstate assume s: "named p C (rs_project s)"
  then have k: "kept p (rs_project s)" and names: "st_secretNames (p_status (rs_project s)) = managedNames p"
    by (simp_all add: named_def)
  obtain cl where cl: "respond E (rs_events s) (Get KCluster (p_namespace p, ClusterName p)) = RObj (OCluster cl)"
    and ok: "clusterSettled E p cl" using S by (rule settled_cluster)
  have key: "objectKey (cl_meta (defaultCluster E (BuildCluster p (managedNames p)))) = (p_namespace p, ClusterName p)"
    using D by (simp add: lawful_defaulting_def objectKey_def namedMeta_def)
  have "p_name (rs_project s) = p_name p" using k by (simp add: kept_def)
  then show "\<exists>x s'. run_state (reconcileCNPGCluster E) s = (Inr x, s') \<and> (x = doneResult \<and> named p C (rs_project s')) \<and> (b \<longrightarrow> quietSince (rs_events s) (rs_events s'))"
    using s cl ok
    by (auto simp: reconcileCNPGCluster_def names BuildCluster_kept [OF k] key clusterSettled_def Let_def expect_def asCluster_def)
qed

lemma waitForDatabase_achieves:
  assumes S: "settled E p"
  shows "achieves b (named p C) (waitForDatabase E) (\<lambda>x q. x = doneResult \<and> named p C q)"
  unfolding waitForDatabase_def
proof (rule achieves_getProject, rule achieves_andthen)
  have R: "responsive E p" using S by (simp add: settled_def)
  fix q assume q: "named p C q"
  show "achieves b (\<lambda>q'. q' = q) (fetch E KCluster asCluster (namespaced q (ClusterName q)))
      (\<lambda>cl q'. named p C q' \<and> cs_instances (cl_spec cl) \<le> cst_readyInstances (cl_status cl))"
  proof (rule achievesI)
    fix s :: rstate assume s: "rs_project s = q"
    note k = named_kept [OF q]
    obtain cl where cl: "respond E (rs_events s) (Get KCluster (p_namespace p, ClusterName p)) = RObj (OCluster cl)"
      and ok: "clusterSettled E p cl" using S by (rule settled_cluster)
    have "cs_instances (cl_spec cl) \<le> cst_readyInstances (cl_status cl)" using ok by (simp add: clusterSettled_def Let_def)
    then show "\<exists>cl s'. run_state (fetch E KCluster asCluster (namespaced q (ClusterName q))) s = (Inr cl, s') \<and>
        (named p C (rs_project s') \<and> cs_instances (cl_spec cl) \<le> cst_readyInstances (cl_status cl)) \<and> (b \<longrightarrow> quietSince (rs_events s) (rs_events s'))"
      using s q cl by (simp add: namespaced_def ClusterName_kept [OF k] kept_meta [OF k] Let_def expect_def asCluster_def)
  qed
  fix cl :: cluster
  let ?set = "\<lambda>st. st\<lparr>
           st_database := \<lparr>dbs_ready = True, dbs_phase = cst_phase (cl_status cl),
             dbs_readyInstances = to_int32 (cst_readyInstances (cl_status cl)),
             dbs_primaryHost = cst_currentPrimary (cl_status cl)\<rparr>,
           st_endpoints := \<lparr>ep_api = '''', ep_database = ClusterRWServiceName q @ '':5432''\<rparr>\<rparr>"
  have "achieves b (named p C) (do { modifyStatus ?set;
         setCondition E ConditionTypeDatabaseReady ConditionTrue ''Ready'' ''Database is ready'';
         andthen (updateProjectStatus E) (\<lambda>_. ok doneResult) }) (\<lambda>x q. x = doneResult \<and> named p C q)"
    by (rule achieves_modifyStatus [OF achieves_setCondition [where P = "named p C", OF persist_achieves(2) [OF R]]])
      (simp_all add: named_def)
  then show "achieves b (\<lambda>q'. named p C q' \<and> cs_instances (cl_spec cl) \<le> cst_readyInstances (cl_status cl))
      (if cst_readyInstances (cl_status cl) < cs_instances (cl_spec cl) then
         waitCondition E ConditionTypeDatabaseReady ''WaitingForInstances''
           (''Waiting for database instances: '' @ show_int (cst_readyInstances (cl_status cl)) @ ''/'' @
            show_int (cs_instances (cl_spec cl)) @ '' ready'')
       else do { modifyStatus ?set;
         setCondition E ConditionTypeDatabaseReady ConditionTrue ''Ready'' ''Database is ready'';
         andthen (updateProjectStatus E) (\<lambda>_. ok doneResult) }) (\<lambda>x q. x = doneResult \<and> named p C q)"
    by (cases "cst_readyInstances (cl_status cl) < cs_instances (cl_spec cl)") (auto simp: achieves_def)
qed

lemma deploymentStatus_achieves:
  assumes S: "settled E p" and key: "objectKey (dep_meta d) = coreKey (p_meta p) c"
  shows "achieves b P (deploymentStatus E (Some d)) (\<lambda>x q. fst x \<and> P q)"
proof (rule achievesI)
  fix s :: rstate assume P: "P (rs_project s)"
  obtain dep where "respond E (rs_events s) (Get KDeployment (coreKey (p_meta p) c)) = RObj (ODeployment dep)" "deploymentIsReady dep"
    using S unfolding settled_def by blast
  with P show "\<exists>x s'. run_state (deploymentStatus E (Some d)) s = (Inr x, s') \<and> (fst x \<and> P (rs_project s')) \<and> (b \<longrightarrow> quietSince (rs_events s) (rs_events s'))"
    by (simp add: deploymentStatus_def key Let_def expect_def asDeployment_def)
qed

text \<open>The deployment of a core service, as \<open>reconcileServiceComponent\<close> applies it.\<close>

definition credentialed :: "service_reconcile_config \<Rightarrow> project \<Rightarrow> deployment" where
  "credentialed config q = (if src_credentialHash config \<noteq> '''' then applyProjectCredentialsHash (src_deployment config q)
     (src_credentialHash config) else src_deployment config q)"

lemma component_achieves:
  assumes S: "settled E p" and P: "\<And>q. P q \<Longrightarrow> named p C q"
    and put: "\<And>c' v sv. slot c' (src_setStatus config v sv) = (if c' = c then v else slot c' sv)"
    and key: "\<And>q. P q \<Longrightarrow> objectKey (dep_meta (src_deployment config q)) = coreKey (p_meta p) c"
    and objects: "\<And>q. b \<Longrightarrow> P q \<Longrightarrow> inPlace E q (ODeployment (credentialed config q)) \<and> inPlace E q (OService (src_service config q))"
  shows "achieves b P (reconcileServiceComponent E config) (\<lambda>_. named p (insert c C))"
  unfolding reconcileServiceComponent_def Let_def credentialed_def [symmetric]
proof (rule achieves_getProject, goal_cases)
  case (1 q)
  have R: "responsive E p" using S by (simp add: settled_def)
  have d: "objectKey (dep_meta (credentialed config q)) = coreKey (p_meta p) c" using key [OF 1] by (simp add: credentialed_def)
  have kept: "\<And>q'. q' = q \<Longrightarrow> kept p q'" using P [OF 1] by (simp add: named_kept)
  have applied: "achieves b (\<lambda>q'. q' = q) (createOrUpdateService E (Some (src_service config q))) (\<lambda>_ q'. q' = q)"
    "achieves b (\<lambda>q'. q' = q) (createOrUpdateDeployment E (Some (credentialed config q))) (\<lambda>_ q'. q' = q)"
    by (rule createOrUpdate_achieves(3,4) [OF R kept]; use objects 1 in simp)+
  have report: "achieves b (\<lambda>q'. ready \<and> q' = q) (do {
       setServiceStatus config \<lparr>ss_ready = ready, ss_availableReplicas = n\<rparr>;
       (if \<not> ready
        then setCondition E (src_conditionType config) ConditionFalse ''DeploymentPending''
               (''Waiting for '' @ src_name config @ '' deployment to become ready'')
        else setCondition E (src_conditionType config) ConditionTrue ''Ready'' (src_name config @ '' service is running''));
       ok () }) (\<lambda>_. named p (insert c C))" for ready n
  proof (cases ready)
    case True
    have "achieves b (named p (insert c C)) (State_Monad.bind (setCondition E (src_conditionType config) ConditionTrue ''Ready''
        (src_name config @ '' service is running'')) (\<lambda>_. ok ())) (\<lambda>_. named p (insert c C))"
      by (rule achieves_setCondition [OF achieves_ok [where P = "named p (insert c C)"]]) simp_all
    then show ?thesis
      unfolding setServiceStatus_def using True P [OF 1]
      by (intro achieves_modifyStatus [where R = "named p (insert c C)"]) (auto simp: named_def put)
  qed (simp add: achieves_def)
  have reports: "achieves b (\<lambda>q'. fst x \<and> q' = q) ((\<lambda>(ready, n). do {
       setServiceStatus config \<lparr>ss_ready = ready, ss_availableReplicas = n\<rparr>;
       (if \<not> ready
        then setCondition E (src_conditionType config) ConditionFalse ''DeploymentPending''
               (''Waiting for '' @ src_name config @ '' deployment to become ready'')
        else setCondition E (src_conditionType config) ConditionTrue ''Ready'' (src_name config @ '' service is running''));
       ok () }) x) (\<lambda>_. named p (insert c C))" for x
    by (cases x) (simp only: prod.case fst_conv, rule report)
  show ?case
    by (rule achieves_andthen [OF achieves_onError [OF applied(2)] achieves_andthen [OF achieves_onError [OF applied(1)]
          achieves_andthen [OF achieves_onError [OF deploymentStatus_achieves [OF S d]] reports]]])
qed

lemma coreObjects_mem:
  assumes "kept p q"
  shows "OConfigMap (BuildInitSQLConfigMap q) \<in> set (coreObjects E q cred)"
    "OConfigMap (BuildJWKSConfigMap q (pcr_PublicJWKS cred)) \<in> set (coreObjects E q cred)"
    "OConfigMap (BuildEnvoyConfigMap q) \<in> set (coreObjects E q cred)"
    "ODeployment (withCredentials cred (BuildAuthDeployment E q (managedNames p))) \<in> set (coreObjects E q cred)"
    "ODeployment (withCredentials cred (BuildRestDeployment q (managedNames p))) \<in> set (coreObjects E q cred)"
    "ODeployment (withCredentials cred (BuildStudioDeployment q (managedNames p))) \<in> set (coreObjects E q cred)"
    "ODeployment (BuildMetaDeployment q (managedNames p)) \<in> set (coreObjects E q cred)"
    "ODeployment (withCredentials cred (BuildGatewayDeployment q)) \<in> set (coreObjects E q cred)"
    "OService (BuildAuthService q) \<in> set (coreObjects E q cred)" "OService (BuildRestService q) \<in> set (coreObjects E q cred)"
    "OService (BuildStudioService q) \<in> set (coreObjects E q cred)" "OService (BuildMetaService q) \<in> set (coreObjects E q cred)"
    "OService (BuildGatewayService q) \<in> set (coreObjects E q cred)"
proof -
  have "managedNames q = managedNames p" using assms by (simp add: kept_def managedNames_def GoTrueFallbackSecretName_def)
  then show "OConfigMap (BuildInitSQLConfigMap q) \<in> set (coreObjects E q cred)"
    "OConfigMap (BuildJWKSConfigMap q (pcr_PublicJWKS cred)) \<in> set (coreObjects E q cred)"
    "OConfigMap (BuildEnvoyConfigMap q) \<in> set (coreObjects E q cred)"
    "ODeployment (withCredentials cred (BuildAuthDeployment E q (managedNames p))) \<in> set (coreObjects E q cred)"
    "ODeployment (withCredentials cred (BuildRestDeployment q (managedNames p))) \<in> set (coreObjects E q cred)"
    "ODeployment (withCredentials cred (BuildStudioDeployment q (managedNames p))) \<in> set (coreObjects E q cred)"
    "ODeployment (BuildMetaDeployment q (managedNames p)) \<in> set (coreObjects E q cred)"
    "ODeployment (withCredentials cred (BuildGatewayDeployment q)) \<in> set (coreObjects E q cred)"
    "OService (BuildAuthService q) \<in> set (coreObjects E q cred)" "OService (BuildRestService q) \<in> set (coreObjects E q cred)"
    "OService (BuildStudioService q) \<in> set (coreObjects E q cred)" "OService (BuildMetaService q) \<in> set (coreObjects E q cred)"
    "OService (BuildGatewayService q) \<in> set (coreObjects E q cred)"
    unfolding coreObjects_def by simp_all
qed

lemma services_achieve:
  assumes S: "platform b E p" and p: "coreProject p" and cred: "validCredentials E p cred"
  shows "achieves b (named p C) (reconcileAuth E (managedNames p) (pcr_PodTemplateHash cred)) (\<lambda>_. named p (insert CoreAuth C))"
    and "achieves b (named p C) (reconcileRest E (managedNames p) (pcr_PodTemplateHash cred)) (\<lambda>_. named p (insert CoreRest C))"
    and "achieves b (named p C) (reconcileStudio E (managedNames p) (pcr_PodTemplateHash cred)) (\<lambda>_. named p (insert CoreStudio C))"
    and "achieves b (named p C) (reconcileMeta E (managedNames p)) (\<lambda>_. named p (insert CoreMeta C))"
    and "achieves b (named p C) (reconcileGateway E (pcr_PodTemplateHash cred)) (\<lambda>_. named p (insert CoreGateway C))"
proof -
  let ?names = "managedNames p" and ?hash = "pcr_PodTemplateHash cred"
  note st = platform_settled [OF S]
  have R: "responsive E p" using S by (rule platform_responsive)
  have core: "au_goTrueEnv (sp_auth (p_spec q)) = []" "\<not> emailHookEnabled q" if "named p C q" for q
    using p named_kept [OF that] by (auto simp: coreProject_def kept_def emailHookEnabled_def)
  have here: "inPlace E q d" if b "named p C q" "d \<in> set (coreObjects E q cred)" for q d C
    using steady_object [OF S that(1) named_kept [OF that(2)] cred that(3)] .
  have hashed: "credentialed config q = withCredentials cred (src_deployment config q)" if "src_credentialHash config = ?hash" for config q
    using that by (simp add: credentialed_def withCredentials_def)
  have plain: "credentialed config q = src_deployment config q" if "src_credentialHash config = ''''" for config q
    using that by (simp add: credentialed_def)
  have sources: "achieves b (named p C) (validateGoTrueEnvSources E) (\<lambda>_. named p C)"
    by (auto simp: achieves_def validateGoTrueEnvSources_def core)
  have build: "achieves b (named p C) (buildAuthDeployment E ?names) (\<lambda>d q. named p C q \<and> d = BuildAuthDeployment E q ?names)"
    by (auto simp: achieves_def buildAuthDeployment_def core)
  have auth: "achieves b (\<lambda>q. named p C q \<and> d = BuildAuthDeployment E q ?names)
      (reconcileServiceComponent E \<lparr>src_name = ''Auth'', src_conditionType = ConditionTypeAuthReady,
         src_deployment = (\<lambda>_. d), src_service = BuildAuthService, src_setStatus = setAuthStatus,
         src_credentialHash = ?hash\<rparr>) (\<lambda>_. named p (insert CoreAuth C))" for d
  proof (rule component_achieves [OF st], goal_cases)
    case (3 q)
    then show ?case by (auto simp: built_deployments_key(1) [OF kept_meta [OF named_kept]])
  next
    case (4 q)
    then have q: "named p C q" and d: "d = BuildAuthDeployment E q ?names" by simp_all
    show ?case
      using here [OF 4(1) q coreObjects_mem(4) [OF named_kept [OF q]]] here [OF 4(1) q coreObjects_mem(9) [OF named_kept [OF q]]]
      by (simp add: hashed d)
  qed (simp_all add: slots_put)
  show "achieves b (named p C) (reconcileAuth E ?names ?hash) (\<lambda>_. named p (insert CoreAuth C))"
    unfolding reconcileAuth_def
    by (rule achieves_andthen [OF achieves_onError [OF sources] achieves_andthen [OF build auth]])
  show "achieves b (named p C) (reconcileRest E ?names ?hash) (\<lambda>_. named p (insert CoreRest C))"
    "achieves b (named p C) (reconcileStudio E ?names ?hash) (\<lambda>_. named p (insert CoreStudio C))"
    "achieves b (named p C) (reconcileMeta E ?names) (\<lambda>_. named p (insert CoreMeta C))"
    unfolding reconcileRest_def reconcileStudio_def reconcileMeta_def
    by (rule component_achieves [OF st]; simp add: slots_put built_deployments_key [OF kept_meta [OF named_kept]]
          hashed plain here coreObjects_mem [OF named_kept])+
  have gateway: "achieves b (named p C) (reconcileServiceComponent E (gatewayConfig ?hash)) (\<lambda>_. named p (insert CoreGateway C))"
    by (rule component_achieves [OF st])
      (simp_all add: gatewayConfig_def slots_put built_deployments_key [OF kept_meta [OF named_kept]]
          hashed here coreObjects_mem [OF named_kept])
  show "achieves b (named p C) (reconcileGateway E ?hash) (\<lambda>_. named p (insert CoreGateway C))"
    unfolding reconcileGateway_def
  proof (rule achieves_getProject)
    fix q assume q: "named p C q"
    have "achieves b (\<lambda>q'. q' = q) (createOrUpdateConfigMap E (BuildEnvoyConfigMap q)) (\<lambda>_ q'. q' = q)"
      by (rule createOrUpdate_achieves(2) [OF R]) (use q here coreObjects_mem(3) [OF named_kept] named_kept in auto)
    then have config: "achieves b (\<lambda>q'. q' = q) (createOrUpdateConfigMap E (BuildEnvoyConfigMap q)) (\<lambda>_. named p C)"
      using q by (rule achieves_at)
    show "achieves b (\<lambda>q'. q' = q) (andthen (onError (createOrUpdateConfigMap E (BuildEnvoyConfigMap q))
         (failComponent E (gatewayConfig ?hash) ''ConfigMapFailed'')) (\<lambda>_.
       andthen (reconcileServiceComponent E (gatewayConfig ?hash)) (\<lambda>_. do {
         modifyStatus (\<lambda>st. st\<lparr>st_endpoints := (st_endpoints st)\<lparr>ep_api := GatewayName q @ '':8000''\<rparr>\<rparr>);
         ok () }))) (\<lambda>_. named p (insert CoreGateway C))"
      by (rule achieves_andthen [OF achieves_onError [OF config] achieves_andthen [OF gateway]],
          rule achieves_modifyStatus [OF achieves_ok [where P = "named p (insert CoreGateway C)"]])
        (auto simp: named_def)
  qed
qed

lemma named_all: "named p UNIV q \<Longrightarrow> coreServicesReady q"
  by (simp add: named_def coreServicesReady_def Let_def) (metis UNIV_I slot.simps)

lemma reconcileServices_achieves:
  assumes S: "platform b E p" and p: "coreProject p" and cred: "validCredentials E p cred"
  shows "achieves b (named p {}) (reconcileServices E cred) (\<lambda>_. named p UNIV)"
proof -
  note step = achieves_andthen [OF achieves_onError]
  note service = services_achieve [OF S p cred]
  have last: "achieves b (named p UNIV) (do {
       p \<leftarrow> getProject;
       if \<not> coreServicesReady p then do {
         modifyStatus (\<lambda>st. st\<lparr>st_phase := PhaseProvisioning\<rparr>);
         setCondition E ConditionTypeReady ConditionFalse ''CoreServicesPending''
           ''Waiting for all core service deployments to become ready'';
         updateProjectStatus E }
       else ok () }) (\<lambda>_. named p UNIV)"
    by (rule achieves_getProject) (auto simp: named_all intro: achieves_ok)
  show ?thesis
    unfolding reconcileServices_def Let_def
  proof (rule achieves_getProject, rule achieves_pre [of b "named p {}"], goal_cases)
    case (1 q)
    then have "st_secretNames (p_status q) = managedNames p" by (simp add: named_def)
    then show ?case
      by (simp only:, intro step [OF service(1)] step [OF service(2)] step [OF service(3)] step [OF service(4)] step [OF service(5)])
        (simp only: all_core last)
  qed simp
qed

lemma notFoundE:
  assumes "notFound r"
  obtains e where "r = RErr e" "IsNotFound e"
  using assms by (auto simp: notFound_def split: resp.splits)

lemma deleteLabelled_achieves:
  assumes R: "responsive E p" and k: "k \<noteq> KProject" "k \<noteq> KSecret"
    and gone: "\<And>h. b \<Longrightarrow> notFound (respond E h (Get k (namespaced p name)))"
  shows "achieves b (named p C) (deleteLabelled E k what name) (\<lambda>_. named p C)"
proof (rule achievesI)
  fix s :: rstate assume s: "named p C (rs_project s)"
  note meta = kept_meta [OF named_kept [OF s]]
  note names = durables_kept(2) [OF named_kept [OF s]]
  show "\<exists>x s'. run_state (deleteLabelled E k what name) s = (Inr x, s') \<and> named p C (rs_project s') \<and>
      (b \<longrightarrow> quietSince (rs_events s) (rs_events s'))"
    using R k(1)
  proof (cases rule: responsive_read [where h = "rs_events s" and name = "namespaced p name"])
    case (1 e)
    then show ?thesis using s by (simp add: deleteLabelled_def names expect_def Let_def)
  next
    case (2 ob)
    then have "\<not> b" using gone [of "rs_events s"] by (auto simp: notFound_def)
    with 2 show ?thesis
      using s k(2) by (simp add: deleteLabelled_def names expect_def asKind_def Let_def meta responsive_write [OF R] writes_def)
  qed
qed

lemma removeCondition_achieves:
  "achieves b (named p C) m Q \<Longrightarrow> achieves b (named p C) (State_Monad.bind (removeCondition E ty) (\<lambda>_. m)) Q"
  unfolding removeCondition_def by (erule achieves_modifyStatus) simp

lemma achieves_if: "(c \<Longrightarrow> achieves b P m Q) \<Longrightarrow> (\<not> c \<Longrightarrow> achieves b P n Q) \<Longrightarrow> achieves b P (if c then m else n) Q"
  by simp

lemma achieves_getNamed:
  assumes "\<And>q. named p C q \<Longrightarrow> achieves b (named p C) (k q) Q"
  shows "achieves b (named p C) (State_Monad.bind getProject k) Q"
  using assms by (auto intro!: achieves_getProject intro: achieves_pre)

lemma backup_achieves:
  assumes S: "platform b E p" and p: "coreProject p"
  shows "achieves b (named p C) (reconcileBackupInfrastructure E) (\<lambda>_. named p C)"
proof -
  have R: "responsive E p" using S by (rule platform_responsive)
  have keep: "ScheduledBackupName q = ScheduledBackupName p" "ObjectStoreName q = ObjectStoreName p"
    "RecoveryObjectStoreName q = RecoveryObjectStoreName p" "p_spec q = p_spec p" if "named p C q" for q
    using that by (auto simp: named_def kept_def ScheduledBackupName_def ObjectStoreName_def RecoveryObjectStoreName_def)
  have gone: "b \<Longrightarrow> notFound (respond E h (Get KScheduledBackup (namespaced p (ScheduledBackupName p))))"
    "b \<Longrightarrow> notFound (respond E h (Get KObjectStore (namespaced p (ObjectStoreName p))))"
    "b \<Longrightarrow> notFound (respond E h (Get KObjectStore (namespaced p (RecoveryObjectStoreName p))))" for h
    using S unfolding platform_def steady_def by blast+
  note delete = achieves_andthen [OF deleteLabelled_achieves [OF R]]
  note removed = removeCondition_achieves [OF persist_achieves(1) [OF R]]
  have backup: "achieves b (named p C) (cleanupBackupResources E) (\<lambda>_. named p C)"
    unfolding cleanupBackupResources_def
    by (intro achieves_getNamed achieves_if delete removed achieves_ok) (simp_all add: keep gone)
  have recovery: "achieves b (named p C) (cleanupRecoveryResources E) (\<lambda>_. named p C)"
    unfolding cleanupRecoveryResources_def
    by (intro achieves_getNamed achieves_if delete removed achieves_ok) (simp_all add: keep gone)
  have "achieves b (named p C) (reconcileBackup E) (\<lambda>_. named p C)" "achieves b (named p C) (reconcileRecovery E) (\<lambda>_. named p C)"
    unfolding reconcileBackup_def reconcileRecovery_def using p
    by (auto intro!: achieves_getNamed backup recovery simp: keep coreProject_def split: option.splits)
  then show ?thesis unfolding reconcileBackupInfrastructure_def by (rule achieves_andthen)
qed

lemma deleteOwned_achieves:
  assumes R: "responsive E p" and k: "k \<noteq> KProject"
    and foreign: "\<And>h ob q. b \<Longrightarrow> P q \<Longrightarrow> respond E h (Get k name) = RObj ob \<Longrightarrow> \<not> isControlledBy E (metaOf ob) q"
  shows "achieves b P (deletePowerSyncOwnedResource E k name) (\<lambda>_. P)"
proof (rule achievesI)
  fix s :: rstate assume P: "P (rs_project s)"
  show "\<exists>x s'. run_state (deletePowerSyncOwnedResource E k name) s = (Inr x, s') \<and> P (rs_project s') \<and>
      (b \<longrightarrow> quietSince (rs_events s) (rs_events s'))"
    using R k
  proof (cases rule: responsive_read [where h = "rs_events s" and name = name])
    case (1 e)
    then show ?thesis using P by (simp add: deletePowerSyncOwnedResource_def expect_def Let_def)
  next
    case (2 ob)
    have "b \<longrightarrow> \<not> isControlledBy E (metaOf ob) (rs_project s)" using foreign P 2(1) by blast
    with 2 show ?thesis
      using P by (auto simp: deletePowerSyncOwnedResource_def expect_def asKind_def Let_def IgnoreNotFound_def
          responsive_write [OF R] writes_def)
  qed
qed

lemma slot_powersync: "slot c (sv\<lparr>svs_powersyncAPI := a, svs_powersyncReplication := b\<rparr>) = slot c sv"
  by (cases c) simp_all

lemma named_services:
  "named p UNIV q \<Longrightarrow> named p UNIV (q\<lparr>p_status := (p_status q)\<lparr>st_services := (st_services (p_status q))
     \<lparr>svs_powersyncAPI := a, svs_powersyncReplication := b\<rparr>\<rparr>\<rparr>)"
  by (simp add: named_def slot_powersync)

lemma powerSyncPhase_achieves:
  assumes S: "platform b E p" and p: "coreProject p"
  shows "achieves b (named p UNIV) (powerSyncPhase E) (\<lambda>x q. x = doneResult \<and> named p UNIV q)"
proof -
  have kinds: "(k, name) \<in> set (powersyncResources q) \<Longrightarrow> k \<noteq> KProject" for k name q
    by (auto simp: powersyncResources_def)
  have R: "responsive E p" using S by (rule platform_responsive)
  have same: "powersyncResources q = powersyncResources p" if "named p UNIV q" for q
    using named_kept [OF that] by (simp add: kept_def powersyncResources_def namespaced_def PowersyncAPIDeploymentName_def
        PowersyncReplicationDeploymentName_def PowersyncConfigMapName_def PowersyncSyncRulesConfigMapName_def CDCConfigMapName_def
        CDCJobName_def PowersyncCompactCronJobName_def)
  have foreign: "\<not> isControlledBy E (metaOf ob) q"
    if b "named p UNIV q" "(k, name) \<in> set (powersyncResources p)" "respond E h (Get k name) = RObj ob" for h q k name ob
    using S that named_kept [OF that(2)] unfolding platform_def steady_def by blast
  have delete: "achieves b (named p UNIV) (for_each (\<lambda>(k, name). deletePowerSyncOwnedResource E k name) (powersyncResources q))
      (\<lambda>_. named p UNIV)" if "named p UNIV q" for q
    unfolding same [OF that]
    by (rule achieves_for_each) (clarify, rule deleteOwned_achieves [OF R kinds], assumption, rule foreign)
  have clear: "achieves b (named p UNIV) (State_Monad.bind (modifyStatus (\<lambda>st. st\<lparr>st_services := (st_services st)
      \<lparr>svs_powersyncAPI := noServiceStatus, svs_powersyncReplication := noServiceStatus\<rparr>\<rparr>)) (\<lambda>_. m)) Q"
    if "achieves b (named p UNIV) m Q" for m and Q :: "unit \<Rightarrow> project \<Rightarrow> bool"
    using that by (rule achieves_modifyStatus) (rule named_services)
  have "achieves b (named p UNIV) (cleanupPowerSync E) (\<lambda>_. named p UNIV)"
    unfolding cleanupPowerSync_def
    by (intro achieves_getNamed achieves_andthen [OF delete] achieves_if clear removeCondition_achieves
        persist_achieves(1) [OF R] achieves_ok) assumption+
  then have "achieves b (named p UNIV) (andthen (cleanupPowerSync E) (\<lambda>_. ok doneResult)) (\<lambda>x q. x = doneResult \<and> named p UNIV q)"
    by (rule achieves_andthen) (simp add: achieves_ok)
  then show ?thesis
    unfolding powerSyncPhase_def using p
    by (auto intro!: achieves_getNamed simp: named_def kept_def coreProject_def)
qed

lemma finishReconcile_achieves:
  assumes R: "responsive E p"
  shows "achieves b (named p UNIV) (finishReconcile E) (\<lambda>x _. x = doneResult)"
  unfolding finishReconcile_def
  by (rule achieves_getNamed,
      rule achieves_modifyStatus [OF achieves_setCondition [where P = "named p UNIV", OF achieves_post [OF persist_achieves(2) [OF R]]]])
    (auto simp: named_def)

lemma reconcileProject_achieves:
  assumes S: "platform b E p" and p: "coreProject p" and D: "lawful_defaulting E"
  shows "achieves b (kept p) (reconcileProject E) (\<lambda>x _. x = doneResult)"
proof -
  have R: "responsive E p" using S by (rule platform_responsive)
  have here: "inPlace E q d" if b "named p {} q" "validCredentials E p cred" "d \<in> set (coreObjects E q cred)" for q d cred
    using steady_object [OF S that(1) named_kept [OF that(2)] that(3,4)] .
  have initSQL: "achieves b (named p {}) (reconcileInitSQL E) (\<lambda>_. named p {})" if "validCredentials E p cred" for cred
    unfolding reconcileInitSQL_def
    by (intro achieves_getProject achieves_at [where P = "named p {}"] createOrUpdate_achieves(2) [OF R])
      (use that here coreObjects_mem(1) [OF named_kept] named_kept in auto)
  have jwks: "achieves b (named p {}) (reconcileJWKSConfigMap E (pcr_PublicJWKS cred)) (\<lambda>_. named p {})" if "validCredentials E p cred" for cred
    unfolding reconcileJWKSConfigMap_def
    by (intro achieves_getProject achieves_at [where P = "named p {}"] achieves_orFailCondition createOrUpdate_achieves(2) [OF R])
      (use that here coreObjects_mem(2) [OF named_kept] named_kept in auto)
  have "achieves b (named p UNIV) (unlessRequeue (powerSyncPhase E) (finishReconcile E)) (\<lambda>x _. x = doneResult)"
    by (rule achieves_unlessRequeue [OF powerSyncPhase_achieves [OF S p] finishReconcile_achieves [OF R]])
  then have last: "achieves b (named p UNIV) (do {
       q \<leftarrow> getProject;
       if \<not> coreServicesReady q then ok RequeueDelay
       else unlessRequeue (powerSyncPhase E) (finishReconcile E) }) (\<lambda>x _. x = doneResult)"
    by (intro achieves_getNamed) (simp add: named_all)
  have phases: "achieves b (\<lambda>q. named p {} q \<and> validCredentials E p cred) (reconcilePhases E cred) (\<lambda>x _. x = doneResult)" for cred
  proof (cases "validCredentials E p cred")
    case True
    have "achieves b (named p {}) (reconcilePhases E cred) (\<lambda>x _. x = doneResult)"
      unfolding reconcilePhases_def
      by (rule achieves_andthen [OF achieves_orFailCondition [OF validateRecovery_achieves [OF platform_settled [OF S] p]]
            achieves_andthen [OF initSQL [OF True] achieves_andthen [OF jwks [OF True] achieves_andthen [OF backup_achieves [OF S p]
              achieves_unlessRequeue [OF CNPGCluster_achieves [OF platform_settled [OF S] D]
                achieves_unlessRequeue [OF waitForDatabase_achieves [OF platform_settled [OF S]]
                  achieves_andthen [OF reconcileServices_achieves [OF S p True] last]]]]]]])
    then show ?thesis by (rule achieves_pre) simp
  qed (simp add: achieves_def)
  show ?thesis
    unfolding reconcileProject_def
    by (rule achieves_modifyStatus [OF achieves_andthen [OF durableMetadata_achieves [OF S]
          achieves_andthen [OF reconcileSecrets_achieves [OF S p] phases]]]) simp
qed

lemma Reconcile_achieves:
  assumes "platform b E p" "coreProject p" "lawful_defaulting E"
    and "respond E h (Get KProject name) = RObj (OProject p)"
  shows "\<exists>h' q. Reconcile E name h = (Inr doneResult, h', Some q) \<and> (b \<longrightarrow> quietSince h h')"
proof -
  let ?h = "(Get KProject name, RObj (OProject p)) # h"
  let ?s = "\<lparr>rs_project = p, rs_events = ?h\<rparr>"
  have "kept p (rs_project ?s)" by (simp add: kept_def)
  with reconcileProject_achieves [OF assms(1-3)]
  obtain x s' where run: "run_state (reconcileProject E) ?s = (Inr x, s')" "x = doneResult" and "b \<longrightarrow> quietSince (rs_events ?s) (rs_events s')"
    by (rule achievesD)
  then have "b \<longrightarrow> quietSince h (rs_events s')" using quietSince_trans [of h ?h] by simp
  moreover have "Reconcile E name h = (Inr doneResult, rs_events s', Some (rs_project s'))"
    using assms(4) run by (simp add: Reconcile_def Let_def expect_def asProject_def)
  ultimately show ?thesis by blast
qed

section \<open>Properties\<close>



end
