(* ===== verification/Budget.thy ===== *)
theory Budget
  imports Policy
begin

text \<open>
  What one reconciliation costs, and what it writes into the status of its project. Every
  handler is given a bound on the number of requests it sends, against any server and any
  entropy source; together they bound a reconciliation. The same pass through the handlers
  shows that every status the operator persists fits the schema of the custom resource.
\<close>

section \<open>The schema of the status\<close>

text \<open>
  The validation of the status subresource: \<open>+kubebuilder:validation:Enum\<close> on the phase, the
  \<open>int32\<close> of the ready instances, and the markers of \<open>metav1.Condition\<close> on the type and the
  reason of a condition (the reason matches \<open>^[A-Za-z]([A-Za-z0-9_,:]*[A-Za-z0-9_])?$\<close>).
\<close>

definition isAlpha :: "char \<Rightarrow> bool" where
  "isAlpha c \<longleftrightarrow> c \<in> set ''abcdefghijklmnopqrstuvwxyzABCDEFGHIJKLMNOPQRSTUVWXYZ''"

definition isWord :: "char \<Rightarrow> bool" where
  "isWord c \<longleftrightarrow> isAlpha c \<or> c \<in> set ''0123456789_''"

definition schemaReason :: "string \<Rightarrow> bool" where
  "schemaReason r \<longleftrightarrow> r \<noteq> [] \<and> length r \<le> 1024 \<and> isAlpha (hd r) \<and> isWord (last r) \<and>
     list_all (\<lambda>c. isWord c \<or> c = CHR '','' \<or> c = CHR '':'') r"

text \<open>The condition types the operator declares.\<close>

definition conditionTypes :: "string list" where
  "conditionTypes = [ConditionTypeSecretsReady, ConditionTypeDatabaseReady, ConditionTypeAuthReady, ConditionTypeRestReady,
     ConditionTypeStudioReady, ConditionTypeMetaReady, ConditionTypeGatewayReady, ConditionTypeCDCReady, ConditionTypePowersyncReady,
     ConditionTypeBackupReady, ConditionTypeRecoveryReady, ConditionTypeReady]"

definition schemaCondition :: "string \<Rightarrow> string \<Rightarrow> bool" where
  "schemaCondition ty reason \<longleftrightarrow> ty \<in> set conditionTypes \<and> schemaReason reason"

definition schemaPhases :: "string list" where
  "schemaPhases = [PhasePending, PhaseProvisioning, PhaseRunning, PhaseFailed, PhaseDeleting]"

definition schemaStatus :: "project_status \<Rightarrow> bool" where
  "schemaStatus st \<longleftrightarrow> st_phase st \<in> set schemaPhases \<and>
     - (2 ^ 31) \<le> dbs_readyInstances (st_database st) \<and> dbs_readyInstances (st_database st) < 2 ^ 31 \<and>
     (\<forall>c \<in> set (st_conditions st). schemaCondition (c_type c) (c_reason c))"

text \<open>
  The documented behaviour of \<open>meta.SetStatusCondition\<close> and \<open>meta.RemoveStatusCondition\<close> on
  the list: the given condition is put in, or the ones of a type are taken out; no other type
  or reason appears.
\<close>

definition lawful_condition_list :: "env \<Rightarrow> bool" where
  "lawful_condition_list E \<longleftrightarrow>
     (\<forall>cs c c'. c' \<in> set (setStatusCondition E cs c) \<longrightarrow>
        (c_type c', c_reason c') \<in> insert (c_type c, c_reason c) ((\<lambda>c. (c_type c, c_reason c)) ` set cs)) \<and>
     (\<forall>cs ty. set (removeStatusCondition E cs ty) \<subseteq> set cs)"

text \<open>A project that has never been reconciled has no phase yet; its first reconciliation starts with \<open>Pending\<close>.\<close>

definition startPhase :: "project_status \<Rightarrow> project_status" where
  "startPhase st = (if st_phase st = '''' then st\<lparr>st_phase := PhasePending\<rparr> else st)"

section \<open>Bounded handlers\<close>

definition schemaPolicy :: "bool \<Rightarrow> event list \<Rightarrow> call \<Rightarrow> bool" where
  "schemaPolicy t h c \<longleftrightarrow> (\<forall>q. t \<longrightarrow> c = StatusUpdate q \<longrightarrow> schemaStatus (p_status q))"

text \<open>
  From a state whose project has the specification \<open>S\<close> the handler ends in such a state again
  and has sent at most \<open>n\<close> requests more. With the flag \<open>t\<close>, moreover: when the status fits the
  schema before, it does after, and every status sent in between does.
\<close>

definition fits :: "bool \<Rightarrow> project_spec \<Rightarrow> event list \<Rightarrow> rstate \<Rightarrow> bool" where
  "fits t S h0 s \<longleftrightarrow> p_spec (rs_project s) = S \<and> (t \<longrightarrow> schemaStatus (p_status (rs_project s))) \<and> trace_ok (schemaPolicy t) h0 (rs_events s)"

definition spends :: "bool \<Rightarrow> env \<Rightarrow> project_spec \<Rightarrow> 'a handler \<Rightarrow> nat \<Rightarrow> bool" where
  "spends t E S m n \<longleftrightarrow> (t \<longrightarrow> lawful_condition_list E) \<longrightarrow> (\<forall>h0 s. fits t S h0 s \<longrightarrow> fits t S h0 (snd (run_state m s)) \<and>
     length (rs_events (snd (run_state m s))) \<le> length (rs_events s) + n)"

named_theorems spend_intros "rules that bound the requests of handler code"

lemma spends_le: "spends t E S m n \<Longrightarrow> n \<le> n' \<Longrightarrow> spends t E S m n'"
  by (fastforce simp: spends_def)

lemma spendsD:
  "spends t E S m n \<Longrightarrow> (t \<Longrightarrow> lawful_condition_list E) \<Longrightarrow> fits t S h0 s \<Longrightarrow> run_state m s = (x, s') \<Longrightarrow>
     fits t S h0 s' \<and> length (rs_events s') \<le> length (rs_events s) + n"
  by (auto simp: spends_def dest!: spec [of _ h0] spec [of _ s])

lemma spends_bind [spend_intros]:
  assumes "spends t E S m a" "\<And>x. spends t E S (k x) b"
  shows "spends t E S (State_Monad.bind m k) (a + b)"
  unfolding spends_def
proof (intro allI impI)
  fix h0 s assume L: "t \<longrightarrow> lawful_condition_list E" and s: "fits t S h0 s"
  obtain x s' where m: "run_state m s = (x, s')" by force
  from spendsD [OF assms(1) _ s m] L have s': "fits t S h0 s'" "length (rs_events s') \<le> length (rs_events s) + a" by simp_all
  with assms(2) [of x] L m show "fits t S h0 (snd (run_state (State_Monad.bind m k) s)) \<and>
    length (rs_events (snd (run_state (State_Monad.bind m k) s))) \<le> length (rs_events s) + (a + b)"
    unfolding spends_def by fastforce
qed

lemma spends_return [spend_intros]: "spends t E S (State_Monad.return x) 0"
  and spends_ok [spend_intros]: "spends t E S (ok y) 0"
  and spends_fail [spend_intros]: "spends t E S (fail e) 0"
  and spends_getProject [spend_intros]: "spends t E S getProject 0"
  and spends_get [spend_intros]: "spends t E S State_Monad.get 0"
  by (simp_all add: spends_def)

lemma spends_andthen [spend_intros]:
  assumes "spends t E S m a" "\<And>x. spends t E S (k x) b"
  shows "spends t E S (andthen m k) (a + b)"
  unfolding andthen_def
  by (rule spends_bind [OF assms(1)]) (use assms(2) in \<open>auto split: sum.splits intro: spends_le [OF spends_fail]\<close>)

lemma spends_andthen_returns:
  assumes "spends t E S m a" "returns m Q" "\<And>x. Q x \<Longrightarrow> spends t E S (k x) b"
  shows "spends t E S (andthen m k) (a + b)"
  unfolding spends_def
proof (intro allI impI)
  fix h0 s assume L: "t \<longrightarrow> lawful_condition_list E" and s: "fits t S h0 s"
  obtain x s' where m: "run_state m s = (x, s')" by force
  from spendsD [OF assms(1) _ s m] L have s': "fits t S h0 s'" "length (rs_events s') \<le> length (rs_events s) + a" by simp_all
  show "fits t S h0 (snd (run_state (andthen m k) s)) \<and>
    length (rs_events (snd (run_state (andthen m k) s))) \<le> length (rs_events s) + (a + b)"
  proof (cases x)
    case (Inr y)
    with assms(2) m have "Q y" by (auto simp: returns_def)
    from assms(3) [OF this] L s' m Inr show ?thesis unfolding spends_def by (fastforce simp: run_andthen)
  qed (use s' m in \<open>simp add: run_andthen\<close>)
qed

lemma spends_getP:
  assumes "\<And>p. p_spec p = S \<Longrightarrow> spends t E S (k p) n"
  shows "spends t E S (State_Monad.bind getProject k) n"
  using assms by (auto simp: spends_def fits_def)

lemma spends_if [spend_intros]: "spends t E S m a \<Longrightarrow> spends t E S n b \<Longrightarrow> spends t E S (if c then m else n) (max a b)"
  by (auto intro: spends_le)

lemma spends_case_sum [spend_intros]:
  "(\<And>e. spends t E S (f e) a) \<Longrightarrow> (\<And>x. spends t E S (g x) b) \<Longrightarrow> spends t E S (case r of Inl e \<Rightarrow> f e | Inr x \<Rightarrow> g x) (max a b)"
  by (cases r) (simp_all, (meson spends_le max.cobounded1 max.cobounded2 order_trans)+)

lemma spends_case_option [spend_intros]:
  "spends t E S f a \<Longrightarrow> (\<And>x. spends t E S (g x) b) \<Longrightarrow> spends t E S (case r of None \<Rightarrow> f | Some x \<Rightarrow> g x) (max a b)"
  by (cases r) (simp_all, (meson spends_le max.cobounded1 max.cobounded2 order_trans)+)

lemma spends_case_prod [spend_intros]: "(\<And>x y. r = (x, y) \<Longrightarrow> spends t E S (f x y) n) \<Longrightarrow> spends t E S (case r of (x, y) \<Rightarrow> f x y) n"
  by (cases r) simp

lemma spends_case_resp [spend_intros]:
  "(\<And>e. spends t E S (f e) a) \<Longrightarrow> (\<And>ob. spends t E S (g ob) b) \<Longrightarrow> spends t E S i c \<Longrightarrow> (\<And>ps. spends t E S (j ps) d) \<Longrightarrow> (\<And>bs. spends t E S (k bs) n) \<Longrightarrow>
   spends t E S (case r of RErr e \<Rightarrow> f e | RObj ob \<Rightarrow> g ob | ROk \<Rightarrow> i | RProjects ps \<Rightarrow> j ps | RBytes bs \<Rightarrow> k bs)
     (max a (max b (max c (max d n))))"
  by (cases r) (simp_all, (meson spends_le max.cobounded1 max.cobounded2 order_trans)+)

lemma spends_Let [spend_intros]: "spends t E S (f x) n \<Longrightarrow> spends t E S (Let x f) n"
  by simp

lemma spends_onError [spend_intros]: "spends t E S m a \<Longrightarrow> (\<And>e. spends t E S (h e) b) \<Longrightarrow> spends t E S (onError m h) (a + max b 0)"
  unfolding onError_def by (intro spends_bind spends_case_sum spends_ok)

lemma spends_wrapErr [spend_intros]: "spends t E S m a \<Longrightarrow> spends t E S (wrapErr p m) a"
  unfolding wrapErr_def by (rule spends_le, rule spends_bind, assumption, rule spends_case_sum [OF spends_fail spends_ok]) simp

lemma spends_unlessRequeue [spend_intros]: "spends t E S m a \<Longrightarrow> spends t E S k b \<Longrightarrow> spends t E S (unlessRequeue m k) (a + b)"
  unfolding unlessRequeue_def by (rule spends_andthen) (auto intro: spends_ok spends_le)

lemma spends_for_each:
  assumes "\<And>x. x \<in> set xs \<Longrightarrow> spends t E S (f x) c" "length xs \<le> n"
  shows "spends t E S (for_each f xs) (n * c)"
  using assms
proof (induction xs arbitrary: n)
  case (Cons x xs)
  then obtain n' where n: "n = Suc n'" by (cases n) auto
  with Cons.prems have "spends t E S (f x) c" "spends t E S (for_each f xs) (n' * c)" by (auto intro: Cons.IH)
  from spends_andthen [OF this] show ?case unfolding n by simp
qed (auto intro: spends_le [OF spends_ok])

section \<open>Requests and statuses\<close>

lemma spends_ask: "(\<And>q. c \<noteq> StatusUpdate q) \<Longrightarrow> spends t E S (ask E c) 1"
  by (auto simp: spends_def fits_def schemaPolicy_def intro: trace_ok.request)

lemma spends_send [spend_intros]: "(\<And>q. c \<noteq> StatusUpdate q) \<Longrightarrow> spends t E S (send E c) 1"
  unfolding send_def by (rule spends_le, rule spends_bind [OF spends_ask spends_return]) simp_all

lemma spends_fetch [spend_intros]: "spends t E S (fetch E k f name) 1"
  unfolding fetch_def by (rule spends_le, rule spends_bind [OF spends_ask spends_return]) simp_all

lemma spends_modifyStatus [spend_intros]: "(\<And>st. schemaStatus st \<Longrightarrow> schemaStatus (f st)) \<Longrightarrow> spends t E S (modifyStatus f) 0"
  by (simp add: spends_def fits_def)

lemma spends_persist [spend_intros]: "spends t E S (updateProjectStatus E) 2"
  unfolding spends_def
proof (intro allI impI)
  fix h0 s assume "t \<longrightarrow> lawful_condition_list E" "fits t S h0 s"
  then show "fits t S h0 (snd (run_state (updateProjectStatus E) s)) \<and>
      length (rs_events (snd (run_state (updateProjectStatus E) s))) \<le> length (rs_events s) + 2"
    by (auto simp: updateProjectStatus_def run_andthen fits_def Let_def schemaPolicy_def intro!: trace_ok.request split: sum.splits)
qed

lemma spends_condition [spend_intros]: "schemaCondition ty reason \<Longrightarrow> spends t E S (setCondition E ty st reason msg) 0"
  by (fastforce simp: spends_def fits_def schemaStatus_def setCondition_def Let_def lawful_condition_list_def)

lemma spends_removeCondition [spend_intros]: "spends t E S (removeCondition E ty) 0"
  by (fastforce simp: spends_def fits_def schemaStatus_def removeCondition_def lawful_condition_list_def)

section \<open>The handlers, one by one\<close>

lemmas schema_simps = schemaCondition_def schemaReason_def conditionTypes_def isAlpha_def isWord_def schemaStatus_def schemaPhases_def
  to_int32_bounds [simplified] reconcileErrReason_def

text \<open>The entropy source.\<close>

lemma random_spend [spend_intros]:
  "spends t E S (readRandom E n) 1"
  unfolding readRandom_def
  by (rule spends_le, (rule spend_intros spends_ask | assumption | (simp add: schema_simps; fail))+)+

lemma generators_spend [spend_intros]:
  "spends t E S (GenerateSecrets E p) 4"
  "spends t E S (GenerateEmailHookSecret E p) 1"
  "spends t E S (GeneratePowersyncSecrets E p) 2"
  "spends t E S (GeneratePowersyncAPITokenSecret E p) 1"
  "spends t E S (allSecretsExist E [a, b]) 2"
  unfolding GenerateSecrets_def GenerateGoTrueFallbackSecret_def generateRoleSecret_def GeneratePassword_def GenerateHex_def
    GenerateEmailHookSecret_def GenerateWebhookSecret_def GenerateBase64_def GeneratePowersyncSecrets_def
    GeneratePowersyncAPITokenSecret_def allSecretsExist.simps
  by (rule spends_le, (rule spend_intros | assumption | (simp add: schema_simps; fail))+)+

text \<open>The request patterns and the error paths.\<close>

lemma requests_spend [spend_intros]:
  "spends t E S (upsert E k as wrap blame name desired merge) 2"
  "spends t E S (createOrCheckJob E job hash) 2"
  "spends t E S (deletePowerSyncOwnedResource E k name) 2"
  "spends t E S (deleteLabelled E k what label) 2"
  "spends t E S (deploymentStatus E dep) 1"
  "spends t E S (protectDurable E d) 2"
  "spends t E S (validateS3Secret E ns ref) 1"
  "spends t E S (validateGoTrueEnvSource E ns v) 1"
  "spends t E S (buildAuthDeployment E names) 1"
  "spends t E S (validateRecoveryBootstrapIntent E) 2"
  "schemaCondition ty reason \<Longrightarrow> spends t E S (failCondition E ty reason err) 2"
  "schemaCondition ty reason \<Longrightarrow> spends t E S (waitCondition E ty reason msg) 2"
  "schemaReason reason \<Longrightarrow> spends t E S (failReconcileSecrets E reason msg err) 2"
  "schemaReason reason \<Longrightarrow> spends t E S (failEmailHookSecret E reason err) 2"
  "spends t E S (failCoreServices E err) 2"
  "spends t E S (setEmailHookName hookName) 0"
  "spends t E S (setServiceStatus config st) 0"
  unfolding upsert_def createOrCheckJob_def deletePowerSyncOwnedResource_def deleteLabelled_def deploymentStatus_def
    protectDurable_def validateS3Secret_def for_each.simps validateGoTrueEnvSource_def validateGoTrueEnvSecretKey_def
    validateGoTrueEnvConfigMapKey_def buildAuthDeployment_def validateRecoveryBootstrapIntent_def failCondition_def
    waitCondition_def failReconcileSecrets_def failEmailHookSecret_def failCoreServices_def setEmailHookName_def
    setServiceStatus_def
  by (rule spends_le, (rule spend_intros | assumption | (simp add: schema_simps; fail))+)+

lemma apply_spend [spend_intros]:
  "spends t E S (createOrUpdateSecret E secret) 2"
  "spends t E S (createOrUpdateConfigMap E cm) 2"
  "spends t E S (createOrUpdateDeployment E dep) 2"
  "spends t E S (createOrUpdateService E svc) 2"
  "spends t E S (createOrUpdateCronJob E cj) 2"
  "spends t E S (createOrUpdateObjectStore E os) 2"
  "spends t E S (createOrUpdateScheduledBackup E sb) 2"
  "schemaCondition ty reason \<Longrightarrow> spends t E S m a \<Longrightarrow> spends t E S (orFailCondition E ty reason m) (a + 2)"
  "schemaReason reason \<Longrightarrow> spends t E S (failBackup E reason err) 2"
  "schemaReason reason \<Longrightarrow> spends t E S (failRecovery E reason err) 2"
  "schemaCondition (src_conditionType config) reason \<Longrightarrow> spends t E S (failComponent E config reason err) 2"
  "spends t E S (failAuthGoTrueEnv E err) 2"
  unfolding createOrUpdateSecret_def createOrUpdateConfigMap_def createOrUpdateDeployment_def createOrUpdateService_def
    createOrUpdateCronJob_def createOrUpdateObjectStore_def createOrUpdateScheduledBackup_def orFailCondition_def
    failBackup_def failRecovery_def failComponent_def failAuthGoTrueEnv_def
  by (rule spends_le, (rule spend_intros | assumption | (simp add: schema_simps; fail))+)+

text \<open>The phases.\<close>

lemma steps_spend [spend_intros]:
  "spends t E S (ensureEmailHookSecret E) 6"
  "spends t E S (reconcilePowersyncAPITokenSecret E) 4"
  "spends t E S (reconcileInitSQL E) 2"
  "spends t E S (reconcileJWKSConfigMap E keys) 4"
  "spends t E S (cleanupBackupResources E) 6"
  "spends t E S (cleanupRecoveryResources E) 4"
  "spends t E S (reconcileCNPGCluster E) 6"
  "spends t E S (waitForDatabase E) 3"
  "src_conditionType config \<in> set conditionTypes \<Longrightarrow> spends t E S (reconcileServiceComponent E config) 11"
  "spends t E S (reconcilePowerSyncRulesValidation E spec) 3"
  "spends t E S (waitForPowerSyncManagedRoles E) 3"
  "spends t E S (reconcilePowerSyncPublication E) 4"
  "spends t E S (reconcileCDCPermissions E) 10"
  "spends t E S (applyPowersyncWorkloads E spec rules) 24"
  "spends t E S (finishReconcile E) 2"
  unfolding ensureEmailHookSecret_def reconcilePowersyncAPITokenSecret_def reconcileInitSQL_def reconcileJWKSConfigMap_def
    cleanupBackupResources_def cleanupRecoveryResources_def reconcileCNPGCluster_def waitForDatabase_def
    reconcileServiceComponent_def reconcilePowerSyncRulesValidation_def loadAndValidatePowerSyncRules_def
    waitForPowerSyncManagedRoles_def reconcilePowerSyncPublication_def reconcileCDCPermissions_def applyPowersyncWorkloads_def
    cleanupPowerSyncCompact_def finishReconcile_def
  by (rule spends_le, (rule spend_intros | assumption | (simp add: schema_simps; fail))+)+

lemma phases_spend [spend_intros]:
  "spends t E S (reconcileEmailHookSecret E) 8"
  "spends t E S (reconcileBackup E) 13"
  "spends t E S (reconcileRecovery E) 9"
  "spends t E S (reconcileRest E names hash) 11"
  "spends t E S (reconcileStudio E names hash) 11"
  "spends t E S (reconcileMeta E names) 11"
  "spends t E S (reconcileGateway E hash) 15"
  "spends t E S (reconcilePowersync E spec rules) 28"
  unfolding reconcileEmailHookSecret_def reconcileBackup_def reconcileRecovery_def reconcileRest_def reconcileStudio_def
    reconcileMeta_def reconcileGateway_def gatewayConfig_def reconcilePowersync_def
  by (rule spends_le, (rule spend_intros | assumption | (simp add: schema_simps; fail))+)+

section \<open>Loops and the whole reconciliation\<close>

lemma GenerateSecrets_length: "returns (GenerateSecrets E p) (\<lambda>(secrets, _). length secrets = 4)"
  unfolding GenerateSecrets_def by (auto intro!: returns_andthen returns_ok split: prod.splits)

lemma GeneratePowersyncSecrets_length: "returns (GeneratePowersyncSecrets E p) (\<lambda>secrets. length secrets = 2)"
  unfolding GeneratePowersyncSecrets_def by (auto intro!: returns_andthen returns_ok split: prod.splits)

lemma durable_spend [spend_intros]: "spends t E S (reconcileDurableMetadataProtection E) 8"
proof -
  have "spends t E S (for_each (protectDurable E) (durables p)) (4 * 2)" for p
    by (rule spends_for_each) (simp_all add: requests_spend durables_def)
  then show ?thesis unfolding reconcileDurableMetadataProtection_def by (intro spends_getP) simp
qed

lemma powersyncSecrets_spend [spend_intros]: "spends t E S (reconcilePowersyncSecrets E names) 18"
proof -
  have create: "spends t E S (for_each (\<lambda>secret. orFailCondition E ConditionTypeSecretsReady ''CreateFailed'' (createOrUpdateSecret E secret)) secrets) (2 * 4)"
    if "length secrets = 2" for secrets
    by (rule spends_for_each, rule spends_le, rule apply_spend(8) [OF _ apply_spend(1)]) (simp_all add: schema_simps that)
  have generate: "spends t E S (orFailCondition E ConditionTypeSecretsReady ''PowersyncSecretsFailed'' (GeneratePowersyncSecrets E p)) 4" for p
    by (rule spends_le, rule apply_spend(8) [OF _ generators_spend(3)]) (simp_all add: schema_simps)
  show ?thesis
    unfolding reconcilePowersyncSecrets_def
    by (rule spends_le, (rule create spends_andthen_returns [OF generate returns_orFailCondition [OF GeneratePowersyncSecrets_length]]
          spend_intros | assumption | (simp; fail))+)
qed

lemma implementationSecrets_spend [spend_intros]: "spends t E S (reconcileImplementationSecrets E) 38"
proof -
  have create: "spends t E S (for_each (createOrUpdateSecret E) secrets) (4 * 2)" if "length secrets = 4" for secrets
    using that by (intro spends_for_each) (simp_all add: apply_spend(1))
  show ?thesis
    unfolding reconcileImplementationSecrets_def
    by (rule spends_le, (rule create spends_andthen_returns [OF generators_spend(1) GenerateSecrets_length]
          spend_intros | assumption | (simp add: schema_simps; fail))+)
qed

lemma provisioning_fits: "schemaStatus st \<Longrightarrow> schemaStatus (if c then st\<lparr>st_phase := PhaseProvisioning\<rparr> else st)"
  by (cases c) (simp_all add: schemaStatus_def schemaPhases_def)

lemma secrets_spend [spend_intros]: "spends t E S (reconcileSecrets E) 41"
  unfolding reconcileSecrets_def
  by (rule spends_le, (rule spend_intros provisioning_fits | assumption | (simp add: schema_simps; fail))+)

lemma auth_spend [spend_intros]: "spends t E S (reconcileAuth E names hash) (length (au_goTrueEnv (sp_auth S)) + 14)"
proof -
  have "spends t E S (validateGoTrueEnvSources E) (length (au_goTrueEnv (sp_auth S)) * 1)"
    unfolding validateGoTrueEnvSources_def
    by (rule spends_getP, rule spends_for_each, rule requests_spend) simp
  then show ?thesis
    unfolding reconcileAuth_def
    by - (rule spends_le, (rule spend_intros | assumption | (simp add: schema_simps; fail))+)
qed

lemma services_spend [spend_intros]: "spends t E S (reconcileServices E credentials) (length (au_goTrueEnv (sp_auth S)) + 74)"
  unfolding reconcileServices_def
  by (rule spends_le, (rule spend_intros | assumption | (simp add: schema_simps; fail))+)

lemma powerSync_spend [spend_intros]: "spends t E S (powerSyncPhase E) 48"
proof -
  have "spends t E S (for_each (\<lambda>(k, name). deletePowerSyncOwnedResource E k name) (powersyncResources p)) (9 * 2)" for p
    by (rule spends_for_each) (auto simp: requests_spend powersyncResources_def)
  then show ?thesis
    unfolding powerSyncPhase_def cleanupPowerSync_def
    by - (rule spends_le, (rule spend_intros | assumption | (simp add: schema_simps; fail))+)
qed

lemma reconcileProject_spend:
  assumes "t \<Longrightarrow> lawful_condition_list E" "p_spec (rs_project s) = S"
    and "t \<Longrightarrow> schemaStatus (startPhase (p_status (rs_project s)))" "run_state (reconcileProject E) s = (r, s')"
  shows "fits t S (rs_events s) s' \<and> length (rs_events s') \<le> length (rs_events s) + (length (au_goTrueEnv (sp_auth S)) + 214)"
proof -
  let ?start = "modifyStatus (\<lambda>st. if st_phase st = '''' then st\<lparr>st_phase := PhasePending\<rparr> else st)"
  let ?rest = "andthen (reconcileDurableMetadataProtection E) (\<lambda>_. andthen (reconcileSecrets E) (reconcilePhases E))"
  let ?s = "snd (run_state ?start s)"
  have "spends t E S ?rest (length (au_goTrueEnv (sp_auth S)) + 214)"
    unfolding reconcilePhases_def reconcileBackupInfrastructure_def
    by (rule spends_le, (rule spend_intros | assumption | (simp add: schema_simps; fail))+)
  moreover have "fits t S (rs_events s) ?s"
    using assms(2,3) by (auto simp: fits_def startPhase_def intro: trace_ok.start split: if_splits)
  moreover have "run_state ?rest ?s = (r, s')" using assms(4) by (simp add: reconcileProject_def)
  ultimately have "fits t S (rs_events s) s' \<and> length (rs_events s') \<le> length (rs_events ?s) + (length (au_goTrueEnv (sp_auth S)) + 214)"
    using assms(1) by (intro spendsD)
  then show ?thesis by simp
qed

section \<open>The results of a reconciliation\<close>

text \<open>A handler that returns, if no error, a result of the manager it may: done, or once more after the delay.\<close>

definition resultOk :: "ctrl_result \<Rightarrow> bool" where
  "resultOk r \<longleftrightarrow> r = doneResult \<or> r = RequeueDelay"

named_theorems result_intros "rules for the results of handler code"

lemma result_ok [result_intros]: "resultOk r \<Longrightarrow> returns (ok r) resultOk"
  by (rule returns_ok)

lemma result_values [result_intros]: "resultOk doneResult" "resultOk RequeueDelay"
  by (simp_all add: resultOk_def)

lemma result_fail [result_intros]: "returns (fail e) resultOk"
  by (simp add: returns_def)

lemma result_bind [result_intros]: "(\<And>x. returns (k x) resultOk) \<Longrightarrow> returns (State_Monad.bind m k) resultOk"
  by (auto simp: returns_def split: prod.splits)

lemma result_if [result_intros]: "returns m resultOk \<Longrightarrow> returns n resultOk \<Longrightarrow> returns (if c then m else n) resultOk"
  by simp

lemma result_case_sum [result_intros]:
  "(\<And>e. returns (f e) resultOk) \<Longrightarrow> (\<And>x. returns (g x) resultOk) \<Longrightarrow> returns (case r of Inl e \<Rightarrow> f e | Inr x \<Rightarrow> g x) resultOk"
  by (cases r) simp_all

lemma result_case_option [result_intros]:
  "returns f resultOk \<Longrightarrow> (\<And>x. returns (g x) resultOk) \<Longrightarrow> returns (case r of None \<Rightarrow> f | Some x \<Rightarrow> g x) resultOk"
  by (cases r) simp_all

lemma result_case_prod [result_intros]: "(\<And>x y. returns (f x y) resultOk) \<Longrightarrow> returns (case r of (x, y) \<Rightarrow> f x y) resultOk"
  by (cases r) simp

lemma result_Let [result_intros]: "returns (f x) resultOk \<Longrightarrow> returns (Let x f) resultOk"
  by simp

lemma result_unlessRequeue [result_intros]: "returns m resultOk \<Longrightarrow> returns k resultOk \<Longrightarrow> returns (unlessRequeue m k) resultOk"
  unfolding unlessRequeue_def by (rule returns_andthen2 [where P = resultOk]) (auto intro: result_intros)

lemma reconcileProject_result: "returns (reconcileProject E) resultOk"
  unfolding reconcileProject_def reconcilePhases_def reconcileCNPGCluster_def waitForDatabase_def powerSyncPhase_def finishReconcile_def
    waitForPowerSyncManagedRoles_def reconcilePowerSyncPublication_def reconcileCDCPermissions_def reconcilePowersync_def waitCondition_def
  by (intro result_intros returns_andthen failCondition_returns)

lemma Reconcile_spends:
  assumes "t \<Longrightarrow> lawful_condition_list E" "respond E h (Get KProject name) = RObj (OProject p)"
    and "t \<Longrightarrow> schemaStatus (startPhase (p_status p))" "Reconcile E name h = (res, h', q)"
  shows "trace_ok (schemaPolicy t) h h' \<and> length h' \<le> length h + (length (au_goTrueEnv (sp_auth (p_spec p))) + 215)"
proof -
  let ?h = "(Get KProject name, RObj (OProject p)) # h"
  obtain s' where run: "run_state (reconcileProject E) \<lparr>rs_project = p, rs_events = ?h\<rparr> = (res, s')" "h' = rs_events s'"
    using assms(2,4) by (auto simp: Reconcile_def expect_def asProject_def Let_def split: prod.splits)
  from reconcileProject_spend [OF assms(1) refl _ run(1)] assms(3)
  have "trace_ok (schemaPolicy t) ?h h'" "length h' \<le> length ?h + (length (au_goTrueEnv (sp_auth (p_spec p))) + 214)"
    by (auto simp: fits_def run(2))
  moreover have "trace_ok (schemaPolicy t) h ?h" by (intro trace_ok.intros) (simp add: schemaPolicy_def)
  ultimately show ?thesis using trace_ok_trans by fastforce
qed

section \<open>Properties\<close>

text \<open>
  C10. A reconciliation ends. Whatever the API server and the entropy source answer, one call of
  \<open>Reconcile\<close> sends at most 215 requests, and one more for each GoTrue variable in the
  specification of the project it read; it sends a single one when the read fails.
\<close>

theorem Reconcile_bounded:
  assumes "Reconcile E name h = (res, h', q)"
  shows "\<exists>new. h' = new @ h \<and> (case expect asProject (respond E h (Get KProject name)) of
     Inl _ \<Rightarrow> length new = 1
   | Inr p \<Rightarrow> length new \<le> 215 + length (au_goTrueEnv (sp_auth (p_spec p))))"
proof (cases "expect asProject (respond E h (Get KProject name))")
  case (Inl e)
  with assms show ?thesis
    by (intro exI [of _ "[(Get KProject name, respond E h (Get KProject name))]"]) (auto simp: Reconcile_def Let_def split: if_splits)
next
  case (Inr p)
  then have "respond E h (Get KProject name) = RObj (OProject p)" by auto
  from Reconcile_spends [of False, OF _ this _ assms]
  have "trace_ok (schemaPolicy False) h h'" "length h' \<le> length h + (length (au_goTrueEnv (sp_auth (p_spec p))) + 215)" by auto
  with trace_ok_suffix [of "schemaPolicy False" h h'] show ?thesis unfolding Inr by auto
qed


end
