(* ===== verification/Liveness_Witnesses.thy ===== *)
theory Liveness_Witnesses
  imports Liveness Budget Reference_Env
begin

text \<open>
  A settled platform around the reference project, and the theorems about the end of a
  reconciliation applied to it.
\<close>

section \<open>The platform\<close>

definition readyDeployment :: deployment where
  "readyDeployment = (componentDeployment refProject ''any'' ''any'' 1 emptyPodSpec)
     \<lparr>dep_status := emptyDeploymentStatus\<lparr>dst_updatedReplicas := 1, dst_readyReplicas := 1, dst_availableReplicas := 1\<rparr>\<rparr>"

definition readyCluster :: cluster where
  "readyCluster = (BuildCluster refProject (managedNames refProject))\<lparr>cl_status := emptyClusterStatus\<lparr>cst_readyInstances := 1\<rparr>\<rparr>"

definition settledServer :: "event list \<Rightarrow> call \<Rightarrow> resp" where
  "settledServer h c =
     (case c of
        Get k name \<Rightarrow>
          (case k of
             KProject \<Rightarrow> RObj (OProject refProject)
           | KDeployment \<Rightarrow> RObj (ODeployment readyDeployment)
           | KCluster \<Rightarrow> RObj (OCluster readyCluster)
           | KSecret \<Rightarrow> if snd name = ''credentials'' then RObj (OSecret refSecret) else RErr (StatusError NotFound ''not found'')
           | _ \<Rightarrow> RErr (StatusError NotFound ''not found''))
      | RandRead n \<Rightarrow> RBytes (replicate n (CHR 0x00))
      | _ \<Rightarrow> ROk)"

abbreviation "settledEnv \<equiv> refEnv settledServer"

lemma ref_labels: "goget (ComponentLabels refProject component) LabelInstance = ''demo''"
  by (simp add: ComponentLabels_def CommonLabels_def goget_def LabelInstance_def LabelComponent_def LabelName_def
      LabelManagedBy_def LabelPartOf_def refProject_def refMeta_def)

lemma settledEnv_responsive: "responsive settledEnv refProject"
  unfolding responsive_def
proof (intro conjI allI impI)
  fix h c assume "writes c"
  then show "acknowledged (respond settledEnv h c) = Inr ()"
    by (auto simp: settledServer_def writes_def acknowledged_def split: call.splits)
next
  fix h k name assume "k \<noteq> KProject"
  then show "(\<exists>e. respond settledEnv h (Get k name) = RErr e \<and> IsNotFound e) \<or>
      (\<exists>ob. respond settledEnv h (Get k name) = RObj ob \<and> kindOf ob = k \<and>
         (k \<noteq> KSecret \<longrightarrow> goget (md_labels (metaOf ob)) LabelInstance = p_name refProject))"
    by (cases k) (auto simp: settledServer_def readyDeployment_def componentDeployment_def readyCluster_def ref_labels
        refProject_def refMeta_def)
qed (auto simp: settledServer_def)

text \<open>Assigning a specification to itself changes nothing.\<close>

lemma assign_self:
  assumes "cs_plugins d = []"
  shows "snd (assignMutableFields d (d, False)) = False"
  using assms
  by (simp add: assignMutableFields_def assignField_def onlyIf_def reconcileManaged_def reconcilePlugins_def
      reconcileBarmanPlugin_def Let_def split: option.splits)

lemma readyCluster_settled: "clusterSettled (refEnv a) refProject readyCluster"
proof -
  let ?built = "BuildCluster refProject (managedNames refProject)"
  have spec: "cl_spec readyCluster = cl_spec ?built" and meta: "cl_meta readyCluster = cl_meta ?built"
    by (simp_all add: readyCluster_def)
  have storage: "cs_storage (cl_spec ?built) = \<lparr>sc_size = ''10Gi'', sc_storageClass = None, sc_resizeInUseVolumes = None, sc_pvcTemplate = None\<rparr>"
    and plugins: "cs_plugins (cl_spec ?built) = []" and one: "cs_instances (cl_spec ?built) = 1"
    by (simp_all add: BuildCluster_def Let_def refProject_def refSpec_def backupEnabled_def)
  have same: "reconcileStorage (refEnv a) (cs_storage (cl_spec ?built)) (cs_storage (cl_spec ?built)) =
      Inr (cs_storage (cl_spec ?built), False)"
    by (simp add: storage reconcileStorage_def reconcileStorageSize_def refQuantity_def Let_def)
  obtain d' where assign: "assignMutableFields (cl_spec ?built) (cl_spec ?built, False) = (d', False)"
    using assign_self [OF plugins] by (cases "assignMutableFields (cl_spec ?built) (cl_spec ?built, False)") simp
  have mutable: "\<exists>cl. reconcileClusterMutableFields (refEnv a) readyCluster ?built = Inr (cl, False)"
    by (simp add: reconcileClusterMutableFields_def spec same assign)
  have intent: "\<not> recoveryBootstrapIntentChanged readyCluster ?built"
    by (simp add: recoveryBootstrapIntentChanged_def spec Let_def initDBChanged_def split: option.splits)
  have labels: "mergeLabels (refEnv a) (cl_meta ?built) (md_labels (cl_meta ?built)) = (cl_meta ?built, False)"
  proof -
    obtain m c where m: "mergeLabels (refEnv a) (cl_meta ?built) (md_labels (cl_meta ?built)) = (m, c)" by force
    with mergeLabels_eq [OF refEnv_range m] have "\<not> c" by auto
    with m mergeLabels_unchanged [OF refEnv_range] show ?thesis by (cases c) auto
  qed
  have owners: "removeSupabaseProjectOwnerReference (refEnv a) (cl_meta ?built) n = (cl_meta ?built, False)" for n
    by (simp add: removeSupabaseProjectOwnerReference_def)
  show ?thesis
    unfolding clusterSettled_def Let_def
    using mutable intent labels owners
    by (simp add: meta spec one) (simp add: ref_labels refProject_def refMeta_def readyCluster_def)
qed

lemma settledEnv_settled: "settled settledEnv refProject"
  unfolding settled_def
proof (intro conjI allI)
  show "responsive settledEnv refProject" by (rule settledEnv_responsive)
next
  fix h
  have "respond settledEnv h (Get KSecret (p_namespace refProject, sp_projectCredentialsSecret (p_spec refProject))) =
      RObj (OSecret refSecret)"
    by (simp add: settledServer_def refProject_def refSpec_def)
  then show "\<exists>sec. respond settledEnv h (Get KSecret (p_namespace refProject, sp_projectCredentialsSecret (p_spec refProject))) =
      RObj (OSecret sec) \<and>
      (\<forall>h'. \<exists>cred. ValidateProjectCredentials settledEnv (clock settledEnv h') (clock settledEnv h') (Some sec) = Inr cred)"
    using refSecret_valid [of settledServer] by auto
next
  fix h show "\<exists>cl. respond settledEnv h (Get KCluster (p_namespace refProject, ClusterName refProject)) = RObj (OCluster cl) \<and>
      clusterSettled settledEnv refProject cl"
    using readyCluster_settled by (simp add: settledServer_def)
next
  fix h c show "\<exists>dep. respond settledEnv h (Get KDeployment (coreKey (p_meta refProject) c)) = RObj (ODeployment dep) \<and>
      deploymentIsReady dep"
    by (simp add: settledServer_def deploymentIsReady_def readyDeployment_def componentDeployment_def emptyDeploymentStatus_def
        namedMeta_def emptyMeta_def Let_def)
qed

lemma refProject_core: "coreProject refProject"
  by (simp add: coreProject_def refProject_def refSpec_def emailHookEnabled_def)

lemma settledEnv_project: "respond settledEnv h (Get KProject name) = RObj (OProject refProject)"
  by (simp add: settledServer_def)

lemma settled_run: "\<exists>h' q. Reconcile settledEnv (''apps'', ''demo'') [] = (Inr doneResult, h', Some q)"
proof -
  have "platform False settledEnv refProject" using settledEnv_settled by (simp add: platform_def)
  from Reconcile_achieves [OF this refProject_core refEnv_defaulting settledEnv_project] show ?thesis by blast
qed

section \<open>A steady platform\<close>

text \<open>Every object the operator manages for the reference project, as it is stored: owned, and ready.\<close>

definition owned :: "object_meta \<Rightarrow> object_meta" where
  "owned m = m\<lparr>md_owners := [refOwner refProject]\<rparr>"

definition place :: "obj \<Rightarrow> obj" where
  "place d = (case d of
     OConfigMap x \<Rightarrow> OConfigMap (x\<lparr>cm_meta := owned (cm_meta x)\<rparr>)
   | ODeployment x \<Rightarrow> (let n = (case dep_replicas x of None \<Rightarrow> 1 | Some r \<Rightarrow> r)
       in ODeployment (x\<lparr>dep_meta := owned (dep_meta x), dep_status := emptyDeploymentStatus\<lparr>
         dst_observedGeneration := md_generation (dep_meta x), dst_updatedReplicas := n, dst_readyReplicas := n, dst_availableReplicas := n\<rparr>\<rparr>))
   | OService x \<Rightarrow> OService (x\<lparr>svc_meta := owned (svc_meta x)\<rparr>)
   | ob \<Rightarrow> ob)"

definition objectOf :: "obj \<Rightarrow> kind \<times> key" where
  "objectOf d = (kindOf d, objectKey (metaOf d))"

abbreviation "refObjects \<equiv> coreObjects (refEnv (\<lambda>_ _. ROk)) refProject refCredentials"

definition steadyServer :: "event list \<Rightarrow> call \<Rightarrow> resp" where
  "steadyServer h c = (case c of
     Get k name \<Rightarrow>
       (if k = KProject then RObj (OProject refProject)
        else if k = KCluster then RObj (OCluster readyCluster)
        else if k = KSecret then RObj (OSecret (if snd name = ''credentials'' then refSecret
          else \<lparr>sec_meta = owned (namedMeta (snd name) (fst name) fmempty), sec_type = '''', sec_data = fmempty, sec_stringData = fmempty\<rparr>))
        else (case List.find (\<lambda>d. objectOf d = (k, name)) refObjects of
            Some d \<Rightarrow> RObj (place d) | None \<Rightarrow> RErr (StatusError NotFound ''not found'')))
   | RandRead n \<Rightarrow> RBytes (replicate n (CHR 0x00))
   | _ \<Rightarrow> ROk)"

abbreviation "steadyEnv \<equiv> refEnv steadyServer"

lemma find_distinct: "distinct (map f xs) \<Longrightarrow> x \<in> set xs \<Longrightarrow> List.find (\<lambda>y. f y = f x) xs = Some x"
  by (induction xs) (auto simp: rev_image_eqI)

lemma ref_issuer: "AuthIssuerURL (refEnv a) u = AuthIssuerURL (refEnv a') u"
  by (simp add: AuthIssuerURL_def NormalizeExternalURL_def refEnv_def)

lemma refObjects_env: "coreObjects (refEnv a) p cred = coreObjects (refEnv a') p cred"
proof -
  have "BuildAuthDeployment (refEnv a) p names = BuildAuthDeployment (refEnv a') p names" for names
    by (simp add: BuildAuthDeployment_def buildAuthEnv_def baseAuthEnv_def ref_issuer [of a _ a'])
  then show ?thesis by (simp add: coreObjects_def)
qed

text \<open>The builders look at the metadata and the specification only.\<close>

lemma status_names [simp]:
  "InitSQLConfigMapName (p\<lparr>p_status := st\<rparr>) = InitSQLConfigMapName p" "JWKSConfigMapName (p\<lparr>p_status := st\<rparr>) = JWKSConfigMapName p"
  "EnvoyConfigMapName (p\<lparr>p_status := st\<rparr>) = EnvoyConfigMapName p" "ComponentLabels (p\<lparr>p_status := st\<rparr>) = ComponentLabels p"
  "SelectorLabels (p\<lparr>p_status := st\<rparr>) = SelectorLabels p" "AuthDeploymentName (p\<lparr>p_status := st\<rparr>) = AuthDeploymentName p"
  "RestDeploymentName (p\<lparr>p_status := st\<rparr>) = RestDeploymentName p" "StudioDeploymentName (p\<lparr>p_status := st\<rparr>) = StudioDeploymentName p"
  "MetaDeploymentName (p\<lparr>p_status := st\<rparr>) = MetaDeploymentName p" "GatewayName (p\<lparr>p_status := st\<rparr>) = GatewayName p"
  "ClusterRWServiceName (p\<lparr>p_status := st\<rparr>) = ClusterRWServiceName p" "GetAccessTokenExpiration (p\<lparr>p_status := st\<rparr>) = GetAccessTokenExpiration p"
  "AddImagePullSecrets podSpec (p\<lparr>p_status := st\<rparr>) = AddImagePullSecrets podSpec p" "managedNames (p\<lparr>p_status := st\<rparr>) = managedNames p"
  "GoTrueFallbackSecretName (p\<lparr>p_status := st\<rparr>) = GoTrueFallbackSecretName p" "EmailHookSecretName (p\<lparr>p_status := st\<rparr>) = EmailHookSecretName p"
  by (simp_all add: InitSQLConfigMapName_def JWKSConfigMapName_def EnvoyConfigMapName_def ComponentLabels_def CommonLabels_def
      SelectorLabels_def AuthDeploymentName_def RestDeploymentName_def StudioDeploymentName_def MetaDeploymentName_def GatewayName_def
      ClusterRWServiceName_def ClusterName_def GetAccessTokenExpiration_def AddImagePullSecrets_def managedNames_def GoTrueFallbackSecretName_def
      EmailHookSecretName_def fun_eq_iff)

lemma coreObjects_status: "coreObjects E (p\<lparr>p_status := st\<rparr>) cred = coreObjects E p cred"
proof -
  have "BuildInitSQLConfigMap (p\<lparr>p_status := st\<rparr>) = BuildInitSQLConfigMap p" "BuildJWKSConfigMap (p\<lparr>p_status := st\<rparr>) = BuildJWKSConfigMap p"
    "BuildEnvoyConfigMap (p\<lparr>p_status := st\<rparr>) = BuildEnvoyConfigMap p"
    by (simp_all add: BuildInitSQLConfigMap_def BuildJWKSConfigMap_def BuildEnvoyConfigMap_def fun_eq_iff)
  moreover have "BuildService (p\<lparr>p_status := st\<rparr>) = BuildService p" "BuildGatewayService (p\<lparr>p_status := st\<rparr>) = BuildGatewayService p"
    by (simp_all add: BuildService_def BuildGatewayService_def fun_eq_iff)
  moreover have component: "componentDeployment (p\<lparr>p_status := st\<rparr>) = componentDeployment p"
    by (simp add: componentDeployment_def fun_eq_iff)
  moreover have "BuildAuthDeployment E (p\<lparr>p_status := st\<rparr>) names = BuildAuthDeployment E p names"
    "BuildRestDeployment (p\<lparr>p_status := st\<rparr>) names = BuildRestDeployment p names"
    "BuildStudioDeployment (p\<lparr>p_status := st\<rparr>) names = BuildStudioDeployment p names"
    "BuildMetaDeployment (p\<lparr>p_status := st\<rparr>) names = BuildMetaDeployment p names"
    "BuildGatewayDeployment (p\<lparr>p_status := st\<rparr>) = BuildGatewayDeployment p" for names
    by (simp_all add: BuildAuthDeployment_def buildAuthEnv_def baseAuthEnv_def BuildRestDeployment_def BuildStudioDeployment_def
        BuildMetaDeployment_def BuildGatewayDeployment_def component cong: if_cong option.case_cong)
  ultimately show ?thesis
    by (simp add: coreObjects_def BuildAuthService_def BuildRestService_def BuildStudioService_def BuildMetaService_def)
qed

lemma refObjects_keys:
  "map objectOf refObjects =
     map (\<lambda>n. (KConfigMap, ''apps'', ''demo'' @ n)) [''-init-sql'', ''-auth-jwks'', ''-envoy-config''] @
     map (\<lambda>n. (KDeployment, ''apps'', ''demo'' @ n)) [''-auth'', ''-rest'', ''-studio'', ''-meta'', ''-api-gw''] @
     map (\<lambda>n. (KService, ''apps'', ''demo'' @ n)) [''-auth'', ''-rest'', ''-studio'', ''-meta'', ''-api-gw'']"
proof -
  have "objectKey (dep_meta (withCredentials c d)) = objectKey (dep_meta d)" for c d by (simp add: withCredentials_def)
  then show ?thesis
    by (simp add: coreObjects_def objectOf_def built_deployments_key [OF refl])
      (simp add: objectKey_def namedMeta_def coreKey_def BuildInitSQLConfigMap_def BuildJWKSConfigMap_def BuildEnvoyConfigMap_def
        BuildAuthService_def BuildRestService_def BuildStudioService_def BuildMetaService_def BuildService_def BuildGatewayService_def
        InitSQLConfigMapName_def JWKSConfigMapName_def EnvoyConfigMapName_def GatewayName_def Let_def refProject_def refMeta_def)
qed

lemma refObjects_distinct: "distinct (map objectOf refObjects)"
  unfolding refObjects_keys by simp

lemma place_key [simp]: "objectOf (place d) = objectOf d"
  by (cases d) (simp_all add: place_def objectOf_def objectKey_def owned_def Let_def)

lemma steady_find: "d \<in> set refObjects \<Longrightarrow> steadyServer h (Get (kindOf d) (objectKey (metaOf d))) = RObj (place d)"
proof -
  assume d: "d \<in> set refObjects"
  then have "kindOf d \<in> {KConfigMap, KDeployment, KService}" by (auto simp: coreObjects_def)
  with find_distinct [OF refObjects_distinct d] show ?thesis by (auto simp: steadyServer_def objectOf_def)
qed

lemma adopt_owned: "p_meta q = p_meta refProject \<Longrightarrow> adopt (refEnv a) q (owned m) = Inr (owned m, False)"
  by (simp add: adopt_def owned_def refOwner_def)

lemma mergeLabels_self: "lawful_range E \<Longrightarrow> md_labels m = d \<Longrightarrow> mergeLabels E m d = (m, False)"
proof -
  assume E: "lawful_range E" and d: "md_labels m = d"
  obtain m' c where m: "mergeLabels E m d = (m', c)" by force
  with mergeLabels_eq [OF E m] d have "\<not> c" by auto
  with m mergeLabels_unchanged [OF E] show ?thesis by (cases c) auto
qed

text \<open>What is stored as desired, and owned, is left as it is.\<close>

lemma place_unchanged:
  assumes "kindOf d \<in> {KConfigMap, KDeployment, KService}" "goget (md_labels (metaOf d)) LabelInstance = p_name refProject"
    and q: "p_meta q = p_meta refProject"
  shows "unchanged (refEnv a) q d (place d)"
proof (cases d)
  case (OConfigMap x)
  have "mergeLabels (refEnv a) (owned (cm_meta x)) (md_labels (cm_meta x)) = (owned (cm_meta x), False)"
    by (rule mergeLabels_self [OF refEnv_range]) (simp add: owned_def)
  moreover have "md_labels (owned (cm_meta x)) = md_labels (cm_meta x)" by (simp add: owned_def)
  ultimately show ?thesis
    using assms OConfigMap by (simp add: unchanged_def place_def asConfigMap_def mergeConfigMap_def adopt_owned leaves_def)
qed (use assms in \<open>simp_all add: unchanged_def place_def asDeployment_def asService_def mergeDeployment_def mergeService_def adopt_owned leaves_def Let_def\<close>)

lemma refObjects_labels: "d \<in> set refObjects \<Longrightarrow> kindOf d \<in> {KConfigMap, KDeployment, KService} \<and> goget (md_labels (metaOf d)) LabelInstance = p_name refProject"
proof -
  have meta: "dep_meta (withCredentials c d) = dep_meta d" for c d by (simp add: withCredentials_def)
  have "goget (md_labels (cm_meta (BuildInitSQLConfigMap refProject))) LabelInstance = p_name refProject"
    "goget (md_labels (cm_meta (BuildJWKSConfigMap refProject jwks))) LabelInstance = p_name refProject" for jwks
    by (simp_all add: BuildInitSQLConfigMap_def BuildJWKSConfigMap_def namedMeta_def ref_labels refProject_def refMeta_def)
  moreover note built_deployments_ours [OF refl, of refProject, unfolded ours_def labelled_def]
    built_services_ours [OF refl, of refProject, unfolded ours_def labelled_def] built_configs_ours(1) [OF refl, of refProject, unfolded ours_def labelled_def]
  ultimately show "d \<in> set refObjects \<Longrightarrow> ?thesis" by (auto simp: coreObjects_def meta)
qed

lemma steady_get:
  assumes "k \<notin> {KProject, KCluster, KSecret}"
  obtains "notFound (steadyServer h (Get k name))" | d where "d \<in> set refObjects" "objectOf d = (k, name)" "steadyServer h (Get k name) = RObj (place d)"
proof (cases "List.find (\<lambda>d. objectOf d = (k, name)) refObjects")
  case None
  then have "notFound (steadyServer h (Get k name))" using assms by (simp add: steadyServer_def notFound_def)
  then show thesis by (rule that(1))
next
  case (Some d)
  then have "d \<in> set refObjects" "objectOf d = (k, name)" by (auto simp: find_Some_iff)
  with Some assms show thesis by (intro that(2)) (simp_all add: steadyServer_def)
qed

lemma place_kind [simp]: "kindOf (place d) = kindOf d" "md_labels (metaOf (place d)) = md_labels (metaOf d)"
  by (cases d; simp add: place_def owned_def Let_def)+

lemma steadyEnv_responsive: "responsive steadyEnv refProject"
  unfolding responsive_def
proof (intro conjI allI impI)
  fix h c assume "writes c"
  then show "acknowledged (respond steadyEnv h c) = Inr ()"
    by (auto simp: steadyServer_def writes_def acknowledged_def split: call.splits)
next
  fix h k name assume k: "k \<noteq> KProject"
  show "(\<exists>e. respond steadyEnv h (Get k name) = RErr e \<and> IsNotFound e) \<or>
      (\<exists>ob. respond steadyEnv h (Get k name) = RObj ob \<and> kindOf ob = k \<and>
         (k \<noteq> KSecret \<longrightarrow> goget (md_labels (metaOf ob)) LabelInstance = p_name refProject))"
  proof (cases "k \<in> {KCluster, KSecret}")
    case True
    then show ?thesis using k by (auto simp: steadyServer_def readyCluster_def ref_labels refProject_def refMeta_def)
  next
    case False
    with k have "k \<notin> {KProject, KCluster, KSecret}" by simp
    then show ?thesis
    proof (cases rule: steady_get [where h = h and name = name])
      case 1
      then show ?thesis by (auto elim: notFoundE)
    next
      case (2 d)
      then show ?thesis using refObjects_labels [of d] by (auto simp: objectOf_def)
    qed
  qed
qed (auto simp: steadyServer_def)

lemma steadyEnv_settled: "settled steadyEnv refProject"
  unfolding settled_def
proof (intro conjI allI)
  show "responsive steadyEnv refProject" by (rule steadyEnv_responsive)
next
  fix h
  have "respond steadyEnv h (Get KSecret (p_namespace refProject, sp_projectCredentialsSecret (p_spec refProject))) =
      RObj (OSecret refSecret)"
    by (simp add: steadyServer_def refProject_def refSpec_def)
  then show "\<exists>sec. respond steadyEnv h (Get KSecret (p_namespace refProject, sp_projectCredentialsSecret (p_spec refProject))) =
      RObj (OSecret sec) \<and>
      (\<forall>h'. \<exists>cred. ValidateProjectCredentials steadyEnv (clock steadyEnv h') (clock steadyEnv h') (Some sec) = Inr cred)"
    using refSecret_valid [of steadyServer] by auto
next
  fix h show "\<exists>cl. respond steadyEnv h (Get KCluster (p_namespace refProject, ClusterName refProject)) = RObj (OCluster cl) \<and>
      clusterSettled steadyEnv refProject cl"
    using readyCluster_settled by (simp add: steadyServer_def)
next
  fix h c
  obtain d where d: "ODeployment d \<in> set refObjects" "objectKey (dep_meta d) = coreKey (p_meta refProject) c"
  proof -
    have meta: "dep_meta (withCredentials cr d) = dep_meta d" for cr d by (simp add: withCredentials_def)
    show thesis
      by (cases c) (rule that, rule coreObjects_mem(4-8) [of refProject], simp add: kept_def, simp add: meta built_deployments_key)+
  qed
  from steady_find [OF d(1), of h] d(2)
  show "\<exists>dep. respond steadyEnv h (Get KDeployment (coreKey (p_meta refProject) c)) = RObj (ODeployment dep) \<and> deploymentIsReady dep"
    by (simp add: place_def deploymentIsReady_def owned_def emptyDeploymentStatus_def Let_def)
qed

lemma steady_absent:
  assumes "k \<notin> {KProject, KCluster, KSecret}" "(k, name) \<notin> set (map objectOf refObjects)"
  shows "notFound (steadyServer h (Get k name))"
  using assms(1)
proof (cases rule: steady_get [where h = h and name = name])
  case (2 d)
  then have "(k, name) \<in> set (map objectOf refObjects)" by (metis image_eqI list.set_map)
  with assms(2) show ?thesis by simp
qed

lemma notFound_object: "notFound r \<Longrightarrow> r \<noteq> RObj ob"
  by (auto simp: notFound_def)

lemma powersync_absent: "(k, name) \<in> set (powersyncResources refProject) \<Longrightarrow> notFound (steadyServer h (Get k name))"
  by (rule steady_absent, unfold refObjects_keys)
    (auto simp: powersyncResources_def namespaced_def PowersyncAPIDeploymentName_def PowersyncReplicationDeploymentName_def
      PowersyncConfigMapName_def PowersyncSyncRulesConfigMapName_def CDCConfigMapName_def CDCJobName_def PowersyncCompactCronJobName_def
      refProject_def refMeta_def)

lemma durables_absent: "k \<in> {KObjectStore, KScheduledBackup} \<Longrightarrow> notFound (steadyServer h (Get k name))"
  by (rule steady_absent, unfold refObjects_keys) auto

lemma steadyEnv_steady: "steady steadyEnv refProject"
proof -
  have kept: "q = refProject\<lparr>p_status := p_status q\<rparr>" if "kept refProject q" for q using that by (simp add: kept_def)
  have cred: "cred = refCredentials" if "validCredentials steadyEnv refProject cred" for cred
    using that refSecret_valid [of steadyServer] by (auto simp: validCredentials_def steadyServer_def refProject_def refSpec_def)
  have objects: "coreObjects steadyEnv q cred = refObjects" if "kept refProject q" "cred = refCredentials" for q cred
    using kept [OF that(1)] coreObjects_status [of steadyEnv "p_status q" refProject] refObjects_env [of steadyServer refProject refCredentials "\<lambda>_ _. ROk"] that(2)
    by metis
  show ?thesis
    unfolding steady_def
  proof (intro conjI allI impI, goal_cases)
    case (1 q cr d)
    then have d: "d \<in> set refObjects" using objects [of q cr] cred [of cr] by simp
    with 1 refObjects_labels [OF d] steady_find [OF d] place_unchanged [of d q steadyServer] show ?case
      by (auto simp: inPlace_def kept_def)
  next
    case (2 q sec)
    then have "snd (objectKey (sec_meta sec)) \<noteq> ''credentials''"
      by (auto simp: secretKeys_def managedNames_def GoTrueFallbackSecretName_def refProject_def refMeta_def)
    with 2 show ?case
      by (simp add: inPlace_def unchanged_def steadyServer_def asSecret_def mergeSecret_def leaves_def adopt_owned kept_def)
  next
    case (3 h d ob)
    show ?case
    proof (cases "fst d = KCluster")
      case True
      with 3 have "metaOf ob = cl_meta readyCluster" by (auto simp: steadyServer_def)
      then show ?thesis
        by (simp add: readyCluster_def removeSupabaseProjectOwnerReference_def namedMeta_def emptyMeta_def)
    next
      case False
      with 3 have "fst d \<in> {KObjectStore, KScheduledBackup}" by (auto simp: durables_def)
      from durables_absent [OF this] 3 show ?thesis using notFound_object by fastforce
    qed
  next
    case (7 h q k name ob)
    then show ?case using powersync_absent notFound_object by fastforce
  qed (simp_all add: durables_absent)
qed

section \<open>The theorems at these platforms\<close>



theorem Reconcile_done_means_ready_witness:
  "\<exists>h' q. Reconcile (refEnv settledServer) (''apps'', ''demo'') [] = (Inr doneResult, h', Some q) \<and>
     coreServicesReady q \<and> st_phase (p_status q) = PhaseRunning \<and>
     conditionIs (refEnv settledServer) q ConditionTypeReady ConditionTrue \<and> persisted q h'"
proof -
  obtain h' q where run: "Reconcile settledEnv (''apps'', ''demo'') [] = (Inr doneResult, h', Some q)"
    using settled_run by blast
  from Reconcile_done_means_ready [OF refEnv_conditions settledEnv_project this] run show ?thesis by blast
qed

theorem Reconcile_bounded_witness:
  "\<exists>res h' q new. Reconcile (refEnv settledServer) (''apps'', ''demo'') [] = (res, h', q) \<and> h' = new \<and> length new \<le> 215"
proof -
  obtain res h' q where run: "Reconcile settledEnv (''apps'', ''demo'') [] = (res, h', q)" by (metis prod_cases3)
  from Reconcile_bounded [OF this] run show ?thesis
    by (auto simp: settledServer_def expect_def asProject_def refProject_def refSpec_def)
qed

lemma refEnv_condition_list: "lawful_condition_list (refEnv a)"
  by (auto simp: lawful_condition_list_def refEnv_def)


end
