(* ===== verification/Operator_Main.thy ===== *)
theory Operator_Main
  imports Prelude
begin

text \<open>
  The entry point of the operator, \<open>src/cmd/main.go\<close>: the flags with their defaults, the options
  of the webhook server, the metrics server and the manager that follow from them, and the
  start-up sequence. The library calls of the sequence are requests to an arbitrary function
  that may fail each of them; logging is left out.
\<close>

section \<open>Flags\<close>

record flags =
  metricsAddr :: string
  metricsCertPath :: string
  metricsCertName :: string
  metricsCertKey :: string
  webhookCertPath :: string
  webhookCertName :: string
  webhookCertKey :: string
  enableLeaderElection :: bool
  probeAddr :: string
  secureMetrics :: bool
  enableHTTP2 :: bool

definition defaultFlags :: flags where
  "defaultFlags = \<lparr>metricsAddr = ''0'', metricsCertPath = '''', metricsCertName = ''tls.crt'', metricsCertKey = ''tls.key'',
     webhookCertPath = '''', webhookCertName = ''tls.crt'', webhookCertKey = ''tls.key'', enableLeaderElection = False,
     probeAddr = '':8081'', secureMetrics = True, enableHTTP2 = False\<rparr>"

section \<open>Options\<close>

record tls_config =
  NextProtos :: "string list"

type_synonym tls_opt = "tls_config \<Rightarrow> tls_config"

record webhook_options =
  wo_TLSOpts :: "tls_opt list"
  wo_CertDir :: string
  wo_CertName :: string
  wo_KeyName :: string

datatype filter_provider = WithAuthenticationAndAuthorization

record metrics_options =
  mo_BindAddress :: string
  mo_SecureServing :: bool
  mo_TLSOpts :: "tls_opt list"
  mo_FilterProvider :: "filter_provider option"
  mo_CertDir :: string
  mo_CertName :: string
  mo_KeyName :: string

record manager_options =
  mg_Metrics :: metrics_options
  mg_WebhookServer :: webhook_options
  mg_HealthProbeBindAddress :: string
  mg_LeaderElection :: bool
  mg_LeaderElectionID :: string

definition disableHTTP2 :: tls_opt where
  "disableHTTP2 c = c\<lparr>NextProtos := [''http/1.1'']\<rparr>"

definition tlsOpts :: "flags \<Rightarrow> tls_opt list" where
  "tlsOpts F = (if \<not> enableHTTP2 F then [disableHTTP2] else [])"

definition webhookServerOptions :: "flags \<Rightarrow> webhook_options" where
  "webhookServerOptions F =
     (let options = \<lparr>wo_TLSOpts = tlsOpts F, wo_CertDir = '''', wo_CertName = '''', wo_KeyName = ''''\<rparr>
      in if length (webhookCertPath F) > 0
         then options\<lparr>wo_CertDir := webhookCertPath F, wo_CertName := webhookCertName F, wo_KeyName := webhookCertKey F\<rparr>
         else options)"

definition metricsServerOptions :: "flags \<Rightarrow> metrics_options" where
  "metricsServerOptions F =
     (let options = \<lparr>mo_BindAddress = metricsAddr F, mo_SecureServing = secureMetrics F, mo_TLSOpts = tlsOpts F,
            mo_FilterProvider = None, mo_CertDir = '''', mo_CertName = '''', mo_KeyName = ''''\<rparr>;
          options = (if secureMetrics F then options\<lparr>mo_FilterProvider := Some WithAuthenticationAndAuthorization\<rparr> else options)
      in if length (metricsCertPath F) > 0
         then options\<lparr>mo_CertDir := metricsCertPath F, mo_CertName := metricsCertName F, mo_KeyName := metricsCertKey F\<rparr>
         else options)"

definition managerOptions :: "flags \<Rightarrow> manager_options" where
  "managerOptions F =
     \<lparr>mg_Metrics = metricsServerOptions F, mg_WebhookServer = webhookServerOptions F,
      mg_HealthProbeBindAddress = probeAddr F, mg_LeaderElection = enableLeaderElection F,
      mg_LeaderElectionID = ''0839bb90.guion.dev''\<rparr>"

section \<open>The start-up sequence\<close>

datatype scheme = ClientGo | SupabaseV1alpha1 | CNPG | BarmanCloud

datatype startup_call =
    AddToScheme scheme
  | GetConfigOrDie
  | NewManager manager_options
  | SetupWithManager
  | AddHealthzCheck string
  | AddReadyzCheck string
  | Start

type_synonym startup_event = "startup_call \<times> go_error option"

text \<open>A library call, then the rest of the program, or the end of the process with an exit status.\<close>

definition orExit ::
  "(startup_event list \<Rightarrow> startup_call \<Rightarrow> go_error option) \<Rightarrow> nat \<Rightarrow> startup_call \<Rightarrow>
   (startup_event list, nat) state \<Rightarrow> (startup_event list, nat) state" where
  "orExit M status c k = do {
     h \<leftarrow> State_Monad.get;
     let r = M h c;
     State_Monad.set ((c, r) # h);
     case r of Some err \<Rightarrow> State_Monad.return status | None \<Rightarrow> k }"

text \<open>\<open>utilruntime.Must\<close> panics, which ends the process with status 2.\<close>

definition initSchemes ::
  "(startup_event list \<Rightarrow> startup_call \<Rightarrow> go_error option) \<Rightarrow> (startup_event list, nat) state \<Rightarrow> (startup_event list, nat) state" where
  "initSchemes M k =
     orExit M 2 (AddToScheme ClientGo) (orExit M 2 (AddToScheme SupabaseV1alpha1)
       (orExit M 2 (AddToScheme CNPG) (orExit M 2 (AddToScheme BarmanCloud) k)))"

definition main :: "(startup_event list \<Rightarrow> startup_call \<Rightarrow> go_error option) \<Rightarrow> flags \<Rightarrow> (startup_event list, nat) state" where
  "main M F =
     initSchemes M
       (orExit M 1 GetConfigOrDie
         (orExit M 1 (NewManager (managerOptions F))
           (orExit M 1 SetupWithManager
             (orExit M 1 (AddHealthzCheck ''healthz'')
               (orExit M 1 (AddReadyzCheck ''readyz'')
                 (orExit M 1 Start (State_Monad.return 0)))))))"

section \<open>Properties\<close>

text \<open>The calls of a start-up without failures.\<close>

definition startup :: "flags \<Rightarrow> startup_call list" where
  "startup F = [AddToScheme ClientGo, AddToScheme SupabaseV1alpha1, AddToScheme CNPG, AddToScheme BarmanCloud,
     GetConfigOrDie, NewManager (managerOptions F), SetupWithManager, AddHealthzCheck ''healthz'', AddReadyzCheck ''readyz'', Start]"

text \<open>A run of a sequence of calls: it stops at the first failure with that call's status.\<close>

fun runs :: "(startup_event list \<Rightarrow> startup_call \<Rightarrow> go_error option) \<Rightarrow> startup_event list \<Rightarrow> (nat \<times> startup_call) list \<Rightarrow>
  nat \<times> startup_event list" where
  "runs M h [] = (0, h)"
| "runs M h ((status, c) # cs) =
     (case M h c of Some err \<Rightarrow> (status, (c, Some err) # h) | None \<Rightarrow> runs M ((c, None) # h) cs)"

lemma run_orExit:
  "run_state (orExit M status c k) h =
     (case M h c of Some err \<Rightarrow> (status, (c, Some err) # h) | None \<Rightarrow> run_state k ((c, None) # h))"
  by (simp add: orExit_def Let_def split: option.splits)

lemma run_main:
  "run_state (main M F) h = runs M h (zip (replicate 4 2 @ replicate 6 1) (startup F))"
  by (simp add: main_def initSchemes_def run_orExit startup_def numeral_eq_Suc cong: option.case_cong)

text \<open>The events are a beginning of the sequence, and only the newest may have failed.\<close>

lemma runs_events:
  assumes "runs M h cs = (code, h')" "\<forall>(status, c) \<in> set cs. status \<noteq> 0"
  shows "\<exists>new rest. h' = new @ h \<and> map snd cs = map fst (rev new) @ rest \<and>
    (code = 0 \<longleftrightarrow> rest = [] \<and> list_all (\<lambda>e. snd e = None) new) \<and> list_all (\<lambda>e. snd e = None) (tl new)"
  using assms
proof (induction M h cs rule: runs.induct)
  case (1 M h)
  then show ?case by (intro exI [of _ "[]"]) simp
next
  case (2 M h status c cs)
  show ?case
  proof (cases "M h c")
    case (Some err)
    with 2 show ?thesis by (intro exI [of _ "[(c, Some err)]"] exI [of _ "map snd cs"]) auto
  next
    case None
    with 2 obtain new rest where new: "h' = new @ (c, None) # h" "map snd cs = map fst (rev new) @ rest"
        "code = 0 \<longleftrightarrow> rest = [] \<and> list_all (\<lambda>e. snd e = None) new" "list_all (\<lambda>e. snd e = None) (tl new)"
      by auto
    then show ?thesis
      by (intro exI [of _ "new @ [(c, None)]"] exI [of _ rest]) (cases new; simp)
  qed
qed

text \<open>
  C36. The start of the operator. Unless HTTP/2 is asked for, both servers negotiate HTTP/1.1 only,
  whatever TLS configuration they start from; a metrics endpoint with TLS always has
  authentication and authorization; certificates are taken from a directory exactly when one
  is given. The calls are made in the order of the program, the manager is started only after
  every other call has succeeded, and the process ends with status 0 exactly when all of
  them succeeded.
\<close>

theorem operator_start:
  assumes "run_state (main M F) [] = (code, h)"
  shows "(\<not> enableHTTP2 F \<longrightarrow>
       (\<forall>c. NextProtos (fold (\<lambda>f. f) (mo_TLSOpts (mg_Metrics (managerOptions F))) c) = [''http/1.1''] \<and>
            NextProtos (fold (\<lambda>f. f) (wo_TLSOpts (mg_WebhookServer (managerOptions F))) c) = [''http/1.1''])) \<and>
    (mo_SecureServing (mg_Metrics (managerOptions F)) \<longleftrightarrow>
       mo_FilterProvider (mg_Metrics (managerOptions F)) = Some WithAuthenticationAndAuthorization) \<and>
    mo_CertDir (mg_Metrics (managerOptions F)) = metricsCertPath F \<and>
    wo_CertDir (mg_WebhookServer (managerOptions F)) = webhookCertPath F \<and>
    (\<exists>rest. startup F = map fst (rev h) @ rest \<and> (code = 0 \<longleftrightarrow> rest = [] \<and> list_all (\<lambda>e. snd e = None) h)) \<and>
    (Start \<in> fst ` set h \<longrightarrow> map fst (rev h) = startup F \<and> list_all (\<lambda>e. snd e = None) (tl h))"
proof -
  have calls: "map snd (zip (replicate 4 2 @ replicate 6 (1 :: nat)) (startup F)) = startup F"
    by (simp add: startup_def numeral_eq_Suc)
  have "\<forall>(status, c) \<in> set (zip (replicate 4 2 @ replicate 6 (1 :: nat)) (startup F)). status \<noteq> 0"
    by (auto dest!: set_zip_leftD)
  from runs_events [OF assms [unfolded run_main] this]
  obtain rest where rest: "startup F = map fst (rev h) @ rest" "code = 0 \<longleftrightarrow> rest = [] \<and> list_all (\<lambda>e. snd e = None) h"
    and older: "list_all (\<lambda>e. snd e = None) (tl h)"
    unfolding calls by auto
  have "map fst (rev h) = startup F" if "Start \<in> fst ` set h"
  proof -
    have "Start \<notin> set (butlast (startup F))" by (simp add: startup_def)
    moreover have "Start \<in> set (map fst (rev h))" using that by simp
    ultimately have "rest = []" unfolding rest(1) by (cases rest rule: rev_cases) (auto simp: butlast_append)
    with rest(1) show ?thesis by simp
  qed
  moreover have "NextProtos (fold (\<lambda>f. f) (tlsOpts F) c) = [''http/1.1'']" if "\<not> enableHTTP2 F" for c
    using that by (simp add: tlsOpts_def disableHTTP2_def)
  ultimately show ?thesis
    using rest older by (auto simp: managerOptions_def metricsServerOptions_def webhookServerOptions_def Let_def)
qed

text \<open>A start at which the controller cannot be set up: status 1, and the manager is never started.\<close>

theorem operator_start_witness:
  "\<exists>code h. run_state (main (\<lambda>h c. if c = SetupWithManager then Some (Errorf ''no'') else None) defaultFlags) [] = (code, h) \<and>
     code \<noteq> 0 \<and> length h = 7 \<and> Start \<notin> fst ` set h"
proof -
  let ?M = "\<lambda>h c. if c = SetupWithManager then Some (Errorf ''no'') else None"
  obtain code h where run: "run_state (main ?M defaultFlags) [] = (code, h)" by force
  then have h: "length h = 7" "\<not> list_all (\<lambda>e. snd e = None) h"
    unfolding run_main by (auto simp: startup_def numeral_eq_Suc)
  have "map fst (rev h) \<noteq> startup defaultFlags"
  proof
    assume "map fst (rev h) = startup defaultFlags"
    then have "length (map fst (rev h)) = length (startup defaultFlags)" by simp
    with h(1) show False by (simp add: startup_def)
  qed
  with operator_start [OF run] h run show ?thesis by blast
qed

end
