(* ===== verification/Spec2Isabelle.thy ===== *)
theory Spec2Isabelle
  imports Witnesses Wizard_Witnesses Gateway_Witnesses Liveness_Witnesses Operator_Main
begin

text \<open>
  A verification library for \<open>cloudnative-supabase\<close>, a Kubernetes operator that runs one
  Supabase stack per \<open>SupabaseProject\<close> resource: a CloudNativePG database, GoTrue, PostgREST,
  Studio, postgres-meta, an Envoy gateway, and optionally backups, recovery and PowerSync.

  \<^bold>\<open>The program.\<close> \<open>Reconcile\<close> (\<open>src/internal/controller/supabaseproject_controller.go\<close>) reads a
  project and runs its phases in order: repair of the ownership of durable objects, validation
  of the external credential Secret and creation of implementation Secrets, the immutability
  guard of the recovery intent, ConfigMaps, backup and recovery objects, the database cluster,
  waiting for the database, the five core services, PowerSync, the final status. The phases
  build desired objects with the pure packages under \<open>src/internal/resources\<close>, check tokens
  and keys with \<open>src/pkg/crypto\<close>, and act through the client of controller-runtime.

  \<^bold>\<open>State and environment.\<close> A reconciliation is a computation in a state monad over the project
  in memory and the history of requests and answers (\<open>Client\<close>). The API server, the other
  controllers and the entropy source are one parameter \<open>respond\<close>: an arbitrary function from
  the history and the request to the answer. It may fail any request, return objects changed
  by others between two reads, or lose an object after it was read; theorems without further
  hypotheses hold against all of them. A run may start from the empty history, because
  \<open>respond\<close> is arbitrary. Third-party functions (JSON, YAML, SHA-256, ECDSA, quantity parsing,
  \<open>SetControllerReference\<close>, status conditions, map iteration order) are further parameters;
  where a theorem relies on their documented behaviour it names the law
  (\<open>lawful_conditions\<close>, \<open>lawful_ownership\<close>, \<open>lawful_defaulting\<close>, \<open>lawful_range\<close>; for the gateway
  \<open>lawful_envoy\<close>; for the wizard \<open>lawful_entropy\<close> and \<open>lawful_encoding\<close>).

  \<^bold>\<open>Theories.\<close>
  \<^item> \<open>Prelude\<close>: Go errors, strings, maps, the handler monad and its invariant rules.
  \<^item> \<open>Kube_Types\<close>, \<open>Project_Types\<close>: the objects and the custom resource
    (\<open>src/api/v1alpha1\<close>), with \<open>EffectivePublicationSchemas\<close>.
  \<^item> \<open>Crypto\<close>: \<open>src/pkg/crypto\<close>; Base64 and its codec interface, keys, tokens.
  \<^item> \<open>Client\<close>: requests, answers, the environment and its laws.
  \<^item> \<open>Common\<close>, \<open>Secrets\<close>, \<open>Cnpg\<close>, \<open>Config_Texts\<close>, \<open>Config_Maps\<close>, \<open>Workloads\<close>: the packages under
    \<open>src/internal/resources\<close>, in the order they depend on each other.
  \<^item> \<open>Merge\<close>, \<open>Normalize\<close>, \<open>Apply\<close>: the helpers of the controller and its
    \<open>createOrUpdate\<close> methods; \<open>Converge\<close> shows that they reach a fixed point.
  \<^item> \<open>Reconcile\<close>: every phase and \<open>Reconcile\<close> itself.
  \<^item> \<open>Policy\<close>, \<open>Guarantees\<close>: an abstract access policy, the locales that carry a policy through
    all handlers, and what follows for every request of a reconciliation.
  \<^item> \<open>Outcome\<close>: what a reconciliation reports, and behaviours that look unintended.
  \<^item> \<open>Budget\<close>: how many requests a reconciliation may send, and the schema of the status it
    writes, by one calculus over all handlers; \<open>Liveness\<close>: that it ends well once the platform
    has settled, and then writes nothing but the status, by a calculus for total correctness.
  \<^item> \<open>Watches\<close>: \<open>SetupWithManager\<close> and the functions that map a changed object to projects.
  \<^item> \<open>Gateway\<close>: the listener of the Envoy gateway (\<open>configmaps/envoy.go\<close>), its routes, filters
    and access rules; \<open>Gateway_Credentials\<close>: the validated credentials at the gateway.
  \<^item> \<open>Wizard\<close>, \<open>Wizard_Dialogue\<close>, \<open>Wizard_Process\<close>: the credential generator, the dialogue and
    the process of \<open>src/cmd/project-credentials-wizard\<close>; the latter interleaves the main
    goroutine with the one that handles an interrupt, as a step relation.
  \<^item> \<open>Operator_Main\<close>: the options and the start-up sequence of \<open>src/cmd/main.go\<close>.
  \<^item> \<open>Reference_Env\<close> and the theories whose names end in \<open>Witnesses\<close>: a concrete environment and
    project that satisfy the laws and the hypotheses, and each property with hypotheses
    applied to concrete inputs.

  \<^bold>\<open>What is shown.\<close> Cryptographic checks accept exactly what they should and the public
  projection of a key is equivalent to it; validation and generation of Secrets fit together;
  merges keep foreign fields, never shrink storage and converge; the request trace of every
  reconciliation refines the policy, which gives the safety of Secrets, of durable data and of
  foreign objects and the order of validation before provisioning; the final report is true,
  and in a settled platform it is reached, without a write once all objects are in place; a
  reconciliation ends within a fixed number of requests, and every status it sends fits the
  schema of the custom resource; every object a reconciliation creates is watched.
  The gateway lets a request reach a service only with the key the service asks for, and
  relies on nothing that credential validation does not give, line breaks in tokens apart.
  The wizard's bundles are accepted by the operator; its process never prints a value and
  leaves none behind on success, under every interleaving with an interrupt, which can however
  be timed so that a value stays in the clipboard.
  The operator starts with hardened servers, and only when its whole set-up succeeded.

  \<^bold>\<open>Bounds.\<close> No fuel is used: every loop of the program is a recursion over a list or a finite
  map, or over the digits of a number or the query of a URL with a termination proof, so all
  definitions are total.
  Go's integers are unbounded here, since the operator only compares and prints them; the one
  narrowing conversion is written out (\<open>to_int32\<close>).

  \<^bold>\<open>Not modelled.\<close> Log lines; contexts and cancellation (an answer may be any error);
  the parsing of flags, generated deep copies (values are immutable here), CORS preflight and
  the timeouts of the gateway, and the utilities of the end-to-end tests. Completion and rest
  are shown for projects without backup, recovery, e-mail hook, GoTrue variables and PowerSync.
\<close>

end
